(* ===== verification/Prelude.thy ===== *)
theory Prelude
  imports Main "HOL-Library.Word" "HOL-Library.Code_Target_Nat"
begin

text \<open>
  Shared vocabulary of the development: the machine integers of the Go sources, the outcome
  of a call that may return, fail with an error or panic, the collections of simplification
  rules the component theories fill, and the generic facts on lists, maps and words that
  several components use.
\<close>

named_theorems go_bytes \<open>byte-level encodings: lengths, reads of what was written\<close>
named_theorems slot_simps \<open>reads and writes of contract storage\<close>
named_theorems state_simps \<open>reads and writes of the account state\<close>

subsection \<open>Machine integers, bytes and strings\<close>

text \<open>
  A Go \<^verbatim>\<open>string\<close> is a sequence of bytes, as \<open>string\<close> is in HOL; \<^verbatim>\<open>[]byte\<close> is a list of
  8-bit words. A \<^verbatim>\<open>*big.Int\<close> that the code keeps non-negative is a \<open>nat\<close>, one that may
  become negative an \<open>int\<close>.
\<close>

type_synonym u8 = "8 word"
type_synonym u16 = "16 word"
type_synonym u32 = "32 word"
type_synonym u64 = "64 word"
type_synonym bytes = "u8 list"

definition bytes_of_string :: "string \<Rightarrow> bytes" where
  "bytes_of_string s = map of_char s"

definition string_of_bytes :: "bytes \<Rightarrow> string" where
  "string_of_bytes bs = map (\<lambda>b. char_of (unat b)) bs"

lemma length_bytes_of_string [simp, go_bytes]: "length (bytes_of_string s) = length s"
  by (simp add: bytes_of_string_def)

lemma length_string_of_bytes [simp, go_bytes]: "length (string_of_bytes bs) = length bs"
  by (simp add: string_of_bytes_def)

lemma of_char_u8_less [simp]: "unat (of_char c :: u8) = of_char c"
proof -
  have "(of_char c :: nat) < 256"
    by (metis of_char_mod_256 mod_less_divisor zero_less_numeral)
  moreover have "(of_char c :: u8) = of_nat (of_char c)"
    by (simp add: of_nat_of_char)
  ultimately show ?thesis
    by (simp add: unat_of_nat take_bit_nat_def)
qed

lemma string_of_bytes_of_string [simp]: "string_of_bytes (bytes_of_string s) = s"
  by (simp add: string_of_bytes_def bytes_of_string_def map_idI)

lemma bytes_of_string_inject [simp]: "bytes_of_string s = bytes_of_string t \<longleftrightarrow> s = t"
  by (metis string_of_bytes_of_string)

subsection \<open>Outcomes of calls\<close>

text \<open>
  A Go function with result type \<^verbatim>\<open>(T, error)\<close> either returns a value or an error made by
  \<^verbatim>\<open>fmt.Errorf\<close> (kept as its format string); independently of its result type it may panic
  (an index out of range, a nil pointer, \<^verbatim>\<open>FillBytes\<close> into too small a buffer).
\<close>

datatype go_error = Errorf string

datatype 'a outcome = Ret 'a | Err go_error | Panic

fun is_panic :: "'a outcome \<Rightarrow> bool" where
  "is_panic Panic = True"
| "is_panic _ = False"

subsection \<open>Lists\<close>

text \<open>\<^verbatim>\<open>xs[lo:hi]\<close> within bounds.\<close>

definition slice :: "nat \<Rightarrow> nat \<Rightarrow> 'a list \<Rightarrow> 'a list" where
  "slice lo hi xs = take (hi - lo) (drop lo xs)"

lemma length_slice [simp, go_bytes]: "length (slice lo hi xs) = min (hi - lo) (length xs - lo)"
  by (simp add: slice_def min.commute)

lemma slice_append_left:
  "hi \<le> length xs \<Longrightarrow> slice lo hi (xs @ ys) = slice lo hi xs"
  by (simp add: slice_def take_append)

text \<open>\<^verbatim>\<open>copy(dst[off:], src)\<close>: as many bytes as both sides have room for.\<close>

definition copy_at :: "nat \<Rightarrow> 'a list \<Rightarrow> 'a list \<Rightarrow> 'a list" where
  "copy_at off src dst =
     take off dst @ take (length dst - off) src @ drop (off + length src) dst"

lemma length_copy_at [simp, go_bytes]:
  "off \<le> length dst \<Longrightarrow> length (copy_at off src dst) = length dst"
  by (simp add: copy_at_def)

lemma slice_copy_at_same [go_bytes]:
  assumes "off + length src \<le> length dst" and "hi = off + length src"
  shows "slice off hi (copy_at off src dst) = src"
  using assms by (simp add: slice_def copy_at_def)

lemma slice_copy_at_below [go_bytes]:
  assumes "hi \<le> off" and "off \<le> length dst"
  shows "slice lo hi (copy_at off src dst) = slice lo hi dst"
  using assms by (simp add: slice_def copy_at_def drop_take)

lemma slice_copy_at_above [go_bytes]:
  assumes "off + length src \<le> lo" and "off + length src \<le> length dst"
  shows "slice lo hi (copy_at off src dst) = slice lo hi dst"
  using assms by (simp add: slice_def copy_at_def)

lemma nth_copy_at_below [go_bytes]:
  assumes "i < off" and "off \<le> length dst"
  shows "copy_at off src dst ! i = dst ! i"
  using assms by (simp add: copy_at_def nth_append)

lemma nth_copy_at_above [go_bytes]:
  assumes "off + length src \<le> i" and "i < length dst"
  shows "copy_at off src dst ! i = dst ! i"
  using assms by (auto simp: copy_at_def nth_append)

lemma foldl_add_shift:
  "foldl (\<lambda>a x. a + f x) (b :: 'a :: comm_monoid_add) xs = b + foldl (\<lambda>a x. a + f x) 0 xs"
proof (induction xs arbitrary: b)
  case (Cons x xs)
  show ?case
    using Cons.IH[of "b + f x"] Cons.IH[of "f x"] by (simp add: add.assoc)
qed simp

lemma foldl_add_sum_list:
  "foldl (\<lambda>a x. a + f x) (0 :: 'a :: comm_monoid_add) xs = sum_list (map f xs)"
proof (induction xs)
  case (Cons x xs)
  then show ?case
    using foldl_add_shift[of f "f x" xs] by simp
qed simp

subsection \<open>Words\<close>

lemma unat_of_nat_u64: "n < 2 ^ 64 \<Longrightarrow> unat (of_nat n :: u64) = n"
  by (simp add: unat_of_nat take_bit_nat_eq_self)

lemma unat_add_no_wrap:
  "unat (a :: 'a :: len word) + unat b < 2 ^ LENGTH('a) \<Longrightarrow> unat (a + b) = unat a + unat b"
  by (simp add: unat_word_ariths)

lemma unat_mult_no_wrap:
  "unat (a :: 'a :: len word) * unat b < 2 ^ LENGTH('a) \<Longrightarrow> unat (a * b) = unat a * unat b"
  by (simp add: unat_word_ariths)

lemma unat_u64_bound [simp]: "unat (w :: u64) < 18446744073709551616"
  using unsigned_less[of w] by simp

lemma unat_u8_bound [simp]: "unat (w :: u8) < 256"
  using unsigned_less[of w] by simp

end
