(* ===== verification/Go_Bytes.thy ===== *)
theory Go_Bytes
  imports Prelude
begin

text \<open>
  The parts of the Go standard library that turn numbers into bytes and text and back:
  \<^verbatim>\<open>big.Int.SetBytes\<close>, \<^verbatim>\<open>FillBytes\<close> and \<^verbatim>\<open>Bytes\<close>, \<^verbatim>\<open>encoding/binary.BigEndian\<close>,
  \<^verbatim>\<open>encoding/hex\<close> and the \<^verbatim>\<open>%d\<close>, \<^verbatim>\<open>%x\<close> and \<^verbatim>\<open>%02x\<close> verbs of \<^verbatim>\<open>fmt\<close>, with their round trips.
\<close>

subsection \<open>Big-endian numbers\<close>

text \<open>\<^verbatim>\<open>new(big.Int).SetBytes(bs)\<close>\<close>

definition be_nat :: "bytes \<Rightarrow> nat" where
  "be_nat bs = foldl (\<lambda>a b. a * 256 + unat b) 0 bs"

text \<open>\<^verbatim>\<open>v.FillBytes(buf)\<close> for a buffer of \<open>n\<close> bytes that has room for \<open>v\<close>.\<close>

fun fill_be :: "nat \<Rightarrow> nat \<Rightarrow> bytes" where
  "fill_be 0 v = []"
| "fill_be (Suc n) v = fill_be n (v div 256) @ [of_nat (v mod 256)]"

text \<open>\<^verbatim>\<open>v.Bytes()\<close>: the shortest big-endian form, empty for zero.\<close>

fun big_bytes :: "nat \<Rightarrow> bytes" where
  "big_bytes v = (if v = 0 then [] else big_bytes (v div 256) @ [of_nat (v mod 256)])"

declare big_bytes.simps [simp del]

text \<open>\<^verbatim>\<open>big.Int.Uint64()\<close> keeps the low 64 bits.\<close>

definition big_Uint64 :: "nat \<Rightarrow> u64" where
  "big_Uint64 v = of_nat v"

lemma be_nat_Nil [simp]: "be_nat [] = 0"
  by (simp add: be_nat_def)

lemma be_nat_snoc [simp]: "be_nat (bs @ [b]) = be_nat bs * 256 + unat b"
  by (simp add: be_nat_def)

lemma be_nat_less [go_bytes]: "be_nat bs < 256 ^ length bs"
proof (induction bs rule: rev_induct)
  case (snoc b bs)
  have "be_nat bs * 256 + unat b < (be_nat bs + 1) * 256"
    by simp
  also have "\<dots> \<le> 256 ^ length bs * 256"
    using snoc by (intro mult_right_mono) auto
  finally show ?case
    by (simp add: mult.commute)
qed simp

lemma length_fill_be [simp, go_bytes]: "length (fill_be n v) = n"
  by (induction n arbitrary: v) auto

lemma be_nat_fill_be [simp, go_bytes]: "be_nat (fill_be n v) = v mod 256 ^ n"
proof (induction n arbitrary: v)
  case (Suc n)
  have "be_nat (fill_be (Suc n) v) = (v div 256 mod 256 ^ n) * 256 + v mod 256"
    using Suc by (simp add: unat_of_nat take_bit_nat_def)
  also have "\<dots> = v mod (256 * 256 ^ n)"
    by (simp add: mod_mult2_eq mult.commute)
  finally show ?case by simp
qed simp

lemma fill_be_first: "fill_be (Suc n) v ! 0 = of_nat (v div 256 ^ n mod 256)"
proof (induction n arbitrary: v)
  case (Suc n)
  have "fill_be (Suc (Suc n)) v ! 0 = fill_be (Suc n) (v div 256) ! 0"
    unfolding fill_be.simps(2)[of "Suc n"] by (subst nth_append) simp
  then show ?case
    using Suc[of "v div 256"] by (simp add: div_mult2_eq)
qed simp

lemma fill_be_be_nat [go_bytes]: "fill_be (length bs) (be_nat bs) = bs"
proof (induction bs rule: rev_induct)
  case (snoc b bs)
  have "(be_nat bs * 256 + unat b) div 256 = be_nat bs"
    and "(be_nat bs * 256 + unat b) mod 256 = unat b"
    using unat_u8_bound[of b] by (simp_all add: div_eq_0_iff)
  with snoc show ?case by simp
qed simp

lemma fill_be_inject:
  "v < 256 ^ n \<Longrightarrow> w < 256 ^ n \<Longrightarrow> fill_be n v = fill_be n w \<longleftrightarrow> v = w"
  by (metis be_nat_fill_be mod_less)

lemma fill_be_0_replicate: "fill_be n 0 = replicate n 0"
  by (induction n) (auto simp flip: replicate_append_same)

lemma fill_be_eq_zeros:
  assumes "v < 256 ^ n" shows "fill_be n v = replicate n 0 \<longleftrightarrow> v = 0"
  using fill_be_inject[OF assms, of 0] by (simp add: fill_be_0_replicate)

lemma be_nat_big_bytes [simp, go_bytes]: "be_nat (big_bytes v) = v"
proof (induction v rule: big_bytes.induct)
  case (1 v)
  then show ?case
    by (cases "v = 0") (simp_all add: big_bytes.simps[of v] big_bytes.simps[of 0]
        unat_of_nat take_bit_nat_def)
qed

lemma length_big_bytes_le: "v < 256 ^ n \<Longrightarrow> length (big_bytes v) \<le> n"
proof (induction v arbitrary: n rule: big_bytes.induct)
  case (1 v)
  show ?case
  proof (cases "v = 0")
    case False
    then obtain m where n: "n = Suc m"
      using "1.prems" by (cases n) auto
    have "v div 256 < 256 ^ m"
      using "1.prems" n by (simp add: less_mult_imp_div_less mult.commute)
    then have "length (big_bytes (v div 256)) \<le> m"
      using "1.IH"[OF False] by blast
    with False n show ?thesis
      by (simp add: big_bytes.simps[of v])
  qed (simp add: big_bytes.simps)
qed

lemma le_length_big_bytes: "256 ^ n \<le> v \<Longrightarrow> n < length (big_bytes v)"
proof (rule ccontr)
  assume v: "256 ^ n \<le> v" and "\<not> n < length (big_bytes v)"
  then have "be_nat (big_bytes v) < 256 ^ n"
    using be_nat_less[of "big_bytes v"]
    by (meson linorder_not_less order_less_le_trans power_increasing_iff one_less_numeral_iff
        semiring_norm(76))
  with v show False by simp
qed

lemma be_nat_zeros_append [simp]: "be_nat (replicate k 0 @ bs) = be_nat bs"
  by (induction bs rule: rev_induct) (simp_all add: be_nat_def foldl_append, induction k, simp_all)

subsection \<open>Fixed-width integers\<close>

definition u64be :: "u64 \<Rightarrow> bytes" where "u64be v = fill_be 8 (unat v)"
definition u32be :: "u32 \<Rightarrow> bytes" where "u32be v = fill_be 4 (unat v)"
definition u16be :: "u16 \<Rightarrow> bytes" where "u16be v = fill_be 2 (unat v)"

definition be64 :: "bytes \<Rightarrow> u64" where
  "be64 b = (if length b < 8 then 0 else of_nat (be_nat (take 8 b)))"

definition be32 :: "bytes \<Rightarrow> u32" where
  "be32 b = (if length b < 4 then 0 else of_nat (be_nat (take 4 b)))"

definition be16 :: "bytes \<Rightarrow> u16" where
  "be16 b = (if length b < 2 then 0 else of_nat (be_nat (take 2 b)))"

lemma length_ube [simp, go_bytes]:
  "length (u64be v) = 8" "length (u32be w) = 4" "length (u16be x) = 2"
  by (simp_all add: u64be_def u32be_def u16be_def)

lemma be64_u64be [simp, go_bytes]: "be64 (u64be v) = v"
  using unat_u64_bound[of v] by (simp add: be64_def u64be_def)

lemma be32_u32be [simp, go_bytes]: "be32 (u32be v) = v"
  using unsigned_less[of v, where 'a = nat] by (simp add: be32_def u32be_def)

lemma be16_u16be [simp, go_bytes]: "be16 (u16be v) = v"
  using unsigned_less[of v, where 'a = nat] by (simp add: be16_def u16be_def)

subsection \<open>Hexadecimal and decimal text\<close>

definition hex_digit :: "nat \<Rightarrow> char" where
  "hex_digit n = ''0123456789abcdef'' ! n"

text \<open>\<^verbatim>\<open>hex.EncodeToString(bs)\<close>, also the \<^verbatim>\<open>%x\<close> of a byte slice or array.\<close>

definition hex_encode :: "bytes \<Rightarrow> string" where
  "hex_encode bs = concat (map (\<lambda>b. [hex_digit (unat b div 16), hex_digit (unat b mod 16)]) bs)"

definition hex_value :: "char \<Rightarrow> nat option" where
  "hex_value c =
     (let n = of_char c in
      if 48 \<le> n \<and> n \<le> 57 then Some (n - 48)
      else if 97 \<le> n \<and> n \<le> 102 then Some (n - 87)
      else if 65 \<le> n \<and> n \<le> 70 then Some (n - 55)
      else None)"

text \<open>\<^verbatim>\<open>hex.DecodeString(s)\<close>; an odd length or a character that is no digit is an error.\<close>

fun hex_decode :: "string \<Rightarrow> bytes option" where
  "hex_decode [] = Some []"
| "hex_decode [c] = None"
| "hex_decode (c # d # cs) =
     (case (hex_value c, hex_value d) of
        (Some h, Some l) \<Rightarrow> map_option ((#) (of_nat (16 * h + l))) (hex_decode cs)
      | _ \<Rightarrow> None)"

text \<open>The \<^verbatim>\<open>%d\<close> of a non-negative number and the \<^verbatim>\<open>%02x\<close> of a byte.\<close>

fun dec_string :: "nat \<Rightarrow> string" where
  "dec_string n =
     (if n < 10 then [char_of (48 + n)] else dec_string (n div 10) @ [char_of (48 + n mod 10)])"

declare dec_string.simps [simp del]

definition fmt_02x :: "u8 \<Rightarrow> string" where
  "fmt_02x b = hex_encode [b]"

lemma length_hex_encode [simp, go_bytes]: "length (hex_encode bs) = 2 * length bs"
  by (induction bs) (auto simp: hex_encode_def)

lemma hex_encode_Nil [simp]: "hex_encode [] = []"
  by (simp add: hex_encode_def)

lemma hex_encode_Cons:
  "hex_encode (b # bs) = hex_digit (unat b div 16) # hex_digit (unat b mod 16) # hex_encode bs"
  by (simp add: hex_encode_def)

lemma hex_encode_append: "hex_encode (bs @ cs) = hex_encode bs @ hex_encode cs"
  by (simp add: hex_encode_def)

lemma hex_value_digit: "n < 16 \<Longrightarrow> hex_value (hex_digit n) = Some n"
proof -
  have "\<forall>n \<in> set [0..<16]. hex_value (hex_digit n) = Some n"
    by code_simp
  then show "n < 16 \<Longrightarrow> hex_value (hex_digit n) = Some n"
    by simp
qed

lemma hex_decode_encode [simp, go_bytes]: "hex_decode (hex_encode bs) = Some bs"
proof (induction bs)
  case (Cons b bs)
  have "unat b div 16 < 16" "unat b mod 16 < 16"
    using unat_u8_bound[of b] by linarith+
  moreover have "16 * (unat b div 16) + unat b mod 16 = unat b"
    by simp
  moreover have "of_nat (16 * (unat b div 16) + unat b mod 16) = b"
    by (simp only: calculation(3)) simp
  ultimately show ?case
    using Cons by (simp add: hex_encode_Cons hex_value_digit)
qed simp

lemma hex_encode_inject [simp]: "hex_encode bs = hex_encode cs \<longleftrightarrow> bs = cs"
  by (metis hex_decode_encode option.inject)

end
