(* ===== verification/Go_Sha256.thy ===== *)
theory Go_Sha256
  imports Go_Bytes
begin

unbundle bit_operations_syntax

text \<open>
  \<^verbatim>\<open>crypto/sha256.Sum256\<close> (FIPS 180-4), executable, so that the storage keys, identifiers and
  selectors that the code derives from it are the real ones. A 32-bit word is an \<open>int\<close> in
  \<open>[0, 2^32)\<close>; every addition is reduced modulo \<open>2^32\<close>. The test vector for \<^verbatim>\<open>"abc"\<close> is
  checked by evaluation at the end.
\<close>

definition sha_K :: "int list" where
  "sha_K =
    [1116352408, 1899447441, 3049323471, 3921009573, 961987163, 1508970993,
     2453635748, 2870763221, 3624381080, 310598401, 607225278, 1426881987,
     1925078388, 2162078206, 2614888103, 3248222580, 3835390401, 4022224774,
     264347078, 604807628, 770255983, 1249150122, 1555081692, 1996064986,
     2554220882, 2821834349, 2952996808, 3210313671, 3336571891, 3584528711,
     113926993, 338241895, 666307205, 773529912, 1294757372, 1396182291,
     1695183700, 1986661051, 2177026350, 2456956037, 2730485921, 2820302411,
     3259730800, 3345764771, 3516065817, 3600352804, 4094571909, 275423344,
     430227734, 506948616, 659060556, 883997877, 958139571, 1322822218,
     1537002063, 1747873779, 1955562222, 2024104815, 2227730452, 2361852424,
     2428436474, 2756734187, 3204031479, 3329325298]"

definition sha_H :: "int list" where
  "sha_H =
    [0x6a09e667, 0xbb67ae85, 0x3c6ef372, 0xa54ff53a, 0x510e527f, 0x9b05688c,
     0x1f83d9ab, 0x5be0cd19]"

text \<open>Rotation right by \<open>k\<close> bits, given \<open>d = 2^k\<close> and \<open>m = 2^(32 - k)\<close>.\<close>

definition sha_rotr :: "int \<Rightarrow> int \<Rightarrow> int \<Rightarrow> int" where
  "sha_rotr d m x = x div d + (x mod d) * m"

definition sha_ch :: "int \<Rightarrow> int \<Rightarrow> int \<Rightarrow> int" where
  "sha_ch x y z = z XOR (x AND (y XOR z))"

definition sha_maj :: "int \<Rightarrow> int \<Rightarrow> int \<Rightarrow> int" where
  "sha_maj x y z = (x AND y) OR (z AND (x OR y))"

definition sha_big0 :: "int \<Rightarrow> int" where
  "sha_big0 x = sha_rotr 4 1073741824 x XOR sha_rotr 8192 524288 x XOR sha_rotr 4194304 1024 x"

definition sha_big1 :: "int \<Rightarrow> int" where
  "sha_big1 x = sha_rotr 64 67108864 x XOR sha_rotr 2048 2097152 x XOR sha_rotr 33554432 128 x"

definition sha_small0 :: "int \<Rightarrow> int" where
  "sha_small0 x = sha_rotr 128 33554432 x XOR sha_rotr 262144 16384 x XOR x div 8"

definition sha_small1 :: "int \<Rightarrow> int" where
  "sha_small1 x = sha_rotr 131072 32768 x XOR sha_rotr 524288 8192 x XOR x div 1024"

text \<open>The message schedule: a window of sixteen words, one leaves and one enters per step.\<close>

fun sha_next :: "int \<Rightarrow> int \<Rightarrow> int \<Rightarrow> int \<Rightarrow> int" where
  "sha_next w14 w9 w1 w0 = (sha_small1 w14 + w9 + sha_small0 w1 + w0) mod 4294967296"

primrec sha_schedule :: "'a list \<Rightarrow> int list \<Rightarrow> int list" where
  "sha_schedule [] ws = []"
| "sha_schedule (k # ks) ws =
     (let w0 = hd ws; r1 = tl ws; w1 = hd r1; r9 = tl (tl (tl (tl (tl (tl (tl (tl r1)))))));
          w9 = hd r9; w14 = hd (tl (tl (tl (tl (tl r9))))) in
      w0 # sha_schedule ks (r1 @ [sha_next w14 w9 w1 w0]))"

fun sha_rounds ::
  "(int \<times> int) list \<Rightarrow> int \<times> int \<times> int \<times> int \<times> int \<times> int \<times> int \<times> int \<Rightarrow> int list" where
  "sha_rounds [] (a, b, c, d, e, f, g, h) = [a, b, c, d, e, f, g, h]"
| "sha_rounds ((k, w) # kw) (a, b, c, d, e, f, g, h) =
     (let t1 = h + sha_big1 e + sha_ch e f g + k + w; t2 = sha_big0 a + sha_maj a b c in
      sha_rounds kw ((t1 + t2) mod 4294967296, a, b, c, (d + t1) mod 4294967296, e, f, g))"

definition sha_add32 :: "int \<Rightarrow> int \<Rightarrow> int" where
  "sha_add32 x y = (x + y) mod 4294967296"

definition sha_compress :: "int list \<Rightarrow> int list \<Rightarrow> int list" where
  "sha_compress st blk =
     map2 sha_add32 st
       (sha_rounds (zip sha_K (sha_schedule sha_K blk))
          (st ! 0, st ! 1, st ! 2, st ! 3, st ! 4, st ! 5, st ! 6, st ! 7))"

fun sha_words :: "bytes \<Rightarrow> int list" where
  "sha_words (a # b # c # d # bs) =
     (((uint a * 256 + uint b) * 256 + uint c) * 256 + uint d) # sha_words bs"
| "sha_words _ = []"

function sha_blocks :: "int list \<Rightarrow> bytes \<Rightarrow> int list" where
  "sha_blocks st bs =
     (if length bs < 64 then st
      else sha_blocks (sha_compress st (sha_words (take 64 bs))) (drop 64 bs))"
  by pat_completeness auto
termination
  by (relation "measure (\<lambda>(st, bs). length bs)") auto

declare sha_blocks.simps [simp del]

definition sha_be32 :: "int \<Rightarrow> bytes" where
  "sha_be32 x = [of_int (x div 16777216), of_int (x div 65536), of_int (x div 256), of_int x]"

definition sha_pad :: "bytes \<Rightarrow> bytes" where
  "sha_pad m =
     (let n = length m in
      m @ 0x80 # replicate ((119 - n mod 64) mod 64) 0 @
      sha_be32 (int (8 * n) div 4294967296) @ sha_be32 (int (8 * n) mod 4294967296))"

definition sha256 :: "bytes \<Rightarrow> bytes" where
  "sha256 m = concat (map sha_be32 (sha_blocks sha_H (sha_pad m)))"

subsection \<open>The digest has 32 bytes\<close>

lemma length_sha_rounds: "length (sha_rounds kw st) = 8"
  by (induction kw st rule: sha_rounds.induct) (simp_all add: Let_def)

lemma length_sha_compress: "length st = 8 \<Longrightarrow> length (sha_compress st blk) = 8"
  by (simp add: sha_compress_def length_sha_rounds)

lemma length_sha_blocks: "length st = 8 \<Longrightarrow> length (sha_blocks st bs) = 8"
proof (induction st bs rule: sha_blocks.induct)
  case (1 st bs)
  then show ?case
    by (cases "length bs < 64") (simp_all add: sha_blocks.simps[of st bs] length_sha_compress)
qed

lemma length_concat_sha_be32: "length (concat (map sha_be32 xs)) = 4 * length xs"
  by (induction xs) (simp_all add: sha_be32_def)

lemma length_sha256 [simp, go_bytes]: "length (sha256 m) = 32"
  by (simp add: sha256_def length_concat_sha_be32 length_sha_blocks sha_H_def)

lemma length_sha_pad: "length (sha_pad m) mod 64 = 0"
proof -
  have "length (sha_pad m) = length m + 9 + (119 - length m mod 64) mod 64"
    by (simp add: sha_pad_def Let_def sha_be32_def)
  moreover have "(r + 9 + (119 - r) mod 64) mod 64 = 0" if "r < 64" for r :: nat
  proof (cases "r \<le> 55")
    case True
    then have "(119 - r) mod 64 = 55 - r"
      by (simp add: mod_if)
    with True show ?thesis by simp
  next
    case False
    then have "(119 - r) mod 64 = 119 - r"
      by simp
    with False that show ?thesis by simp
  qed
  ultimately show ?thesis
    by (metis (no_types, lifting) add.assoc mod_add_left_eq mod_less_divisor zero_less_numeral)
qed

text \<open>FIPS 180-4, the one-block example.\<close>

lemma sha256_abc:
  "hex_encode (sha256 (bytes_of_string ''abc'')) =
   ''ba7816bf8f01cfea414140de5dae2223b00361a396177a9cb410ff61f20015ad''"
  by code_simp

end
