(* ===== verification/State.thy ===== *)
theory State
  imports Go_Sha256 "HOL-Library.AList"
begin

text \<open>
  The account state of the execution layer (\<^verbatim>\<open>evm/state.go\<close>) and the helpers with which the
  precompiles read and write 32-byte storage slots (\<^verbatim>\<open>evm/precompiles.go\<close>). An account is
  reached through its address on every access, so two Go pointers to one account see each
  other's writes. A slot is a list of 32 bytes; a slot that was never written reads as zeros.
  The storage of an account is the association list of its slots, so that the code that iterates
  over the Go map can be run; \<open>storage_wf\<close> says that no key occurs twice.
\<close>

subsection \<open>Lanes and contract classes\<close>

type_synonym LaneType = u8
definition ConsensusLane :: LaneType where "ConsensusLane = 0"
definition OracleLane :: LaneType where "OracleLane = 1"
definition PrivateLane :: LaneType where "PrivateLane = 2"

type_synonym ContractClassT = u8
definition ClassNone :: ContractClassT where "ClassNone = 0"
definition ClassA :: ContractClassT where "ClassA = 1"
definition ClassB :: ContractClassT where "ClassB = 2"
definition ClassC :: ContractClassT where "ClassC = 3"
definition ClassD :: ContractClassT where "ClassD = 4"

lemmas lane_defs = ConsensusLane_def OracleLane_def PrivateLane_def
lemmas class_defs = ClassNone_def ClassA_def ClassB_def ClassC_def ClassD_def

definition ContractClass_String :: "ContractClassT \<Rightarrow> string" where
  "ContractClass_String c =
     (if c = ClassNone then ''None''
      else if c = ClassA then ''A -- Safe''
      else if c = ClassB then ''B -- Managed''
      else if c = ClassC then ''C -- Governed''
      else if c = ClassD then ''D -- Restricted''
      else ''Unknown('' @ dec_string (unat c) @ '')'')"

subsection \<open>Accounts\<close>

type_synonym slot = bytes

definition zero_slot :: slot where "zero_slot = replicate 32 0"

record Account =
  Nonce :: u64
  Balance :: int
  CodeHash :: slot
  Code :: bytes
  Storage :: "(slot \<times> slot) list"
  ContractClass :: ContractClassT
  DoxDevLevel :: u8
  StateRentPaid :: int
  LastRentPayment :: u64

definition NewAccount :: Account where
  "NewAccount =
     \<lparr>Nonce = 0, Balance = 0, CodeHash = zero_slot, Code = [], Storage = [],
      ContractClass = ClassNone, DoxDevLevel = 0, StateRentPaid = 0, LastRentPayment = 0\<rparr>"

record LogEntry =
  log_Address :: string
  log_Topics :: "slot list"
  log_Data :: bytes
  log_Block :: u64

record StateDB =
  Accounts :: "string \<rightharpoonup> Account"
  Logs :: "LogEntry list"
  Refunds :: u64

definition NewStateDB :: StateDB where
  "NewStateDB = \<lparr>Accounts = Map.empty, Logs = [], Refunds = 0\<rparr>"

subsection \<open>Access by address\<close>

definition GetAccount :: "'a StateDB_scheme \<Rightarrow> string \<Rightarrow> Account option" where
  "GetAccount s a = Accounts s a"

definition Exist :: "'a StateDB_scheme \<Rightarrow> string \<Rightarrow> bool" where
  "Exist s a \<longleftrightarrow> Accounts s a \<noteq> None"

text \<open>
  \<^verbatim>\<open>GetOrCreateAccount\<close> returns a pointer: \<open>acct\<close> is what it points to and \<open>touch\<close> the state
  after the call; \<open>upd_acct\<close> is a write through it.
\<close>

definition acct :: "'a StateDB_scheme \<Rightarrow> string \<Rightarrow> Account" where
  "acct s a = (case Accounts s a of None \<Rightarrow> NewAccount | Some acc \<Rightarrow> acc)"

definition touch :: "'a StateDB_scheme \<Rightarrow> string \<Rightarrow> 'a StateDB_scheme" where
  "touch s a = (if Exist s a then s else s\<lparr>Accounts := (Accounts s)(a \<mapsto> NewAccount)\<rparr>)"

definition GetOrCreateAccount ::
  "'a StateDB_scheme \<Rightarrow> string \<Rightarrow> Account \<times> 'a StateDB_scheme" where
  "GetOrCreateAccount s a = (acct s a, touch s a)"

definition upd_acct ::
  "'a StateDB_scheme \<Rightarrow> string \<Rightarrow> (Account \<Rightarrow> Account) \<Rightarrow> 'a StateDB_scheme" where
  "upd_acct s a f = s\<lparr>Accounts := (Accounts s)(a \<mapsto> f (acct s a))\<rparr>"

definition CreateAccount ::
  "'a StateDB_scheme \<Rightarrow> string \<Rightarrow> bytes \<Rightarrow> 'a StateDB_scheme" where
  "CreateAccount s a code =
     s\<lparr>Accounts := (Accounts s)(a \<mapsto> NewAccount\<lparr>CodeHash := sha256 code, Code := code\<rparr>)\<rparr>"

text \<open>
  \<^verbatim>\<open>Clone\<close> copies every account field by field into a fresh account, the log slice and the
  refund counter.
\<close>

definition clone_account :: "Account \<Rightarrow> Account" where
  "clone_account acc =
     NewAccount\<lparr>Nonce := Nonce acc, Balance := Balance acc, CodeHash := CodeHash acc,
       Code := Code acc, ContractClass := ContractClass acc, DoxDevLevel := DoxDevLevel acc,
       StateRentPaid := StateRentPaid acc, LastRentPayment := LastRentPayment acc,
       Storage := foldl (\<lambda>m (k, v). AList.update k v m) [] (Storage acc)\<rparr>"

definition Clone :: "StateDB \<Rightarrow> StateDB" where
  "Clone s =
     NewStateDB\<lparr>Accounts := (\<lambda>a. map_option clone_account (Accounts s a)),
       Logs := [] @ Logs s, Refunds := Refunds s\<rparr>"

definition AddLog ::
  "'a StateDB_scheme \<Rightarrow> string \<Rightarrow> slot list \<Rightarrow> bytes \<Rightarrow> u64 \<Rightarrow> 'a StateDB_scheme" where
  "AddLog s a topics data block =
     s\<lparr>Logs := Logs s @
       [\<lparr>log_Address = a, log_Topics = topics, log_Data = data, log_Block = block\<rparr>]\<rparr>"

subsection \<open>Deployment gates\<close>

definition EnforceContractClass :: "u8 \<Rightarrow> ContractClassT \<Rightarrow> go_error option" where
  "EnforceContractClass lvl class =
     (if class = ClassA then None
      else if class = ClassB then
        (if lvl < 2 then Some (Errorf ''Class B requires Dox_Dev Level 2+'') else None)
      else if class = ClassC then
        (if lvl < 3 then Some (Errorf ''Class C requires Dox_Dev Level 3+'') else None)
      else if class = ClassD then Some (Errorf ''Class D requires governance approval'')
      else None)"

definition CanDeployContract :: "u8 \<Rightarrow> go_error option" where
  "CanDeployContract lvl =
     (if lvl < 2 then Some (Errorf ''contract deployment requires Dox_Dev Level 2+'') else None)"

subsection \<open>Storage slots\<close>

text \<open>\<^verbatim>\<open>acc.Storage[key]\<close> and \<^verbatim>\<open>acc.Storage[key] = val\<close> for the account at an address.\<close>

definition sload :: "'a StateDB_scheme \<Rightarrow> string \<Rightarrow> slot \<Rightarrow> slot" where
  "sload s a k = (case map_of (Storage (acct s a)) k of None \<Rightarrow> zero_slot | Some v \<Rightarrow> v)"

definition sstore :: "'a StateDB_scheme \<Rightarrow> string \<Rightarrow> slot \<Rightarrow> slot \<Rightarrow> 'a StateDB_scheme" where
  "sstore s a k v = upd_acct s a (\<lambda>acc. acc\<lparr>Storage := AList.update k v (Storage acc)\<rparr>)"

definition balance_of :: "'a StateDB_scheme \<Rightarrow> string \<Rightarrow> int" where
  "balance_of s a = Balance (acct s a)"

definition set_balance :: "'a StateDB_scheme \<Rightarrow> string \<Rightarrow> int \<Rightarrow> 'a StateDB_scheme" where
  "set_balance s a b = upd_acct s a (\<lambda>acc. acc\<lparr>Balance := b\<rparr>)"

definition add_balance :: "'a StateDB_scheme \<Rightarrow> string \<Rightarrow> int \<Rightarrow> 'a StateDB_scheme" where
  "add_balance s a d = set_balance s a (balance_of s a + d)"

definition PrecompileAddrHex :: "u8 \<Rightarrow> string" where
  "PrecompileAddrHex b = ''00000000000000000000000000000000000000'' @ fmt_02x b"

definition storageKey :: "bytes \<Rightarrow> slot" where
  "storageKey data = sha256 data"

definition readUint64 :: "slot \<Rightarrow> u64" where
  "readUint64 sl = big_Uint64 (be_nat sl)"

definition writeUint64 :: "u64 \<Rightarrow> slot" where
  "writeUint64 v = (let b = big_bytes (unat v) in copy_at (32 - length b) b zero_slot)"

definition readBigInt :: "slot \<Rightarrow> nat" where
  "readBigInt sl = be_nat sl"

text \<open>\<^verbatim>\<open>copy(slot[32-len(b):], b)\<close> panics when the number needs more than 32 bytes.\<close>

definition writeBigInt :: "nat \<Rightarrow> slot outcome" where
  "writeBigInt v =
     (let b = big_bytes v in
      if 32 < length b then Panic else Ret (copy_at (32 - length b) b zero_slot))"

definition addressKey :: "bytes \<Rightarrow> u8 \<Rightarrow> slot" where
  "addressKey addr prefix = storageKey (prefix # addr)"

definition uint64Key :: "u64 \<Rightarrow> u8 \<Rightarrow> slot" where
  "uint64Key i prefix = storageKey (prefix # big_bytes (unat i))"

subsection \<open>Reading calldata\<close>

definition selectorBytes :: "bytes \<Rightarrow> u32" where
  "selectorBytes input = (if length input < 4 then 0 else of_nat (be_nat (take 4 input)))"

definition readAddress :: "bytes \<Rightarrow> nat \<Rightarrow> bytes" where
  "readAddress input off =
     (if length input < off + 20 then replicate 20 0 else slice off (off + 20) input)"

definition readUint256 :: "bytes \<Rightarrow> nat \<Rightarrow> nat" where
  "readUint256 input off =
     (if length input < off + 32 then 0 else be_nat (slice off (off + 32) input))"

definition readUint64FromInput :: "bytes \<Rightarrow> nat \<Rightarrow> u64" where
  "readUint64FromInput input off =
     (if length input < off + 8 then 0 else big_Uint64 (be_nat (slice off (off + 8) input)))"

definition readByte :: "bytes \<Rightarrow> nat \<Rightarrow> u8" where
  "readByte input off = (if length input \<le> off then 0 else input ! off)"

definition readSlot :: "bytes \<Rightarrow> nat \<Rightarrow> slot" where
  "readSlot input off =
     (if off + 32 \<le> length input then slice off (off + 32) input else zero_slot)"

subsection \<open>Facts about accounts\<close>

lemma acct_touch [simp, state_simps]: "acct (touch s a) b = acct s b"
  by (auto simp: acct_def touch_def Exist_def split: option.splits)

lemma acct_upd_acct [state_simps]:
  "acct (upd_acct s a f) b = (if a = b then f (acct s a) else acct s b)"
  by (simp add: acct_def upd_acct_def)

lemma acct_AddLog [simp, state_simps]: "acct (AddLog s a t d b) c = acct s c"
  by (simp add: acct_def AddLog_def)

lemma Logs_upd [simp, state_simps]:
  "Logs (upd_acct s a f) = Logs s" "Logs (touch s a) = Logs s"
  by (simp_all add: upd_acct_def touch_def)

definition storage_wf :: "Account \<Rightarrow> bool" where
  "storage_wf acc \<longleftrightarrow> distinct (map fst (Storage acc))"

lemma update_fresh: "k \<notin> fst ` set m \<Longrightarrow> AList.update k v m = m @ [(k, v)]"
  by (induction m) auto

lemma foldl_update_fresh:
  "distinct (map fst (m @ kvs)) \<Longrightarrow> foldl (\<lambda>m (k, v). AList.update k v m) m kvs = m @ kvs"
proof (induction kvs arbitrary: m)
  case (Cons kv kvs)
  then have "AList.update (fst kv) (snd kv) m = m @ [kv]"
    by (simp add: update_fresh)
  then show ?case
    using Cons.IH[of "m @ [kv]"] Cons.prems by (simp add: case_prod_beta)
qed simp

lemma clone_account_id: "storage_wf acc \<Longrightarrow> clone_account acc = acc"
  using foldl_update_fresh[of "[]" "Storage acc"]
  by (simp add: clone_account_def NewAccount_def storage_wf_def)

lemma Clone_id:
  assumes "\<And>a acc. Accounts s a = Some acc \<Longrightarrow> storage_wf acc" shows "Clone s = s"
proof -
  have "map_option clone_account (Accounts s a) = Accounts s a" for a
    using assms[of a] by (cases "Accounts s a") (simp_all add: clone_account_id)
  then show ?thesis
    by (simp add: Clone_def NewStateDB_def)
qed

lemma sload_touch [simp, slot_simps]: "sload (touch s a) b k = sload s b k"
  by (simp add: sload_def)

lemma sload_AddLog [simp, slot_simps]: "sload (AddLog s a t d b) c k = sload s c k"
  by (simp add: sload_def)

lemma sload_sstore [slot_simps]:
  "sload (sstore s a k v) b k' = (if a = b \<and> k = k' then v else sload s b k')"
  by (auto simp: sload_def sstore_def acct_upd_acct update_conv')

lemma balance_of_touch [simp, state_simps]: "balance_of (touch s a) b = balance_of s b"
  by (simp add: balance_of_def)

lemma balance_of_AddLog [simp, state_simps]: "balance_of (AddLog s a t d b) c = balance_of s c"
  by (simp add: balance_of_def)

lemma balance_of_sstore [simp, state_simps]: "balance_of (sstore s a k v) b = balance_of s b"
  by (simp add: balance_of_def sstore_def acct_upd_acct)

lemma balance_of_set_balance [state_simps]:
  "balance_of (set_balance s a v) b = (if a = b then v else balance_of s b)"
  by (simp add: balance_of_def set_balance_def acct_upd_acct)

lemma balance_of_add_balance [state_simps]:
  "balance_of (add_balance s a d) b = balance_of s b + (if a = b then d else 0)"
  by (simp add: add_balance_def balance_of_set_balance)

lemma sload_set_balance [simp, slot_simps]: "sload (set_balance s a v) b k = sload s b k"
  by (simp add: sload_def set_balance_def acct_upd_acct)

lemma sload_add_balance [simp, slot_simps]: "sload (add_balance s a d) b k = sload s b k"
  by (simp add: add_balance_def)

subsection \<open>Facts about slots\<close>

lemma length_zero_slot [simp, go_bytes]: "length zero_slot = 32"
  by (simp add: zero_slot_def)

lemma length_storageKey [simp, go_bytes]: "length (storageKey d) = 32"
  by (simp add: storageKey_def)

lemma padded_big_bytes:
  assumes "v < 256 ^ 32"
  shows "copy_at (32 - length (big_bytes v)) (big_bytes v) zero_slot = fill_be 32 v"
proof -
  let ?b = "big_bytes v"
  have len: "length ?b \<le> 32"
    using assms by (rule length_big_bytes_le)
  have "copy_at (32 - length ?b) ?b zero_slot = replicate (32 - length ?b) 0 @ ?b"
    using len by (simp add: copy_at_def zero_slot_def min_def)
  also have "\<dots> = fill_be (length (replicate (32 - length ?b) 0 @ ?b)) v"
    by (metis be_nat_big_bytes be_nat_zeros_append fill_be_be_nat)
  also have "\<dots> = fill_be 32 v"
    using len by simp
  finally show ?thesis .
qed

lemma writeUint64_fill: "writeUint64 v = fill_be 32 (unat v)"
proof -
  have "unat v < 256 ^ 32"
    using unat_u64_bound[of v] by (rule order_less_trans) simp
  then show ?thesis
    by (simp add: writeUint64_def Let_def padded_big_bytes)
qed

lemma writeBigInt_Ret: "v < 256 ^ 32 \<Longrightarrow> writeBigInt v = Ret (fill_be 32 v)"
  using length_big_bytes_le[of v 32] by (simp add: writeBigInt_def Let_def padded_big_bytes)

lemma writeBigInt_Panic: "256 ^ 32 \<le> v \<Longrightarrow> writeBigInt v = Panic"
  using le_length_big_bytes[of 32 v] by (simp add: writeBigInt_def Let_def)

lemma writeBigInt_cases:
  "writeBigInt v = (if v < 256 ^ 32 then Ret (fill_be 32 v) else Panic)"
  by (simp add: writeBigInt_Ret writeBigInt_Panic not_less)

lemma length_writeUint64 [simp, go_bytes]: "length (writeUint64 v) = 32"
  by (simp add: writeUint64_fill)

lemma readUint64_writeUint64 [simp, slot_simps]: "readUint64 (writeUint64 v) = v"
proof -
  have "unat v < 256 ^ 32"
    using unat_u64_bound[of v] by (rule order_less_trans) simp
  then show ?thesis
    by (simp add: readUint64_def big_Uint64_def writeUint64_fill)
qed

lemma readBigInt_fill [slot_simps]: "v < 256 ^ 32 \<Longrightarrow> readBigInt (fill_be 32 v) = v"
  by (simp add: readBigInt_def)

lemma readBigInt_zero [simp, slot_simps]: "readBigInt zero_slot = 0"
  by (simp add: readBigInt_def zero_slot_def flip: fill_be_0_replicate)

lemma readUint64_zero [simp, slot_simps]: "readUint64 zero_slot = 0"
  by (simp add: readUint64_def big_Uint64_def zero_slot_def flip: fill_be_0_replicate)

lemma writeUint64_inject [simp]: "writeUint64 v = writeUint64 w \<longleftrightarrow> v = w"
  by (metis readUint64_writeUint64)

lemma readBigInt_less: "length sl = 32 \<Longrightarrow> readBigInt sl < 256 ^ 32"
  using be_nat_less[of sl] by (simp add: readBigInt_def)

text \<open>
  The low 64 bits of a slot are its last eight bytes: whatever the first 24 hold is invisible
  to \<^verbatim>\<open>readUint64\<close>.
\<close>

lemma be_nat_append: "be_nat (xs @ ys) = be_nat xs * 256 ^ length ys + be_nat ys"
  by (induction ys rule: rev_induct) (simp_all flip: append_assoc add: algebra_simps)

lemma readUint64_low:
  assumes "length sl = 32" shows "readUint64 sl = of_nat (be_nat (drop 24 sl))"
proof -
  have "be_nat sl = be_nat (take 24 sl) * 256 ^ 8 + be_nat (drop 24 sl)"
    using be_nat_append[of "take 24 sl" "drop 24 sl"] assms by simp
  moreover have "(of_nat (256 ^ 8) :: u64) = 0"
    by code_simp
  then have "(of_nat (x * 256 ^ 8 + y) :: u64) = of_nat y" for x y
    by (simp only: of_nat_add of_nat_mult mult_zero_right add_0_left)
  ultimately show ?thesis
    by (simp only: readUint64_def big_Uint64_def)
qed

subsection \<open>Keyed stores\<close>

text \<open>
  What the components rely on: a read after a write sees the written value at the same key
  and the old one elsewhere. Sums over keys, such as the total of all balances, then change
  by exactly the difference a write makes.
\<close>

locale keyed_store =
  fixes get :: "'s \<Rightarrow> 'k \<Rightarrow> 'v"
    and put :: "'s \<Rightarrow> 'k \<Rightarrow> 'v \<Rightarrow> 's"
  assumes get_put_same: "get (put s k v) k = v"
    and get_put_other: "k \<noteq> k' \<Longrightarrow> get (put s k v) k' = get s k'"
begin

lemma get_put: "get (put s k v) k' = (if k = k' then v else get s k')"
  by (simp add: get_put_same get_put_other)

lemma sum_put_in:
  fixes f :: "'v \<Rightarrow> int"
  assumes "finite K" "k \<in> K"
  shows "(\<Sum>x\<in>K. f (get (put s k v) x)) = (\<Sum>x\<in>K. f (get s x)) - f (get s k) + f v"
proof -
  have "(\<Sum>x\<in>K. f (get (put s k v) x)) = f v + (\<Sum>x\<in>K - {k}. f (get (put s k v) x))"
    using assms by (simp add: sum.remove get_put_same)
  also have "(\<Sum>x\<in>K - {k}. f (get (put s k v) x)) = (\<Sum>x\<in>K - {k}. f (get s x))"
    by (rule sum.cong) (auto simp: get_put)
  also have "\<dots> = (\<Sum>x\<in>K. f (get s x)) - f (get s k)"
    using assms by (simp add: sum_diff1)
  finally show ?thesis by simp
qed

lemma sum_put_out:
  assumes "k \<notin> K"
  shows "(\<Sum>x\<in>K. f (get (put s k v) x)) = (\<Sum>x\<in>K. f (get s x))"
  by (rule sum.cong) (use assms in \<open>auto simp: get_put\<close>)

lemma sum_transfer:
  fixes f :: "'v \<Rightarrow> int"
  assumes "finite K" "a \<in> K" "b \<in> K" "a \<noteq> b" "f va + f vb = f (get s a) + f (get s b)"
  shows "(\<Sum>x\<in>K. f (get (put (put s a va) b vb) x)) = (\<Sum>x\<in>K. f (get s x))"
  using assms by (simp add: sum_put_in get_put_other)

end

interpretation slots: keyed_store "\<lambda>s k. sload s a k" "\<lambda>s k v. sstore s a k v" for a
  by unfold_locales (simp_all add: sload_sstore)

interpretation balances: keyed_store balance_of set_balance
  by unfold_locales (simp_all add: balance_of_set_balance)

end
