(* ===== verification/Go_Float.thy ===== *)
theory Go_Float
  imports Complex_Main "HOL-Library.Log_Nat" Prelude
begin

text \<open>
  IEEE-754 double precision as the Go code uses it. A finite \<^verbatim>\<open>float64\<close> is the rational number
  it denotes; an operation computes exactly and rounds the result with \<open>fl\<close>: 53 significant
  bits, ties to even. The exponent is not bounded: the values the modelled code produces
  (stakes, percentages, blocks per year, \<^verbatim>\<open>math.MaxFloat64\<close> as the upper bound of the last
  bracket) stay clear of underflow and overflow.
\<close>

type_synonym float64 = rat

subsection \<open>Rounding\<close>

text \<open>\<open>rat_exp x\<close> is the binary exponent of a positive rational: \<open>2^e \<le> x < 2^(e+1)\<close>.\<close>

definition rat_exp :: "rat \<Rightarrow> int" where
  "rat_exp x =
     (let (n, d) = quotient_of x; e = bitlen n - bitlen d in
      if x < 2 powi e then e - 1 else e)"

definition round_half_even :: "rat \<Rightarrow> int" where
  "round_half_even x =
     (let f = \<lfloor>x\<rfloor>; r = x - of_int f in
      if r < 1 / 2 then f else if 1 / 2 < r then f + 1 else if even f then f else f + 1)"

definition fl_pos :: "rat \<Rightarrow> float64" where
  "fl_pos x = (let u = 2 powi (rat_exp x - 52) in of_int (round_half_even (x / u)) * u)"

definition fl :: "rat \<Rightarrow> float64" where
  "fl x = (if x = 0 then 0 else if x < 0 then - fl_pos (- x) else fl_pos x)"

definition fl_add :: "float64 \<Rightarrow> float64 \<Rightarrow> float64" where "fl_add x y = fl (x + y)"
definition fl_sub :: "float64 \<Rightarrow> float64 \<Rightarrow> float64" where "fl_sub x y = fl (x - y)"
definition fl_mul :: "float64 \<Rightarrow> float64 \<Rightarrow> float64" where "fl_mul x y = fl (x * y)"
definition fl_div :: "float64 \<Rightarrow> float64 \<Rightarrow> float64" where "fl_div x y = fl (x / y)"

text \<open>\<^verbatim>\<open>float64(v)\<close> of an unsigned integer, and \<^verbatim>\<open>uint64(x)\<close>, which drops the fraction.\<close>

definition float_of_u64 :: "u64 \<Rightarrow> float64" where
  "float_of_u64 v = fl (of_nat (unat v))"

definition u64_of_float :: "float64 \<Rightarrow> u64" where
  "u64_of_float x = of_int \<lfloor>x\<rfloor>"

text \<open>\<^verbatim>\<open>math.Sqrt\<close>, correctly rounded: the integer square root of the scaled argument.\<close>

fun isqrt :: "nat \<Rightarrow> nat" where
  "isqrt n = (if n = 0 then 0 else let r = 2 * isqrt (n div 4) in if (r + 1) ^ 2 \<le> n then r + 1 else r)"

declare isqrt.simps [simp del]

definition fl_sqrt :: "float64 \<Rightarrow> float64" where
  "fl_sqrt x =
     (if x \<le> 0 then 0
      else let u = 2 powi (rat_exp x div 2 - 52); q = x / (u * u); s = int (isqrt (nat \<lfloor>q\<rfloor>));
               m = of_int s + 1 / 2 in
           of_int (if q < m * m then s else if m * m < q then s + 1 else if even s then s else s + 1)
           * u)"

lemma isqrt_bounds: "(isqrt n)\<^sup>2 \<le> n \<and> n < (isqrt n + 1)\<^sup>2"
proof (induction n rule: isqrt.induct)
  case (1 n)
  show ?case
  proof (cases "n = 0")
    case False
    define r where "r = isqrt (n div 4)"
    have IH: "r\<^sup>2 \<le> n div 4" "n div 4 < (r + 1)\<^sup>2"
      using "1.IH"[OF False] by (simp_all add: r_def)
    have "(2 * r)\<^sup>2 \<le> n"
      using IH(1) by (simp add: power2_eq_square)
    moreover have "n < (2 * r + 2)\<^sup>2"
      using IH(2) by (simp add: power2_eq_square algebra_simps)
    ultimately show ?thesis
      using False by (simp add: isqrt.simps[of n] r_def Let_def)
  qed (simp add: isqrt.simps)
qed

lemma fl_sqrt_nonneg [simp]: "0 \<le> fl_sqrt x"
  by (simp add: fl_sqrt_def Let_def)

declare of_nat_unat [simp del]

subsection \<open>The exponent\<close>

lemma powi_less_imp: "(2 :: rat) powi m < 2 powi n \<Longrightarrow> m < n"
  using power_int_increasing[of n m "2 :: rat"] by linarith

lemma powi_add_one: "(2 :: rat) powi (e + 1) = 2 * 2 powi e"
  by (simp add: power_int_add)

lemma bitlen_powi:
  assumes "0 < n"
  shows "(2 :: rat) powi (bitlen n - 1) \<le> of_int n" and "of_int n < (2 :: rat) powi (bitlen n)"
proof -
  have b: "2 ^ nat (bitlen n - 1) \<le> n \<and> n < 2 ^ nat (bitlen n)"
    using assms by (rule bitlen_bounds)
  have pos: "1 \<le> bitlen n"
    using assms bitlen_eq_zero_iff[of n] bitlen_nonneg[of n] by linarith
  have "(2 :: rat) powi (bitlen n - 1) = of_int (2 ^ nat (bitlen n - 1))"
    using pos by (simp add: power_int_def)
  also have "\<dots> \<le> of_int n"
    using b of_int_le_iff by blast
  finally show "(2 :: rat) powi (bitlen n - 1) \<le> of_int n" .
  have "(of_int n :: rat) < of_int (2 ^ nat (bitlen n))"
    using b of_int_less_iff by blast
  also have "\<dots> = (2 :: rat) powi (bitlen n)"
    using pos by (simp add: power_int_def)
  finally show "of_int n < (2 :: rat) powi (bitlen n)" .
qed

lemma rat_exp_bounds:
  assumes "0 < x"
  shows "2 powi (rat_exp x) \<le> x" and "x < 2 powi (rat_exp x + 1)"
proof -
  obtain n d where q: "quotient_of x = (n, d)"
    by (cases "quotient_of x")
  have d: "0 < d"
    using q by (rule quotient_of_denom_pos)
  have x: "x = of_int n / of_int d"
    using q by (rule quotient_of_div)
  have n: "0 < n"
    using assms d by (simp add: x zero_less_divide_iff)
  let ?e = "bitlen n - bitlen d"
  have "(2 :: rat) powi (?e - 1) * of_int d < 2 powi (?e - 1) * 2 powi (bitlen d)"
    using bitlen_powi(2)[OF d] by (simp add: mult_strict_left_mono)
  also have "\<dots> = 2 powi (bitlen n - 1)"
    by (simp flip: power_int_add)
  also have "\<dots> \<le> of_int n"
    by (rule bitlen_powi(1)[OF n])
  finally have lower: "2 powi (?e - 1) < x"
    using d by (simp add: x field_simps)
  have "(of_int n :: rat) < 2 powi (bitlen n)"
    by (rule bitlen_powi(2)[OF n])
  also have "\<dots> = 2 powi (?e + 1) * 2 powi (bitlen d - 1)"
    by (simp flip: power_int_add)
  also have "\<dots> \<le> 2 powi (?e + 1) * of_int d"
    using bitlen_powi(1)[OF d] by (simp add: mult_left_mono)
  finally have upper: "x < 2 powi (?e + 1)"
    using d by (simp add: x field_simps)
  show "2 powi (rat_exp x) \<le> x" "x < 2 powi (rat_exp x + 1)"
    using lower upper by (simp_all add: rat_exp_def q Let_def)
qed

lemma rat_exp_mono:
  assumes "0 < x" "x \<le> y" shows "rat_exp x \<le> rat_exp y"
proof -
  have "(2 :: rat) powi (rat_exp x) < 2 powi (rat_exp y + 1)"
    using rat_exp_bounds(1)[of x] rat_exp_bounds(2)[of y] assms by linarith
  then have "rat_exp x < rat_exp y + 1"
    by (rule powi_less_imp)
  then show ?thesis by simp
qed

subsection \<open>Rounding is monotone\<close>

lemma round_half_even_mono: "x \<le> y \<Longrightarrow> round_half_even x \<le> round_half_even y"
proof -
  assume le: "x \<le> y"
  show ?thesis
  proof (cases "\<lfloor>x\<rfloor> = \<lfloor>y\<rfloor>")
    case True
    with le show ?thesis
      by (auto simp: round_half_even_def Let_def)
  next
    case False
    then have "\<lfloor>x\<rfloor> + 1 \<le> \<lfloor>y\<rfloor>"
      using floor_mono[OF le] by linarith
    then show ?thesis
      by (auto simp: round_half_even_def Let_def)
  qed
qed

lemma round_half_even_of_int [simp]: "round_half_even (of_int i) = i"
  by (simp add: round_half_even_def)

lemma fl_pos_bounds:
  assumes "0 < x"
  shows "2 powi (rat_exp x) \<le> fl_pos x" and "fl_pos x \<le> 2 powi (rat_exp x + 1)"
proof -
  let ?e = "rat_exp x" and ?u = "(2 :: rat) powi (rat_exp x - 52)"
  have u: "0 < ?u" by simp
  have e52: "2 powi ?e = of_int (2 ^ 52) * ?u"
    by (simp add: power_int_diff)
  have e53: "2 powi (?e + 1) = of_int (2 ^ 53) * ?u"
    by (simp add: power_int_diff power_int_add)
  have "of_int (2 ^ 52) \<le> x / ?u"
    using rat_exp_bounds(1)[OF assms] e52 u by (simp add: le_divide_eq)
  then have "2 ^ 52 \<le> round_half_even (x / ?u)"
    by (metis round_half_even_mono round_half_even_of_int)
  then have "of_int (2 ^ 52) * ?u \<le> of_int (round_half_even (x / ?u)) * ?u"
    using u by (intro mult_right_mono) (simp_all only: of_int_le_iff less_imp_le)
  then show "2 powi ?e \<le> fl_pos x"
    by (simp add: fl_pos_def Let_def e52)
  have "x / ?u \<le> of_int (2 ^ 53)"
    using rat_exp_bounds(2)[OF assms] e53 u by (simp add: divide_le_eq)
  then have "round_half_even (x / ?u) \<le> 2 ^ 53"
    by (metis round_half_even_mono round_half_even_of_int)
  then have "of_int (round_half_even (x / ?u)) * ?u \<le> of_int (2 ^ 53) * ?u"
    using u by (intro mult_right_mono) (simp_all only: of_int_le_iff less_imp_le)
  then show "fl_pos x \<le> 2 powi (?e + 1)"
    by (simp add: fl_pos_def Let_def e53)
qed

lemma fl_pos_mono:
  assumes "0 < x" "x \<le> y" shows "fl_pos x \<le> fl_pos y"
proof (cases "rat_exp x = rat_exp y")
  case True
  let ?u = "(2 :: rat) powi (rat_exp y - 52)"
  have "x / ?u \<le> y / ?u"
    using assms by (simp add: divide_right_mono)
  then have "round_half_even (x / ?u) \<le> round_half_even (y / ?u)"
    by (rule round_half_even_mono)
  then show ?thesis
    by (simp add: fl_pos_def True Let_def mult_right_mono)
next
  case False
  then have "rat_exp x + 1 \<le> rat_exp y"
    using rat_exp_mono[OF assms] by linarith
  then have "(2 :: rat) powi (rat_exp x + 1) \<le> 2 powi (rat_exp y)"
    by (simp add: power_int_increasing)
  then show ?thesis
    using fl_pos_bounds(2)[of x] fl_pos_bounds(1)[of y] assms by linarith
qed

lemma fl_pos_pos: "0 < x \<Longrightarrow> 0 < fl_pos x"
  using fl_pos_bounds(1)[of x] by (meson order_less_le_trans zero_less_numeral zero_less_power_int)

lemma fl_mono: "x \<le> y \<Longrightarrow> fl x \<le> fl y"
  using fl_pos_mono[of x y] fl_pos_mono[of "- y" "- x"] fl_pos_pos[of "- x"] fl_pos_pos[of y]
  by (auto simp: fl_def)

lemma fl_nonneg: "0 \<le> x \<Longrightarrow> 0 \<le> fl x"
  using fl_mono[of 0 x] by (simp add: fl_def)

subsection \<open>Exactness on small integers\<close>

lemma fl_pos_exact:
  assumes x: "0 < x" and m: "x = of_int m * 2 powi k" and k: "rat_exp x - 52 \<le> k"
  shows "fl_pos x = x"
proof -
  let ?u = "(2 :: rat) powi (rat_exp x - 52)"
  define j where "j = nat (k - (rat_exp x - 52))"
  have "(2 :: rat) powi k = of_int (2 ^ j) * ?u"
    using k by (simp add: j_def power_int_def[of 2 "int (nat _)"] flip: power_int_add power_int_of_nat)
  then have "x = of_int (m * 2 ^ j) * ?u"
    using m by simp
  then have q: "x / ?u = of_int (m * 2 ^ j)"
    by (metis nonzero_mult_div_cancel_right power_int_eq_0_iff zero_neq_numeral)
  have "round_half_even (x / ?u) = m * 2 ^ j"
    by (simp only: q round_half_even_of_int)
  then have "fl_pos x = of_int (m * 2 ^ j) * ?u"
    by (simp add: fl_pos_def Let_def)
  also have "\<dots> = x"
    using q by (simp add: field_simps)
  finally show ?thesis .
qed

text \<open>Rounding a rounded value changes nothing.\<close>

lemma fl_pos_idem:
  assumes "0 < x" shows "fl_pos (fl_pos x) = fl_pos x"
proof (cases "fl_pos x = 2 powi (rat_exp x + 1)")
  case True
  have "rat_exp (fl_pos x) \<le> rat_exp x + 1"
  proof (rule ccontr)
    assume "\<not> ?thesis"
    then have "(2 :: rat) powi (rat_exp x + 1) < 2 powi (rat_exp (fl_pos x))"
      by (intro power_int_strict_increasing) auto
    with True rat_exp_bounds(1)[OF fl_pos_pos[OF assms]] show False
      by linarith
  qed
  then show ?thesis
    using fl_pos_pos[OF assms] True
    by (intro fl_pos_exact[where m = 1 and k = "rat_exp x + 1"]) simp_all
next
  case False
  then have "(2 :: rat) powi (rat_exp (fl_pos x)) < 2 powi (rat_exp x + 1)"
    using fl_pos_bounds(2)[OF assms] rat_exp_bounds(1)[OF fl_pos_pos[OF assms]] by linarith
  then have "rat_exp (fl_pos x) < rat_exp x + 1"
    by (rule powi_less_imp)
  moreover have "fl_pos x = of_int (round_half_even (x / 2 powi (rat_exp x - 52))) * 2 powi (rat_exp x - 52)"
    by (simp add: fl_pos_def Let_def)
  ultimately show ?thesis
    using fl_pos_pos[OF assms] by (intro fl_pos_exact) auto
qed

lemma fl_idem [simp]: "fl (fl x) = fl x"
  using fl_pos_pos[of x] fl_pos_pos[of "- x"] fl_pos_idem[of x] fl_pos_idem[of "- x"]
  by (auto simp: fl_def)

lemma fl_0 [simp]: "fl 0 = 0"
  by (simp add: fl_def)

text \<open>Adding a non-negative amount to a double never lowers it.\<close>

lemma fl_add_ge: "fl a = a \<Longrightarrow> 0 \<le> b \<Longrightarrow> a \<le> fl_add a b"
  using fl_mono[of a "a + b"] by (simp add: fl_add_def)

lemma fl_add_mono: "a \<le> a' \<Longrightarrow> b \<le> b' \<Longrightarrow> fl_add a b \<le> fl_add a' b'"
  by (simp add: fl_add_def fl_mono)

lemma fl_idem_ops [simp]:
  "fl (fl_add a b) = fl_add a b" "fl (fl_sub a b) = fl_sub a b"
  "fl (fl_mul a b) = fl_mul a b" "fl (fl_div a b) = fl_div a b"
  by (simp_all add: fl_add_def fl_sub_def fl_mul_def fl_div_def)

lemma fl_of_nat: "n < 2 ^ 53 \<Longrightarrow> fl (of_nat n) = of_nat n"
proof (cases "n = 0")
  case False
  assume n: "n < 2 ^ 53"
  have "(of_nat n :: rat) < of_nat (2 ^ 53)"
    using n of_nat_less_iff by blast
  then have "(2 :: rat) powi (rat_exp (of_nat n)) < 2 powi 53"
    using rat_exp_bounds(1)[of "of_nat n"] False by simp
  then have "rat_exp (of_nat n) < 53"
    by (rule powi_less_imp)
  then have "fl_pos (of_nat n) = of_nat n"
    using False by (intro fl_pos_exact[where m = "int n" and k = 0]) simp_all
  with False show ?thesis
    by (simp add: fl_def)
qed (simp add: fl_def)

lemma float_of_u64_exact: "unat v < 2 ^ 53 \<Longrightarrow> float_of_u64 v = of_nat (unat v)"
  by (simp add: float_of_u64_def fl_of_nat)

lemma float_of_u64_mono: "v \<le> w \<Longrightarrow> float_of_u64 v \<le> float_of_u64 w"
  by (simp add: float_of_u64_def fl_mono word_le_nat_alt)

lemma float_of_u64_nonneg [simp]: "0 \<le> float_of_u64 v"
  by (simp add: float_of_u64_def fl_nonneg)

lemma fl_fl_of_nat [simp]: "n < 2 ^ 53 \<Longrightarrow> fl (fl (of_nat n)) = of_nat n"
  by (simp add: fl_of_nat)

text \<open>Dropping the fraction of a non-negative value below \<open>2^64\<close>.\<close>

lemma unat_u64_of_float:
  assumes "0 \<le> x" "x < 2 ^ 64"
  shows "unat (u64_of_float x) = nat \<lfloor>x\<rfloor>"
proof -
  have "0 \<le> \<lfloor>x\<rfloor>" "\<lfloor>x\<rfloor> < 2 ^ 64"
    using assms by (simp_all add: floor_less_iff)
  then have "uint (u64_of_float x) = \<lfloor>x\<rfloor>"
    by (simp add: u64_of_float_def uint_word_of_int)
  then show ?thesis
    by (simp add: unat_eq_nat_uint)
qed

lemma u64_of_float_le:
  assumes "0 \<le> x" "x < 2 ^ 64"
  shows "of_nat (unat (u64_of_float x)) \<le> x"
  using assms by (simp add: unat_u64_of_float)

lemma u64_of_float_mono:
  assumes "0 \<le> x" "x \<le> y" "y < 2 ^ 64"
  shows "u64_of_float x \<le> u64_of_float y"
  using assms by (simp add: word_le_nat_alt unat_u64_of_float nat_mono floor_mono)


subsection \<open>Two thirds in binary\<close>

lemma round_half_even_near:
  assumes "of_int i - 1 / 2 < y" "y \<le> of_int i"
  shows "round_half_even y = i"
proof (cases "y = of_int i")
  case False
  with assms have "\<lfloor>y\<rfloor> = i - 1"
    by (intro floor_unique) simp_all
  with assms show ?thesis
    by (simp add: round_half_even_def)
qed simp

lemma round_half_even_tie:
  assumes "y = of_int i - 1 / 2" "even i"
  shows "round_half_even y = i"
proof -
  have "\<lfloor>y\<rfloor> = i - 1"
    using assms by (intro floor_unique) simp_all
  with assms show ?thesis
    by (simp add: round_half_even_def)
qed

text \<open>A product that falls short of an integer by one part in \<open>2^54\<close> rounds up to it.\<close>

lemma fl_just_below:
  assumes n: "0 < n" "n < 2 ^ 52"
  shows "fl (of_nat n - of_nat n / 2 ^ 54) = of_nat n"
proof -
  define N where "N = (of_nat n :: rat)"
  define x where "x = N - N / 2 ^ 54"
  have N: "0 < N" using n by (simp add: N_def)
  have x: "0 < x" "x \<le> N" using N by (simp_all add: x_def field_simps)
  let ?e = "rat_exp x" and ?u = "(2 :: rat) powi (rat_exp x - 52)"
  have u: "0 < ?u" by simp
  have "N < 2 ^ 52"
    using n(2) of_nat_less_iff[where 'a = rat, of n "2 ^ 52"] by (simp add: N_def)
  then have "(2 :: rat) powi ?e < 2 powi 52"
    using rat_exp_bounds(1)[OF x(1)] x(2) by simp
  then have e: "?e < 52"
    by (rule powi_less_imp)
  define j where "j = nat (52 - ?e)"
  have uj: "1 / ?u = of_int (2 ^ j)"
    using e by (simp add: j_def power_int_minus[symmetric] divide_inverse flip: power_int_of_nat)
  have Nu: "N / ?u = of_int (int n * 2 ^ j)"
    using uj by (simp add: N_def divide_inverse)
  have e53: "2 powi (?e + 1) = 2 ^ 53 * ?u"
    by (simp add: power_int_diff power_int_add)
  have xu: "x / ?u = N / ?u - (N / ?u) / 2 ^ 54"
    by (simp add: x_def diff_divide_distrib)
  have "x / ?u < 2 ^ 53"
    using rat_exp_bounds(2)[OF x(1)] e53 u by (simp add: divide_less_eq)
  moreover have "z < 2 ^ 53 + 1" if "z - z / 2 ^ 54 < 2 ^ 53" for z :: rat
    using that by (simp add: field_simps)
  ultimately have "N / ?u < 2 ^ 53 + 1"
    using xu by simp
  then have "int n * 2 ^ j < 2 ^ 53 + 1"
    using Nu of_int_less_iff[where 'a = rat, of "int n * 2 ^ j" "2 ^ 53 + 1"] by simp
  then consider "int n * 2 ^ j = 2 ^ 53" | "int n * 2 ^ j < 2 ^ 53"
    by linarith
  then have "round_half_even (x / ?u) = int n * 2 ^ j"
  proof cases
    case 1
    then have "N / ?u = 2 ^ 53" using Nu by simp
    with 1 show ?thesis
      unfolding xu by (intro round_half_even_tie) simp_all
  next
    case 2
    then have "N / ?u < 2 ^ 53"
      using Nu of_int_less_iff[where 'a = rat, of "int n * 2 ^ j" "2 ^ 53"] by simp
    moreover have "0 < N / ?u" using N u by simp
    ultimately show ?thesis
      unfolding xu by (intro round_half_even_near) (simp_all add: Nu)
  qed
  then have "fl_pos x = N / ?u * ?u"
    by (simp add: fl_pos_def Let_def Nu)
  with x(1) u show ?thesis
    by (simp add: fl_def x_def N_def)
qed

lemma fl_two_thirds: "fl (2 / 3) = 2 / 3 - 1 / (3 * 2 ^ 53)"
  by code_simp

text \<open>
  \<^verbatim>\<open>uint64(float64(t) * (2.0 / 3.0))\<close> is two thirds of \<open>t\<close>, rounded down.
\<close>

lemma float_two_thirds:
  assumes "t < 2 ^ 50"
  shows "\<lfloor>fl_mul (of_nat t) (fl (2 / 3))\<rfloor> = int (2 * t div 3)"
proof (cases "t mod 3 = 0")
  case True
  then obtain k where t: "t = 3 * k" by auto
  show ?thesis
  proof (cases "k = 0")
    case False
    have "of_nat t * fl (2 / 3) = of_nat (2 * k) - of_nat (2 * k) / (2 :: rat) ^ 54"
      by (simp add: t fl_two_thirds field_simps)
    moreover have "fl (of_nat (2 * k) - of_nat (2 * k) / 2 ^ 54) = of_nat (2 * k)"
      using assms t False by (intro fl_just_below) auto
    ultimately have "fl (of_nat t * fl (2 / 3)) = of_nat (2 * k)"
      by (simp only:)
    then have "\<lfloor>fl_mul (of_nat t) (fl (2 / 3))\<rfloor> = int (2 * k)"
      by (simp only: fl_mul_def floor_of_nat)
    then show ?thesis by (simp add: t)
  qed (simp add: t fl_mul_def fl_def)
next
  case False
  define q where "q = 2 * t div 3"
  define r where "r = 2 * t mod 3"
  have tq: "2 * t = 3 * q + r" by (simp add: q_def r_def)
  have r: "r = 1 \<or> r = 2"
    using False by (auto simp: r_def) presburger
  have t3: "of_nat t * fl (2 / 3) = (of_nat (3 * q + r) / 3 :: rat) - of_nat t / (3 * 2 ^ 53)"
    using arg_cong[OF tq, of "of_nat :: nat \<Rightarrow> rat"]
    by (simp add: fl_two_thirds field_simps)
  have "(of_nat t :: rat) < 2 ^ 50"
    using assms of_nat_less_iff[where 'a = rat, of t "2 ^ 50"] by simp
  then have small: "(of_nat t :: rat) / (3 * 2 ^ 53) < 1 / 24"
    by simp
  have lo: "of_nat q \<le> of_nat t * fl (2 / 3)" and hi: "of_nat t * fl (2 / 3) \<le> of_nat q + 3 / 4"
    using r small unfolding t3 by (auto simp: field_simps)
  have q52: "q < 2 ^ 50" using assms by (simp add: q_def)
  have "fl (of_nat q) \<le> fl_mul (of_nat t) (fl (2 / 3))"
    unfolding fl_mul_def by (rule fl_mono[OF lo])
  then have "of_nat q \<le> fl_mul (of_nat t) (fl (2 / 3))"
    using q52 by (simp add: fl_of_nat)
  moreover have "fl (of_nat q + 3 / 4) = of_nat q + 3 / 4"
  proof -
    have "(of_nat q :: rat) < 2 ^ 50"
      using q52 of_nat_less_iff[where 'a = rat, of q "2 ^ 50"] by simp
    then have "(of_nat q + 3 / 4 :: rat) < 2 powi 51" by simp
    then have "(2 :: rat) powi (rat_exp (of_nat q + 3 / 4)) < 2 powi 51"
      using rat_exp_bounds(1)[of "of_nat q + 3 / 4"] by simp
    then have "rat_exp (of_nat q + 3 / 4) < 51" by (rule powi_less_imp)
    then show ?thesis
      using fl_pos_exact[of "of_nat q + 3 / 4" "4 * int q + 3" "-2"]
      by (simp add: fl_def power_int_minus field_simps)
  qed
  then have "fl_mul (of_nat t) (fl (2 / 3)) \<le> of_nat q + 3 / 4"
    using fl_mono[OF hi] by (simp add: fl_mul_def)
  ultimately show ?thesis
    unfolding q_def[symmetric] by (intro floor_unique) simp_all
qed

end
