(* ===== verification/Econo.thy ===== *)
theory Econo
  imports State Go_Float
begin

text \<open>
  The package-level variables of the execution layer and what moves them: the annual
  inflation rate (\<^verbatim>\<open>evm/inflation.go\<close>), the economic-health window and the phase-driven
  treasury policy (\<^verbatim>\<open>evm/econo_loop.go\<close>), and the tracker of the live token supply
  (\<^verbatim>\<open>evm/task_registry.go\<close>). \<open>World\<close> is the account state together with those variables; it is
  what a precompile reads and writes.
\<close>

record EconoSnapshot =
  GBP :: u64
  Tasks :: u64
  ProPaid :: u64
  ProTasks :: u64
  MicroPaid :: u64
  MicroTasks :: u64
  MRTPaid :: u64
  MRTClaims :: u64
  RentPaid :: u64
  StorageStaked :: u64
  WindowStart :: u64
  snap_Phase :: u8

record EconoPolicy =
  policy_Phase :: u8
  BurnBps :: u64
  GrantBps :: u64

record World = StateDB +
  econoSnap :: EconoSnapshot
  econoPolicy :: EconoPolicy
  activeInflationPct :: float64

definition fresh_window :: "u64 \<Rightarrow> EconoSnapshot" where
  "fresh_window b =
     \<lparr>GBP = 0, Tasks = 0, ProPaid = 0, ProTasks = 0, MicroPaid = 0, MicroTasks = 0, MRTPaid = 0,
      MRTClaims = 0, RentPaid = 0, StorageStaked = 0, WindowStart = b, snap_Phase = 0\<rparr>"

subsection \<open>Inflation\<close>

definition DefaultAnnualInflationPct :: float64 where "DefaultAnnualInflationPct = 7"
definition MinAnnualInflationPct :: float64 where "MinAnnualInflationPct = 3"
definition MaxAnnualInflationPct :: float64 where "MaxAnnualInflationPct = 9"

lemmas inflation_defs =
  DefaultAnnualInflationPct_def MinAnnualInflationPct_def MaxAnnualInflationPct_def

definition GetInflationPct :: "World \<Rightarrow> float64" where
  "GetInflationPct w = activeInflationPct w"

definition clamp_inflation :: "float64 \<Rightarrow> float64" where
  "clamp_inflation pct =
     (let p = if pct < MinAnnualInflationPct then MinAnnualInflationPct else pct in
      if MaxAnnualInflationPct < p then MaxAnnualInflationPct else p)"

definition SetInflationPct :: "World \<Rightarrow> float64 \<Rightarrow> float64 \<times> World" where
  "SetInflationPct w pct = (let p = clamp_inflation pct in (p, w\<lparr>activeInflationPct := p\<rparr>))"

definition InflationPctToCalldata :: "float64 \<Rightarrow> u32" where
  "InflationPctToCalldata pct = of_int \<lfloor>fl_mul pct 100\<rfloor>"

definition CalldataToInflationPct :: "u32 \<Rightarrow> go_error + float64" where
  "CalldataToInflationPct encoded =
     (let pct = fl_div (fl (of_nat (unat encoded))) 100 in
      if pct < MinAnnualInflationPct \<or> MaxAnnualInflationPct < pct
      then Inl (Errorf ''inflation outside bounds'') else Inr pct)"

definition uint32ToBytes :: "u32 \<Rightarrow> bytes" where
  "uint32ToBytes v =
     (replicate 32 0)[28 := ucast (drop_bit 24 v), 29 := ucast (drop_bit 16 v),
                      30 := ucast (drop_bit 8 v), 31 := ucast v]"

subsection \<open>The live supply tracker\<close>

definition waySupplySlot :: u8 where "waySupplySlot = 0x41"
definition WAYStartingSupply :: u64 where "WAYStartingSupply = 100000000"

definition QuestTotalSupply :: "'a StateDB_scheme \<Rightarrow> nat" where
  "QuestTotalSupply s = readBigInt (sload s (PrecompileAddrHex 0x23) (storageKey [waySupplySlot]))"

text \<open>\<^verbatim>\<open>FillBytes\<close> into the 32-byte slot panics when the sum does not fit.\<close>

definition QuestAddSupply :: "'a StateDB_scheme \<Rightarrow> int \<Rightarrow> ('a StateDB_scheme) outcome" where
  "QuestAddSupply s amount =
     (if amount \<le> 0 then Ret s
      else let cur = QuestTotalSupply s + nat amount in
           if 256 ^ 32 \<le> cur then Panic
           else Ret (sstore s (PrecompileAddrHex 0x23) (storageKey [waySupplySlot]) (fill_be 32 cur)))"

subsection \<open>Window accumulators\<close>

definition EconoWindowBlocks :: u64 where "EconoWindowBlocks = 10000"
definition EconoGBPExpansionThreshold :: u64 where "EconoGBPExpansionThreshold = 100000"
definition EconoVelocityExpansionThreshold :: u64 where "EconoVelocityExpansionThreshold = 100"
definition EconoMRTPayWeight :: u64 where "EconoMRTPayWeight = 1000"
definition EconoMRTExpansionClaims :: u64 where "EconoMRTExpansionClaims = 10"
definition EconoMaxBurnBps :: u64 where "EconoMaxBurnBps = 500"
definition EconoMaxGrantBps :: u64 where "EconoMaxGrantBps = 500"
definition EconoExpansionBurnBps :: u64 where "EconoExpansionBurnBps = 50"
definition EconoConsolidationGrantBps :: u64 where "EconoConsolidationGrantBps = 200"

lemmas econo_consts =
  EconoWindowBlocks_def EconoGBPExpansionThreshold_def EconoVelocityExpansionThreshold_def
  EconoMRTPayWeight_def EconoMRTExpansionClaims_def EconoMaxBurnBps_def EconoMaxGrantBps_def
  EconoExpansionBurnBps_def EconoConsolidationGrantBps_def

definition roll_window :: "EconoSnapshot \<Rightarrow> u64 \<Rightarrow> EconoSnapshot" where
  "roll_window e b = (if EconoWindowBlocks \<le> b - WindowStart e then fresh_window b else e)"

definition EconoAccruePayout :: "World \<Rightarrow> u64 \<Rightarrow> bool \<Rightarrow> u64 \<Rightarrow> World" where
  "EconoAccruePayout w amount isPro b =
     (let e = roll_window (econoSnap w) b;
          e1 = e\<lparr>GBP := GBP e + amount, Tasks := Tasks e + 1\<rparr>;
          e2 = (if isPro then e1\<lparr>ProPaid := ProPaid e1 + amount, ProTasks := ProTasks e1 + 1\<rparr>
                else e1\<lparr>MicroPaid := MicroPaid e1 + amount, MicroTasks := MicroTasks e1 + 1\<rparr>) in
      w\<lparr>econoSnap := e2\<rparr>)"

definition EconoAccrueMRT :: "World \<Rightarrow> u64 \<Rightarrow> u64 \<Rightarrow> World" where
  "EconoAccrueMRT w tokenSupply b =
     (let e = roll_window (econoSnap w) b; weighted = tokenSupply * EconoMRTPayWeight in
      w\<lparr>econoSnap := e\<lparr>MRTPaid := MRTPaid e + weighted, MRTClaims := MRTClaims e + 1,
          ProPaid := ProPaid e + weighted, ProTasks := ProTasks e + 1, Tasks := Tasks e + 1\<rparr>\<rparr>)"

definition EconoAccrueRent :: "World \<Rightarrow> u64 \<Rightarrow> u64 \<Rightarrow> World" where
  "EconoAccrueRent w amount b =
     (let e = roll_window (econoSnap w) b in
      w\<lparr>econoSnap := e\<lparr>RentPaid := RentPaid e + amount, Tasks := Tasks e + 1\<rparr>\<rparr>)"

definition EconoAccrueStorage :: "World \<Rightarrow> u64 \<Rightarrow> u64 \<Rightarrow> World" where
  "EconoAccrueStorage w amount b =
     (let e = roll_window (econoSnap w) b in
      w\<lparr>econoSnap := e\<lparr>StorageStaked := StorageStaked e + amount, Tasks := Tasks e + 1\<rparr>\<rparr>)"

subsection \<open>Phase and policy\<close>

definition EconoGBPEquiv :: "World \<Rightarrow> u64" where
  "EconoGBPEquiv w =
     GBP (econoSnap w) + RentPaid (econoSnap w) + MRTPaid (econoSnap w) + StorageStaked (econoSnap w)"

text \<open>The division by \<^verbatim>\<open>supply.Uint64()\<close> panics when the low 64 bits of the supply are zero.\<close>

definition EconoVelocityBps :: "World \<Rightarrow> u64 outcome" where
  "EconoVelocityBps w =
     (let supply = QuestTotalSupply w in
      if supply = 0 then Ret 0
      else if big_Uint64 supply = 0 then Panic
      else Ret (Tasks (econoSnap w) * 10000 div big_Uint64 supply))"

definition EconoYieldSpreadBps :: "World \<Rightarrow> u64" where
  "EconoYieldSpreadBps w =
     (let e = econoSnap w;
          microAvg = (if MicroTasks e > 0 then MicroPaid e div MicroTasks e else 0);
          proAvg = (if ProTasks e > 0 then ProPaid e div ProTasks e else 0) in
      if microAvg = 0 then 0 else proAvg * 10000 div microAvg)"

definition ComputeEconoPhase :: "World \<Rightarrow> u8 outcome" where
  "ComputeEconoPhase w =
     (case EconoVelocityBps w of
        Ret v \<Rightarrow>
          (let highOutput = EconoGBPExpansionThreshold \<le> EconoGBPEquiv w;
               highVelocity = EconoVelocityExpansionThreshold \<le> v;
               mrtSurge = EconoMRTExpansionClaims \<le> MRTClaims (econoSnap w) in
           Ret (if highOutput \<and> highVelocity \<or> mrtSurge then 1 else 0))
      | Err e \<Rightarrow> Err e
      | Panic \<Rightarrow> Panic)"

definition AccrueEcono :: "World \<Rightarrow> World outcome" where
  "AccrueEcono w =
     (let w' = touch w (PrecompileAddrHex 0x23) in
      case ComputeEconoPhase w' of
        Ret p \<Rightarrow> Ret (w'\<lparr>econoSnap := (econoSnap w')\<lparr>snap_Phase := p\<rparr>\<rparr>)
      | Err e \<Rightarrow> Err e
      | Panic \<Rightarrow> Panic)"

definition treasury_addr :: string where "treasury_addr = PrecompileAddrHex 0x03"

definition burnTreasuryShare :: "World \<Rightarrow> u64 \<Rightarrow> World" where
  "burnTreasuryShare w burnBps =
     (let bps = (if EconoMaxBurnBps < burnBps then EconoMaxBurnBps else burnBps) in
      if bps = 0 then w
      else let w1 = touch w treasury_addr; bal = balance_of w1 treasury_addr in
           if bal = 0 then w1
           else let burn = bal * int (unat bps) div 10000 in
                if burn = 0 then w1
                else AddLog (set_balance w1 treasury_addr (bal - burn)) (PrecompileAddrHex 0x23)
                       [sha256 (bytes_of_string ''EconoBurn'')] (big_bytes (nat \<bar>burn\<bar>)) 0)"

definition grantStimulus :: "World \<Rightarrow> u64 \<Rightarrow> World" where
  "grantStimulus w grantBps =
     (let bps = (if EconoMaxGrantBps < grantBps then EconoMaxGrantBps else grantBps) in
      AddLog w (PrecompileAddrHex 0x23)
        [sha256 (bytes_of_string ''EconoStimulus'')] (big_bytes (unat bps)) 0)"

definition ApplyEconoPolicy :: "World \<Rightarrow> World" where
  "ApplyEconoPolicy w =
     (if snap_Phase (econoSnap w) = 1 then
        burnTreasuryShare
          (w\<lparr>econoPolicy := \<lparr>policy_Phase = 1, BurnBps = EconoExpansionBurnBps, GrantBps = 0\<rparr>\<rparr>)
          EconoExpansionBurnBps
      else
        grantStimulus
          (w\<lparr>econoPolicy := \<lparr>policy_Phase = 0, BurnBps = 0, GrantBps = EconoConsolidationGrantBps\<rparr>\<rparr>)
          EconoConsolidationGrantBps)"

definition phaseName :: "u8 \<Rightarrow> string" where
  "phaseName p = (if p = 1 then ''Expansion'' else ''Consolidation'')"

definition proTaskSet :: "string list" where
  "proTaskSet = [''badge-curate'', ''oracle-feed'', ''account-recovery'', ''privacy-proof'',
     ''xchain-attest'', ''template-deploy'', ''validator-72h'', ''mrt-claim'', ''dms-setup'']"

definition isProTask :: "bytes \<Rightarrow> bool" where
  "isProTask taskIdBytes =
     (string_of_bytes (takeWhile (\<lambda>b. b \<noteq> 0) taskIdBytes) \<in> set proTaskSet)"

subsection \<open>Facts\<close>

lemma clamp_inflation_bounds:
  "MinAnnualInflationPct \<le> clamp_inflation p" "clamp_inflation p \<le> MaxAnnualInflationPct"
  by (simp_all add: clamp_inflation_def inflation_defs Let_def)

lemma acct_World_update [simp, state_simps]:
  "acct (w\<lparr>econoSnap := e\<rparr>) a = acct w a"
  "acct (w\<lparr>econoPolicy := p\<rparr>) a = acct w a"
  "acct (w\<lparr>activeInflationPct := i\<rparr>) a = acct w a"
  by (simp_all add: acct_def)

lemma balance_of_World_update [simp, state_simps]:
  "balance_of (w\<lparr>econoSnap := e\<rparr>) a = balance_of w a"
  "balance_of (w\<lparr>econoPolicy := p\<rparr>) a = balance_of w a"
  "balance_of (w\<lparr>activeInflationPct := i\<rparr>) a = balance_of w a"
  by (simp_all add: balance_of_def)

lemma sload_World_update [simp, slot_simps]:
  "sload (w\<lparr>econoSnap := e\<rparr>) a k = sload w a k"
  "sload (w\<lparr>econoPolicy := p\<rparr>) a k = sload w a k"
  "sload (w\<lparr>activeInflationPct := i\<rparr>) a k = sload w a k"
  by (simp_all add: sload_def)

lemma EconoAccrueStorage_frame [simp, slot_simps]:
  "sload (EconoAccrueStorage w v b) a k = sload w a k"
  "balance_of (EconoAccrueStorage w v b) a = balance_of w a"
  by (simp_all add: EconoAccrueStorage_def Let_def)

lemma econoSnap_state_ops [simp, state_simps]:
  "econoSnap (touch w a) = econoSnap w"
  "econoSnap (upd_acct w a f) = econoSnap w"
  "econoSnap (AddLog w a t d b) = econoSnap w"
  by (simp_all add: touch_def upd_acct_def AddLog_def)

lemma econoPolicy_state_ops [simp, state_simps]:
  "econoPolicy (touch w a) = econoPolicy w"
  "econoPolicy (upd_acct w a f) = econoPolicy w"
  "econoPolicy (AddLog w a t d b) = econoPolicy w"
  "econoPolicy (set_balance w a v) = econoPolicy w"
  by (simp_all add: touch_def upd_acct_def AddLog_def set_balance_def)

text \<open>A burn takes at most five percent of the treasury and no other balance changes.\<close>

lemma burn_amount_bounds:
  fixes bal :: int
  assumes "0 \<le> bal" "n \<le> 10000"
  shows "0 \<le> bal * int n div 10000" "bal * int n div 10000 \<le> bal"
proof -
  show "0 \<le> bal * int n div 10000"
    using assms by (simp add: pos_imp_zdiv_nonneg_iff)
  have "bal * int n div 10000 \<le> bal * 10000 div 10000"
    using assms by (intro zdiv_mono1 mult_left_mono) auto
  then show "bal * int n div 10000 \<le> bal"
    by simp
qed

lemma burnTreasuryShare_balance:
  "balance_of (burnTreasuryShare w bps) a =
     balance_of w a -
       (if a = treasury_addr
        then balance_of w treasury_addr * int (unat (min bps EconoMaxBurnBps)) div 10000 else 0)"
proof -
  have m: "(if EconoMaxBurnBps < bps then EconoMaxBurnBps else bps) = min bps EconoMaxBurnBps"
    by (auto simp: min_def)
  show ?thesis
    unfolding burnTreasuryShare_def Let_def m
    by (auto simp: balance_of_set_balance)
qed

lemma grantStimulus_balance [simp]: "balance_of (grantStimulus w bps) a = balance_of w a"
  by (simp add: grantStimulus_def Let_def)

end
