(* ===== verification/Precompile.thy ===== *)
theory Precompile
  imports Econo
begin

text \<open>
  What the precompiles of \<^verbatim>\<open>evm/precompiles.go\<close> have in common: the type of their entry point,
  the \<^verbatim>\<open>switch\<close> on the four-byte selector, and the contract that most of them keep: a call
  touches the storage of the contract's own account and moves no balance. The contract is the
  locale \<open>registry\<close>; each registry precompile interprets it.
\<close>

type_synonym call = "bytes \<Rightarrow> string \<Rightarrow> World \<Rightarrow> u64 \<Rightarrow> bytes outcome \<times> World"

text \<open>A Go \<^verbatim>\<open>switch\<close> over constants, with its default.\<close>

definition switch :: "(u32 \<times> 'a) list \<Rightarrow> 'a \<Rightarrow> u32 \<Rightarrow> 'a" where
  "switch table dflt sel = (case map_of table sel of Some f \<Rightarrow> f | None \<Rightarrow> dflt)"

lemma switch_cases:
  assumes "\<And>s f. (s, f) \<in> set table \<Longrightarrow> P f" and "P dflt"
  shows "P (switch table dflt sel)"
  using assms by (auto simp: switch_def split: option.splits dest: map_of_SomeD)

definition unknown_selector :: "string \<Rightarrow> call" where
  "unknown_selector msg input caller w b = (Err (Errorf msg), w)"

text \<open>A sequence of calls, each by its own caller at its own block.\<close>

fun run_calls :: "call \<Rightarrow> (bytes \<times> string \<times> u64) list \<Rightarrow> World \<Rightarrow> World" where
  "run_calls f [] w = w"
| "run_calls f ((input, caller, b) # cs) w = run_calls f cs (snd (f input caller w b))"

definition stays_in :: "string \<Rightarrow> World \<Rightarrow> World \<Rightarrow> bool" where
  "stays_in a w w' \<longleftrightarrow>
     (\<forall>x. x \<noteq> a \<longrightarrow> acct w' x = acct w x) \<and> (\<forall>x. balance_of w' x = balance_of w x)"

lemma stays_in_refl [simp, intro]: "stays_in a w w"
  by (simp add: stays_in_def)

lemma stays_in_trans: "stays_in a w w' \<Longrightarrow> stays_in a w' w'' \<Longrightarrow> stays_in a w w''"
  by (simp add: stays_in_def)

lemma stays_in_touch [simp]:
  "stays_in a w (touch w' x) = stays_in a w w'"
  "stays_in a (touch w x) w' = stays_in a w w'"
  by (simp_all add: stays_in_def)

lemma stays_in_sstore [simp]: "stays_in a w (sstore w' a k v) = stays_in a w w'"
  by (simp add: stays_in_def) (simp add: sstore_def acct_upd_acct)

lemma stays_in_AddLog [simp]: "stays_in a w (AddLog w' x t d b) = stays_in a w w'"
  by (simp add: stays_in_def)

lemma stays_in_econo [simp]: "stays_in a w (EconoAccrueStorage w' v b) = stays_in a w w'"
  by (simp add: stays_in_def EconoAccrueStorage_def Let_def)

text \<open>The contract of an entry point that is a \<^verbatim>\<open>switch\<close> over selectors.\<close>

lemma stays_in_switch:
  assumes "\<And>s f. (s, f) \<in> set table \<Longrightarrow> stays_in a w (snd (f input caller w b))"
    and "stays_in a w (snd (dflt input caller w b))"
  shows "stays_in a w (snd (switch table dflt sel input caller w b))"
  using assms by (rule switch_cases[where P = "\<lambda>f. stays_in a w (snd (f input caller w b))"])

text \<open>
  Several contracts write a big integer into a slot with \<^verbatim>\<open>writeSlot\<close> of \<^verbatim>\<open>evm/two_way.go\<close>, the twin
  of \<^verbatim>\<open>writeBigInt\<close>: the bytes of the absolute value, or a panic when there are more than 32 of
  them. \<open>putSlot\<close> is the assignment \<^verbatim>\<open>acc.Storage[k] = writeSlot(v)\<close> followed by the rest of the
  function.
\<close>

definition writeSlot :: "int \<Rightarrow> slot outcome" where
  "writeSlot v =
     (let b = big_bytes (nat \<bar>v\<bar>) in
      if 32 < length b then Panic else Ret (copy_at (32 - length b) b zero_slot))"

definition putSlot ::
  "World \<Rightarrow> string \<Rightarrow> slot \<Rightarrow> int \<Rightarrow> (World \<Rightarrow> 'a outcome \<times> World) \<Rightarrow> 'a outcome \<times> World" where
  "putSlot w a k v rest =
     (case writeSlot v of Ret sl \<Rightarrow> rest (sstore w a k sl) | _ \<Rightarrow> (Panic, w))"

lemma writeSlot_writeBigInt: "writeSlot v = writeBigInt (nat \<bar>v\<bar>)"
  by (simp add: writeSlot_def writeBigInt_def)

lemma putSlot_cases:
  "putSlot w a k v rest =
     (if nat \<bar>v\<bar> < 256 ^ 32 then rest (sstore w a k (fill_be 32 (nat \<bar>v\<bar>))) else (Panic, w))"
  by (simp add: putSlot_def writeSlot_writeBigInt writeBigInt_cases)

lemma putSlot_small:
  "0 \<le> v \<Longrightarrow> v < 256 ^ 32 \<Longrightarrow> putSlot w a k v rest = rest (sstore w a k (fill_be 32 (nat v)))"
  by (simp add: putSlot_cases nat_less_iff)

text \<open>A call that changes at most the storage of the accounts in \<open>A\<close> and no balance.\<close>

definition confined :: "string set \<Rightarrow> World \<Rightarrow> World \<Rightarrow> bool" where
  "confined A w w' \<longleftrightarrow>
     (\<forall>x. x \<notin> A \<longrightarrow> acct w' x = acct w x) \<and> (\<forall>x. balance_of w' x = balance_of w x)"

lemma confined_refl [simp, intro]: "confined A w w"
  by (simp add: confined_def)

lemma confined_trans: "confined A w w' \<Longrightarrow> confined A w' w'' \<Longrightarrow> confined A w w''"
  by (simp add: confined_def)

lemma confined_touch [simp]:
  "confined A w (touch w' x) = confined A w w'" "confined A (touch w x) w' = confined A w w'"
  by (simp_all add: confined_def)

lemma confined_sstore [intro]: "confined A w w' \<Longrightarrow> a \<in> A \<Longrightarrow> confined A w (sstore w' a k v)"
  by (auto simp: confined_def) (auto simp: sstore_def acct_upd_acct)

lemma confined_AddLog [simp]: "confined A w (AddLog w' x t d b) = confined A w w'"
  by (simp add: confined_def)

lemma confined_putSlot:
  assumes "confined A w w'" "a \<in> A"
    and "\<And>sl. confined A w (sstore w' a k sl) \<Longrightarrow> confined A w (snd (rest (sstore w' a k sl)))"
  shows "confined A w (snd (putSlot w' a k v rest))"
  using assms by (auto simp: putSlot_def split: outcome.split)

lemma stays_in_confined: "stays_in a w w' \<longleftrightarrow> confined {a} w w'"
  by (simp add: stays_in_def confined_def)

text \<open>
  Two contracts that a precompile may keep: it changes only accounts determined by the caller, or
  only fixed accounts. The second gives the first.
\<close>

locale caller_contract =
  fixes entry :: call and A :: "string \<Rightarrow> string set"
  assumes entry_caller: "confined (A caller) w (snd (entry input caller w b))"
begin

lemma calls_keep_balance: "balance_of (run_calls entry cs w) x = balance_of w x"
proof (induction cs arbitrary: w)
  case (Cons c cs)
  obtain input caller b where "c = (input, caller, b)"
    by (cases c)
  then show ?case
    using Cons entry_caller[of caller w input b] by (simp add: confined_def)
qed simp

lemma calls_keep_account:
  assumes "\<And>input caller b. (input, caller, b) \<in> set cs \<Longrightarrow> x \<notin> A caller"
  shows "acct (run_calls entry cs w) x = acct w x"
  using assms
proof (induction cs arbitrary: w)
  case (Cons c cs)
  obtain input caller b where c: "c = (input, caller, b)"
    by (cases c)
  then have "x \<notin> A caller"
    using Cons.prems[of input caller b] by simp
  then have "acct (snd (entry input caller w b)) x = acct w x"
    using entry_caller[of caller w input b] by (simp add: confined_def)
  moreover have "acct (run_calls entry cs w') x = acct w' x" for w'
    using Cons.prems by (intro Cons.IH) (meson list.set_intros(2))
  ultimately show ?case
    by (simp add: c)
qed simp

end

locale confined_contract =
  fixes entry :: call and A :: "string set"
  assumes entry_confined: "confined A w (snd (entry input caller w b))"
begin

lemma run_confined: "confined A w (run_calls entry cs w)"
proof (induction cs arbitrary: w)
  case (Cons c cs)
  obtain input caller b where "c = (input, caller, b)"
    by (cases c)
  then show ?case
    using confined_trans[OF entry_confined Cons.IH] by simp
qed simp

lemma run_keeps_balance: "balance_of (run_calls entry cs w) x = balance_of w x"
  using run_confined by (simp add: confined_def)

lemma run_keeps_slots: "x \<notin> A \<Longrightarrow> sload (run_calls entry cs w) x k = sload w x k"
  using run_confined[of w cs] by (simp add: confined_def sload_def)

end

sublocale confined_contract \<subseteq> by_caller: caller_contract entry "\<lambda>_. A"
  by unfold_locales (rule entry_confined)

locale registry =
  fixes entry :: call and addr :: string
  assumes entry_stays: "stays_in addr w (snd (entry input caller w b))"
begin

lemma registry_confined: "confined {addr} w (snd (entry input caller w b))"
  using entry_stays by (simp add: stays_in_confined)

end

sublocale registry \<subseteq> confined_contract entry "{addr}"
  by unfold_locales (rule registry_confined)

context registry
begin

lemma run_stays: "stays_in addr w (run_calls entry cs w)"
  using run_confined by (simp add: stays_in_confined)

lemma run_balance: "balance_of (run_calls entry cs w) x = balance_of w x"
  by (rule run_keeps_balance)

lemma run_other_storage: "x \<noteq> addr \<Longrightarrow> sload (run_calls entry cs w) x k = sload w x k"
  by (rule run_keeps_slots) simp

end

end
