(* ===== verification/Oracle_Precompiles.thy ===== *)
theory Oracle_Precompiles
  imports Precompile "HOL-Library.Multiset"
begin

text \<open>
  The oracle and signature precompiles 0x0C, 0x0E, 0x0F, 0x10, 0x11 and the rent calculator
  0x12 (\<^verbatim>\<open>evm/precompiles.go\<close>) with their helpers (\<^verbatim>\<open>evm/crypto_verify.go\<close>). The argument \<open>V\<close>
  of the definitions is \<^verbatim>\<open>ed25519.Verify(pub, msg, sig)\<close>.
\<close>

type_synonym sig_verify = "bytes \<Rightarrow> bytes \<Rightarrow> bytes \<Rightarrow> bool"

subsection \<open>Helpers\<close>

definition verifyEd25519Sig :: "sig_verify \<Rightarrow> bytes \<Rightarrow> bytes \<Rightarrow> bytes \<Rightarrow> go_error + bool" where
  "verifyEd25519Sig V pubkey32 msg sig =
     (if length pubkey32 \<noteq> 32 then Inl (Errorf ''verifyEd25519Sig: pubkey must be 32 bytes'')
      else if length sig \<noteq> 64 then Inl (Errorf ''verifyEd25519Sig: signature must be 64 bytes'')
      else Inr (V pubkey32 msg sig))"

definition addrFromPubKey :: "bytes \<Rightarrow> string" where
  "addrFromPubKey pub = take 40 (hex_encode pub)"

definition hashToBytes :: "bytes list \<Rightarrow> slot" where
  "hashToBytes parts = sha256 (concat parts)"

text \<open>The sorted copy is determined by its elements, so \<^verbatim>\<open>sort.Slice\<close> is \<open>sort\<close>.\<close>

definition medianBig :: "nat list \<Rightarrow> nat" where
  "medianBig vals = (if vals = [] then 0 else sort vals ! (length vals div 2))"

definition badged :: "World \<Rightarrow> bytes \<Rightarrow> bool" where
  "badged w pub = (case GetAccount w (addrFromPubKey pub) of None \<Rightarrow> False | Some acc \<Rightarrow> 2 \<le> DoxDevLevel acc)"

subsection \<open>0x0C: aggregation\<close>

record oracle_report =
  rep_pub :: bytes
  rep_val :: bytes
  rep_hash :: bytes
  rep_sig :: bytes

definition report_at :: "bytes \<Rightarrow> nat \<Rightarrow> oracle_report" where
  "report_at input i =
     (let off = 1 + i * 160 in
      \<lparr>rep_pub = slice off (off + 32) input, rep_val = slice (off + 32) (off + 64) input,
       rep_hash = slice (off + 64) (off + 96) input, rep_sig = slice (off + 96) (off + 160) input\<rparr>)"

definition report_ok :: "sig_verify \<Rightarrow> World \<Rightarrow> oracle_report \<Rightarrow> bool" where
  "report_ok V w r \<longleftrightarrow>
     badged w (rep_pub r) \<and> verifyEd25519Sig V (rep_pub r) (rep_hash r) (rep_sig r) = Inr True"

definition oracle_count :: "bytes \<Rightarrow> nat" where
  "oracle_count input = min 10 (unat (hd input))"

definition verified_values :: "sig_verify \<Rightarrow> bytes \<Rightarrow> World \<Rightarrow> nat list" where
  "verified_values V input w =
     map (\<lambda>r. be_nat (rep_val r)) (filter (report_ok V w) (map (report_at input) [0..<oracle_count input]))"

definition oracleAggregator :: "sig_verify \<Rightarrow> call" where
  "oracleAggregator V input caller w b =
     (if length input < 1 then (Err (Errorf ''OracleAggregator: empty input''), w)
      else if unat (hd input) < 1 then (Err (Errorf ''OracleAggregator: need at least 1 oracle''), w)
      else
        let count = oracle_count input in
        if length input < 1 + count * 160 then (Err (Errorf ''OracleAggregator: input too short''), w)
        else
          let values = verified_values V input w;
              confidence = (of_nat (length values * 100 div count) :: u8) in
          (Ret (confidence # fill_be 32 (medianBig values)), w))"

subsection \<open>0x0E, 0x0F, 0x10: signature checks\<close>

definition oracleVerifier :: "sig_verify \<Rightarrow> call" where
  "oracleVerifier V input caller w b =
     (if length input < 128 then (Err (Errorf ''OracleVerifier: input too short''), w)
      else if \<not> badged w (slice 0 32 input) then (Ret [0], w)
      else case verifyEd25519Sig V (slice 0 32 input) (slice 32 64 input) (slice 64 128 input) of
             Inl e \<Rightarrow> (Err e, w)
           | Inr ok \<Rightarrow> (Ret [if ok then 1 else 0], w))"

definition tlsVerifier :: "sig_verify \<Rightarrow> call" where
  "tlsVerifier V input caller w b =
     (if length input < 160 then (Err (Errorf ''TLSVerifier: input too short''), w)
      else
        let origin = slice 32 64 input in
        case verifyEd25519Sig V (slice 0 32 input) (origin @ slice 64 96 input) (slice 96 160 input) of
          Inl e \<Rightarrow> (Err e, w)
        | Inr ok \<Rightarrow> (Ret (if ok then 1 # origin else replicate 33 0), w))"

definition blsVerify :: "sig_verify \<Rightarrow> call" where
  "blsVerify V input caller w b =
     (if length input < 128 then (Err (Errorf ''AggregateSignatureVerify: input too short''), w)
      else case verifyEd25519Sig V (slice 0 32 input) (slice 32 64 input) (slice 64 128 input) of
             Inl e \<Rightarrow> (Err e, w)
           | Inr ok \<Rightarrow> (Ret [if ok then 1 else 0], w))"

subsection \<open>0x11: account recovery\<close>

definition recovery_msg :: "bytes \<Rightarrow> bytes" where
  "recovery_msg input = slice 0 32 input @ slice 32 64 input"

definition guardian_ok :: "sig_verify \<Rightarrow> bytes \<Rightarrow> World \<Rightarrow> nat \<Rightarrow> bool" where
  "guardian_ok V input w i \<longleftrightarrow>
     (let off = 64 + 96 * i; gPub = slice off (off + 32) input; sig = slice (off + 32) (off + 96) input in
      badged w gPub \<and> verifyEd25519Sig V gPub (recovery_msg input) sig = Inr True)"

definition owner_slot_key :: slot where
  "owner_slot_key = copy_at 0 (bytes_of_string ''owner-pubkey'') zero_slot"

definition accountRecovery :: "sig_verify \<Rightarrow> call" where
  "accountRecovery V input caller w b =
     (if length input < 352 then (Err (Errorf ''AccountRecovery: input too short''), w)
      else
        let valid = length (filter (guardian_ok V input w) [0..<3]) in
        if valid < 3 then (Err (Errorf ''AccountRecovery: insufficient guardian approvals''), w)
        else
          let newOwnerPub = slice 32 64 input;
              w' = sstore w (addrFromPubKey (slice 0 32 input)) owner_slot_key newOwnerPub in
          (Ret (take 20 (bytes_of_string (addrFromPubKey newOwnerPub)) @ [1]), w'))"

subsection \<open>0x12: rent calculation\<close>

definition stateRentCalc :: call where
  "stateRentCalc input caller w b =
     (if length input < 28 then (Err (Errorf ''StateRent: input too short''), w)
      else
        let contractSize = big_Uint64 (be_nat (slice 20 28 input));
            blocksSinceLast =
              (case GetAccount w (hex_encode (slice 0 20 input)) of
                 None \<Rightarrow> b
               | Some acc \<Rightarrow> if LastRentPayment acc > 0 then b - LastRentPayment acc else b);
            due = contractSize * blocksSinceLast div 1000 in
        (Ret (fill_be 32 (if due = 0 then 1 else unat due) @ u64be blocksSinceLast), w))"

lemmas oracle_calls =
  oracleAggregator_def oracleVerifier_def tlsVerifier_def blsVerify_def stateRentCalc_def

subsection \<open>The median\<close>

lemma medianBig_in: "vals \<noteq> [] \<Longrightarrow> medianBig vals \<in> set vals"
  using nth_mem[of "length vals div 2" "sort vals"] by (simp add: medianBig_def)

lemma nth_eq_filter_suffix:
  assumes "sorted xs" "i < length xs"
  shows "length xs - i \<le> length (filter (\<lambda>x. xs ! i \<le> x) xs)"
    and "Suc i \<le> length (filter (\<lambda>x. x \<le> xs ! i) xs)"
proof -
  have split: "xs = take i xs @ drop i xs" by simp
  have "filter (\<lambda>x. xs ! i \<le> x) (drop i xs) = drop i xs"
    using assms by (auto simp: filter_id_conv in_set_conv_nth sorted_iff_nth_mono)
  then have "length (filter (\<lambda>x. xs ! i \<le> x) xs) = length (filter (\<lambda>x. xs ! i \<le> x) (take i xs)) + (length xs - i)"
    by (metis split filter_append length_append length_drop)
  then show "length xs - i \<le> length (filter (\<lambda>x. xs ! i \<le> x) xs)"
    by simp
  have "filter (\<lambda>x. x \<le> xs ! i) (take (Suc i) xs) = take (Suc i) xs"
    using assms by (auto simp: filter_id_conv in_set_conv_nth sorted_iff_nth_mono)
  moreover have "xs = take (Suc i) xs @ drop (Suc i) xs" by simp
  ultimately have "length (filter (\<lambda>x. x \<le> xs ! i) xs) = Suc i + length (filter (\<lambda>x. x \<le> xs ! i) (drop (Suc i) xs))"
    using assms(2) by (metis filter_append length_append length_take min_absorb2 Suc_leI)
  then show "Suc i \<le> length (filter (\<lambda>x. x \<le> xs ! i) xs)"
    by simp
qed

lemma length_filter_sort: "length (filter P (sort vals)) = length (filter P vals)"
proof -
  have "size (mset (filter P (sort vals))) = size (mset (filter P vals))"
    by simp
  then show ?thesis
    by (simp only: size_mset)
qed

text \<open>If more than half of the values lie in an interval, so does the median.\<close>

lemma medianBig_majority:
  assumes "length vals < 2 * length (filter (\<lambda>v. lo \<le> v \<and> v \<le> hi) vals)"
  shows "lo \<le> medianBig vals \<and> medianBig vals \<le> hi"
proof -
  let ?s = "sort vals" and ?i = "length vals div 2" and ?m = "medianBig vals"
  have ne: "vals \<noteq> []" using assms by auto
  then have i: "?i < length ?s" by simp
  have m: "?m = ?s ! ?i" using ne by (simp add: medianBig_def)
  have bound: "length (filter P vals) + length (filter Q vals) \<le> length vals"
    if "\<And>v. P v \<Longrightarrow> \<not> Q v" for P Q :: "nat \<Rightarrow> bool"
    using that by (induction vals) (auto simp: le_SucI)
  show ?thesis
  proof (intro conjI; rule ccontr)
    assume "\<not> lo \<le> ?m"
    then have "Suc ?i \<le> length (filter (\<lambda>v. v \<le> ?m) vals)"
      using nth_eq_filter_suffix(2)[OF sorted_sort i] by (simp add: m length_filter_sort)
    moreover have "length (filter (\<lambda>v. v \<le> ?m) vals) + length (filter (\<lambda>v. lo \<le> v \<and> v \<le> hi) vals) \<le> length vals"
      using \<open>\<not> lo \<le> ?m\<close> by (intro bound) auto
    ultimately show False using assms by linarith
  next
    assume "\<not> ?m \<le> hi"
    then have "length vals - ?i \<le> length (filter (\<lambda>v. ?m \<le> v) vals)"
      using nth_eq_filter_suffix(1)[OF sorted_sort i] by (simp add: m length_filter_sort)
    moreover have "length (filter (\<lambda>v. ?m \<le> v) vals) + length (filter (\<lambda>v. lo \<le> v \<and> v \<le> hi) vals) \<le> length vals"
      using \<open>\<not> ?m \<le> hi\<close> by (intro bound) auto
    ultimately show False using assms by linarith
  qed
qed

lemma verified_values_bound: "length (verified_values V input w) \<le> oracle_count input"
  unfolding verified_values_def length_map by (rule order_trans[OF length_filter_le]) simp

lemma verified_values_value_bound:
  "v \<in> set (verified_values V input w) \<Longrightarrow> v < 256 ^ 32"
proof -
  assume "v \<in> set (verified_values V input w)"
  then obtain i where "v = be_nat (rep_val (report_at input i))"
    by (auto simp: verified_values_def)
  moreover have "length (rep_val (report_at input i)) \<le> 32"
    by (simp add: report_at_def Let_def)
  ultimately show ?thesis
    using be_nat_less[of "rep_val (report_at input i)"]
    by (metis (no_types, lifting) order_less_le_trans power_increasing one_le_numeral)
qed

lemma medianBig_bound: "medianBig (verified_values V input w) < 256 ^ 32"
  using medianBig_in[of "verified_values V input w"] verified_values_value_bound[of _ V input w]
  by (cases "verified_values V input w = []") (auto simp: medianBig_def)

end
