(* ===== verification/Dox_Badge.thy ===== *)
theory Dox_Badge
  imports Precompile
begin

text \<open>
  Precompile 0x13, the developer badge registry (\<^verbatim>\<open>evm/precompiles.go\<close>): one definition per
  selector and the dispatcher. A badge is one slot
  \<^verbatim>\<open>[level(1) | expiresAt(8) | revoked(1) | .. | issuedAt(8) at 17 | ..]\<close>; curators are slots
  keyed by prefix 0x30. A call returns its outcome and the world after it; as in the code, a
  failing call keeps the writes made before it failed.
\<close>

definition dox_addr :: string where "dox_addr = PrecompileAddrHex 0x13"

definition selDoxGetLevel :: u32 where "selDoxGetLevel = 0x9E9F1846"
definition selDoxIsVerified :: u32 where "selDoxIsVerified = 0x65274728"
definition selDoxHasMinLevel :: u32 where "selDoxHasMinLevel = 0x7B245AFA"
definition selDoxCuratorCount :: u32 where "selDoxCuratorCount = 0x5FCF5764"
definition selDoxTotalBadges :: u32 where "selDoxTotalBadges = 0xE55B5B05"
definition selDoxIssueBadge :: u32 where "selDoxIssueBadge = 0x0210186D"
definition selDoxRevokeBadge :: u32 where "selDoxRevokeBadge = 0xB911F9C7"
definition selDoxUpgradeBadge :: u32 where "selDoxUpgradeBadge = 0x215F898D"
definition selDoxAddCurator :: u32 where "selDoxAddCurator = 0x0F9BD4BD"
definition selDoxRemoveCurator :: u32 where "selDoxRemoveCurator = 0xD52CDF2D"
definition selDoxApply :: u32 where "selDoxApply = 0x1A2B3C4D"

lemmas dox_selectors =
  selDoxGetLevel_def selDoxIsVerified_def selDoxHasMinLevel_def selDoxCuratorCount_def
  selDoxTotalBadges_def selDoxIssueBadge_def selDoxRevokeBadge_def selDoxUpgradeBadge_def
  selDoxAddCurator_def selDoxRemoveCurator_def selDoxApply_def

definition badge_key :: "bytes \<Rightarrow> slot" where "badge_key target = storageKey (0x10 # target)"
definition curator_key :: "bytes \<Rightarrow> slot" where "curator_key who = storageKey (0x30 # who)"

text \<open>The curator test of the caller uses the bytes of the caller string.\<close>

definition is_curator :: "World \<Rightarrow> string \<Rightarrow> bool" where
  "is_curator w caller \<longleftrightarrow> readUint64 (sload w dox_addr (curator_key (bytes_of_string caller))) \<noteq> 0"

definition badge_data :: "World \<Rightarrow> bytes \<Rightarrow> slot" where
  "badge_data w target = sload w dox_addr (badge_key target)"

subsection \<open>Queries\<close>

definition dox_getLevel :: call where
  "dox_getLevel input caller w b =
     (let data = badge_data w (readAddress input 4) in
      if data = zero_slot then (Ret [0], w) else (Ret [data ! 0], w))"

definition dox_isVerified :: call where
  "dox_isVerified input caller w b =
     (let data = badge_data w (readAddress input 4) in
      if data = zero_slot then (Ret [0], w)
      else if data ! 0 = 0 then (Ret [0], w)
      else if data ! 9 \<noteq> 0 then (Ret [0], w)
      else let expiresAt = readUint64FromInput data 1 in
           if expiresAt > 0 \<and> b > expiresAt then (Ret [0], w) else (Ret [1], w))"

definition dox_hasMinLevel :: call where
  "dox_hasMinLevel input caller w b =
     (let minLevel = readByte input 24; data = badge_data w (readAddress input 4) in
      if data = zero_slot then (Ret [0], w)
      else if data ! 0 = 0 then (Ret [0], w)
      else if data ! 9 \<noteq> 0 then (Ret [0], w)
      else if data ! 0 < minLevel then (Ret [0], w) else (Ret [1], w))"

definition dox_curatorCount :: call where
  "dox_curatorCount input caller w b =
     (Ret (u64be (readUint64 (sload w dox_addr (writeUint64 1)))), w)"

definition dox_totalBadges :: call where
  "dox_totalBadges input caller w b =
     (Ret (u64be (readUint64 (sload w dox_addr (writeUint64 0)))), w)"

subsection \<open>Badges\<close>

definition badge_record :: "u8 \<Rightarrow> u64 \<Rightarrow> u64 \<Rightarrow> slot" where
  "badge_record level expiresAt issuedAt =
     copy_at 17 (u64be issuedAt) (copy_at 1 (u64be expiresAt) (zero_slot[0 := level]))"

definition dox_issueBadge :: call where
  "dox_issueBadge input caller w b =
     (let target = readAddress input 4; level = readByte input 24;
          validityPeriod = readUint64FromInput input 25 in
      if level < 1 \<or> level > 3 then (Ret [0], w)
      else if \<not> is_curator w caller then (Ret [0], w)
      else let existing = badge_data w target in
        if existing \<noteq> zero_slot \<and> existing ! 9 = 0 then (Ret [0], w)
        else
          let total = readUint64 (sload w dox_addr (writeUint64 0)) + 1;
              w1 = sstore w dox_addr (writeUint64 0) (writeUint64 total);
              expiresAt = (if validityPeriod > 0 then b + validityPeriod else 0);
              w2 = sstore w1 dox_addr (badge_key target) (badge_record level expiresAt b);
              tokenKey = storageKey (0x20 # big_bytes (unat total));
              w3 = sstore w2 dox_addr tokenKey (copy_at 0 target (sload w2 dox_addr tokenKey)) in
          (Ret [1], w3))"

definition dox_revokeBadge :: call where
  "dox_revokeBadge input caller w b =
     (let target = readAddress input 4 in
      if \<not> is_curator w caller then (Ret [0], w)
      else let data = badge_data w target in
        if data = zero_slot then (Ret [0], w)
        else if data ! 9 \<noteq> 0 then (Ret [0], w)
        else (Ret [1], sstore w dox_addr (badge_key target) (data[9 := 1])))"

definition dox_upgradeBadge :: call where
  "dox_upgradeBadge input caller w b =
     (let target = readAddress input 4; newLevel = readByte input 24 in
      if \<not> is_curator w caller then (Ret [0], w)
      else if newLevel < 1 \<or> newLevel > 3 then (Ret [0], w)
      else let data = badge_data w target in
        if data ! 0 = 0 then (Ret [0], w)
        else if data ! 9 \<noteq> 0 then (Ret [0], w)
        else if newLevel \<le> data ! 0 then (Ret [0], w)
        else (Ret [1], sstore w dox_addr (badge_key target) (data[0 := newLevel])))"

subsection \<open>Curators and applications\<close>

definition dox_addCurator :: call where
  "dox_addCurator input caller w b =
     (let target = readAddress input 4 in
      if \<not> is_curator w caller then (Ret [0], w)
      else if readUint64 (sload w dox_addr (curator_key target)) \<noteq> 0 then (Ret [0], w)
      else let w1 = sstore w dox_addr (curator_key target) (writeUint64 1);
               count = readUint64 (sload w1 dox_addr (writeUint64 1)) + 1 in
           (Ret [1], sstore w1 dox_addr (writeUint64 1) (writeUint64 count)))"

definition dox_removeCurator :: call where
  "dox_removeCurator input caller w b =
     (let target = readAddress input 4 in
      if \<not> is_curator w caller then (Ret [0], w)
      else if readUint64 (sload w dox_addr (curator_key target)) = 0 then (Ret [0], w)
      else let w1 = sstore w dox_addr (curator_key target) (writeUint64 0);
               count = readUint64 (sload w1 dox_addr (writeUint64 1)) in
           (Ret [1],
            if count > 3 then sstore w1 dox_addr (writeUint64 1) (writeUint64 (count - 1)) else w1))"

definition dox_apply :: call where
  "dox_apply input caller w b =
     (if length input < 84 then (Err (Errorf ''input too short''), w)
      else
        let cb = bytes_of_string caller;
            w1 = sstore w dox_addr (storageKey (0x40 # cb)) (copy_at 2 (readAddress input 68) zero_slot);
            w2 = sstore w1 dox_addr (storageKey (0x41 # cb)) (slice 4 36 input);
            w3 = sstore w2 dox_addr (storageKey (0x42 # cb)) (slice 36 68 input) in
        (Ret [1], w3))"

definition dox_table :: "(u32 \<times> call) list" where
  "dox_table =
    [(selDoxGetLevel, dox_getLevel), (selDoxIsVerified, dox_isVerified),
     (selDoxHasMinLevel, dox_hasMinLevel), (selDoxCuratorCount, dox_curatorCount),
     (selDoxTotalBadges, dox_totalBadges), (selDoxIssueBadge, dox_issueBadge),
     (selDoxRevokeBadge, dox_revokeBadge), (selDoxUpgradeBadge, dox_upgradeBadge),
     (selDoxAddCurator, dox_addCurator), (selDoxRemoveCurator, dox_removeCurator),
     (selDoxApply, dox_apply)]"

definition doxDevBadgePrecompile :: call where
  "doxDevBadgePrecompile input caller w b =
     switch dox_table (unknown_selector ''DoxDevBadge: unknown selector'') (selectorBytes input)
       input caller (touch w dox_addr) b"

lemmas dox_mutators =
  dox_issueBadge_def dox_revokeBadge_def dox_upgradeBadge_def dox_addCurator_def
  dox_removeCurator_def

lemmas dox_queries =
  dox_getLevel_def dox_isVerified_def dox_hasMinLevel_def dox_curatorCount_def dox_totalBadges_def

subsection \<open>Badge records\<close>

lemma badge_record_fields [simp, go_bytes]:
  "length (badge_record l e i) = 32"
  "badge_record l e i ! 0 = l"
  "badge_record l e i ! 9 = 0"
  "readUint64FromInput (badge_record l e i) 1 = e"
proof -
  show "length (badge_record l e i) = 32"
    by (simp add: badge_record_def)
  show "badge_record l e i ! 0 = l"
    by (simp add: badge_record_def nth_copy_at_below)
  show "badge_record l e i ! 9 = 0"
    by (simp add: badge_record_def nth_copy_at_below nth_copy_at_above zero_slot_def)
  have "slice 1 9 (badge_record l e i) = u64be e"
    by (simp add: badge_record_def slice_copy_at_below slice_copy_at_same)
  then show "readUint64FromInput (badge_record l e i) 1 = e"
    using be64_u64be[of e]
    by (simp add: readUint64FromInput_def badge_record_def be64_def big_Uint64_def)
qed

lemma badge_record_nonzero: "l \<noteq> 0 \<Longrightarrow> badge_record l e i \<noteq> zero_slot"
  using badge_record_fields(2)[of l e i] nth_replicate[of 0 32 "0 :: u8"]
  by (metis zero_slot_def zero_less_numeral)

subsection \<open>Effects\<close>

lemma issueBadge_badge_data:
  assumes "fst (dox_issueBadge input caller w b) = Ret [1]"
    and "distinct [writeUint64 0, badge_key (readAddress input 4),
           storageKey (0x20 # big_bytes (unat (readUint64 (sload w dox_addr (writeUint64 0)) + 1)))]"
  shows "badge_data (snd (dox_issueBadge input caller w b)) (readAddress input 4) =
           badge_record (readByte input 24)
             (if readUint64FromInput input 25 > 0 then b + readUint64FromInput input 25 else 0) b"
    and "readByte input 24 \<noteq> 0" "readByte input 24 \<le> 3" "is_curator w caller"
  using assms
  by (auto simp: dox_issueBadge_def Let_def badge_data_def sload_sstore split: if_splits)

lemma not_curator_unchanged:
  assumes "\<not> is_curator w caller"
  shows "dox_issueBadge input caller w b = (Ret [0], w)"
    and "dox_revokeBadge input caller w b = (Ret [0], w)"
    and "dox_upgradeBadge input caller w b = (Ret [0], w)"
    and "dox_addCurator input caller w b = (Ret [0], w)"
    and "dox_removeCurator input caller w b = (Ret [0], w)"
  using assms by (simp_all add: dox_mutators Let_def)

lemma is_curator_touch [simp]: "is_curator (touch w a) caller = is_curator w caller"
  by (simp add: is_curator_def)

lemma is_curator_sstore_other:
  "curator_key (bytes_of_string caller) \<noteq> k \<Longrightarrow>
   is_curator (sstore w dox_addr k v) caller = is_curator w caller"
  by (auto simp: is_curator_def sload_sstore)

lemma queries_frame:
  "snd (dox_getLevel input caller w b) = w"
  "snd (dox_isVerified input caller w b) = w"
  "snd (dox_hasMinLevel input caller w b) = w"
  "snd (dox_curatorCount input caller w b) = w"
  "snd (dox_totalBadges input caller w b) = w"
  by (simp_all add: dox_queries Let_def)

text \<open>No selector of the badge registry panics, whatever the calldata.\<close>

lemma dox_case_no_panic:
  "\<not> is_panic (fst (dox_getLevel input caller w b))"
  "\<not> is_panic (fst (dox_isVerified input caller w b))"
  "\<not> is_panic (fst (dox_hasMinLevel input caller w b))"
  "\<not> is_panic (fst (dox_curatorCount input caller w b))"
  "\<not> is_panic (fst (dox_totalBadges input caller w b))"
  "\<not> is_panic (fst (dox_issueBadge input caller w b))"
  "\<not> is_panic (fst (dox_revokeBadge input caller w b))"
  "\<not> is_panic (fst (dox_upgradeBadge input caller w b))"
  "\<not> is_panic (fst (dox_addCurator input caller w b))"
  "\<not> is_panic (fst (dox_removeCurator input caller w b))"
  "\<not> is_panic (fst (dox_apply input caller w b))"
  by (simp_all add: dox_queries dox_mutators dox_apply_def Let_def)

lemma dox_no_panic: "\<not> is_panic (fst (doxDevBadgePrecompile input caller w b))"
  unfolding doxDevBadgePrecompile_def
  by (rule switch_cases[where P = "\<lambda>f. \<not> is_panic (fst (f input caller (touch w dox_addr) b))"])
    (auto simp: dox_table_def unknown_selector_def dox_case_no_panic)

lemma dox_stays:
  "stays_in dox_addr w (snd (dox_issueBadge input caller w b))"
  "stays_in dox_addr w (snd (dox_revokeBadge input caller w b))"
  "stays_in dox_addr w (snd (dox_upgradeBadge input caller w b))"
  "stays_in dox_addr w (snd (dox_addCurator input caller w b))"
  "stays_in dox_addr w (snd (dox_removeCurator input caller w b))"
  "stays_in dox_addr w (snd (dox_apply input caller w b))"
  by (auto simp: dox_mutators dox_apply_def Let_def)

interpretation dox: registry doxDevBadgePrecompile dox_addr
proof unfold_locales
  fix w input caller b
  have "stays_in dox_addr (touch w dox_addr) (snd (doxDevBadgePrecompile input caller w b))"
    unfolding doxDevBadgePrecompile_def
    by (rule stays_in_switch) (auto simp: dox_table_def unknown_selector_def queries_frame dox_stays[where w = "touch w dox_addr", simplified])
  then show "stays_in dox_addr w (snd (doxDevBadgePrecompile input caller w b))"
    by simp
qed

end
