(* ===== verification/Oracle_Scheduler.thy ===== *)
theory Oracle_Scheduler
  imports Dox_Badge
begin

text \<open>
  The time-execution engine and the professional badges (\<^verbatim>\<open>evm/oracle_scheduler.go\<close>) and
  precompile 0x0D that creates tasks (\<^verbatim>\<open>evm/precompiles.go\<close>). The engine keeps its tasks in
  memory; only the task counter lives in contract storage.
\<close>

record ScheduledTask =
  task_ID :: slot
  task_Caller :: string
  FeedID :: slot
  Interval :: u64
  NextBlock :: u64
  LastExecuted :: u64
  ExecutionCount :: u64
  MaxExecutions :: u64
  task_GasPrice :: u64
  Reward :: u64
  Active :: bool

record TimeExecution =
  te_Tasks :: "slot \<rightharpoonup> ScheduledTask"
  TaskOrder :: "slot list"
  te_State :: World

definition sched_addr :: string where "sched_addr = PrecompileAddrHex 0x0D"
definition teSlotTaskCount :: u8 where "teSlotTaskCount = 0x01"
definition task_count_key :: slot where "task_count_key = storageKey [teSlotTaskCount]"

definition NewTimeExecution :: "World \<Rightarrow> TimeExecution" where
  "NewTimeExecution w = \<lparr>te_Tasks = Map.empty, TaskOrder = [], te_State = w\<rparr>"

subsection \<open>The task counter\<close>

definition getTaskCount :: "World \<Rightarrow> u64" where
  "getTaskCount w = readUint64 (sload w sched_addr task_count_key)"

definition incrementTaskCount :: "World \<Rightarrow> World" where
  "incrementTaskCount w =
     sstore w sched_addr task_count_key (fill_be 32 (unat (getTaskCount w + 1)))"

subsection \<open>Scheduling, cancelling, executing\<close>

definition task_id_input :: "string \<Rightarrow> slot \<Rightarrow> u64 \<Rightarrow> u64 \<Rightarrow> string" where
  "task_id_input caller feedID startBlock n =
     caller @ '':'' @ hex_encode feedID @ '':'' @ dec_string (unat startBlock) @ '':'' @ dec_string (unat n)"

definition ScheduleTask ::
  "TimeExecution \<Rightarrow> string \<Rightarrow> slot \<Rightarrow> u64 \<Rightarrow> u64 \<Rightarrow> u64 \<Rightarrow> u64 \<Rightarrow> (slot \<times> u64) outcome \<times> TimeExecution" where
  "ScheduleTask te caller feedID interval startBlock maxExecutions reward =
     (if interval < 100 then (Err (Errorf ''interval must be >= 100 blocks''), te)
      else
        let w = touch (te_State te) sched_addr;
            taskID = sha256 (bytes_of_string
                       (task_id_input caller feedID startBlock (getTaskCount w + 1)));
            task = \<lparr>task_ID = taskID, task_Caller = caller, FeedID = feedID, Interval = interval,
                    NextBlock = startBlock, LastExecuted = 0, ExecutionCount = 0,
                    MaxExecutions = maxExecutions, task_GasPrice = 0, Reward = reward, Active = True\<rparr> in
        (Ret (taskID, NextBlock task),
         te\<lparr>te_Tasks := (te_Tasks te)(taskID \<mapsto> task), TaskOrder := TaskOrder te @ [taskID],
            te_State := incrementTaskCount w\<rparr>))"

definition CancelTask :: "TimeExecution \<Rightarrow> slot \<Rightarrow> string \<Rightarrow> go_error option \<times> TimeExecution" where
  "CancelTask te taskID caller =
     (case te_Tasks te taskID of
        None \<Rightarrow> (Some (Errorf ''task not found''), te)
      | Some task \<Rightarrow>
          if task_Caller task \<noteq> caller then (Some (Errorf ''only caller can cancel''), te)
          else (None, te\<lparr>te_Tasks := (te_Tasks te)(taskID \<mapsto> task\<lparr>Active := False\<rparr>)\<rparr>))"

text \<open>One turn of the loop of \<^verbatim>\<open>ExecuteDueTasks\<close>; a listed task that is missing is a nil pointer.\<close>

definition execute_due_one ::
  "u64 \<Rightarrow> slot \<Rightarrow> TimeExecution \<Rightarrow> (slot list \<times> TimeExecution) outcome" where
  "execute_due_one b taskID te =
     (case te_Tasks te taskID of
        None \<Rightarrow> Panic
      | Some task \<Rightarrow>
          if \<not> Active task then Ret ([], te)
          else if MaxExecutions task > 0 \<and> MaxExecutions task \<le> ExecutionCount task
          then Ret ([], te\<lparr>te_Tasks := (te_Tasks te)(taskID \<mapsto> task\<lparr>Active := False\<rparr>)\<rparr>)
          else if NextBlock task \<le> b then
            let task' = task\<lparr>ExecutionCount := ExecutionCount task + 1, LastExecuted := b,
                             NextBlock := b + Interval task\<rparr>;
                w = te_State te;
                w' = (if Reward task > 0 then add_balance w (task_Caller task) (int (unat (Reward task)))
                      else w) in
            Ret ([taskID], te\<lparr>te_Tasks := (te_Tasks te)(taskID \<mapsto> task'), te_State := w'\<rparr>)
          else Ret ([], te))"

fun execute_due :: "u64 \<Rightarrow> slot list \<Rightarrow> TimeExecution \<Rightarrow> (slot list \<times> TimeExecution) outcome" where
  "execute_due b [] te = Ret ([], te)"
| "execute_due b (i # is) te =
     (case execute_due_one b i te of
        Ret (done1, te1) \<Rightarrow>
          (case execute_due b is te1 of
             Ret (done2, te2) \<Rightarrow> Ret (done1 @ done2, te2)
           | Err e \<Rightarrow> Err e | Panic \<Rightarrow> Panic)
      | Err e \<Rightarrow> Err e | Panic \<Rightarrow> Panic)"

definition ExecuteDueTasks :: "TimeExecution \<Rightarrow> u64 \<Rightarrow> (slot list \<times> TimeExecution) outcome" where
  "ExecuteDueTasks te b = execute_due b (TaskOrder te) te"

definition GetTask :: "TimeExecution \<Rightarrow> slot \<Rightarrow> ScheduledTask option" where
  "GetTask te taskID = te_Tasks te taskID"

definition GetActiveTasks :: "TimeExecution \<Rightarrow> ScheduledTask list" where
  "GetActiveTasks te =
     filter Active (map (\<lambda>i. the (te_Tasks te i)) (filter (\<lambda>i. te_Tasks te i \<noteq> None) (TaskOrder te)))"

definition GetTasksDueAt :: "TimeExecution \<Rightarrow> u64 \<Rightarrow> ScheduledTask list" where
  "GetTasksDueAt te b = filter (\<lambda>t. NextBlock t = b) (GetActiveTasks te)"

subsection \<open>Precompile 0x0D\<close>

definition oracleScheduler :: call where
  "oracleScheduler input caller w b =
     (if length input < 56 then (Err (Errorf ''OracleScheduler: input too short''), w)
      else
        let interval = big_Uint64 (be_nat (slice 0 8 input));
            start0 = big_Uint64 (be_nat (slice 8 16 input));
            feedID = slice 16 48 input;
            maxExecutions = big_Uint64 (be_nat (slice 48 56 input));
            reward = (if 64 \<le> length input then big_Uint64 (be_nat (slice 56 64 input)) else 0) in
        if interval < 100 then (Err (Errorf ''OracleScheduler: interval too short''), w)
        else
          let startBlock = (if start0 < b then b else start0) in
          case ScheduleTask (NewTimeExecution w) caller feedID interval startBlock maxExecutions reward of
            (Ret (taskID, nextBlock), te) \<Rightarrow> (Ret (taskID @ u64be nextBlock), te_State te)
          | (Err e, te) \<Rightarrow> (Err e, te_State te)
          | (Panic, te) \<Rightarrow> (Panic, te_State te))"

subsection \<open>Professional badges\<close>

definition professional_rate :: "string \<Rightarrow> u64 option" where
  "professional_rate =
     [''geologist'' \<mapsto> 100, ''lawyer'' \<mapsto> 80, ''surveyor'' \<mapsto> 60, ''engineer'' \<mapsto> 70]"

definition CalculateProfessionalReward :: "string \<Rightarrow> u64" where
  "CalculateProfessionalReward profession =
     (case professional_rate profession of None \<Rightarrow> 0 | Some r \<Rightarrow> r)"

definition profRewardKey :: "string \<Rightarrow> slot" where
  "profRewardKey oracle = storageKey (0x13 # bytes_of_string oracle)"

definition profApplicationKey :: "string \<Rightarrow> string \<Rightarrow> slot" where
  "profApplicationKey oracle profession =
     storageKey (0x15 # bytes_of_string oracle @ bytes_of_string profession)"

definition ApplyForProfessionalBadge ::
  "string \<Rightarrow> slot \<Rightarrow> World \<Rightarrow> string \<Rightarrow> go_error option \<times> World" where
  "ApplyForProfessionalBadge profession licenseHash w caller =
     (if profession \<notin> set [''geologist'', ''lawyer'', ''surveyor'', ''engineer'']
      then (Some (Errorf ''ProfessionalBadge: invalid profession''), w)
      else if (case GetAccount w caller of None \<Rightarrow> True | Some acc \<Rightarrow> DoxDevLevel acc < 2)
      then (Some (Errorf ''ProfessionalBadge: caller not verified (need Dox_Dev 2+)''), w)
      else (None, sstore w sched_addr (profApplicationKey caller profession) (licenseHash[31 := 1])))"

definition VerifyProfessionalBadge ::
  "string \<Rightarrow> World \<Rightarrow> string \<Rightarrow> (go_error + bool) \<times> World" where
  "VerifyProfessionalBadge profession w caller =
     (if GetAccount w dox_addr = None
      then (Inl (Errorf ''ProfessionalBadge: DoxDevBadge contract not found''), w)
      else if \<not> is_curator w caller
      then (Inl (Errorf ''ProfessionalBadge: only curators can verify''), w)
      else
        let rewardRate = CalculateProfessionalReward profession in
        if rewardRate = 0 then (Inl (Errorf ''ProfessionalBadge: invalid profession''), w)
        else
          let w1 = sstore w sched_addr (storageKey (0x16 # bytes_of_string caller))
                     (sha256 (bytes_of_string profession));
              w2 = sstore w1 sched_addr (profRewardKey caller) (fill_be 32 (unat rewardRate)) in
          (Inr True, w2))"

subsection \<open>The invariant of the engine\<close>

text \<open>
  Every listed task exists and none has run more often than its bound allows.
\<close>

definition te_inv :: "TimeExecution \<Rightarrow> bool" where
  "te_inv te \<longleftrightarrow>
     set (TaskOrder te) \<subseteq> dom (te_Tasks te)
     \<and> (\<forall>i t. te_Tasks te i = Some t \<longrightarrow> MaxExecutions t > 0 \<longrightarrow> ExecutionCount t \<le> MaxExecutions t)"

lemma te_inv_New: "te_inv (NewTimeExecution w)"
  by (simp add: te_inv_def NewTimeExecution_def)

lemma te_inv_Schedule: "te_inv te \<Longrightarrow> te_inv (snd (ScheduleTask te c f i s m r))"
  by (auto simp: te_inv_def ScheduleTask_def Let_def)

lemma te_inv_Cancel: "te_inv te \<Longrightarrow> te_inv (snd (CancelTask te i c))"
  by (auto simp: te_inv_def CancelTask_def split: option.splits)

lemma u64_inc_le: "(a :: u64) < m \<Longrightarrow> a + 1 \<le> m"
  by (rule inc_le)

lemma te_inv_execute_one:
  assumes "te_inv te" "i \<in> dom (te_Tasks te)"
  shows "\<exists>done1 te'. execute_due_one b i te = Ret (done1, te') \<and> te_inv te'
           \<and> dom (te_Tasks te') = dom (te_Tasks te)"
proof -
  from assms(2) obtain t where t: "te_Tasks te i = Some t"
    by auto
  have count: "ExecutionCount t + 1 \<le> MaxExecutions t"
    if "MaxExecutions t > 0" "\<not> MaxExecutions t \<le> ExecutionCount t"
    using that by (intro u64_inc_le) simp
  show ?thesis
    using assms t count
    by (auto simp: execute_due_one_def te_inv_def Let_def)
qed

lemma te_inv_execute:
  assumes "te_inv te" "set is \<subseteq> dom (te_Tasks te)"
  shows "\<exists>done1 te'. execute_due b is te = Ret (done1, te') \<and> te_inv te'"
  using assms
proof (induction "is" arbitrary: te)
  case (Cons i "is")
  then obtain d te1 where one: "execute_due_one b i te = Ret (d, te1)" "te_inv te1"
    "dom (te_Tasks te1) = dom (te_Tasks te)"
    using te_inv_execute_one[of te i b] by auto
  have "set is \<subseteq> dom (te_Tasks te1)"
    using Cons.prems one(3) by auto
  from Cons.IH[OF one(2) this]
  obtain d' te2 where "execute_due b is te1 = Ret (d', te2)" "te_inv te2"
    by blast
  with one show ?case by simp
qed simp

lemma NewTimeExecution_idle: "ExecuteDueTasks (NewTimeExecution w) b = Ret ([], NewTimeExecution w)"
  by (simp add: ExecuteDueTasks_def NewTimeExecution_def)

end
