(* ===== verification/Bijo.thy ===== *)
theory Bijo
  imports Precompile
begin

text \<open>
  Precompile 0x14, the BIJO token (\<^verbatim>\<open>evm/precompiles.go\<close>): balance, supply and allowance
  queries, the transfer switch, and the three transfer selectors that only report an error.
\<close>

definition bijo_addr :: string where "bijo_addr = PrecompileAddrHex 0x14"

definition BijoSupply :: nat where "BijoSupply = 369000000 * 10 ^ 18"

definition selBijoBalanceOf :: u32 where "selBijoBalanceOf = 0x5B46F8F6"
definition selBijoTotalSupply :: u32 where "selBijoTotalSupply = 0xA368022E"
definition selBijoTransfer :: u32 where "selBijoTransfer = 0x3B88EF57"
definition selBijoApprove :: u32 where "selBijoApprove = 0x9F0BB8A9"
definition selBijoTransferFrom :: u32 where "selBijoTransferFrom = 0x4B6685E7"
definition selBijoAllowance :: u32 where "selBijoAllowance = 0xD864B7CA"
definition selBijoEnableTransfers :: u32 where "selBijoEnableTransfers = 0xAD478CDA"
definition selBijoTransfersEnabled :: u32 where "selBijoTransfersEnabled = 0x2F30833B"

lemmas bijo_selectors =
  selBijoBalanceOf_def selBijoTotalSupply_def selBijoTransfer_def selBijoApprove_def
  selBijoTransferFrom_def selBijoAllowance_def selBijoEnableTransfers_def
  selBijoTransfersEnabled_def

definition bijo_balanceOf :: call where
  "bijo_balanceOf input caller w b =
     (Ret (fill_be 32 (readBigInt (sload w bijo_addr (storageKey (0x10 # readAddress input 4))))), w)"

definition bijo_totalSupply :: call where
  "bijo_totalSupply input caller w b =
     (let supply = readBigInt (sload w bijo_addr (writeUint64 0)) in
      (Ret (fill_be 32 (if supply = 0 then BijoSupply else supply)), w))"

definition bijo_needs_caller :: "string \<Rightarrow> call" where
  "bijo_needs_caller msg input caller w b = (Err (Errorf msg), w)"

definition bijo_allowance :: call where
  "bijo_allowance input caller w b =
     (Ret (fill_be 32 (readBigInt (sload w bijo_addr
        (storageKey (0x20 # readAddress input 4 @ readAddress input 24))))), w)"

definition bijo_enableTransfers :: call where
  "bijo_enableTransfers input caller w b =
     (if readUint64 (sload w bijo_addr (writeUint64 1)) \<noteq> 0 then (Ret [0], w)
      else (Ret [1], sstore w bijo_addr (writeUint64 1) (writeUint64 1)))"

definition bijo_transfersEnabled :: call where
  "bijo_transfersEnabled input caller w b =
     (if readUint64 (sload w bijo_addr (writeUint64 1)) \<noteq> 0 then (Ret [1], w) else (Ret [0], w))"

definition bijo_table :: "(u32 \<times> call) list" where
  "bijo_table =
    [(selBijoBalanceOf, bijo_balanceOf), (selBijoTotalSupply, bijo_totalSupply),
     (selBijoTransfer, bijo_needs_caller ''BIJO transfer requires caller context''),
     (selBijoApprove, bijo_needs_caller ''BIJO approve requires caller context''),
     (selBijoTransferFrom, bijo_needs_caller ''BIJO transferFrom requires caller context''),
     (selBijoAllowance, bijo_allowance), (selBijoEnableTransfers, bijo_enableTransfers),
     (selBijoTransfersEnabled, bijo_transfersEnabled)]"

definition bijoPrecompile :: call where
  "bijoPrecompile input caller w b =
     switch bijo_table (unknown_selector ''BIJO: unknown selector'') (selectorBytes input)
       input caller (touch w bijo_addr) b"

lemmas bijo_cases =
  bijo_balanceOf_def bijo_totalSupply_def bijo_needs_caller_def bijo_allowance_def
  bijo_enableTransfers_def bijo_transfersEnabled_def unknown_selector_def Let_def

interpretation bijo: registry bijoPrecompile bijo_addr
proof unfold_locales
  fix w input caller b
  have "stays_in bijo_addr (touch w bijo_addr) (snd (bijoPrecompile input caller w b))"
    unfolding bijoPrecompile_def
    by (rule stays_in_switch) (auto simp: bijo_table_def bijo_cases)
  then show "stays_in bijo_addr w (snd (bijoPrecompile input caller w b))"
    by simp
qed

text \<open>
  Token balances: no call of the precompile changes the slot of any holder. The only slot it
  writes is the transfer switch, slot 1.
\<close>

lemma bijo_writes_only_switch:
  assumes "k \<noteq> writeUint64 1"
  shows "sload (snd (bijoPrecompile input caller w b)) bijo_addr k = sload w bijo_addr k"
proof -
  have "sload (snd (switch bijo_table (unknown_selector ''BIJO: unknown selector'')
          (selectorBytes input) input caller (touch w bijo_addr) b)) bijo_addr k = sload w bijo_addr k"
    using assms
    by (intro switch_cases[where P = "\<lambda>f. sload (snd (f input caller (touch w bijo_addr) b)) bijo_addr k
          = sload w bijo_addr k"])
      (auto simp: bijo_table_def bijo_cases sload_sstore)
  then show ?thesis
    by (simp add: bijoPrecompile_def)
qed

lemma bijo_run_writes_only_switch:
  assumes "k \<noteq> writeUint64 1"
  shows "sload (run_calls bijoPrecompile cs w) bijo_addr k = sload w bijo_addr k"
proof (induction cs arbitrary: w)
  case (Cons c cs)
  obtain input caller b where "c = (input, caller, b)"
    by (cases c)
  then show ?case
    using Cons.IH bijo_writes_only_switch[OF assms] by simp
qed simp

end
