(* ===== verification/Bitcoin_Registry.thy ===== *)
theory Bitcoin_Registry
  imports Precompile
begin

text \<open>
  Precompile 0x16, the bitcoin commitment registry (\<^verbatim>\<open>evm/precompiles.go\<close>): attestations
  credit a holder and the committed total, withdrawal requests add to the withdrawn total.
\<close>

definition btc_addr :: string where "btc_addr = PrecompileAddrHex 0x16"

definition selBTCGetBalance :: u32 where "selBTCGetBalance = 0x2AFE5AE4"
definition selBTCGetTotalCommitted :: u32 where "selBTCGetTotalCommitted = 0x3ABFEF65"
definition selBTCGetTotalWithdrawn :: u32 where "selBTCGetTotalWithdrawn = 0x4A77D80B"
definition selBTCAttestCommitment :: u32 where "selBTCAttestCommitment = 0xF237C0C2"
definition selBTCRequestWithdrawal :: u32 where "selBTCRequestWithdrawal = 0x1D772727"

definition btc_bal_key :: "bytes \<Rightarrow> slot" where "btc_bal_key user = storageKey (0x10 # user)"
definition btc_utxo_key :: "bytes \<Rightarrow> slot" where "btc_utxo_key utxo = storageKey (0x20 # utxo)"

definition btc_committed :: "World \<Rightarrow> nat" where
  "btc_committed w = readBigInt (sload w btc_addr (writeUint64 0))"

definition btc_withdrawn :: "World \<Rightarrow> nat" where
  "btc_withdrawn w = readBigInt (sload w btc_addr (writeUint64 1))"

definition btc_getBalance :: call where
  "btc_getBalance input caller w b =
     (Ret (fill_be 32 (readBigInt (sload w btc_addr (btc_bal_key (readAddress input 4))))), w)"

definition btc_getTotalCommitted :: call where
  "btc_getTotalCommitted input caller w b = (Ret (fill_be 32 (btc_committed w)), w)"

definition btc_getTotalWithdrawn :: call where
  "btc_getTotalWithdrawn input caller w b = (Ret (fill_be 32 (btc_withdrawn w)), w)"

definition btc_attest :: call where
  "btc_attest input caller w b =
     (if length input < 4 + 32 + 32 + 20 then (Err (Errorf ''BitcoinRegistry: input too short''), w)
      else
        let utxo = slice 4 36 input; amount = readUint256 input 36; target = readAddress input 68 in
        if amount < 10000 then (Ret [0], w)
        else if amount > 100000000 then (Ret [0], w)
        else if readUint64 (sload w btc_addr (btc_utxo_key utxo)) \<noteq> 0 then (Ret [0], w)
        else
          case writeBigInt (readBigInt (sload w btc_addr (btc_bal_key target)) + amount) of
            Ret balSlot \<Rightarrow>
              (let w1 = sstore w btc_addr (btc_bal_key target) balSlot;
                   utxoS = copy_at 0 target (sload w1 btc_addr (btc_utxo_key utxo));
                   w2 = sstore w1 btc_addr (btc_utxo_key utxo) utxoS in
               case writeBigInt (btc_committed w2 + amount) of
                 Ret totalSlot \<Rightarrow> (Ret [1], sstore w2 btc_addr (writeUint64 0) totalSlot)
               | _ \<Rightarrow> (Panic, w2))
          | _ \<Rightarrow> (Panic, w))"

definition btc_requestWithdrawal :: call where
  "btc_requestWithdrawal input caller w b =
     (let amount = readUint256 input 4 in
      if amount = 0 then (Err (Errorf ''BitcoinRegistry: amount must be > 0''), w)
      else if amount > 1000000000 then (Err (Errorf ''BitcoinRegistry: amount too large''), w)
      else case writeBigInt (btc_withdrawn w + amount) of
             Ret sl \<Rightarrow>
               (Ret (sha256 (bytes_of_string ''withdrawal:'' @ take (min (length input) 100) input)),
                sstore w btc_addr (writeUint64 1) sl)
           | _ \<Rightarrow> (Panic, w))"

definition btc_table :: "(u32 \<times> call) list" where
  "btc_table =
    [(selBTCGetBalance, btc_getBalance), (selBTCGetTotalCommitted, btc_getTotalCommitted),
     (selBTCGetTotalWithdrawn, btc_getTotalWithdrawn), (selBTCAttestCommitment, btc_attest),
     (selBTCRequestWithdrawal, btc_requestWithdrawal)]"

definition bitcoinRegistryPrecompile :: call where
  "bitcoinRegistryPrecompile input caller w b =
     switch btc_table (unknown_selector ''BitcoinRegistry: unknown selector'') (selectorBytes input)
       input caller (touch w btc_addr) b"

lemmas btc_queries = btc_getBalance_def btc_getTotalCommitted_def btc_getTotalWithdrawn_def

interpretation btc: registry bitcoinRegistryPrecompile btc_addr
proof unfold_locales
  fix w input caller b
  have "stays_in btc_addr (touch w btc_addr) (snd (bitcoinRegistryPrecompile input caller w b))"
    unfolding bitcoinRegistryPrecompile_def
    by (rule stays_in_switch)
      (auto simp: btc_table_def unknown_selector_def btc_queries btc_attest_def
        btc_requestWithdrawal_def Let_def split: outcome.splits)
  then show "stays_in btc_addr w (snd (bitcoinRegistryPrecompile input caller w b))"
    by simp
qed

subsection \<open>A successful attestation\<close>

text \<open>
  Unfolded once, for all the lemmas about attestations: the guards that held and the three
  slots that were written.
\<close>

lemma btc_attest_success:
  assumes "fst (btc_attest input caller w b) = Ret [1]"
    and "btc_utxo_key (slice 4 36 input) \<noteq> writeUint64 0"
    and "btc_bal_key (readAddress input 68) \<noteq> writeUint64 0"
  defines "amount \<equiv> readUint256 input 36" and "bk \<equiv> btc_bal_key (readAddress input 68)"
    and "uk \<equiv> btc_utxo_key (slice 4 36 input)"
  shows "88 \<le> length input" "10000 \<le> amount" "amount \<le> 100000000"
    and "readUint64 (sload w btc_addr uk) = 0"
    and "readBigInt (sload w btc_addr bk) + amount < 256 ^ 32"
    and "btc_committed w + amount < 256 ^ 32"
    and "snd (btc_attest input caller w b) =
           sstore (sstore (sstore w btc_addr bk (fill_be 32 (readBigInt (sload w btc_addr bk) + amount)))
             btc_addr uk (copy_at 0 (readAddress input 68)
                (if uk = bk then fill_be 32 (readBigInt (sload w btc_addr bk) + amount)
                 else sload w btc_addr uk)))
             btc_addr (writeUint64 0) (fill_be 32 (btc_committed w + amount))"
  using assms
  by (auto simp: btc_attest_def Let_def writeBigInt_cases btc_committed_def sload_sstore
      split: if_splits)

end
