(* ===== verification/Storage_Endowment.thy ===== *)
theory Storage_Endowment
  imports Precompile
begin

text \<open>
  Precompile 0x17, the storage endowment (\<^verbatim>\<open>evm/precompiles.go\<close>): operator registration with
  a stake, storage proofs, and the halving schedule of the epoch allocation.
\<close>

definition se_addr :: string where "se_addr = PrecompileAddrHex 0x17"

definition selSERegisterOperator :: u32 where "selSERegisterOperator = 0x13E4F0A2"
definition selSEUnregisterOperator :: u32 where "selSEUnregisterOperator = 0x24B5D1C3"
definition selSESubmitProof :: u32 where "selSESubmitProof = 0xE4E68365"
definition selSEGetOperatorInfo :: u32 where "selSEGetOperatorInfo = 0x35C6E2D4"
definition selSEGetOperatorCount :: u32 where "selSEGetOperatorCount = 0xA8A012F7"
definition selSEGetCurrentEpoch :: u32 where "selSEGetCurrentEpoch = 0xC5BAF020"
definition selSECalculateEpochAllocation :: u32 where "selSECalculateEpochAllocation = 0xA7559A16"
definition selSEGetOperators :: u32 where "selSEGetOperators = 0x2D2DC686"

text \<open>
  \<^verbatim>\<open>copy(callerAddr[:], callerBytes[2:22])\<close> or \<^verbatim>\<open>callerBytes[:20]\<close>: the first twenty bytes of
  the caller string after an optional \<^verbatim>\<open>0x\<close>. A caller with fewer bytes is read from the
  32-byte buffer of the string conversion, that is, padded with zeros.
\<close>

definition se_callerAddr :: "string \<Rightarrow> bytes" where
  "se_callerAddr caller =
     (let cb = bytes_of_string caller @ replicate 32 0 in
      if 4 \<le> length caller \<and> take 2 caller = ''0x'' then slice 2 22 cb else take 20 cb)"

definition operator_key :: "bytes \<Rightarrow> slot" where "operator_key who = storageKey (0x10 # who)"

definition op_list_key :: "u64 \<Rightarrow> slot" where
  "op_list_key i = storageKey (0x20 # big_bytes (unat i))"

text \<open>\<^verbatim>\<open>[active(1) | joinedAt(8) | stake(23)]\<close>, the stake cut to its low 23 bytes.\<close>

definition operator_record :: "u64 \<Rightarrow> nat \<Rightarrow> slot" where
  "operator_record b stake =
     (let sb = big_bytes stake; sb' = (if 23 < length sb then drop (length sb - 23) sb else sb) in
      copy_at (9 + 23 - length sb') sb' (copy_at 1 (u64be b) (zero_slot[0 := 1])))"

definition se_count :: "World \<Rightarrow> u64" where
  "se_count w = readUint64 (sload w se_addr (writeUint64 0))"

definition se_register :: call where
  "se_register input caller w b =
     (let stakeAmount = readBigInt (readSlot input 4) in
      if stakeAmount = 0 then (Ret [0], w)
      else
        let who = se_callerAddr caller; existing = sload w se_addr (operator_key who) in
        if existing ! 0 = 1 \<and> existing ! 1 \<noteq> 0 then (Ret [0], w)
        else
          let count = se_count w + 1;
              w1 = sstore w se_addr (writeUint64 0) (writeUint64 count);
              w2 = sstore w1 se_addr (operator_key who) (operator_record b stakeAmount);
              w3 = sstore w2 se_addr (op_list_key (count - 1)) (copy_at 0 who zero_slot);
              w4 = AddLog w3 se_addr [storageKey (bytes_of_string ''OperatorRegistered'')]
                     (bytes_of_string caller) b in
          (Ret [1], EconoAccrueStorage w4 (big_Uint64 stakeAmount) b))"

definition se_unregister :: call where
  "se_unregister input caller w b =
     (let who = se_callerAddr caller; opData = sload w se_addr (operator_key who) in
      if opData ! 0 \<noteq> 1 then (Ret [0], w)
      else (Ret [1], sstore w se_addr (operator_key who) (opData[0 := 0])))"

definition se_getOperatorInfo :: call where
  "se_getOperatorInfo input caller w b =
     (let opData = sload w se_addr (operator_key (readAddress input 4)) in
      if opData = zero_slot then (Ret [], w)
      else (Ret (copy_at 1 (slice 1 31 opData) (zero_slot[0 := opData ! 0])), w))"

definition se_getOperatorCount :: call where
  "se_getOperatorCount input caller w b = (Ret (u64be (se_count w)), w)"

definition halvingInterval :: u64 where "halvingInterval = 2 * 365 * 86400"

definition se_getCurrentEpoch :: call where
  "se_getCurrentEpoch input caller w b =
     (let startTime = readUint64 (sload w se_addr (writeUint64 2)) in
      if startTime = 0 then
        (Ret (u64be ((b - b) div halvingInterval)), sstore w se_addr (writeUint64 2) (writeUint64 b))
      else (Ret (u64be ((b - startTime) div halvingInterval)), w))"

fun halve :: "nat \<Rightarrow> nat \<Rightarrow> nat" where
  "halve 0 base = base"
| "halve (Suc n) base = halve n (base div 2)"

definition se_calculateEpochAllocation :: call where
  "se_calculateEpochAllocation input caller w b =
     (let startTime = (let s = readUint64 (sload w se_addr (writeUint64 2)) in if s = 0 then b else s);
          epoch = (b - startTime) div halvingInterval in
      if 10 \<le> epoch then (Ret (replicate 32 0), w)
      else (Ret (fill_be 32 (halve (unat epoch) (10000000 * 10 ^ 18))), w))"

definition proof_key :: "string \<Rightarrow> bytes \<Rightarrow> slot" where
  "proof_key caller fileHash = storageKey (0x30 # bytes_of_string caller @ fileHash)"

definition se_submitProof :: call where
  "se_submitProof input caller w b =
     (let opData = sload w se_addr (operator_key (bytes_of_string caller)) in
      if opData ! 0 \<noteq> 1 then (Ret [0], w)
      else if length input < 36 then (Panic, w)
      else (Ret [1], sstore w se_addr (proof_key caller (slice 4 36 input))
                       (copy_at 0 (u64be b) zero_slot)))"

definition se_getOperators :: call where
  "se_getOperators input caller w b =
     (let count = (if se_count w > 50 then 50 else se_count w) in
      (Ret (concat (map (\<lambda>i. take 20 (sload w se_addr (op_list_key (of_nat i)))) [0..<unat count])), w))"

definition se_table :: "(u32 \<times> call) list" where
  "se_table =
    [(selSERegisterOperator, se_register), (selSEUnregisterOperator, se_unregister),
     (selSEGetOperatorInfo, se_getOperatorInfo), (selSEGetOperatorCount, se_getOperatorCount),
     (selSEGetCurrentEpoch, se_getCurrentEpoch),
     (selSECalculateEpochAllocation, se_calculateEpochAllocation),
     (selSESubmitProof, se_submitProof), (selSEGetOperators, se_getOperators)]"

definition storageEndowmentPrecompile :: call where
  "storageEndowmentPrecompile input caller w b =
     switch se_table (unknown_selector ''StorageEndowment: unknown selector'') (selectorBytes input)
       input caller (touch w se_addr) b"

lemmas se_cases =
  se_register_def se_unregister_def se_getOperatorInfo_def se_getOperatorCount_def
  se_getCurrentEpoch_def se_calculateEpochAllocation_def se_submitProof_def se_getOperators_def

interpretation se: registry storageEndowmentPrecompile se_addr
proof unfold_locales
  fix w input caller b
  have "stays_in se_addr (touch w se_addr) (snd (storageEndowmentPrecompile input caller w b))"
    unfolding storageEndowmentPrecompile_def
    by (rule stays_in_switch) (auto simp: se_table_def unknown_selector_def se_cases Let_def)
  then show "stays_in se_addr w (snd (storageEndowmentPrecompile input caller w b))"
    by simp
qed

subsection \<open>The halving schedule\<close>

lemma halve_eq: "halve n base = base div 2 ^ n"
  by (induction n arbitrary: base) (simp_all add: div_mult2_eq)

lemma se_allocation:
  assumes "readUint64 (sload w se_addr (writeUint64 2)) = start" "start \<noteq> 0" "start \<le> b"
  shows "fst (se_calculateEpochAllocation input caller w b) =
           Ret (fill_be 32
             (let e = unat (b - start) div unat halvingInterval in
              if 10 \<le> e then 0 else 10 ^ 25 div 2 ^ e))"
proof -
  let ?e = "(b - start) div halvingInterval"
  have e: "unat ?e = unat (b - start) div unat halvingInterval"
    by (simp add: unat_div_distrib)
  have "10 \<le> ?e \<longleftrightarrow> 10 \<le> unat ?e"
    by (simp add: word_le_nat_alt)
  then show ?thesis
    using assms
    by (simp add: se_calculateEpochAllocation_def Let_def halve_eq e fill_be_0_replicate)
qed

subsection \<open>Operator records\<close>

lemma operator_record_fields:
  "length (operator_record b stake) = 32"
  "operator_record b stake ! 0 = 1"
  "operator_record b stake ! 1 = u64be b ! 0"
proof -
  let ?sb = "if 23 < length (big_bytes stake) then drop (length (big_bytes stake) - 23) (big_bytes stake)
             else big_bytes stake"
  have sb: "length ?sb \<le> 23" by simp
  show "length (operator_record b stake) = 32"
    using sb by (simp add: operator_record_def Let_def)
  show "operator_record b stake ! 0 = 1"
    using sb by (simp add: operator_record_def Let_def nth_copy_at_below)
  have "copy_at 1 (u64be b) (zero_slot[0 := 1]) ! 1 = u64be b ! 0"
    by (simp add: copy_at_def nth_append)
  then show "operator_record b stake ! 1 = u64be b ! 0"
    using sb by (simp add: operator_record_def Let_def nth_copy_at_below)
qed

lemma u64be_hd_small: "unat b < 2 ^ 56 \<Longrightarrow> u64be b ! 0 = 0"
  using fill_be_first[of 7 "unat b"] by (simp add: u64be_def)

end
