(* ===== verification/Two_Way.thy ===== *)
theory Two_Way
  imports Precompile
begin

text \<open>
  Precompile 0x18, the 2WAY vaults (\<^verbatim>\<open>evm/two_way.go\<close>): collateral per vault and stablecoin, debt
  per vault, the ratio checks, and the debt lock the vault keeps in the account of the stability
  pool 0x19. Where the code iterates over a Go map (the storage of the contract, the collaterals
  of a vault) the model iterates in the order of the association list; a result that depends on
  the order is one that Go leaves open.
\<close>

definition vault_addr :: string where "vault_addr = PrecompileAddrHex 0x18"
definition pool_addr :: string where "pool_addr = PrecompileAddrHex 0x19"

lemma vault_pool_apart [simp]: "vault_addr \<noteq> pool_addr" "pool_addr \<noteq> vault_addr"
  by code_simp+

definition trimRightZeros :: "bytes \<Rightarrow> bytes" where
  "trimRightZeros b = rev (dropWhile (\<lambda>x. x = 0) (rev b))"

definition hasPrefix :: "bytes \<Rightarrow> bytes \<Rightarrow> bool" where
  "hasPrefix b prefix \<longleftrightarrow> length prefix \<le> length b \<and> take (length prefix) b = prefix"

definition TwoWaySlotCollateral :: u8 where "TwoWaySlotCollateral = 0x02"
definition TwoWaySlotDebt :: u8 where "TwoWaySlotDebt = 0x03"
definition TwoWaySlotParams :: u8 where "TwoWaySlotParams = 0x04"
definition StabilitySlotDeposits :: u8 where "StabilitySlotDeposits = 0x02"
definition StabilitySlotRewards :: u8 where "StabilitySlotRewards = 0x03"
definition StabilitySlotLastDeposit :: u8 where "StabilitySlotLastDeposit = 0x04"
definition StabilitySlotMintedDebt :: u8 where "StabilitySlotMintedDebt = 0x05"

lemmas two_way_slots = TwoWaySlotCollateral_def TwoWaySlotDebt_def TwoWaySlotParams_def
lemmas pool_slots = StabilitySlotDeposits_def StabilitySlotRewards_def StabilitySlotLastDeposit_def
  StabilitySlotMintedDebt_def

record CollateralParam =
  MinCRatio :: u16
  LiquidationRatio :: u16
  StabilityFee :: u16
  MaxDebtPercent :: u16
  DebtFloor :: u64

definition twoWayDepositSelector :: u32 where "twoWayDepositSelector = 0xFBB35030"
definition twoWayMintSelector :: u32 where "twoWayMintSelector = 0xD185E07F"
definition twoWayWithdrawSelector :: u32 where "twoWayWithdrawSelector = 0xE9C4B112"
definition twoWayBurnSelector :: u32 where "twoWayBurnSelector = 0x0E0C59BE"
definition twoWayLiquidateSelector :: u32 where "twoWayLiquidateSelector = 0x5C8B7698"
definition twoWayGetVaultSelector :: u32 where "twoWayGetVaultSelector = 0x9EB29EF0"
definition twoWayVaultCountSelector :: u32 where "twoWayVaultCountSelector = 0x67A9F0F5"
definition selTwoWayGetPrice :: u32 where "selTwoWayGetPrice = 0x7A3B4F00"

subsection \<open>Keys\<close>

definition collateralKey :: "bytes \<Rightarrow> bytes \<Rightarrow> slot" where
  "collateralKey vaultID stablecoin =
     copy_at 21 (take (min 11 (length stablecoin)) stablecoin)
       (copy_at 1 (take 20 vaultID) (zero_slot[0 := TwoWaySlotCollateral]))"

definition debtKey :: "bytes \<Rightarrow> slot" where
  "debtKey vaultID = copy_at 1 (take 31 vaultID) (zero_slot[0 := TwoWaySlotDebt])"

definition paramKey :: "bytes \<Rightarrow> slot" where
  "paramKey key = storageKey (TwoWaySlotParams # key)"

definition priceKey :: "bytes \<Rightarrow> slot" where
  "priceKey name = storageKey (bytes_of_string ''price:'' @ name)"

definition totalDebtKey :: slot where
  "totalDebtKey = storageKey (bytes_of_string ''totalDebt'')"

definition stringToHash :: "bytes \<Rightarrow> slot" where "stringToHash s = sha256 s"
definition callerHash :: "string \<Rightarrow> slot" where "callerHash caller = sha256 (bytes_of_string caller)"

definition stabilityDepositKey :: "string \<Rightarrow> slot" where
  "stabilityDepositKey user = storageKey (StabilitySlotDeposits # bytes_of_string user)"

definition stabilityRewardKey :: "string \<Rightarrow> slot" where
  "stabilityRewardKey user = storageKey (StabilitySlotRewards # bytes_of_string user)"

definition lpFeeKey :: "string \<Rightarrow> slot" where
  "lpFeeKey user = storageKey (StabilitySlotLastDeposit # bytes_of_string user)"

definition stabilityMintedDebtKey :: "string \<Rightarrow> slot" where
  "stabilityMintedDebtKey user = storageKey (StabilitySlotMintedDebt # bytes_of_string user)"

definition wayRewardsKey :: slot where "wayRewardsKey = storageKey (bytes_of_string ''wayRewards'')"
definition swayRewardsKey :: slot where "swayRewardsKey = storageKey (bytes_of_string ''swayRewards'')"
definition totalRewardsKey :: slot where "totalRewardsKey = storageKey (bytes_of_string ''totalRewards'')"

text \<open>\<^verbatim>\<open>acc.Storage[k] = writeSlot(readBigInt(acc.Storage[k]) + d)\<close>, and the same with a difference
  that stops at zero.\<close>

definition addSlot ::
  "World \<Rightarrow> string \<Rightarrow> slot \<Rightarrow> nat \<Rightarrow> (World \<Rightarrow> 'a outcome \<times> World) \<Rightarrow> 'a outcome \<times> World" where
  "addSlot w a k d = putSlot w a k (int (readBigInt (sload w a k)) + int d)"

definition reduceSlot ::
  "World \<Rightarrow> string \<Rightarrow> slot \<Rightarrow> nat \<Rightarrow> (World \<Rightarrow> 'a outcome \<times> World) \<Rightarrow> 'a outcome \<times> World" where
  "reduceSlot w a k d =
     (let v = int (readBigInt (sload w a k)) - int d in putSlot w a k (if v < 0 then 0 else v))"

subsection \<open>State getters\<close>

definition getVaultDebt :: "World \<Rightarrow> bytes \<Rightarrow> nat" where
  "getVaultDebt w vaultID = readBigInt (sload w vault_addr (debtKey vaultID))"

definition is_collateral_key :: "bytes \<Rightarrow> slot \<Rightarrow> bool" where
  "is_collateral_key vaultID k \<longleftrightarrow>
     length k = 32 \<and> k ! 0 = TwoWaySlotCollateral \<and> hasPrefix (slice 1 21 k) (take 20 vaultID)
     \<and> trimRightZeros (drop 21 k) \<noteq> []"

definition getVaultCollaterals :: "World \<Rightarrow> bytes \<Rightarrow> (bytes \<times> nat) list" where
  "getVaultCollaterals w vaultID =
     foldl (\<lambda>result (k, v). AList.update (trimRightZeros (drop 21 k)) (readBigInt v) result) []
       (filter (\<lambda>(k, v). is_collateral_key vaultID k) (Storage (acct w vault_addr)))"

definition sum_collateral :: "(bytes \<times> nat) list \<Rightarrow> nat" where
  "sum_collateral cs = sum_list (map snd cs)"

definition price_of :: "World \<Rightarrow> bytes \<Rightarrow> nat" where
  "price_of w name =
     (let price = readBigInt (sload w vault_addr (priceKey name)) in
      if price = 0 then 100000000 else price)"

definition getVaultCollateralValueUSD :: "World \<Rightarrow> bytes \<Rightarrow> nat" where
  "getVaultCollateralValueUSD w vaultID =
     foldl (\<lambda>totalUSD (name, amount).
       if amount = 0 then totalUSD else totalUSD + amount * price_of w name div 100000000) 0
       (getVaultCollaterals w vaultID)"

definition readUint16 :: "slot \<Rightarrow> u16 \<Rightarrow> u16" where
  "readUint16 sl defaultVal =
     (let v = big_Uint64 (be_nat sl) in if v = 0 then defaultVal else ucast v)"

definition getCollateralParam :: "World \<Rightarrow> bytes \<Rightarrow> CollateralParam" where
  "getCollateralParam w stablecoin =
     (let param = (\<lambda>key. readUint16 (sload w vault_addr (paramKey (stablecoin @ bytes_of_string key)))) in
      \<lparr>MinCRatio = param '':minCRatio'' 15000, LiquidationRatio = param '':liqRatio'' 14000,
       StabilityFee = param '':fee'' 150, MaxDebtPercent = param '':maxDebt'' 3000,
       DebtFloor = 1000000000000000000\<rparr>)"

definition isAcceptedCollateral :: "World \<Rightarrow> bytes \<Rightarrow> bool" where
  "isAcceptedCollateral w stablecoin \<longleftrightarrow>
     map_of (Storage (acct w vault_addr)) (paramKey (stablecoin @ bytes_of_string '':minCRatio'')) \<noteq> None"

definition isAboveMinCRatio :: "(bytes \<times> nat) list \<Rightarrow> nat \<Rightarrow> nat \<Rightarrow> bool" where
  "isAboveMinCRatio collaterals debt additionalDebt =
     (let totalDebt = debt + additionalDebt in
      if totalDebt = 0 then True
      else 13000 \<le> sum_collateral collaterals * 10000 div totalDebt)"

definition isAboveLiquidationRatio :: "World \<Rightarrow> bytes \<Rightarrow> nat \<Rightarrow> bool" where
  "isAboveLiquidationRatio w vaultID debt =
     (if debt = 0 then True
      else 14000 < getVaultCollateralValueUSD w vaultID * 10000 div debt)"

definition stabilityMintedDebt :: "World \<Rightarrow> string \<Rightarrow> nat" where
  "stabilityMintedDebt w user = readBigInt (sload w pool_addr (stabilityMintedDebtKey user))"

definition pool_deposit :: "World \<Rightarrow> string \<Rightarrow> nat" where
  "pool_deposit w user = readBigInt (sload w pool_addr (stabilityDepositKey user))"

subsection \<open>Operations\<close>

definition twoWayDeposit :: call where
  "twoWayDeposit input caller w0 b =
     (if length input < 4 + 32 + 20 + 32 then (Err (Errorf ''2WAY: deposit input too short''), w0)
      else
        let vaultID = slice 4 36 input;
            collateralID = trimRightZeros (slice 36 56 input);
            collAmount = readBigInt (readSlot input 56);
            w = touch w0 vault_addr in
        if \<not> isAcceptedCollateral w collateralID
        then (Err (Errorf ''2WAY: collateral not accepted''), w)
        else
          putSlot w vault_addr (collateralKey vaultID collateralID) (int collAmount) (\<lambda>w1.
            (Ret vaultID,
             AddLog w1 vault_addr
               [storageKey (bytes_of_string ''Deposited''), stringToHash vaultID, callerHash caller]
               (big_bytes collAmount) b)))"

definition mint_fee_bps :: "World \<Rightarrow> (bytes \<times> nat) list \<Rightarrow> nat" where
  "mint_fee_bps w collaterals =
     (case find (\<lambda>(name, _). 0 < StabilityFee (getCollateralParam w name)) collaterals of
        Some (name, _) \<Rightarrow> unat (StabilityFee (getCollateralParam w name))
      | None \<Rightarrow> 150)"

definition route_fee ::
  "World \<Rightarrow> string \<Rightarrow> nat \<Rightarrow> (World \<Rightarrow> 'a outcome \<times> World) \<Rightarrow> 'a outcome \<times> World" where
  "route_fee w caller protocolFee rest =
     (if protocolFee = 0 then rest w
      else
        let wayReward = protocolFee div 2; swayReward = protocolFee - wayReward in
        addSlot w pool_addr wayRewardsKey wayReward (\<lambda>w1.
        addSlot w1 pool_addr swayRewardsKey swayReward (\<lambda>w2.
        addSlot w2 pool_addr totalRewardsKey protocolFee (\<lambda>w3.
        addSlot w3 pool_addr (lpFeeKey caller) protocolFee rest))))"

definition addTotalDebt ::
  "World \<Rightarrow> nat \<Rightarrow> (World \<Rightarrow> 'a outcome \<times> World) \<Rightarrow> 'a outcome \<times> World" where
  "addTotalDebt w amount = addSlot w vault_addr totalDebtKey amount"

definition reduceTotalDebt ::
  "World \<Rightarrow> nat \<Rightarrow> (World \<Rightarrow> 'a outcome \<times> World) \<Rightarrow> 'a outcome \<times> World" where
  "reduceTotalDebt w amount = reduceSlot w vault_addr totalDebtKey amount"

definition addStabilityMintedDebt ::
  "World \<Rightarrow> string \<Rightarrow> nat \<Rightarrow> (World \<Rightarrow> 'a outcome \<times> World) \<Rightarrow> 'a outcome \<times> World" where
  "addStabilityMintedDebt w user amount = addSlot w pool_addr (stabilityMintedDebtKey user) amount"

definition reduceStabilityMintedDebt ::
  "World \<Rightarrow> string \<Rightarrow> nat \<Rightarrow> (World \<Rightarrow> 'a outcome \<times> World) \<Rightarrow> 'a outcome \<times> World" where
  "reduceStabilityMintedDebt w user amount = reduceSlot w pool_addr (stabilityMintedDebtKey user) amount"

definition twoWayMint :: call where
  "twoWayMint input caller w0 b =
     (if length input < 4 + 32 + 32 then (Err (Errorf ''2WAY: mint input too short''), w0)
      else
        let vaultID = slice 4 36 input; amount = readBigInt (readSlot input 36);
            w1 = touch w0 pool_addr in
        if 0 < stabilityMintedDebt w1 caller
        then (Err (Errorf ''2WAY: caller has active 2WAY debt''), w1)
        else if 0 < pool_deposit w1 caller
        then (Err (Errorf ''2WAY: caller is already providing LP liquidity''), w1)
        else
          let w = touch w1 vault_addr;
              collaterals = getVaultCollaterals w vaultID; vaultDebt = getVaultDebt w vaultID in
          if sum_collateral collaterals = 0 then (Err (Errorf ''2WAY: vault has no collateral''), w)
          else
            route_fee w caller (amount * mint_fee_bps w collaterals div 10000) (\<lambda>w2.
              if \<not> isAboveMinCRatio collaterals (vaultDebt + amount) 0
              then (Err (Errorf ''2WAY: mint would violate minimum collateral ratio''), w2)
              else
                putSlot w2 vault_addr (debtKey vaultID) (int (vaultDebt + amount)) (\<lambda>w3.
                addTotalDebt w3 amount (\<lambda>w4.
                addStabilityMintedDebt w4 caller amount (\<lambda>w5.
                  (Ret vaultID,
                   AddLog w5 vault_addr
                     [storageKey (bytes_of_string ''Minted''), stringToHash vaultID, callerHash caller]
                     (big_bytes amount) b))))))"

definition twoWayWithdraw :: call where
  "twoWayWithdraw input caller w0 b =
     (if length input < 4 + 32 + 20 + 32 then (Err (Errorf ''2WAY: withdraw input too short''), w0)
      else
        let vaultID = slice 4 36 input;
            collateralID = trimRightZeros (slice 36 56 input);
            collAmount = readBigInt (readSlot input 56);
            w = touch w0 vault_addr;
            collaterals = getVaultCollaterals w vaultID; vaultDebt = getVaultDebt w vaultID in
        case map_of collaterals collateralID of
          None \<Rightarrow> (Err (Errorf ''2WAY: withdraw amount exceeds deposit''), w)
        | Some currentColl \<Rightarrow>
            if currentColl < collAmount
            then (Err (Errorf ''2WAY: withdraw amount exceeds deposit''), w)
            else
              let newCollValue = currentColl - collAmount in
              if \<not> isAboveMinCRatio (AList.update collateralID newCollValue collaterals) vaultDebt 0
              then (Err (Errorf ''2WAY: withdraw would violate minimum collateral ratio''), w)
              else
                putSlot w vault_addr (collateralKey vaultID collateralID) (int newCollValue) (\<lambda>w1.
                  (Ret vaultID,
                   AddLog w1 vault_addr
                     [storageKey (bytes_of_string ''Withdrawn''), stringToHash vaultID, callerHash caller]
                     (big_bytes collAmount) b)))"

definition twoWayBurn :: call where
  "twoWayBurn input caller w0 b =
     (if length input < 4 + 32 + 32 then (Err (Errorf ''2WAY: burn input too short''), w0)
      else
        let vaultID = slice 4 36 input; amount = readBigInt (readSlot input 36);
            w = touch w0 vault_addr in
        reduceSlot w vault_addr (debtKey vaultID) amount (\<lambda>w1.
        reduceStabilityMintedDebt (touch w1 pool_addr) caller amount (\<lambda>w2.
        reduceTotalDebt w2 amount (\<lambda>w3.
          (Ret vaultID,
           AddLog w3 vault_addr
             [storageKey (bytes_of_string ''Burned''), stringToHash vaultID, callerHash caller]
             (big_bytes amount) b)))))"

definition twoWayLiquidate :: call where
  "twoWayLiquidate input caller w0 b =
     (if length input < 4 + 32 then (Err (Errorf ''2WAY: liquidate input too short''), w0)
      else
        let vaultID = slice 4 36 input; w = touch w0 vault_addr; vaultDebt = getVaultDebt w vaultID in
        if isAboveLiquidationRatio w vaultID vaultDebt
        then (Err (Errorf ''2WAY: vault is above liquidation ratio''), w)
        else
          putSlot w vault_addr (debtKey vaultID) 0 (\<lambda>w1.
          reduceTotalDebt w1 vaultDebt (\<lambda>w2.
            (Ret vaultID,
             AddLog w2 vault_addr
               [storageKey (bytes_of_string ''Liquidated''), stringToHash vaultID, callerHash caller]
               (big_bytes vaultDebt) b))))"

definition twoWayGetVault :: call where
  "twoWayGetVault input caller w0 b =
     (if length input < 4 + 32 then (Err (Errorf ''2WAY: getVault input too short''), w0)
      else
        let vaultID = slice 4 36 input; w = touch w0 vault_addr;
            totalCollateral = sum_collateral (getVaultCollaterals w vaultID) in
        if 256 ^ 32 \<le> totalCollateral then (Panic, w)
        else (Ret (fill_be 32 totalCollateral @ fill_be 32 (getVaultDebt w vaultID)), w))"

definition twoWayVaultCount :: call where
  "twoWayVaultCount input caller w0 b =
     (let w = touch w0 vault_addr in
      (Ret (fill_be 32 (readBigInt (sload w vault_addr (storageKey (bytes_of_string ''vaultCount''))))), w))"

definition twoWayGetStablecoinPrice :: call where
  "twoWayGetStablecoinPrice input caller w0 b =
     (if length input < 4 + 32 then (Err (Errorf ''2WAY: getPrice input too short''), w0)
      else let w = touch w0 vault_addr in
           (Ret (fill_be 32 (price_of w (trimRightZeros (slice 4 36 input)))), w))"

definition twoWaySetStablecoinPrice :: call where
  "twoWaySetStablecoinPrice input caller w b =
     (if length input < 4 + 32 + 32 then (Err (Errorf ''2WAY: setPrice input too short''), w)
      else
        let stablecoinID = trimRightZeros (slice 4 36 input); price = readBigInt (readSlot input 36) in
        case GetAccount w caller of
          None \<Rightarrow> (Err (Errorf ''2WAY: caller is not a verified oracle''), w)
        | Some acc \<Rightarrow>
            if DoxDevLevel acc < 2 then (Err (Errorf ''2WAY: caller is not a verified oracle''), w)
            else
              putSlot (touch w vault_addr) vault_addr (priceKey stablecoinID) (int price) (\<lambda>w1.
                (Ret (fill_be 32 price),
                 AddLog w1 vault_addr
                   [storageKey (bytes_of_string ''PriceUpdated''), stringToHash stablecoinID]
                   (big_bytes price) 0)))"

definition two_way_table :: "(u32 \<times> call) list" where
  "two_way_table =
    [(twoWayDepositSelector, twoWayDeposit), (twoWayMintSelector, twoWayMint),
     (twoWayWithdrawSelector, twoWayWithdraw), (twoWayBurnSelector, twoWayBurn),
     (twoWayLiquidateSelector, twoWayLiquidate), (twoWayGetVaultSelector, twoWayGetVault),
     (twoWayVaultCountSelector, twoWayVaultCount), (selTwoWayGetPrice, twoWayGetStablecoinPrice)]"

definition twoWayVaultPrecompile :: call where
  "twoWayVaultPrecompile input caller w b =
     (if length input < 4 then (Err (Errorf ''2WAY: input too short''), w)
      else switch two_way_table (unknown_selector ''2WAY: unknown selector'') (selectorBytes input)
             input caller w b)"

subsection \<open>Confinement\<close>

lemmas slot_ops = addSlot_def reduceSlot_def addTotalDebt_def reduceTotalDebt_def
  addStabilityMintedDebt_def reduceStabilityMintedDebt_def

lemma confined_switch:
  assumes "\<And>s f. (s, f) \<in> set table \<Longrightarrow> confined A w (snd (f input caller w b))"
    and "confined A w (snd (dflt input caller w b))"
  shows "confined A w (snd (switch table dflt sel input caller w b))"
  using assms by (rule switch_cases[where P = "\<lambda>f. confined A w (snd (f input caller w b))"])

abbreviation two_way_accounts :: "string set" where
  "two_way_accounts \<equiv> {vault_addr, pool_addr}"

lemma vault_ops_confined:
  "confined two_way_accounts w (snd (twoWayDeposit input caller w b))"
  "confined two_way_accounts w (snd (twoWayWithdraw input caller w b))"
  "confined two_way_accounts w (snd (twoWayBurn input caller w b))"
  "confined two_way_accounts w (snd (twoWayLiquidate input caller w b))"
  by (auto simp: twoWayDeposit_def twoWayWithdraw_def twoWayBurn_def twoWayLiquidate_def slot_ops Let_def
      split: option.splits intro!: confined_putSlot)

lemma route_fee_confined:
  assumes "confined two_way_accounts w w'" "\<And>w'. confined two_way_accounts w w' \<Longrightarrow> confined two_way_accounts w (snd (rest w'))"
  shows "confined two_way_accounts w (snd (route_fee w' caller fee rest))"
  using assms by (auto simp: route_fee_def slot_ops Let_def intro!: confined_putSlot)

lemma mint_confined: "confined two_way_accounts w (snd (twoWayMint input caller w b))"
  by (auto simp: twoWayMint_def slot_ops Let_def intro!: confined_putSlot route_fee_confined)

interpretation vault: confined_contract twoWayVaultPrecompile two_way_accounts
proof unfold_locales
  fix w input caller b
  have "confined two_way_accounts w
    (snd (switch two_way_table (unknown_selector ''2WAY: unknown selector'') sel input caller w b))" for sel
    by (rule confined_switch)
      (auto simp: two_way_table_def unknown_selector_def vault_ops_confined mint_confined
        twoWayGetVault_def twoWayVaultCount_def twoWayGetStablecoinPrice_def Let_def)
  then show "confined two_way_accounts w (snd (twoWayVaultPrecompile input caller w b))"
    by (simp add: twoWayVaultPrecompile_def)
qed

subsection \<open>The collaterals of a vault as a map\<close>

text \<open>
  Slots under other keys do not matter to the collaterals of a vault, and on a storage without
  repeated keys the loop computes the map that sends a name to the number stored under its
  collateral key.
\<close>

lemma trimRightZeros_snoc: "trimRightZeros (xs @ [x]) = (if x = 0 then trimRightZeros xs else xs @ [x])"
  by (simp add: trimRightZeros_def)

lemma length_trimRightZeros: "length (trimRightZeros b) \<le> length b"
  using length_dropWhile_le[of "\<lambda>x. x = 0" "rev b"] by (simp add: trimRightZeros_def)

lemma trimRightZeros_pad: "trimRightZeros b @ replicate (length b - length (trimRightZeros b)) 0 = b"
proof (induction b rule: rev_induct)
  case (snoc x xs)
  have "length (trimRightZeros xs) \<le> length xs"
    by (rule length_trimRightZeros)
  then show ?case
    using snoc by (simp add: trimRightZeros_snoc Suc_diff_le flip: replicate_append_same append_assoc)
qed (simp add: trimRightZeros_def)

lemma copy_at_append:
  "n = length xs \<Longrightarrow> length src \<le> length ys \<Longrightarrow> copy_at n src (xs @ ys) = xs @ src @ drop (length src) ys"
  by (simp add: copy_at_def)

lemma zero_slot_Cons: "zero_slot[0 := x] = x # replicate 31 0"
  by (simp add: zero_slot_def numeral_eq_Suc)

lemma collateralKey_form:
  assumes "length vaultID = 32" "length name \<le> 11"
  shows "collateralKey vaultID name =
    TwoWaySlotCollateral # take 20 vaultID @ name @ replicate (11 - length name) 0"
proof -
  have "copy_at 1 (take 20 vaultID) (zero_slot[0 := TwoWaySlotCollateral])
      = (TwoWaySlotCollateral # take 20 vaultID) @ replicate 11 0"
    using assms(1) by (simp add: copy_at_def zero_slot_Cons)
  moreover have "copy_at 21 name ((TwoWaySlotCollateral # take 20 vaultID) @ replicate 11 0)
      = (TwoWaySlotCollateral # take 20 vaultID) @ name @ replicate (11 - length name) 0"
    using assms copy_at_append[of 21 "TwoWaySlotCollateral # take 20 vaultID" name "replicate 11 0"] by simp
  ultimately show ?thesis
    using assms(2) by (simp add: collateralKey_def min_def)
qed

lemma collateralKey_of_key:
  assumes "is_collateral_key vaultID k" "length vaultID = 32"
  shows "collateralKey vaultID (trimRightZeros (drop 21 k)) = k"
proof -
  let ?n = "drop 21 k"
  have k: "length k = 32" "k ! 0 = TwoWaySlotCollateral" "slice 1 21 k = take 20 vaultID"
    using assms by (auto simp: is_collateral_key_def hasPrefix_def)
  have "length (trimRightZeros ?n) \<le> 11"
    using length_trimRightZeros[of ?n] k by simp
  moreover have "trimRightZeros ?n @ replicate (11 - length (trimRightZeros ?n)) 0 = ?n"
    using trimRightZeros_pad[of ?n] k by simp
  moreover have "k = k ! 0 # slice 1 21 k @ drop 21 k"
    using k(1) by (cases k) (simp_all add: slice_def)
  ultimately show ?thesis
    using k collateralKey_form[OF assms(2)] by metis
qed

lemma filter_update:
  "\<not> P k \<Longrightarrow> filter (\<lambda>(k, v). P k) (AList.update k v m) = filter (\<lambda>(k, v). P k) m"
  by (induction m) auto

lemma filter_update_in:
  "P k \<Longrightarrow> filter (\<lambda>(k, v). P k) (AList.update k v m) = AList.update k v (filter (\<lambda>(k, v). P k) m)"
  by (induction m) auto

lemma acct_sstore: "acct (sstore w a k v) x =
    (if x = a then (acct w a)\<lparr>Storage := AList.update k v (Storage (acct w a))\<rparr> else acct w x)"
  by (simp add: sstore_def acct_upd_acct)

lemma getVaultCollaterals_frame:
  "acct w' vault_addr = acct w vault_addr \<Longrightarrow> getVaultCollaterals w' vid = getVaultCollaterals w vid"
  by (simp add: getVaultCollaterals_def)

lemma getVaultCollaterals_other_key:
  "k ! 0 \<noteq> TwoWaySlotCollateral \<Longrightarrow>
   getVaultCollaterals (sstore w vault_addr k v) vid = getVaultCollaterals w vid"
  by (simp add: getVaultCollaterals_def acct_sstore filter_update is_collateral_key_def)

lemma foldl_update_map:
  assumes "distinct (map f (map fst m @ map fst kvs))"
  shows "foldl (\<lambda>r (k, v). AList.update (f k) (g v) r) (map (\<lambda>(k, v). (f k, g v)) m) kvs
    = map (\<lambda>(k, v). (f k, g v)) (m @ kvs)"
  using assms
proof (induction kvs arbitrary: m)
  case (Cons kv kvs)
  have "f (fst kv) \<notin> fst ` set (map (\<lambda>(k, v). (f k, g v)) m)"
    using Cons.prems by (auto simp: image_iff split: prod.splits)
  then have "AList.update (f (fst kv)) (g (snd kv)) (map (\<lambda>(k, v). (f k, g v)) m)
      = map (\<lambda>(k, v). (f k, g v)) (m @ [kv])"
    by (simp add: update_fresh case_prod_beta)
  then have "foldl (\<lambda>r (k, v). AList.update (f k) (g v) r) (map (\<lambda>(k, v). (f k, g v)) m) (kv # kvs)
      = foldl (\<lambda>r (k, v). AList.update (f k) (g v) r) (map (\<lambda>(k, v). (f k, g v)) (m @ [kv])) kvs"
    by (simp only: foldl_Cons case_prod_beta)
  then show ?case
    using Cons.IH[of "m @ [kv]"] Cons.prems by simp
qed simp

lemma update_map:
  assumes "inj_on f (insert k (fst ` set m))"
  shows "map (\<lambda>(k, v). (f k, g v)) (AList.update k v m) = AList.update (f k) (g v) (map (\<lambda>(k, v). (f k, g v)) m)"
  using assms
proof (induction m)
  case (Cons kv m)
  have "inj_on f (insert k (fst ` set m))"
    using Cons.prems by (rule inj_on_subset) auto
  moreover have "f (fst kv) = f k \<longleftrightarrow> fst kv = k"
    using Cons.prems by (auto simp: inj_on_def)
  ultimately show ?case
    using Cons.IH by (cases kv) auto
qed simp

definition collateral_slots :: "World \<Rightarrow> bytes \<Rightarrow> (slot \<times> slot) list" where
  "collateral_slots w vid = filter (\<lambda>(k, v). is_collateral_key vid k) (Storage (acct w vault_addr))"

lemma collateral_slots_keys: "k \<in> fst ` set (collateral_slots w vid) \<Longrightarrow> is_collateral_key vid k"
  by (auto simp: collateral_slots_def)

lemma collateral_name_inj:
  "length vid = 32 \<Longrightarrow> inj_on (\<lambda>k. trimRightZeros (drop 21 k)) {k. is_collateral_key vid k}"
  by (rule inj_on_inverseI[where g = "collateralKey vid"]) (simp add: collateralKey_of_key)

lemma distinct_filter_fst: "distinct (map fst m) \<Longrightarrow> distinct (map fst (filter P m))"
  by (induction m) auto

lemma getVaultCollaterals_map:
  assumes "storage_wf (acct w vault_addr)" "length vid = 32"
  shows "getVaultCollaterals w vid =
    map (\<lambda>(k, v). (trimRightZeros (drop 21 k), readBigInt v)) (collateral_slots w vid)"
proof -
  have "distinct (map fst (collateral_slots w vid))"
    using assms(1) by (simp add: collateral_slots_def storage_wf_def distinct_filter_fst)
  moreover have "set (map fst (collateral_slots w vid)) \<subseteq> {k. is_collateral_key vid k}"
    by (auto simp: collateral_slots_def)
  ultimately have "distinct (map (\<lambda>k. trimRightZeros (drop 21 k)) (map fst (collateral_slots w vid)))"
    using collateral_name_inj[OF assms(2)] by (metis distinct_map inj_on_subset)
  then show ?thesis
    using foldl_update_map[of "\<lambda>k. trimRightZeros (drop 21 k)" "[]" "collateral_slots w vid" readBigInt]
    by (simp add: getVaultCollaterals_def collateral_slots_def)
qed

lemma distinct_update_iff: "distinct (map fst (AList.update k v m)) = distinct (map fst m)"
proof (induction m)
  case (Cons kv m)
  have "fst ` set (AList.update k v m) = insert k (fst ` set m)" for m
    by (induction m) auto
  with Cons show ?case by (cases kv) auto
qed simp

lemma storage_wf_sstore [simp]: "storage_wf (acct (sstore w a k v) x) = storage_wf (acct w x)"
  by (simp add: acct_sstore storage_wf_def distinct_update_iff)

lemma getVaultCollaterals_put:
  assumes "storage_wf (acct w vault_addr)" "length vid = 32" "is_collateral_key vid k"
  shows "getVaultCollaterals (sstore w vault_addr k v) vid =
    AList.update (trimRightZeros (drop 21 k)) (readBigInt v) (getVaultCollaterals w vid)"
proof -
  let ?f = "\<lambda>k. trimRightZeros (drop 21 k)"
  have "insert k (fst ` set (collateral_slots w vid)) \<subseteq> {k. is_collateral_key vid k}"
    using assms(3) by (auto simp: collateral_slots_def)
  then have "inj_on ?f (insert k (fst ` set (collateral_slots w vid)))"
    using collateral_name_inj[OF assms(2)] by (rule inj_on_subset[rotated])
  then have "map (\<lambda>(k, v). (?f k, readBigInt v)) (AList.update k v (collateral_slots w vid)) =
      AList.update (?f k) (readBigInt v) (map (\<lambda>(k, v). (?f k, readBigInt v)) (collateral_slots w vid))"
    by (rule update_map)
  moreover have "collateral_slots (sstore w vault_addr k v) vid = AList.update k v (collateral_slots w vid)"
    using assms(3) by (simp add: collateral_slots_def acct_sstore filter_update_in)
  ultimately show ?thesis
    using assms by (simp add: getVaultCollaterals_map)
qed

subsection \<open>The ratio of a vault\<close>

definition vault_collateral :: "World \<Rightarrow> bytes \<Rightarrow> nat" where
  "vault_collateral w vid = sum_collateral (getVaultCollaterals w vid)"

definition well_backed :: "World \<Rightarrow> bytes \<Rightarrow> bool" where
  "well_backed w vid \<longleftrightarrow> 13 * getVaultDebt w vid \<le> 10 * vault_collateral w vid"

lemma isAboveMinCRatio_iff: "isAboveMinCRatio cs debt 0 \<longleftrightarrow> 13 * debt \<le> 10 * sum_collateral cs"
proof (cases "debt = 0")
  case False
  then have "13000 \<le> sum_collateral cs * 10000 div debt \<longleftrightarrow> 13000 * debt \<le> sum_collateral cs * 10000"
    by (simp add: less_eq_div_iff_mult_less_eq)
  also have "\<dots> \<longleftrightarrow> 13 * debt \<le> 10 * sum_collateral cs"
    by linarith
  finally show ?thesis
    using False by (simp add: isAboveMinCRatio_def)
qed (simp add: isAboveMinCRatio_def)

lemma key_first_bytes:
  "collateralKey vid name ! 0 = TwoWaySlotCollateral" "debtKey vid ! 0 = TwoWaySlotDebt"
  by (simp_all add: collateralKey_def debtKey_def nth_copy_at_below zero_slot_Cons)

lemma totalDebtKey_first_byte: "totalDebtKey ! 0 \<notin> {TwoWaySlotCollateral, TwoWaySlotDebt}"
  by code_simp

lemma slot_kinds_apart: "TwoWaySlotCollateral \<noteq> TwoWaySlotDebt"
  by (simp add: two_way_slots)

lemma vault_keys_apart [simp]:
  "totalDebtKey \<noteq> debtKey vid" "debtKey vid \<noteq> totalDebtKey"
  "collateralKey v name \<noteq> debtKey vid" "debtKey vid \<noteq> collateralKey v name"
  using key_first_bytes(1)[of v name] key_first_bytes(2)[of vid] totalDebtKey_first_byte slot_kinds_apart
  by auto

lemma getVaultCollaterals_sstore [simp]:
  "getVaultCollaterals (sstore w pool_addr k v) vid = getVaultCollaterals w vid"
  "getVaultCollaterals (sstore w vault_addr (debtKey vid') v) vid = getVaultCollaterals w vid"
  "getVaultCollaterals (sstore w vault_addr totalDebtKey v) vid = getVaultCollaterals w vid"
  "getVaultCollaterals (touch w x) vid = getVaultCollaterals w vid"
  "getVaultCollaterals (AddLog w x t d bl) vid = getVaultCollaterals w vid"
  using totalDebtKey_first_byte slot_kinds_apart
  by (simp_all add: getVaultCollaterals_other_key key_first_bytes)
    (simp_all add: getVaultCollaterals_def acct_sstore)

lemma vault_collateral_frame [simp]:
  "vault_collateral (sstore w pool_addr k v) vid = vault_collateral w vid"
  "vault_collateral (sstore w vault_addr (debtKey vid') v) vid = vault_collateral w vid"
  "vault_collateral (sstore w vault_addr totalDebtKey v) vid = vault_collateral w vid"
  "vault_collateral (touch w x) vid = vault_collateral w vid"
  "vault_collateral (AddLog w x t d bl) vid = vault_collateral w vid"
  by (simp_all add: vault_collateral_def)

lemma getVaultDebt_simps [simp]:
  "getVaultDebt (sstore w pool_addr k v) vid = getVaultDebt w vid"
  "getVaultDebt (sstore w vault_addr totalDebtKey v) vid = getVaultDebt w vid"
  "getVaultDebt (sstore w vault_addr (collateralKey v' n) v) vid = getVaultDebt w vid"
  "getVaultDebt (sstore w vault_addr (debtKey vid) v) vid = readBigInt v"
  "getVaultDebt (touch w x) vid = getVaultDebt w vid"
  "getVaultDebt (AddLog w x t d bl) vid = getVaultDebt w vid"
  by (simp_all add: getVaultDebt_def sload_sstore)

text \<open>A write that did not panic went through with its value.\<close>

lemma putSlot_Ret:
  "putSlot w a k v rest = (Ret x, w') \<Longrightarrow>
   nat \<bar>v\<bar> < 256 ^ 32 \<and> rest (sstore w a k (fill_be 32 (nat \<bar>v\<bar>))) = (Ret x, w')"
  by (simp add: putSlot_cases split: if_splits)

lemma addSlot_Ret:
  "addSlot w a k d rest = (Ret x, w') \<Longrightarrow>
   readBigInt (sload w a k) + d < 256 ^ 32 \<and>
   rest (sstore w a k (fill_be 32 (readBigInt (sload w a k) + d))) = (Ret x, w')"
  unfolding addSlot_def by (drule putSlot_Ret) (simp flip: of_nat_add)

lemma reduceSlot_Ret:
  "reduceSlot w a k d rest = (Ret x, w') \<Longrightarrow>
   readBigInt (sload w a k) - d < 256 ^ 32 \<and>
   rest (sstore w a k (fill_be 32 (readBigInt (sload w a k) - d))) = (Ret x, w')"
  unfolding reduceSlot_def Let_def
  by (drule putSlot_Ret) (auto simp: nat_diff_distrib split: if_splits)

lemma route_fee_Ret:
  assumes "route_fee w caller fee rest = (Ret x, w')"
  shows "\<exists>w2. rest w2 = (Ret x, w') \<and> acct w2 vault_addr = acct w vault_addr
    \<and> (\<forall>k. k \<notin> {wayRewardsKey, swayRewardsKey, totalRewardsKey, lpFeeKey caller} \<longrightarrow>
           sload w2 pool_addr k = sload w pool_addr k)"
proof (cases "fee = 0")
  case False
  from assms False obtain w1 w2 w3 w4 s1 s2 s3 s4 where
    "w1 = sstore w pool_addr wayRewardsKey s1" "w2 = sstore w1 pool_addr swayRewardsKey s2"
    "w3 = sstore w2 pool_addr totalRewardsKey s3" "w4 = sstore w3 pool_addr (lpFeeKey caller) s4"
    "rest w4 = (Ret x, w')"
    unfolding route_fee_def Let_def by (simp) (blast dest: addSlot_Ret)
  then show ?thesis
    by (intro exI[of _ w4]) (simp add: acct_sstore sload_sstore)
qed (use assms in \<open>auto simp: route_fee_def\<close>)

lemma acct_vault_frame:
  "acct w2 vault_addr = acct w vault_addr \<Longrightarrow>
   getVaultCollaterals w2 vid = getVaultCollaterals w vid \<and> getVaultDebt w2 vid = getVaultDebt w vid"
  by (simp add: getVaultCollaterals_def getVaultDebt_def sload_def)

text \<open>What a successful mint did, and which checks it passed.\<close>

lemma twoWayMint_Ret:
  assumes "twoWayMint input caller w b = (Ret out, w')"
  defines "vid \<equiv> slice 4 36 input" and "amount \<equiv> readBigInt (readSlot input 36)"
  shows "stabilityMintedDebt w caller = 0" "pool_deposit w caller = 0"
    and "isAboveMinCRatio (getVaultCollaterals w vid) (getVaultDebt w vid + amount) 0"
    and "\<exists>w2 total_slot minted_slot. acct w2 vault_addr = acct w vault_addr
      \<and> (\<forall>k. k \<notin> {wayRewardsKey, swayRewardsKey, totalRewardsKey, lpFeeKey caller} \<longrightarrow>
           sload w2 pool_addr k = sload w pool_addr k)
      \<and> getVaultDebt w vid + amount < 256 ^ 32
      \<and> w' = AddLog (sstore (sstore (sstore w2 vault_addr (debtKey vid) (fill_be 32 (getVaultDebt w vid + amount)))
               vault_addr totalDebtKey total_slot) pool_addr (stabilityMintedDebtKey caller) minted_slot)
             vault_addr [storageKey (bytes_of_string ''Minted''), stringToHash vid, callerHash caller]
             (big_bytes amount) b"
proof -
  let ?w = "touch (touch w pool_addr) vault_addr"
  let ?rest = "\<lambda>w2. if \<not> isAboveMinCRatio (getVaultCollaterals ?w vid) (getVaultDebt ?w vid + amount) 0
              then (Err (Errorf ''2WAY: mint would violate minimum collateral ratio''), w2)
              else
                putSlot w2 vault_addr (debtKey vid) (int (getVaultDebt ?w vid + amount)) (\<lambda>w3.
                addTotalDebt w3 amount (\<lambda>w4.
                addStabilityMintedDebt w4 caller amount (\<lambda>w5.
                  (Ret vid, AddLog w5 vault_addr
                     [storageKey (bytes_of_string ''Minted''), stringToHash vid, callerHash caller]
                     (big_bytes amount) b))))"
  have guards: "stabilityMintedDebt (touch w pool_addr) caller = 0" "pool_deposit (touch w pool_addr) caller = 0"
    and route: "route_fee ?w caller (amount * mint_fee_bps ?w (getVaultCollaterals ?w vid) div 10000) ?rest = (Ret out, w')"
    using assms(1) unfolding twoWayMint_def Let_def vid_def amount_def by (auto split: if_splits)
  from guards show "stabilityMintedDebt w caller = 0" "pool_deposit w caller = 0"
    by (simp_all add: stabilityMintedDebt_def pool_deposit_def)
  obtain w2 where w2: "?rest w2 = (Ret out, w')" "acct w2 vault_addr = acct ?w vault_addr"
      "\<forall>k. k \<notin> {wayRewardsKey, swayRewardsKey, totalRewardsKey, lpFeeKey caller} \<longrightarrow>
           sload w2 pool_addr k = sload ?w pool_addr k"
    using route_fee_Ret[OF route] by blast
  then show ratio: "isAboveMinCRatio (getVaultCollaterals w vid) (getVaultDebt w vid + amount) 0"
    by (auto split: if_splits)
  have put: "putSlot w2 vault_addr (debtKey vid) (int (getVaultDebt w vid + amount)) (\<lambda>w3.
      addTotalDebt w3 amount (\<lambda>w4. addStabilityMintedDebt w4 caller amount (\<lambda>w5.
        (Ret vid, AddLog w5 vault_addr
           [storageKey (bytes_of_string ''Minted''), stringToHash vid, callerHash caller]
           (big_bytes amount) b)))) = (Ret out, w')"
    using w2(1) ratio by simp
  have "nat \<bar>int (getVaultDebt w vid + amount)\<bar> = getVaultDebt w vid + amount"
    by simp
  then show "\<exists>w2 total_slot minted_slot. acct w2 vault_addr = acct w vault_addr
      \<and> (\<forall>k. k \<notin> {wayRewardsKey, swayRewardsKey, totalRewardsKey, lpFeeKey caller} \<longrightarrow>
           sload w2 pool_addr k = sload w pool_addr k)
      \<and> getVaultDebt w vid + amount < 256 ^ 32
      \<and> w' = AddLog (sstore (sstore (sstore w2 vault_addr (debtKey vid) (fill_be 32 (getVaultDebt w vid + amount)))
               vault_addr totalDebtKey total_slot) pool_addr (stabilityMintedDebtKey caller) minted_slot)
             vault_addr [storageKey (bytes_of_string ''Minted''), stringToHash vid, callerHash caller]
             (big_bytes amount) b"
    using putSlot_Ret[OF put] w2(2,3)
    unfolding addTotalDebt_def addStabilityMintedDebt_def
    by (intro exI[of _ w2]) (auto dest!: addSlot_Ret)
qed

lemma mint_well_backed:
  assumes "twoWayMint input caller w b = (Ret out, w')"
  defines "vid \<equiv> slice 4 36 input"
  shows "well_backed w' vid \<and> getVaultDebt w' vid = getVaultDebt w vid + readBigInt (readSlot input 36)
    \<and> vault_collateral w' vid = vault_collateral w vid"
proof -
  obtain w2 where "acct w2 vault_addr = acct w vault_addr"
    and "getVaultDebt w' vid = getVaultDebt w vid + readBigInt (readSlot input 36)"
      "vault_collateral w' vid = vault_collateral w2 vid"
    using twoWayMint_Ret(4)[OF assms(1)] by (auto simp: readBigInt_fill vid_def)
  moreover from this(1) have "vault_collateral w2 vid = vault_collateral w vid"
    by (simp add: vault_collateral_def getVaultCollaterals_def)
  ultimately show ?thesis
    using twoWayMint_Ret(3)[OF assms(1)]
    by (simp add: well_backed_def isAboveMinCRatio_iff vault_collateral_def vid_def)
qed

lemma sum_update: "map_of m k = Some v \<Longrightarrow> sum_collateral (AList.update k v' m) + v = sum_collateral m + v'"
  by (induction m) (auto simp: sum_collateral_def split: if_splits)

lemma withdraw_well_backed:
  assumes "twoWayWithdraw input caller w b = (Ret out, w')" and wf: "storage_wf (acct w vault_addr)"
  defines "vid \<equiv> slice 4 36 input"
  shows "well_backed w' vid \<and> getVaultDebt w' vid = getVaultDebt w vid
    \<and> vault_collateral w' vid + readBigInt (readSlot input 56) = vault_collateral w vid"
proof -
  let ?name = "trimRightZeros (slice 36 56 input)" and ?amount = "readBigInt (readSlot input 56)"
  let ?cs = "getVaultCollaterals w vid"
  obtain cur where cur: "map_of ?cs ?name = Some cur" "?amount \<le> cur"
    and len: "88 \<le> length input"
    and ratio: "isAboveMinCRatio (AList.update ?name (cur - ?amount) ?cs) (getVaultDebt w vid) 0"
    and put: "putSlot (touch w vault_addr) vault_addr (collateralKey vid ?name) (int (cur - ?amount)) (\<lambda>w1.
       (Ret vid, AddLog w1 vault_addr
          [storageKey (bytes_of_string ''Withdrawn''), stringToHash vid, callerHash caller]
          (big_bytes ?amount) b)) = (Ret out, w')"
    using assms(1) unfolding twoWayWithdraw_def Let_def vid_def
    by (auto split: if_splits option.splits)
  have vlen: "length vid = 32"
    using len by (simp add: vid_def)
  obtain k where k: "is_collateral_key vid k" "trimRightZeros (drop 21 k) = ?name"
    using map_of_SomeD[OF cur(1)] getVaultCollaterals_map[OF wf vlen] collateral_slots_keys by fastforce
  have key: "collateralKey vid ?name = k"
    using collateralKey_of_key[OF k(1) vlen] k(2) by simp
  have small: "cur - ?amount < 256 ^ 32"
    and w': "w' = AddLog (sstore (touch w vault_addr) vault_addr k (fill_be 32 (cur - ?amount))) vault_addr
      [storageKey (bytes_of_string ''Withdrawn''), stringToHash vid, callerHash caller] (big_bytes ?amount) b"
    using putSlot_Ret[OF put] by (auto simp: key nat_diff_distrib)
  have "getVaultCollaterals w' vid = AList.update ?name (cur - ?amount) ?cs"
    using getVaultCollaterals_put[of "touch w vault_addr" vid k] wf vlen k small
    by (simp add: w' readBigInt_fill)
  moreover have "getVaultDebt w' vid = getVaultDebt w vid"
    by (simp add: w' flip: key)
  ultimately show ?thesis
    using ratio sum_update[OF cur(1), of "cur - ?amount"] cur(2)
    by (simp add: well_backed_def vault_collateral_def isAboveMinCRatio_iff)
qed

text \<open>
  A repayment lowers the debt and leaves the collateral; a liquidation clears the debt and leaves
  the collateral as well.
\<close>

lemma burn_effect:
  assumes "twoWayBurn input caller w b = (Ret out, w')"
  defines "vid \<equiv> slice 4 36 input" and "amount \<equiv> readBigInt (readSlot input 36)"
  shows "getVaultDebt w' vid = getVaultDebt w vid - amount"
    "vault_collateral w' vid = vault_collateral w vid"
proof -
  have burn: "reduceSlot (touch w vault_addr) vault_addr (debtKey vid) amount (\<lambda>w1.
      reduceSlot (touch w1 pool_addr) pool_addr (stabilityMintedDebtKey caller) amount (\<lambda>w2.
      reduceSlot w2 vault_addr totalDebtKey amount (\<lambda>w3. (Ret vid, AddLog w3 vault_addr
             [storageKey (bytes_of_string ''Burned''), stringToHash vid, callerHash caller]
             (big_bytes amount) b)))) = (Ret out, w')"
    using assms(1)
    unfolding twoWayBurn_def Let_def reduceStabilityMintedDebt_def reduceTotalDebt_def vid_def amount_def
    by (simp split: if_splits)
  note step1 = reduceSlot_Ret[OF burn]
  note step2 = reduceSlot_Ret[OF conjunct2[OF step1]]
  note step3 = reduceSlot_Ret[OF conjunct2[OF step2]]
  obtain s1 s2 t d where "w' = AddLog (sstore (sstore (touch (sstore (touch w vault_addr)
        vault_addr (debtKey vid) (fill_be 32 (getVaultDebt w vid - amount))) pool_addr)
        pool_addr (stabilityMintedDebtKey caller) s1) vault_addr totalDebtKey s2) vault_addr t d b"
    using step3 by (simp add: getVaultDebt_def) blast
  moreover have "getVaultDebt w vid - amount < 256 ^ 32"
    using step1 by (simp add: getVaultDebt_def)
  ultimately show "getVaultDebt w' vid = getVaultDebt w vid - amount"
    "vault_collateral w' vid = vault_collateral w vid"
    by (simp_all add: readBigInt_fill)
qed

lemma liquidate_effect:
  assumes "twoWayLiquidate input caller w b = (Ret out, w')"
  defines "vid \<equiv> slice 4 36 input"
  shows "getVaultDebt w' vid = 0" "getVaultCollaterals w' vid = getVaultCollaterals w vid"
    "\<not> isAboveLiquidationRatio (touch w vault_addr) vid (getVaultDebt w vid)"
proof -
  obtain s where "w' = AddLog (sstore (sstore (touch w vault_addr) vault_addr (debtKey vid) (fill_be 32 0))
        vault_addr totalDebtKey s) vault_addr
        [storageKey (bytes_of_string ''Liquidated''), stringToHash vid, callerHash caller]
        (big_bytes (getVaultDebt w vid)) b"
    and "\<not> isAboveLiquidationRatio (touch w vault_addr) vid (getVaultDebt w vid)"
    using assms(1)
    unfolding twoWayLiquidate_def Let_def reduceTotalDebt_def vid_def
    by (auto split: if_splits dest!: putSlot_Ret reduceSlot_Ret)
  then show "getVaultDebt w' vid = 0" "getVaultCollaterals w' vid = getVaultCollaterals w vid"
    "\<not> isAboveLiquidationRatio (touch w vault_addr) vid (getVaultDebt w vid)"
    by (simp_all add: readBigInt_def)
qed

text \<open>A deposit sets the collateral of the stablecoin to the deposited amount.\<close>

lemma collateralKey_is_key:
  assumes "length vid = 32" "name \<noteq> []" "length name \<le> 11" "last name \<noteq> 0"
  shows "is_collateral_key vid (collateralKey vid name)"
    and "trimRightZeros (drop 21 (collateralKey vid name)) = name"
proof -
  have trim: "trimRightZeros (name @ replicate n 0) = name" for n
    using assms(2,4)
    by (cases name rule: rev_cases) (simp_all add: trimRightZeros_def dropWhile_append3)
  have "drop 21 (collateralKey vid name) = name @ replicate (11 - length name) 0"
    using assms collateralKey_form[OF assms(1,3)] by (simp add: drop_Cons')
  then show "trimRightZeros (drop 21 (collateralKey vid name)) = name"
    by (simp add: trim)
  moreover have "length (collateralKey vid name) = 32" "slice 1 21 (collateralKey vid name) = take 20 vid"
    using assms collateralKey_form[OF assms(1,3)] by (simp_all add: slice_def)
  ultimately show "is_collateral_key vid (collateralKey vid name)"
    using assms(2) by (simp add: is_collateral_key_def key_first_bytes hasPrefix_def min_def)
qed

lemma deposit_replaces:
  assumes "twoWayDeposit input caller w b = (Ret out, w')" and "storage_wf (acct w vault_addr)"
  defines "vid \<equiv> slice 4 36 input" and "name \<equiv> trimRightZeros (slice 36 56 input)"
  assumes "name \<noteq> []" "length name \<le> 11"
  shows "getVaultCollaterals w' vid = AList.update name (readBigInt (readSlot input 56)) (getVaultCollaterals w vid)"
    and "getVaultDebt w' vid = getVaultDebt w vid"
proof -
  let ?amount = "readBigInt (readSlot input 56)"
  have w': "w' = AddLog (sstore (touch w vault_addr) vault_addr (collateralKey vid name) (fill_be 32 ?amount))
      vault_addr [storageKey (bytes_of_string ''Deposited''), stringToHash vid, callerHash caller]
      (big_bytes ?amount) b" and small: "?amount < 256 ^ 32" and len: "88 \<le> length input"
    using assms(1) unfolding twoWayDeposit_def Let_def vid_def name_def
    by (auto split: if_splits dest!: putSlot_Ret)
  have "last name \<noteq> 0"
    using assms(5) unfolding name_def trimRightZeros_def
    using hd_dropWhile[of "\<lambda>x. x = 0" "rev (slice 36 56 input)"] by (simp add: last_rev)
  moreover have "length vid = 32"
    using len by (simp add: vid_def)
  ultimately show "getVaultCollaterals w' vid = AList.update name ?amount (getVaultCollaterals w vid)"
    using getVaultCollaterals_put[of "touch w vault_addr" vid "collateralKey vid name" "fill_be 32 ?amount"]
      collateralKey_is_key[of vid name] assms small
    by (simp add: w' readBigInt_fill)
  show "getVaultDebt w' vid = getVaultDebt w vid"
    by (simp add: w')
qed

text \<open>
  The collateral of a vault is found under the first 20 bytes of its id, its debt under the first
  31: vaults that agree on the first 20 bytes share their collateral and not their debt.
\<close>

lemma shared_collateral: "take 20 vid = take 20 vid' \<Longrightarrow> getVaultCollaterals w vid = getVaultCollaterals w vid'"
  by (simp add: getVaultCollaterals_def is_collateral_key_def)

lemma debtKey_inj:
  assumes "length vid = 32" "length vid' = 32" "debtKey vid = debtKey vid'" shows "take 31 vid = take 31 vid'"
  using assms by (simp add: debtKey_def copy_at_def zero_slot_Cons)

subsection \<open>No call but a deposit unbacks a vault\<close>

text \<open>A refused call leaves the vault account as it was, though a refused mint keeps its fee entries.\<close>

lemma addSlot_Err:
  "addSlot w a k d rest = (Err e, w') \<Longrightarrow> \<exists>v. rest (sstore w a k v) = (Err e, w')"
  by (auto simp: addSlot_def putSlot_cases split: if_splits)

lemma acct_sstore_pool [simp]: "acct (sstore w pool_addr k v) vault_addr = acct w vault_addr"
  by (simp add: acct_sstore)

lemma route_fee_Err:
  assumes "route_fee w c fee rest = (Err e, w')"
  shows "\<exists>w2. rest w2 = (Err e, w') \<and> acct w2 vault_addr = acct w vault_addr"
proof (cases "fee = 0")
  case False
  then obtain v1 v2 v3 v4 where
    "rest (sstore (sstore (sstore (sstore w pool_addr wayRewardsKey v1) pool_addr swayRewardsKey v2)
       pool_addr totalRewardsKey v3) pool_addr (lpFeeKey c) v4) = (Err e, w')"
    using assms unfolding route_fee_def Let_def by (auto dest!: addSlot_Err)
  then show ?thesis
    by (intro exI conjI) (assumption, simp)
qed (use assms in \<open>auto simp: route_fee_def\<close>)

lemma mint_refused:
  assumes "twoWayMint input c w b = (Err e, w')"
  shows "acct w' vault_addr = acct w vault_addr"
  using assms unfolding twoWayMint_def Let_def
  by (auto simp: slot_ops putSlot_cases split: if_splits dest!: route_fee_Err)

lemma refused_vault_call:
  assumes "(s, f) \<in> set two_way_table" "f input c w b = (Err e, w')"
  shows "acct w' vault_addr = acct w vault_addr"
  using assms mint_refused[of input c w b e w']
  by (auto simp: two_way_table_def twoWayDeposit_def twoWayWithdraw_def twoWayBurn_def twoWayLiquidate_def
        twoWayGetVault_def twoWayVaultCount_def twoWayGetStablecoinPrice_def slot_ops putSlot_cases Let_def
        split: if_splits option.splits)

lemma backed_frame: "acct w' vault_addr = acct w vault_addr \<Longrightarrow> well_backed w' vid = well_backed w vid"
  by (simp add: well_backed_def vault_collateral_def getVaultCollaterals_def getVaultDebt_def sload_def)

lemma vault_reads:
  assumes "f = twoWayGetVault \<or> f = twoWayVaultCount \<or> f = twoWayGetStablecoinPrice" "f input c w b = (r, w')"
  shows "acct w' vault_addr = acct w vault_addr"
  using assms by (auto simp: twoWayGetVault_def twoWayVaultCount_def twoWayGetStablecoinPrice_def Let_def split: if_splits)

lemma vault_op_backed:
  assumes f: "(s, f) \<in> set two_way_table" "s \<noteq> twoWayDepositSelector"
    and w: "storage_wf (acct w vault_addr)" "well_backed w (slice 4 36 input)" and r: "f input c w b = (r, w')" "r \<noteq> Panic"
  shows "well_backed w' (slice 4 36 input)"
proof (cases r)
  case (Ret out)
  consider "f = twoWayMint" | "f = twoWayWithdraw" | "f = twoWayBurn" | "f = twoWayLiquidate"
    | "f = twoWayGetVault \<or> f = twoWayVaultCount \<or> f = twoWayGetStablecoinPrice"
    using f by (auto simp: two_way_table_def)
  then show ?thesis
  proof cases
    case 1
    then show ?thesis using mint_well_backed r(1) Ret by blast
  next
    case 2
    then show ?thesis using withdraw_well_backed[OF _ w(1)] r(1) Ret by blast
  next
    case 3
    then show ?thesis using burn_effect[of input c w b out w'] w(2) r(1) Ret by (simp add: well_backed_def)
  next
    case 4
    then show ?thesis using liquidate_effect[of input c w b out w'] r(1) Ret by (simp add: well_backed_def)
  next
    case 5
    then show ?thesis using vault_reads[of f input c w b r w'] r(1) w(2) backed_frame by blast
  qed
next
  case (Err e)
  then show ?thesis using refused_vault_call[OF f(1)] r(1) w(2) backed_frame by blast
qed (use r in simp)

lemma vault_call_backed:
  assumes "selectorBytes input \<noteq> twoWayDepositSelector" "storage_wf (acct w vault_addr)" "well_backed w (slice 4 36 input)"
    and "fst (twoWayVaultPrecompile input c w b) \<noteq> Panic"
  shows "well_backed (snd (twoWayVaultPrecompile input c w b)) (slice 4 36 input)"
proof (cases "map_of two_way_table (selectorBytes input)")
  case (Some f)
  then show ?thesis
    using assms vault_op_backed[OF map_of_SomeD[OF Some] assms(1-3), of c b]
    by (cases "f input c w b") (auto simp: twoWayVaultPrecompile_def switch_def)
qed (use assms in \<open>simp add: twoWayVaultPrecompile_def switch_def unknown_selector_def\<close>)

end
