(* ===== verification/Stability_Pool.thy ===== *)
theory Stability_Pool
  imports Two_Way
begin

text \<open>
  Precompile 0x19, the stability pool of the 2WAY vaults (\<^verbatim>\<open>evm/stability_pool.go\<close>), and the two
  contracts running together: calls to both in any order keep a caller from being a borrower and
  a provider of liquidity at once, and keep the deposit total equal to the sum of the deposits.
\<close>

definition stabilityDepositSelector :: u32 where "stabilityDepositSelector = 0x4E26609A"
definition stabilityWithdrawSelector :: u32 where "stabilityWithdrawSelector = 0x2E1A7DDD"
definition stabilityClaimSelector :: u32 where "stabilityClaimSelector = 0x6B6F4360"
definition stabilityGetDepositSelector :: u32 where "stabilityGetDepositSelector = 0x3C5F5F80"
definition stabilityGetPoolSelector :: u32 where "stabilityGetPoolSelector = 0x8C5F41D0"
definition stabilityAbsorbSelector :: u32 where "stabilityAbsorbSelector = 0x91B78CB4"

definition totalDepositsKey :: slot where "totalDepositsKey = storageKey (bytes_of_string ''totalDeposits'')"
definition twoWayBalanceKey :: slot where "twoWayBalanceKey = storageKey (bytes_of_string ''twoWayBalance'')"

definition subSlot ::
  "World \<Rightarrow> string \<Rightarrow> slot \<Rightarrow> nat \<Rightarrow> (World \<Rightarrow> 'a outcome \<times> World) \<Rightarrow> 'a outcome \<times> World" where
  "subSlot w a k d = putSlot w a k (int (readBigInt (sload w a k)) - int d)"

definition stabilityDeposit :: call where
  "stabilityDeposit input caller w0 b =
     (if length input < 4 + 32 then (Err (Errorf ''2WAY StabilityPool: deposit input too short''), w0)
      else
        let amount = readBigInt (readSlot input 4) in
        if amount = 0 then (Err (Errorf ''2WAY StabilityPool: deposit must be > 0''), w0)
        else
          let w = touch w0 pool_addr in
          if 0 < stabilityMintedDebt w caller
          then (Err (Errorf ''2WAY StabilityPool: caller has active 2WAY debt''), w)
          else
            addSlot w pool_addr (stabilityDepositKey caller) amount (\<lambda>w1.
            addSlot w1 pool_addr totalDepositsKey amount (\<lambda>w2.
            addSlot w2 pool_addr twoWayBalanceKey amount (\<lambda>w3.
              (Ret (fill_be 32 amount),
               AddLog w3 pool_addr [storageKey (bytes_of_string ''Deposited''), callerHash caller]
                 (big_bytes amount) b)))))"

definition stabilityWithdraw :: call where
  "stabilityWithdraw input caller w0 b =
     (if length input < 4 + 32 then (Err (Errorf ''2WAY StabilityPool: withdraw input too short''), w0)
      else
        let amount = readBigInt (readSlot input 4) in
        if amount = 0 then (Err (Errorf ''2WAY StabilityPool: withdraw must be > 0''), w0)
        else
          let w = touch w0 pool_addr in
          if pool_deposit w caller < amount
          then (Err (Errorf ''2WAY StabilityPool: withdraw exceeds deposit''), w)
          else
            subSlot w pool_addr (stabilityDepositKey caller) amount (\<lambda>w1.
            subSlot w1 pool_addr totalDepositsKey amount (\<lambda>w2.
            subSlot w2 pool_addr twoWayBalanceKey amount (\<lambda>w3.
              (Ret (fill_be 32 amount),
               AddLog w3 pool_addr [storageKey (bytes_of_string ''Withdrawn''), callerHash caller]
                 (big_bytes amount) b)))))"

definition stabilityClaimRewards :: call where
  "stabilityClaimRewards input caller w0 b =
     (let w = touch w0 pool_addr;
          pendingRewards = readBigInt (sload w pool_addr (stabilityRewardKey caller))
            + readBigInt (sload w pool_addr (lpFeeKey caller)) in
      if pendingRewards = 0 then (Err (Errorf ''2WAY StabilityPool: no rewards to claim''), w)
      else
        putSlot w pool_addr (stabilityRewardKey caller) 0 (\<lambda>w1.
        putSlot w1 pool_addr (lpFeeKey caller) 0 (\<lambda>w2.
        putSlot w2 pool_addr totalRewardsKey 0 (\<lambda>w3.
        putSlot w3 pool_addr wayRewardsKey 0 (\<lambda>w4.
        putSlot w4 pool_addr swayRewardsKey 0 (\<lambda>w5.
          let w6 = AddLog w5 pool_addr [storageKey (bytes_of_string ''RewardsClaimed''), callerHash caller]
                     (big_bytes pendingRewards) b in
          if 256 ^ 32 \<le> pendingRewards then (Panic, w6) else (Ret (fill_be 32 pendingRewards), w6)))))))"

definition distributeRewards ::
  "World \<Rightarrow> nat \<Rightarrow> nat \<Rightarrow> (World \<Rightarrow> 'a outcome \<times> World) \<Rightarrow> 'a outcome \<times> World" where
  "distributeRewards w totalDeposits reward rest =
     (if reward = 0 \<or> totalDeposits = 0 then rest w
      else
        let wayReward = reward div 2; swayReward = reward - wayReward in
        addSlot w pool_addr wayRewardsKey wayReward (\<lambda>w1.
        addSlot w1 pool_addr swayRewardsKey swayReward (\<lambda>w2.
        addSlot w2 pool_addr totalRewardsKey reward rest)))"

definition stabilityAbsorb :: call where
  "stabilityAbsorb input caller w0 b =
     (if length input < 4 + 32 then (Err (Errorf ''2WAY StabilityPool: absorb input too short''), w0)
      else
        let vaultID = slice 4 36 input; w1 = touch w0 vault_addr; vaultDebt = getVaultDebt w1 vaultID in
        if vaultDebt = 0 then (Err (Errorf ''2WAY StabilityPool: vault has no debt''), w1)
        else
          let w = touch w1 pool_addr;
              twoWayBal = readBigInt (sload w pool_addr twoWayBalanceKey) in
          if twoWayBal < vaultDebt then (Ret (replicate 32 0), w)
          else
            putSlot w pool_addr twoWayBalanceKey (int twoWayBal - int vaultDebt) (\<lambda>w2.
            let totalDeposits = readBigInt (sload w2 pool_addr totalDepositsKey);
                log = (\<lambda>w3. (Ret ((replicate 32 0)[31 := 1]),
                   AddLog w3 pool_addr [storageKey (bytes_of_string ''Absorbed''), stringToHash vaultID]
                     (big_bytes vaultDebt) b)) in
            if 0 < totalDeposits
            then distributeRewards w2 totalDeposits (vaultDebt * 1000 div 10000) log
            else log w2))"

definition stabilityGetDeposit :: call where
  "stabilityGetDeposit input caller w0 b =
     (if length input < 4 + 32 then (Err (Errorf ''2WAY StabilityPool: getDeposit input too short''), w0)
      else let w = touch w0 pool_addr in
           (Ret (fill_be 32 (pool_deposit w (hex_encode (slice 4 36 input)))), w))"

definition stabilityGetPoolStats :: call where
  "stabilityGetPoolStats input caller w0 b =
     (let w = touch w0 pool_addr;
          rd = (\<lambda>k. readBigInt (sload w pool_addr k));
          totalRewards = rd wayRewardsKey + rd swayRewardsKey in
      if 256 ^ 32 \<le> totalRewards then (Panic, w)
      else (Ret (fill_be 32 (rd totalDepositsKey) @ fill_be 32 (rd twoWayBalanceKey)
              @ fill_be 32 totalRewards), w))"

definition pool_table :: "(u32 \<times> call) list" where
  "pool_table =
    [(stabilityDepositSelector, stabilityDeposit), (stabilityWithdrawSelector, stabilityWithdraw),
     (stabilityClaimSelector, stabilityClaimRewards), (stabilityGetDepositSelector, stabilityGetDeposit),
     (stabilityGetPoolSelector, stabilityGetPoolStats), (stabilityAbsorbSelector, stabilityAbsorb)]"

definition stabilityPoolPrecompile :: call where
  "stabilityPoolPrecompile input caller w b =
     (if length input < 4 then (Err (Errorf ''2WAY StabilityPool: input too short''), w)
      else switch pool_table (unknown_selector ''2WAY StabilityPool: unknown selector'')
             (selectorBytes input) input caller w b)"

lemmas pool_ops = stabilityDeposit_def stabilityWithdraw_def stabilityClaimRewards_def stabilityAbsorb_def
  stabilityGetDeposit_def stabilityGetPoolStats_def
lemmas pool_slot_ops = slot_ops subSlot_def distributeRewards_def

lemma pool_table_confined:
  "(s, f) \<in> set pool_table \<Longrightarrow> confined {pool_addr} w (snd (f input caller w b))"
  by (auto simp: pool_table_def pool_ops pool_slot_ops Let_def intro!: confined_putSlot)

lemma pool_confined: "confined {pool_addr} w (snd (stabilityPoolPrecompile input caller w b))"
  unfolding stabilityPoolPrecompile_def
  by (auto simp: unknown_selector_def pool_table_confined intro!: confined_switch)

interpretation pool: confined_contract stabilityPoolPrecompile "{pool_addr}"
  by unfold_locales (rule pool_confined)

subsection \<open>Which slots of the pool a call may change\<close>

definition keeps :: "slot set \<Rightarrow> World \<Rightarrow> World \<Rightarrow> bool" where
  "keeps K w w' \<longleftrightarrow> (\<forall>k. k \<notin> K \<longrightarrow> sload w' pool_addr k = sload w pool_addr k)"

lemma keeps_refl [simp, intro]: "keeps K w w"
  by (simp add: keeps_def)

lemma keeps_simps [simp]:
  "keeps K w (touch w' x) = keeps K w w'" "keeps K w (AddLog w' x t d b) = keeps K w w'"
  "keeps K w (sstore w' vault_addr k v) = keeps K w w'"
  by (simp_all add: keeps_def sload_sstore)

lemma keeps_sstore: "keeps K w w' \<Longrightarrow> a \<noteq> pool_addr \<or> k \<in> K \<Longrightarrow> keeps K w (sstore w' a k v)"
  by (auto simp: keeps_def sload_sstore)

lemma keeps_putSlot:
  assumes "keeps K w w'" "a \<noteq> pool_addr \<or> k \<in> K"
    and "\<And>sl. keeps K w (sstore w' a k sl) \<Longrightarrow> keeps K w (snd (rest (sstore w' a k sl)))"
  shows "keeps K w (snd (putSlot w' a k v rest))"
  using assms by (auto simp: putSlot_def keeps_sstore split: outcome.split)

abbreviation reward_keys :: "string \<Rightarrow> slot set" where
  "reward_keys c \<equiv> {wayRewardsKey, swayRewardsKey, totalRewardsKey, lpFeeKey c, stabilityRewardKey c}"

lemma route_fee_keeps:
  assumes "keeps K w w'" "reward_keys c \<subseteq> K" "\<And>w'. keeps K w w' \<Longrightarrow> keeps K w (snd (rest w'))"
  shows "keeps K w (snd (route_fee w' c fee rest))"
  using assms by (auto simp: route_fee_def slot_ops Let_def intro!: keeps_putSlot)

lemma two_way_keeps:
  "keeps {} w (snd (twoWayDeposit input c w b))"
  "keeps {} w (snd (twoWayWithdraw input c w b))"
  "keeps {} w (snd (twoWayLiquidate input c w b))"
  "keeps {stabilityMintedDebtKey c} w (snd (twoWayBurn input c w b))"
  "keeps (insert (stabilityMintedDebtKey c) (reward_keys c)) w (snd (twoWayMint input c w b))"
  "keeps {stabilityDepositKey c, totalDepositsKey, twoWayBalanceKey} w (snd (stabilityDeposit input c w b))"
  "keeps {stabilityDepositKey c, totalDepositsKey, twoWayBalanceKey} w (snd (stabilityWithdraw input c w b))"
  "keeps (reward_keys c) w (snd (stabilityClaimRewards input c w b))"
  "keeps (insert twoWayBalanceKey (reward_keys c)) w (snd (stabilityAbsorb input c w b))"
  by (auto simp: twoWayDeposit_def twoWayWithdraw_def twoWayLiquidate_def twoWayBurn_def twoWayMint_def
      pool_ops pool_slot_ops Let_def split: option.splits intro!: keeps_putSlot route_fee_keeps)

subsection \<open>Keys\<close>

text \<open>
  The keys are SHA-256 digests. That the digests of the inputs that occur differ is a
  hypothesis, for the callers at hand.
\<close>

definition pool_inputs :: "string set \<Rightarrow> bytes set" where
  "pool_inputs U =
     bytes_of_string ` {''wayRewards'', ''swayRewards'', ''totalRewards'', ''totalDeposits'', ''twoWayBalance''}
     \<union> (\<Union>u\<in>U. (\<lambda>p. p # bytes_of_string u) ` {StabilitySlotDeposits, StabilitySlotRewards,
            StabilitySlotLastDeposit, StabilitySlotMintedDebt})"

definition no_collisions :: "string set \<Rightarrow> bool" where
  "no_collisions U \<longleftrightarrow> inj_on storageKey (pool_inputs U)"

lemmas pool_key_defs = stabilityDepositKey_def stabilityMintedDebtKey_def stabilityRewardKey_def lpFeeKey_def
  wayRewardsKey_def swayRewardsKey_def totalRewardsKey_def totalDepositsKey_def twoWayBalanceKey_def

lemma storageKey_eq:
  "no_collisions U \<Longrightarrow> x \<in> pool_inputs U \<Longrightarrow> y \<in> pool_inputs U \<Longrightarrow> storageKey x = storageKey y \<longleftrightarrow> x = y"
  by (simp add: no_collisions_def inj_on_eq_iff)

lemma pool_inputs_I [simp, intro]:
  "bytes_of_string ''wayRewards'' \<in> pool_inputs U" "bytes_of_string ''swayRewards'' \<in> pool_inputs U"
  "bytes_of_string ''totalRewards'' \<in> pool_inputs U" "bytes_of_string ''totalDeposits'' \<in> pool_inputs U"
  "bytes_of_string ''twoWayBalance'' \<in> pool_inputs U"
  "u \<in> U \<Longrightarrow> StabilitySlotDeposits # bytes_of_string u \<in> pool_inputs U"
  "u \<in> U \<Longrightarrow> StabilitySlotRewards # bytes_of_string u \<in> pool_inputs U"
  "u \<in> U \<Longrightarrow> StabilitySlotLastDeposit # bytes_of_string u \<in> pool_inputs U"
  "u \<in> U \<Longrightarrow> StabilitySlotMintedDebt # bytes_of_string u \<in> pool_inputs U"
  by (auto simp: pool_inputs_def)

lemma pool_keys_apart:
  assumes "no_collisions U" "u \<in> U" "c \<in> U"
  shows "stabilityDepositKey u = stabilityDepositKey c \<longleftrightarrow> u = c"
    "stabilityMintedDebtKey u = stabilityMintedDebtKey c \<longleftrightarrow> u = c"
    "stabilityDepositKey u \<noteq> stabilityMintedDebtKey c" "stabilityMintedDebtKey u \<noteq> stabilityDepositKey c"
    "stabilityDepositKey u \<notin> reward_keys c" "stabilityMintedDebtKey u \<notin> reward_keys c"
    "stabilityDepositKey u \<noteq> totalDepositsKey" "stabilityMintedDebtKey u \<noteq> totalDepositsKey"
    "stabilityDepositKey u \<noteq> twoWayBalanceKey" "stabilityMintedDebtKey u \<noteq> twoWayBalanceKey"
    "totalDepositsKey \<notin> reward_keys c" "totalDepositsKey \<noteq> twoWayBalanceKey"
  using assms
  by (simp_all add: pool_key_defs storageKey_eq[OF assms(1)])
    (simp_all add: bytes_of_string_def pool_slots)

subsection \<open>Borrowers are not providers\<close>

lemma readBigInt_fill_le: "readBigInt (fill_be 32 v) \<le> v"
  by (simp add: readBigInt_def)

lemma keeps_minted: "keeps K w w' \<Longrightarrow> stabilityMintedDebtKey u \<notin> K \<Longrightarrow> stabilityMintedDebt w' u = stabilityMintedDebt w u"
  and keeps_deposit: "keeps K w w' \<Longrightarrow> stabilityDepositKey u \<notin> K \<Longrightarrow> pool_deposit w' u = pool_deposit w u"
  by (simp_all add: keeps_def stabilityMintedDebt_def pool_deposit_def)

text \<open>A debt lock rises only for a caller without lock and deposit; a deposit only without a lock.\<close>

lemma mint_minted:
  "stabilityMintedDebt (snd (twoWayMint input c w b)) c = stabilityMintedDebt w c
   \<or> stabilityMintedDebt w c = 0 \<and> pool_deposit w c = 0"
  by (auto simp: twoWayMint_def Let_def stabilityMintedDebt_def pool_deposit_def)

lemma deposit_deposited:
  "pool_deposit (snd (stabilityDeposit input c w b)) c = pool_deposit w c \<or> stabilityMintedDebt w c = 0"
  by (auto simp: stabilityDeposit_def Let_def stabilityMintedDebt_def pool_deposit_def)

lemma putSlot_bound:
  assumes "nat \<bar>v\<bar> \<le> n" "readBigInt (sload w a k) \<le> n"
    and "\<And>w'. readBigInt (sload w' a k) \<le> n \<Longrightarrow> readBigInt (sload (snd (rest w')) a k) \<le> n"
  shows "readBigInt (sload (snd (putSlot w a k v rest)) a k) \<le> n"
proof -
  have "readBigInt (sload (sstore w a k (fill_be 32 (nat \<bar>v\<bar>))) a k) \<le> n"
    using readBigInt_fill_le[of "nat \<bar>v\<bar>"] assms(1) by (simp add: sload_sstore)
  then show ?thesis
    using assms(2,3) by (simp add: putSlot_cases)
qed

lemma sload_putSlot_other:
  assumes "a' \<noteq> a \<or> k' \<noteq> k" "readBigInt (sload w a k) \<le> n"
    and "\<And>w'. readBigInt (sload w' a k) \<le> n \<Longrightarrow> readBigInt (sload (snd (rest w')) a k) \<le> n"
  shows "readBigInt (sload (snd (putSlot w a' k' v rest)) a k) \<le> n"
  using assms by (auto simp: putSlot_cases sload_sstore)

lemma burn_minted: "stabilityMintedDebt (snd (twoWayBurn input c w b)) c \<le> stabilityMintedDebt w c"
  unfolding twoWayBurn_def Let_def stabilityMintedDebt_def slot_ops
  by (simp, intro conjI impI sload_putSlot_other putSlot_bound)
    (auto simp: stabilityMintedDebt_def sload_sstore intro!: sload_putSlot_other putSlot_bound)

lemma withdraw_deposited:
  assumes "stabilityDepositKey c \<noteq> totalDepositsKey" "stabilityDepositKey c \<noteq> twoWayBalanceKey"
  shows "pool_deposit (snd (stabilityWithdraw input c w b)) c \<le> pool_deposit w c"
  using assms
  unfolding stabilityWithdraw_def Let_def pool_deposit_def subSlot_def
  by (auto simp: sload_sstore intro!: sload_putSlot_other putSlot_bound)

definition exclusive :: "string set \<Rightarrow> World \<Rightarrow> bool" where
  "exclusive U w \<longleftrightarrow> (\<forall>u\<in>U. stabilityMintedDebt w u = 0 \<or> pool_deposit w u = 0)"

lemma exclusive_ops:
  assumes "no_collisions U" "c \<in> U" "exclusive U w"
  shows "exclusive U (snd (twoWayDeposit input c w b))" "exclusive U (snd (twoWayWithdraw input c w b))"
    "exclusive U (snd (twoWayLiquidate input c w b))" "exclusive U (snd (stabilityClaimRewards input c w b))"
    "exclusive U (snd (stabilityAbsorb input c w b))"
    "exclusive U (snd (twoWayBurn input c w b))" "exclusive U (snd (twoWayMint input c w b))"
    "exclusive U (snd (stabilityDeposit input c w b))" "exclusive U (snd (stabilityWithdraw input c w b))"
proof -
  note apart = pool_keys_apart[OF assms(1) _ assms(2)]
  have frame: "exclusive U w'" if "keeps K w w'"
      "\<And>u. u \<in> U \<Longrightarrow> stabilityMintedDebtKey u \<notin> K \<and> stabilityDepositKey u \<notin> K" for K w'
    using assms(3) that keeps_minted[OF that(1)] keeps_deposit[OF that(1)] by (simp add: exclusive_def)
  show "exclusive U (snd (twoWayDeposit input c w b))" "exclusive U (snd (twoWayWithdraw input c w b))"
    "exclusive U (snd (twoWayLiquidate input c w b))" "exclusive U (snd (stabilityClaimRewards input c w b))"
    "exclusive U (snd (stabilityAbsorb input c w b))"
    by (rule frame[OF two_way_keeps(1)] frame[OF two_way_keeps(2)] frame[OF two_way_keeps(3)]
        frame[OF two_way_keeps(8)] frame[OF two_way_keeps(9)], use apart in simp)+
  have one: "exclusive U w'" if "keeps K w w'"
      "\<And>u. u \<in> U \<Longrightarrow> u \<noteq> c \<Longrightarrow> stabilityMintedDebtKey u \<notin> K \<and> stabilityDepositKey u \<notin> K"
      "stabilityMintedDebt w' c = 0 \<or> pool_deposit w' c = 0" for K w'
    using assms(3) that keeps_minted[OF that(1)] keeps_deposit[OF that(1)]
    unfolding exclusive_def by metis
  have c: "stabilityMintedDebt w c = 0 \<or> pool_deposit w c = 0"
    using assms(2,3) by (simp add: exclusive_def)
  show "exclusive U (snd (twoWayBurn input c w b))"
  proof (rule one[OF two_way_keeps(4)])
    fix u assume "u \<in> U" "u \<noteq> c"
    then show "stabilityMintedDebtKey u \<notin> {stabilityMintedDebtKey c} \<and> stabilityDepositKey u \<notin> {stabilityMintedDebtKey c}"
      using apart[of u] by simp
  next
    have "pool_deposit (snd (twoWayBurn input c w b)) c = pool_deposit w c"
      using apart[OF assms(2)] by (intro keeps_deposit[OF two_way_keeps(4)]) simp
    then show "stabilityMintedDebt (snd (twoWayBurn input c w b)) c = 0 \<or> pool_deposit (snd (twoWayBurn input c w b)) c = 0"
      using c burn_minted[of input c w b] apart[OF assms(2)] by auto
  qed
  show "exclusive U (snd (twoWayMint input c w b))"
  proof (rule one[OF two_way_keeps(5)])
    fix u assume "u \<in> U" "u \<noteq> c"
    then show "stabilityMintedDebtKey u \<notin> insert (stabilityMintedDebtKey c) (reward_keys c) \<and> stabilityDepositKey u \<notin> insert (stabilityMintedDebtKey c) (reward_keys c)"
      using apart[of u] by simp
  next
    have "pool_deposit (snd (twoWayMint input c w b)) c = pool_deposit w c"
      using apart[OF assms(2)] by (intro keeps_deposit[OF two_way_keeps(5)]) simp
    then show "stabilityMintedDebt (snd (twoWayMint input c w b)) c = 0 \<or> pool_deposit (snd (twoWayMint input c w b)) c = 0"
      using c mint_minted[of input c w b] apart[OF assms(2)] by auto
  qed
  show "exclusive U (snd (stabilityDeposit input c w b))"
  proof (rule one[OF two_way_keeps(6)])
    fix u assume "u \<in> U" "u \<noteq> c"
    then show "stabilityMintedDebtKey u \<notin> {stabilityDepositKey c, totalDepositsKey, twoWayBalanceKey} \<and> stabilityDepositKey u \<notin> {stabilityDepositKey c, totalDepositsKey, twoWayBalanceKey}"
      using apart[of u] by simp
  next
    have "stabilityMintedDebt (snd (stabilityDeposit input c w b)) c = stabilityMintedDebt w c"
      using apart[OF assms(2)] by (intro keeps_minted[OF two_way_keeps(6)]) simp
    then show "stabilityMintedDebt (snd (stabilityDeposit input c w b)) c = 0 \<or> pool_deposit (snd (stabilityDeposit input c w b)) c = 0"
      using c deposit_deposited[of input c w b] apart[OF assms(2)] by auto
  qed
  show "exclusive U (snd (stabilityWithdraw input c w b))"
  proof (rule one[OF two_way_keeps(7)])
    fix u assume "u \<in> U" "u \<noteq> c"
    then show "stabilityMintedDebtKey u \<notin> {stabilityDepositKey c, totalDepositsKey, twoWayBalanceKey} \<and> stabilityDepositKey u \<notin> {stabilityDepositKey c, totalDepositsKey, twoWayBalanceKey}"
      using apart[of u] by simp
  next
    have "stabilityMintedDebt (snd (stabilityWithdraw input c w b)) c = stabilityMintedDebt w c"
      using apart[OF assms(2)] by (intro keeps_minted[OF two_way_keeps(7)]) simp
    then show "stabilityMintedDebt (snd (stabilityWithdraw input c w b)) c = 0 \<or> pool_deposit (snd (stabilityWithdraw input c w b)) c = 0"
      using c withdraw_deposited[of c input w b] apart[OF assms(2)] by auto
  qed
qed

subsection \<open>The total of the deposits\<close>

definition total_deposits :: "World \<Rightarrow> nat" where
  "total_deposits w = readBigInt (sload w pool_addr totalDepositsKey)"

definition deposits_add_up :: "string set \<Rightarrow> World \<Rightarrow> bool" where
  "deposits_add_up U w \<longleftrightarrow> total_deposits w = (\<Sum>u\<in>U. pool_deposit w u)"

lemma subSlot_Ret:
  "subSlot w a k d rest = (Ret x, w') \<Longrightarrow> d \<le> readBigInt (sload w a k) \<Longrightarrow>
   rest (sstore w a k (fill_be 32 (readBigInt (sload w a k) - d))) = (Ret x, w')
   \<and> readBigInt (sload w a k) - d < 256 ^ 32"
  unfolding subSlot_def by (drule putSlot_Ret) (auto simp: nat_diff_distrib)

lemma deposit_Ret:
  assumes "stabilityDeposit input c w b = (Ret out, w')"
    and "stabilityDepositKey c \<noteq> totalDepositsKey" "stabilityDepositKey c \<noteq> twoWayBalanceKey"
      "totalDepositsKey \<noteq> twoWayBalanceKey"
  shows "pool_deposit w' c = pool_deposit w c + readBigInt (readSlot input 4)
    \<and> total_deposits w' = total_deposits w + readBigInt (readSlot input 4)"
proof -
  let ?n = "readBigInt (readSlot input 4)"
  have "addSlot (touch w pool_addr) pool_addr (stabilityDepositKey c) ?n (\<lambda>w1.
      addSlot w1 pool_addr totalDepositsKey ?n (\<lambda>w2. addSlot w2 pool_addr twoWayBalanceKey ?n (\<lambda>w3.
        (Ret (fill_be 32 ?n), AddLog w3 pool_addr [storageKey (bytes_of_string ''Deposited''), callerHash c]
           (big_bytes ?n) b)))) = (Ret out, w')"
    using assms(1) by (auto simp: stabilityDeposit_def Let_def split: if_splits)
  note step1 = addSlot_Ret[OF this]
  note step2 = addSlot_Ret[OF conjunct2[OF step1]]
  note step3 = addSlot_Ret[OF conjunct2[OF step2]]
  show ?thesis
    using step1 step2 step3 assms(2-4)
    by (auto simp: pool_deposit_def total_deposits_def sload_sstore readBigInt_fill)
qed

lemma withdraw_Ret:
  assumes "stabilityWithdraw input c w b = (Ret out, w')"
    and "stabilityDepositKey c \<noteq> totalDepositsKey" "stabilityDepositKey c \<noteq> twoWayBalanceKey"
      "totalDepositsKey \<noteq> twoWayBalanceKey" "pool_deposit w c \<le> total_deposits w"
  shows "pool_deposit w' c + readBigInt (readSlot input 4) = pool_deposit w c
    \<and> total_deposits w' + readBigInt (readSlot input 4) = total_deposits w"
proof -
  let ?n = "readBigInt (readSlot input 4)"
  have op: "subSlot (touch w pool_addr) pool_addr (stabilityDepositKey c) ?n (\<lambda>w1.
      subSlot w1 pool_addr totalDepositsKey ?n (\<lambda>w2. subSlot w2 pool_addr twoWayBalanceKey ?n (\<lambda>w3.
        (Ret (fill_be 32 ?n), AddLog w3 pool_addr [storageKey (bytes_of_string ''Withdrawn''), callerHash c]
           (big_bytes ?n) b)))) = (Ret out, w')"
    and enough: "?n \<le> pool_deposit w c"
    using assms(1) by (auto simp: stabilityWithdraw_def Let_def pool_deposit_def split: if_splits)
  define w1 where "w1 = sstore (touch w pool_addr) pool_addr (stabilityDepositKey c) (fill_be 32 (pool_deposit w c - ?n))"
  have "?n \<le> readBigInt (sload (touch w pool_addr) pool_addr (stabilityDepositKey c))"
    using enough by (simp add: pool_deposit_def)
  from subSlot_Ret[OF op this] have
    step1: "subSlot w1 pool_addr totalDepositsKey ?n (\<lambda>w2. subSlot w2 pool_addr twoWayBalanceKey ?n (\<lambda>w3.
        (Ret (fill_be 32 ?n), AddLog w3 pool_addr [storageKey (bytes_of_string ''Withdrawn''), callerHash c]
           (big_bytes ?n) b))) = (Ret out, w')" and small1: "pool_deposit w c - ?n < 256 ^ 32"
    by (simp_all add: w1_def pool_deposit_def)
  have w1: "readBigInt (sload w1 pool_addr totalDepositsKey) = total_deposits w" "pool_deposit w1 c = pool_deposit w c - ?n"
    using assms(2) small1 by (simp_all add: w1_def sload_sstore total_deposits_def pool_deposit_def readBigInt_fill)
  then have "?n \<le> readBigInt (sload w1 pool_addr totalDepositsKey)"
    using enough assms(5) by simp
  note step2 = subSlot_Ret[OF step1 this]
  show ?thesis
    using step2 putSlot_Ret[OF conjunct1[OF step2, unfolded subSlot_def]] enough assms(2-5) w1
    by (auto simp: pool_deposit_def total_deposits_def sload_sstore readBigInt_fill)
qed

lemma deposits_add_up_frame:
  assumes "no_collisions U" "c \<in> U" "deposits_add_up U w" "keeps K w w'"
    and "K \<subseteq> insert (stabilityMintedDebtKey c) (insert twoWayBalanceKey (reward_keys c))"
  shows "deposits_add_up U w'"
proof -
  have "pool_deposit w' u = pool_deposit w u" if "u \<in> U" for u
    using keeps_deposit[OF assms(4)] pool_keys_apart[OF assms(1) that assms(2)] assms(5) by auto
  moreover have "total_deposits w' = total_deposits w"
  proof -
    have "totalDepositsKey \<notin> K"
      using assms(5) pool_keys_apart[OF assms(1,2,2)] by auto
    then show ?thesis
      using assms(4) by (simp add: keeps_def total_deposits_def)
  qed
  ultimately show ?thesis
    using assms(3) by (simp add: deposits_add_up_def)
qed

lemma deposits_add_up_change:
  assumes "finite U" "c \<in> U" "deposits_add_up U w" "\<And>u. u \<in> U \<Longrightarrow> u \<noteq> c \<Longrightarrow> pool_deposit w' u = pool_deposit w u"
    and "total_deposits w' + pool_deposit w c = total_deposits w + pool_deposit w' c"
  shows "deposits_add_up U w'"
proof -
  have "(\<Sum>u\<in>U - {c}. pool_deposit w' u) = (\<Sum>u\<in>U - {c}. pool_deposit w u)"
    using assms(4) by (intro sum.cong) auto
  then show ?thesis
    using assms sum.remove[OF assms(1,2), of "pool_deposit w"] sum.remove[OF assms(1,2), of "pool_deposit w'"]
    by (simp add: deposits_add_up_def)
qed

lemma deposit_le_total: "finite U \<Longrightarrow> c \<in> U \<Longrightarrow> deposits_add_up U w \<Longrightarrow> pool_deposit w c \<le> total_deposits w"
  using member_le_sum[of c U "pool_deposit w"] by (simp add: deposits_add_up_def)

lemma deposits_others:
  assumes "no_collisions U" "c \<in> U" "keeps {stabilityDepositKey c, totalDepositsKey, twoWayBalanceKey} w w'" "u \<in> U" "u \<noteq> c"
  shows "pool_deposit w' u = pool_deposit w u"
  using keeps_deposit[OF assms(3)] pool_keys_apart[OF assms(1,4,2)] assms(5) by simp

text \<open>An error of the two operations comes before any write.\<close>

lemma deposit_Err: "stabilityDeposit input c w b = (Err e, w') \<Longrightarrow> w' = w \<or> w' = touch w pool_addr"
  and withdraw_Err: "stabilityWithdraw input c w b = (Err e, w') \<Longrightarrow> w' = w \<or> w' = touch w pool_addr"
  by (auto simp: stabilityDeposit_def stabilityWithdraw_def Let_def pool_slot_ops putSlot_cases split: if_splits)

lemma deposits_add_up_touch [simp]: "deposits_add_up U (touch w a) = deposits_add_up U w"
  by (simp add: deposits_add_up_def total_deposits_def pool_deposit_def)

lemma deposits_ops:
  assumes U: "no_collisions U" "finite U" "c \<in> U" and inv: "deposits_add_up U w"
  shows "fst (stabilityDeposit input c w b) \<noteq> Panic \<Longrightarrow> deposits_add_up U (snd (stabilityDeposit input c w b))"
    and "fst (stabilityWithdraw input c w b) \<noteq> Panic \<Longrightarrow> deposits_add_up U (snd (stabilityWithdraw input c w b))"
proof -
  note apart = pool_keys_apart[OF U(1,3,3)]
  show "deposits_add_up U (snd (stabilityDeposit input c w b))" if "fst (stabilityDeposit input c w b) \<noteq> Panic"
  proof (cases "fst (stabilityDeposit input c w b)")
    case (Ret out)
    then have op: "stabilityDeposit input c w b = (Ret out, snd (stabilityDeposit input c w b))"
      by (simp add: prod_eq_iff)
    show ?thesis
      using deposit_Ret[OF op] apart deposits_others[OF U(1,3) two_way_keeps(6)]
      by (intro deposits_add_up_change[OF U(2,3) inv]) auto
  next
    case (Err e)
    then show ?thesis
      using deposit_Err[of input c w b e "snd (stabilityDeposit input c w b)"] inv by (auto simp: prod_eq_iff)
  qed (use that in simp)
  show "deposits_add_up U (snd (stabilityWithdraw input c w b))" if "fst (stabilityWithdraw input c w b) \<noteq> Panic"
  proof (cases "fst (stabilityWithdraw input c w b)")
    case (Ret out)
    then have op: "stabilityWithdraw input c w b = (Ret out, snd (stabilityWithdraw input c w b))"
      by (simp add: prod_eq_iff)
    have "pool_deposit w c \<le> total_deposits w"
      using deposit_le_total[OF U(2,3) inv] .
    then show ?thesis
      using withdraw_Ret[OF op] apart deposits_others[OF U(1,3) two_way_keeps(7)]
      by (intro deposits_add_up_change[OF U(2,3) inv]) auto
  next
    case (Err e)
    then show ?thesis
      using withdraw_Err[of input c w b e "snd (stabilityWithdraw input c w b)"] inv by (auto simp: prod_eq_iff)
  qed (use that in simp)
qed

subsection \<open>Both contracts together\<close>

fun two_way_call :: "bool \<Rightarrow> call" where
  "two_way_call True = twoWayVaultPrecompile"
| "two_way_call False = stabilityPoolPrecompile"

fun run_both :: "(bool \<times> bytes \<times> string \<times> u64) list \<Rightarrow> World \<Rightarrow> World outcome" where
  "run_both [] w = Ret w"
| "run_both ((v, input, caller, b) # cs) w =
     (case two_way_call v input caller w b of (Panic, _) \<Rightarrow> Panic | (_, w') \<Rightarrow> run_both cs w')"

definition pool_inv :: "string set \<Rightarrow> World \<Rightarrow> bool" where
  "pool_inv U w \<longleftrightarrow> exclusive U w \<and> deposits_add_up U w"

lemma exclusive_touch [simp]: "exclusive U (touch w a) = exclusive U w"
  by (simp add: exclusive_def stabilityMintedDebt_def pool_deposit_def)

lemma pool_inv_table:
  assumes U: "no_collisions U" "finite U" "c \<in> U" and inv: "pool_inv U w"
    and f: "(s, f) \<in> set two_way_table \<union> set pool_table" and "fst (f input c w b) \<noteq> Panic"
  shows "pool_inv U (snd (f input c w b))"
proof -
  have e: "exclusive U w" and d: "deposits_add_up U w"
    using inv by (simp_all add: pool_inv_def)
  note ex = exclusive_ops[OF U(1,3) e]
  note fr = deposits_add_up_frame[OF U(1,3) d]
  note keep = fr[OF two_way_keeps(1)] fr[OF two_way_keeps(2)] fr[OF two_way_keeps(3)] fr[OF two_way_keeps(4)]
    fr[OF two_way_keeps(5)] fr[OF two_way_keeps(8)] fr[OF two_way_keeps(9)]
  have ops: "pool_inv U (snd (twoWayDeposit input c w b))" "pool_inv U (snd (twoWayWithdraw input c w b))"
    "pool_inv U (snd (twoWayLiquidate input c w b))" "pool_inv U (snd (twoWayBurn input c w b))"
    "pool_inv U (snd (twoWayMint input c w b))" "pool_inv U (snd (stabilityClaimRewards input c w b))"
    "pool_inv U (snd (stabilityAbsorb input c w b))"
    unfolding pool_inv_def by (intro conjI ex keep; auto)+
  have reads: "pool_inv U (snd (twoWayGetVault input c w b))" "pool_inv U (snd (twoWayVaultCount input c w b))"
    "pool_inv U (snd (twoWayGetStablecoinPrice input c w b))" "pool_inv U (snd (stabilityGetDeposit input c w b))"
    "pool_inv U (snd (stabilityGetPoolStats input c w b))"
    using inv by (simp_all add: twoWayGetVault_def twoWayVaultCount_def twoWayGetStablecoinPrice_def
        stabilityGetDeposit_def stabilityGetPoolStats_def Let_def pool_inv_def)
  have writes: "fst (stabilityDeposit input c w b) \<noteq> Panic \<Longrightarrow> pool_inv U (snd (stabilityDeposit input c w b))"
    "fst (stabilityWithdraw input c w b) \<noteq> Panic \<Longrightarrow> pool_inv U (snd (stabilityWithdraw input c w b))"
    using ex deposits_ops[OF U d] by (simp_all add: pool_inv_def)
  show ?thesis
    using f assms(6) ops reads writes by (auto simp: two_way_table_def pool_table_def)
qed

lemma pool_inv_call:
  assumes "no_collisions U" "finite U" "c \<in> U" "pool_inv U w" "fst (two_way_call v input c w b) \<noteq> Panic"
  shows "pool_inv U (snd (two_way_call v input c w b))"
proof -
  have "fst (switch table (unknown_selector msg) sel input c w b) \<noteq> Panic \<longrightarrow>
      pool_inv U (snd (switch table (unknown_selector msg) sel input c w b))"
    if "set table \<subseteq> set two_way_table \<union> set pool_table" for table msg sel
  proof (rule switch_cases[where P = "\<lambda>f. fst (f input c w b) \<noteq> Panic \<longrightarrow> pool_inv U (snd (f input c w b))"])
    fix s f assume "(s, f) \<in> set table"
    then show "fst (f input c w b) \<noteq> Panic \<longrightarrow> pool_inv U (snd (f input c w b))"
      using that pool_inv_table[OF assms(1-4)] by blast
  qed (simp add: unknown_selector_def assms(4))
  from this[of two_way_table] this[of pool_table] show ?thesis
    using assms(4,5) by (cases v) (auto simp: twoWayVaultPrecompile_def stabilityPoolPrecompile_def)
qed

lemma run_both_inv:
  assumes "no_collisions U" "finite U"
  shows "pool_inv U w \<Longrightarrow> (\<And>v i c b. (v, i, c, b) \<in> set cs \<Longrightarrow> c \<in> U) \<Longrightarrow> run_both cs w = Ret w' \<Longrightarrow> pool_inv U w'"
proof (induction cs arbitrary: w)
  case (Cons x cs)
  obtain v i c b where x: "x = (v, i, c, b)"
    by (cases x)
  with Cons.prems have "c \<in> U" by auto
  then have "fst (two_way_call v i c w b) \<noteq> Panic \<Longrightarrow> pool_inv U (snd (two_way_call v i c w b))"
    using pool_inv_call[OF assms] Cons.prems(1) by blast
  moreover have "fst (two_way_call v i c w b) \<noteq> Panic" "run_both cs (snd (two_way_call v i c w b)) = Ret w'"
    using Cons.prems(3) x by (auto split: prod.splits outcome.splits)
  moreover have "c' \<in> U" if "(v', i', c', b') \<in> set cs" for v' i' c' b'
    using Cons.prems(2) that by auto
  ultimately show ?case
    using Cons.IH by blast
qed simp

lemma both_call_backed:
  assumes "v \<longrightarrow> slice 4 36 input = vid \<and> selectorBytes input \<noteq> twoWayDepositSelector"
    and "storage_wf (acct w vault_addr)" "well_backed w vid" "fst (two_way_call v input c w b) \<noteq> Panic"
  shows "well_backed (snd (two_way_call v input c w b)) vid"
proof (cases v)
  case False
  have "acct (snd (stabilityPoolPrecompile input c w b)) vault_addr = acct w vault_addr"
    using pool_confined[of w input c b] by (simp add: confined_def)
  from backed_frame[OF this, of vid] show ?thesis
    using False assms(3) by simp
qed (use assms vault_call_backed in auto)

end
