(* ===== verification/Governance.thy ===== *)
theory Governance
  imports Two_Way Dox_Badge
begin

text \<open>
  Precompile 0x1D, governance (\<^verbatim>\<open>evm/governance.go\<close>): proposals, votes, finalization with the
  inflation proposals that take effect, markets, and the curator election.

  Two entry points hash \<^verbatim>\<open>append(input[i:j], ...)\<close>. The slice shares its array with the calldata, so
  the append writes into the calldata as long as the array has room; the fields read afterwards
  are the overwritten ones. \<open>spare\<close> is the room of the array beyond the calldata, which Go's
  allocator chooses.
\<close>

definition gov_addr :: string where "gov_addr = PrecompileAddrHex 0x1D"

definition GovernanceSlotProposals :: u8 where "GovernanceSlotProposals = 0x01"
definition GovernanceSlotVotes :: u8 where "GovernanceSlotVotes = 0x02"
definition GovernanceSlotCredits :: u8 where "GovernanceSlotCredits = 0x03"
definition GovernanceSlotMarkets :: u8 where "GovernanceSlotMarkets = 0x04"

definition VoteTypeDirect :: u8 where "VoteTypeDirect = 0"
definition VoteTypeQuadratic :: u8 where "VoteTypeQuadratic = 1"
definition VoteTypeFutarchy :: u8 where "VoteTypeFutarchy = 2"
definition VoteTypeInflation :: u8 where "VoteTypeInflation = 3"

definition ProposalStatusActive :: u8 where "ProposalStatusActive = 1"
definition ProposalStatusPassed :: u8 where "ProposalStatusPassed = 2"
definition ProposalStatusFailed :: u8 where "ProposalStatusFailed = 3"

definition DirectThreshold :: nat where "DirectThreshold = 50"
definition QuadraticThreshold :: nat where "QuadraticThreshold = 60"
definition FutarchyThreshold :: nat where "FutarchyThreshold = 66"

lemmas gov_consts = VoteTypeDirect_def VoteTypeQuadratic_def VoteTypeFutarchy_def VoteTypeInflation_def
  ProposalStatusActive_def ProposalStatusPassed_def ProposalStatusFailed_def DirectThreshold_def
  QuadraticThreshold_def FutarchyThreshold_def

definition govCreateProposalSelector :: u32 where "govCreateProposalSelector = 0xD1E2F3A4"
definition govVoteSelector :: u32 where "govVoteSelector = 0xE2F3A4B5"
definition govGetProposalSelector :: u32 where "govGetProposalSelector = 0xF3A4B5C6"
definition govGetVoteSelector :: u32 where "govGetVoteSelector = 0xA4B5C6D7"
definition govGetCreditsSelector :: u32 where "govGetCreditsSelector = 0xB5C6D7E8"
definition govFinalizeSelector :: u32 where "govFinalizeSelector = 0xC6D7E8F9"
definition govCreateMarketSelector :: u32 where "govCreateMarketSelector = 0xD7E8F9A0"
definition govTradeMarketSelector :: u32 where "govTradeMarketSelector = 0xE8F9A0B1"

subsection \<open>Keys and identifiers\<close>

definition govProposalKey :: "bytes \<Rightarrow> slot" where "govProposalKey i = storageKey (GovernanceSlotProposals # i)"
definition govDescriptionKey :: "bytes \<Rightarrow> slot" where "govDescriptionKey i = storageKey (0x10 # i)"
definition govTargetKey :: "bytes \<Rightarrow> slot" where "govTargetKey i = storageKey (0x11 # i)"
definition govCalldataKey :: "bytes \<Rightarrow> slot" where "govCalldataKey i = storageKey (0x12 # i)"
definition govVotesKey :: "bytes \<Rightarrow> slot" where "govVotesKey i = storageKey (0x13 # i)"
definition govNoVotesKey :: "bytes \<Rightarrow> slot" where "govNoVotesKey i = storageKey (0x15 # i)"
definition govMarketKey :: "bytes \<Rightarrow> slot" where "govMarketKey i = storageKey (GovernanceSlotMarkets # i)"
definition govCreditsKey :: "bytes \<Rightarrow> slot" where "govCreditsKey voter = storageKey (GovernanceSlotCredits # voter)"
definition govVoteRecordKey :: "bytes \<Rightarrow> bytes \<Rightarrow> slot" where
  "govVoteRecordKey i voter = storageKey (GovernanceSlotVotes # i @ voter)"
definition govTradeKey :: "bytes \<Rightarrow> bytes \<Rightarrow> slot" where
  "govTradeKey i trader = storageKey (0x14 # i @ trader)"

definition proposalCountKey :: slot where "proposalCountKey = storageKey (bytes_of_string ''proposal_count'')"
definition proposalIndexKey :: "u64 \<Rightarrow> slot" where
  "proposalIndexKey idx = storageKey (bytes_of_string (''pid_'' @ dec_string (unat idx)))"

text \<open>
  \<^verbatim>\<open>append(buf[i:e], xs...)\<close>: with room for \<open>xs\<close> after position \<open>e\<close> of the array it is written there and
  the result stays in place; otherwise the result is a fresh array.
\<close>

definition append_shared :: "nat \<Rightarrow> nat \<Rightarrow> bytes \<Rightarrow> bytes \<Rightarrow> bool \<times> bytes" where
  "append_shared spare e xs buf =
     (if e + length xs \<le> length buf + spare then (True, copy_at e xs buf) else (False, buf))"

definition decimal :: "u64 \<Rightarrow> bytes" where "decimal b = bytes_of_string (dec_string (unat b))"

text \<open>The identifier and the calldata after the two appends that compute it.\<close>

definition generateProposalID :: "nat \<Rightarrow> bytes \<Rightarrow> string \<Rightarrow> u64 \<Rightarrow> bytes \<times> bytes" where
  "generateProposalID spare input proposer b =
     (let (inplace, input1) = append_shared spare 37 (bytes_of_string proposer) input;
          input2 = (if inplace then snd (append_shared spare (37 + length proposer) (decimal b) input1)
                    else input1) in
      (sha256 (slice 5 37 input @ bytes_of_string proposer @ decimal b), input2))"

definition generateMarketID :: "nat \<Rightarrow> bytes \<Rightarrow> u64 \<Rightarrow> bytes \<times> bytes" where
  "generateMarketID spare input b =
     (sha256 (slice 4 36 input @ decimal b), snd (append_shared spare 36 (decimal b) input))"

definition boolResult :: "bool \<Rightarrow> bytes" where
  "boolResult v = (if v then (replicate 32 0)[31 := 1] else replicate 32 0)"

definition boolToBytes :: "bool \<Rightarrow> bytes" where "boolToBytes v = (if v then [1] else [0])"

subsection \<open>Proposals and votes\<close>

definition proposal_record :: "u8 \<Rightarrow> bytes \<Rightarrow> slot" where
  "proposal_record voteType titleHash =
     copy_at 2 (take 30 titleHash) (zero_slot[0 := voteType, 1 := ProposalStatusActive])"

definition govCreateProposal :: "nat \<Rightarrow> call" where
  "govCreateProposal spare input caller w0 b =
     (if length input < 4 + 1 + 32 + 32 + 20 + 32
      then (Err (Errorf ''Governance: createProposal input too short''), w0)
      else
        let voteType = input ! 4; titleHash = slice 5 37 input;
            calldataLen = big_Uint64 (readBigInt (readSlot input 89));
            hi = sint (121 + calldataLen) in
        if int (length input) < hi then (Err (Errorf ''Governance: calldata exceeds input length''), w0)
        else if hi < 121 then (Panic, w0)
        else
          let (proposalID, input') = generateProposalID spare input caller b;
              calldata = slice 121 (nat hi) input';
              w = touch w0 gov_addr;
              w1 = sstore w gov_addr (govProposalKey proposalID) (proposal_record voteType titleHash);
              w2 = sstore w1 gov_addr (govDescriptionKey proposalID) (slice 37 69 input');
              w3 = sstore w2 gov_addr (govTargetKey proposalID) (copy_at 0 (slice 69 89 input') zero_slot);
              w4 = sstore w3 gov_addr (govCalldataKey proposalID)
                     (copy_at 0 (take (min 32 (length calldata)) calldata) zero_slot);
              count = readBigInt (sload w4 gov_addr proposalCountKey);
              w5 = sstore w4 gov_addr (proposalIndexKey (big_Uint64 count)) proposalID in
          putSlot w5 gov_addr proposalCountKey (int count + 1) (\<lambda>w6.
            (Ret proposalID,
             AddLog (sstore w6 gov_addr (govVotesKey proposalID) zero_slot) gov_addr
               [storageKey (bytes_of_string ''ProposalCreated''), proposalID] [voteType] b)))"

text \<open>The last part of a vote: quadratic proposals charge the credits, then the event.\<close>

definition charge_credits :: "bytes \<Rightarrow> u8 \<Rightarrow> u8 \<Rightarrow> nat \<Rightarrow> string \<Rightarrow> World \<Rightarrow> bytes outcome \<times> World" where
  "charge_credits proposalID voteType voteDirection credits caller w =
     (let creditsKey = govCreditsKey (bytes_of_string caller);
          current = readBigInt (sload w gov_addr creditsKey) in
      if voteType = VoteTypeQuadratic \<and> current < credits
      then (Err (Errorf ''Governance: insufficient credits''), w)
      else
        let w1 = (if voteType = VoteTypeQuadratic
                  then sstore w gov_addr creditsKey (fill_be 32 (current - credits)) else w) in
        (Ret (boolResult True),
         AddLog w1 gov_addr [storageKey (bytes_of_string ''VoteCast''), proposalID] [voteDirection] 0))"

text \<open>The counters: the panic is the overflow of the 32-byte counter.\<close>

definition count_vote :: "bytes \<Rightarrow> u8 \<Rightarrow> World \<Rightarrow> World option" where
  "count_vote proposalID voteDirection w =
     (let votesSlot = sload w gov_addr (govVotesKey proposalID);
          noCount = readBigInt (sload w gov_addr (govNoVotesKey proposalID)) + 1 in
      if voteDirection = 1 then
        (if 256 ^ 32 \<le> readBigInt votesSlot + 1 then None
         else Some (sstore w gov_addr (govVotesKey proposalID) (fill_be 32 (readBigInt votesSlot + 1))))
      else if 256 ^ 32 \<le> noCount then None
      else Some (sstore (sstore w gov_addr (govNoVotesKey proposalID) (fill_be 32 noCount))
                   gov_addr (govVotesKey proposalID) votesSlot))"

definition govVote :: call where
  "govVote input caller w0 b =
     (if length input < 4 + 32 + 1 + 32 then (Err (Errorf ''Governance: vote input too short''), w0)
      else
        let proposalID = slice 4 36 input; voteDirection = input ! 36;
            credits = readBigInt (readSlot input 37);
            w = touch w0 gov_addr;
            propSlot = sload w gov_addr (govProposalKey proposalID);
            voteKey = govVoteRecordKey proposalID (bytes_of_string caller) in
        if propSlot = zero_slot then (Err (Errorf ''Governance: proposal not found''), w)
        else if propSlot ! 1 \<noteq> ProposalStatusActive then (Err (Errorf ''Governance: proposal not active''), w)
        else if sload w gov_addr voteKey \<noteq> zero_slot then (Err (Errorf ''Governance: already voted''), w)
        else if 256 ^ 31 \<le> credits then (Panic, w)
        else
          let w1 = sstore w gov_addr voteKey (voteDirection # fill_be 31 credits) in
          case count_vote proposalID voteDirection w1 of
            None \<Rightarrow> (Panic, w1)
          | Some w2 \<Rightarrow> charge_credits proposalID (propSlot ! 0) voteDirection credits caller w2)"

definition govGetProposal :: call where
  "govGetProposal input caller w0 b =
     (if length input < 4 + 32 then (Err (Errorf ''Governance: getProposal input too short''), w0)
      else
        let w = touch w0 gov_addr; propSlot = sload w gov_addr (govProposalKey (slice 4 36 input)) in
        if propSlot = zero_slot then (Err (Errorf ''Governance: proposal not found''), w)
        else (Ret (propSlot @ [0, 0]), w))"

definition govGetVote :: call where
  "govGetVote input caller w0 b =
     (if length input < 4 + 32 then (Err (Errorf ''Governance: getVote input too short''), w0)
      else
        let w = touch w0 gov_addr;
            voteSlot = sload w gov_addr (govVoteRecordKey (slice 4 36 input) (bytes_of_string caller)) in
        if voteSlot = zero_slot then (Err (Errorf ''Governance: vote not found''), w)
        else (Ret (voteSlot @ [0]), w))"

definition govGetCredits :: call where
  "govGetCredits input caller w0 b =
     (let w = touch w0 gov_addr in
      (Ret (fill_be 32 (readBigInt (sload w gov_addr (govCreditsKey (bytes_of_string caller))))), w))"

subsection \<open>Finalization\<close>

definition vote_threshold :: "u8 \<Rightarrow> nat" where
  "vote_threshold voteType =
     (if voteType = VoteTypeDirect then DirectThreshold
      else if voteType = VoteTypeQuadratic then QuadraticThreshold
      else if voteType = VoteTypeFutarchy then FutarchyThreshold
      else 0)"

definition vote_passed :: "u8 \<Rightarrow> nat \<Rightarrow> nat \<Rightarrow> bool" where
  "vote_passed voteType yesVotes noVotes \<longleftrightarrow>
     0 < yesVotes + noVotes \<and> vote_threshold voteType < yesVotes * 100 div (yesVotes + noVotes)"

definition execute_inflation :: "bytes \<Rightarrow> u64 \<Rightarrow> World \<Rightarrow> World" where
  "execute_inflation proposalID b w =
     (let encoded = of_nat (be_nat (take 4 (sload w gov_addr (govCalldataKey proposalID)))) in
      case CalldataToInflationPct encoded of
        Inl _ \<Rightarrow> w
      | Inr pct \<Rightarrow>
          let (applied, w1) = SetInflationPct w pct in
          AddLog w1 gov_addr [storageKey (bytes_of_string ''InflationSet''), proposalID]
            (uint32ToBytes (InflationPctToCalldata applied)) b)"

definition govFinalize :: call where
  "govFinalize input caller w0 b =
     (if length input < 4 + 32 then (Err (Errorf ''Governance: finalize input too short''), w0)
      else
        let proposalID = slice 4 36 input; w = touch w0 gov_addr;
            propKey = govProposalKey proposalID; propSlot = sload w gov_addr propKey in
        if propSlot = zero_slot then (Err (Errorf ''Governance: proposal not found''), w)
        else if propSlot ! 1 \<noteq> ProposalStatusActive then (Err (Errorf ''Governance: proposal not active''), w)
        else
          let yesVotes = readBigInt (sload w gov_addr (govVotesKey proposalID));
              noVotes = readBigInt (sload w gov_addr (govNoVotesKey proposalID));
              passed = vote_passed (propSlot ! 0) yesVotes noVotes;
              w1 = (if passed \<and> propSlot ! 0 = VoteTypeInflation then execute_inflation proposalID b w else w);
              w2 = sstore w1 gov_addr propKey
                     (propSlot[1 := if passed then ProposalStatusPassed else ProposalStatusFailed]) in
          (Ret (boolResult passed),
           AddLog w2 gov_addr [storageKey (bytes_of_string ''ProposalFinalized''), proposalID]
             (boolToBytes passed) b))"

subsection \<open>Markets\<close>

definition govCreateMarket :: "nat \<Rightarrow> call" where
  "govCreateMarket spare input caller w0 b =
     (if length input < 4 + 32 + 32 then (Err (Errorf ''Governance: createMarket input too short''), w0)
      else
        let (marketID, input') = generateMarketID spare input b;
            w1 = sstore (touch w0 gov_addr) gov_addr (govMarketKey marketID) (slice 36 68 input') in
        (Ret marketID,
         AddLog w1 gov_addr [storageKey (bytes_of_string ''MarketCreated''), marketID] [1] b))"

definition govTradeMarket :: call where
  "govTradeMarket input caller w0 b =
     (if length input < 4 + 32 + 1 + 32 then (Err (Errorf ''Governance: tradeMarket input too short''), w0)
      else
        let marketID = slice 4 36 input; side = input ! 36; amount = readBigInt (readSlot input 37);
            w = touch w0 gov_addr in
        if 256 ^ 31 \<le> amount then (Panic, w)
        else
          (Ret (boolResult True),
           AddLog (sstore w gov_addr (govTradeKey marketID (bytes_of_string caller)) (side # fill_be 31 amount))
             gov_addr [storageKey (bytes_of_string ''MarketTrade''), marketID] [side] 0))"

definition gov_table :: "nat \<Rightarrow> (u32 \<times> call) list" where
  "gov_table spare =
    [(govCreateProposalSelector, govCreateProposal spare), (govVoteSelector, govVote),
     (govGetProposalSelector, govGetProposal), (govGetVoteSelector, govGetVote),
     (govGetCreditsSelector, govGetCredits), (govFinalizeSelector, govFinalize),
     (govCreateMarketSelector, govCreateMarket spare), (govTradeMarketSelector, govTradeMarket)]"

definition governancePrecompile :: "nat \<Rightarrow> call" where
  "governancePrecompile spare input caller w b =
     (if length input < 4 then (Err (Errorf ''Governance: input too short''), w)
      else switch (gov_table spare) (unknown_selector ''Governance: unknown selector'')
             (selectorBytes input) input caller w b)"

text \<open>The calldata after a call: as the two hashing appends leave it.\<close>

definition gov_calldata_after :: "nat \<Rightarrow> bytes \<Rightarrow> string \<Rightarrow> u64 \<Rightarrow> bytes" where
  "gov_calldata_after spare input caller b =
     (let hi = sint (121 + big_Uint64 (readBigInt (readSlot input 89))) in
      if selectorBytes input = govCreateProposalSelector \<and> 121 \<le> length input \<and> 121 \<le> hi \<and> hi \<le> int (length input)
      then snd (generateProposalID spare input caller b)
      else if selectorBytes input = govCreateMarketSelector \<and> 68 \<le> length input
      then snd (generateMarketID spare input b)
      else input)"

subsection \<open>Curators\<close>

definition govCuratorAppSlot :: u8 where "govCuratorAppSlot = 0x20"
definition govCuratorBonusSlot :: u8 where "govCuratorBonusSlot = 0x22"

definition govCuratorApplicationKey :: "string \<Rightarrow> slot" where
  "govCuratorApplicationKey applicant = storageKey (govCuratorAppSlot # bytes_of_string applicant)"

definition ApplyForCurator :: "World \<Rightarrow> string \<Rightarrow> u64 \<Rightarrow> unit outcome \<times> World" where
  "ApplyForCurator w caller b =
     (case GetAccount w dox_addr of
        None \<Rightarrow> (Err (Errorf ''Governance: DoxDevBadge contract not found''), w)
      | Some _ \<Rightarrow>
          let data = sload w dox_addr (badge_key (bytes_of_string caller)) in
          if data = zero_slot then (Err (Errorf ''Governance: caller not verified''), w)
          else if data ! 0 < 2 then (Err (Errorf ''Governance: caller level below minimum 2''), w)
          else if readUint64 (sload w dox_addr (curator_key (bytes_of_string caller))) \<noteq> 0
          then (Err (Errorf ''Governance: caller is already a curator''), w)
          else
            let appID = sha256 (bytes_of_string (caller @ '':'' @ dec_string (unat b))) in
            (Ret (), sstore (touch w gov_addr) gov_addr (govCuratorApplicationKey caller) (appID[31 := 0])))"

definition add_vote_score :: "u64 \<Rightarrow> (string \<Rightarrow> u64) \<Rightarrow> string \<Rightarrow> string \<Rightarrow> u64" where
  "add_vote_score voteCount scores candidate =
     scores(candidate := if 1000 < scores candidate + voteCount then 1000 else scores candidate + voteCount)"

definition election_voter :: "World \<Rightarrow> string \<Rightarrow> bool" where
  "election_voter w voter \<longleftrightarrow>
     (let data = sload w dox_addr (badge_key (bytes_of_string voter)) in data \<noteq> zero_slot \<and> 2 \<le> data ! 0)"

definition count_votes :: "World \<Rightarrow> string list \<Rightarrow> (string \<times> u64) list \<Rightarrow> string \<Rightarrow> u64" where
  "count_votes w candidates votes =
     foldl (\<lambda>scores (voter, voteCount).
       if election_voter w voter then foldl (add_vote_score voteCount) scores candidates else scores)
       (\<lambda>_. 0) votes"

definition elect_one :: "World \<Rightarrow> string \<Rightarrow> World" where
  "elect_one w candidate =
     (let curatorSlot = zero_slot[31 := 1]; key = curator_key (bytes_of_string candidate) in
      sstore (touch (sstore w gov_addr key curatorSlot) dox_addr) dox_addr key curatorSlot)"

definition ElectCuratorCouncil ::
  "string list \<Rightarrow> (string \<times> u64) list \<Rightarrow> World \<Rightarrow> string list outcome \<times> World" where
  "ElectCuratorCouncil candidates votes w0 =
     (let w = touch w0 gov_addr in
      if votes \<noteq> [] \<and> GetAccount w dox_addr = None
      then (Err (Errorf ''Governance: DoxDevBadge contract not found''), w)
      else
        let scores = count_votes w candidates votes;
            elected = filter (\<lambda>c. 0 < scores c) candidates in
        (Ret elected, foldl elect_one w elected))"

definition DistributeCuratorRewards :: "string list \<Rightarrow> u64 \<Rightarrow> World \<Rightarrow> World" where
  "DistributeCuratorRewards curators baseReward w0 =
     foldl (\<lambda>w curator.
       let bonus = readUint64 (sload w gov_addr (storageKey (govCuratorBonusSlot # bytes_of_string curator))) in
       add_balance (touch w curator) curator (int (unat (baseReward + bonus))))
       (touch w0 gov_addr) curators"

subsection \<open>What governance can change\<close>

lemma acct_inflation [simp]:
  "acct (w\<lparr>activeInflationPct := p\<rparr>) x = acct w x" "balance_of (w\<lparr>activeInflationPct := p\<rparr>) x = balance_of w x"
  "sload (w\<lparr>activeInflationPct := p\<rparr>) x k = sload w x k"
  by (simp_all add: acct_def balance_of_def sload_def)

lemma execute_inflation_frame [simp]:
  "acct (execute_inflation i b w) x = acct w x" "balance_of (execute_inflation i b w) x = balance_of w x"
  "sload (execute_inflation i b w) x k = sload w x k"
  by (simp_all add: execute_inflation_def SetInflationPct_def Let_def split: sum.split)

lemma confined_inflation [simp]: "confined A w (execute_inflation i b w') = confined A w w'"
  by (simp add: confined_def)

lemma charge_credits_confined:
  "confined {gov_addr} w w' \<Longrightarrow> confined {gov_addr} w (snd (charge_credits i t d cr c w'))"
  by (auto simp: charge_credits_def Let_def)

lemma count_vote_confined:
  "count_vote i d w' = Some w'' \<Longrightarrow> confined {gov_addr} w w' \<Longrightarrow> confined {gov_addr} w w''"
  by (auto simp: count_vote_def Let_def split: if_splits)

lemma gov_ops_confined:
  "confined {gov_addr} w (snd (govCreateProposal spare input caller w b))"
  "confined {gov_addr} w (snd (govVote input caller w b))"
  "confined {gov_addr} w (snd (govFinalize input caller w b))"
  "confined {gov_addr} w (snd (govCreateMarket spare input caller w b))"
  "confined {gov_addr} w (snd (govTradeMarket input caller w b))"
proof -
  show "confined {gov_addr} w (snd (govVote input caller w b))"
    by (auto simp: govVote_def Let_def split: option.split
        intro!: charge_credits_confined elim!: count_vote_confined)
  show "confined {gov_addr} w (snd (govCreateProposal spare input caller w b))"
    by (auto simp: govCreateProposal_def Let_def split: prod.split intro!: confined_putSlot confined_sstore)
  show "confined {gov_addr} w (snd (govFinalize input caller w b))"
    by (auto simp: govFinalize_def Let_def intro!: confined_sstore)
  show "confined {gov_addr} w (snd (govCreateMarket spare input caller w b))"
    by (auto simp: govCreateMarket_def Let_def split: prod.split intro!: confined_sstore)
  show "confined {gov_addr} w (snd (govTradeMarket input caller w b))"
    by (auto simp: govTradeMarket_def Let_def intro!: confined_sstore)
qed

lemmas gov_reads = govGetProposal_def govGetVote_def govGetCredits_def

interpretation governance: confined_contract "governancePrecompile spare" "{gov_addr}" for spare
proof unfold_locales
  fix w input caller b
  have "confined {gov_addr} w
    (snd (switch (gov_table spare) (unknown_selector ''Governance: unknown selector'') sel input caller w b))" for sel
    by (rule confined_switch)
      (auto simp: gov_table_def unknown_selector_def gov_ops_confined gov_reads Let_def)
  then show "confined {gov_addr} w (snd (governancePrecompile spare input caller w b))"
    by (simp add: governancePrecompile_def)
qed

text \<open>The rate set by a passed proposal is between the two bounds, and nothing else sets it.\<close>

definition inflation_ok :: "World \<Rightarrow> bool" where
  "inflation_ok w \<longleftrightarrow> MinAnnualInflationPct \<le> activeInflationPct w \<and> activeInflationPct w \<le> MaxAnnualInflationPct"

lemma inflation_ok_simps [simp]:
  "inflation_ok (touch w a) = inflation_ok w" "inflation_ok (sstore w a k v) = inflation_ok w"
  "inflation_ok (AddLog w a t d b) = inflation_ok w"
  by (simp_all add: inflation_ok_def touch_def sstore_def upd_acct_def AddLog_def)

lemma inflation_ok_execute: "inflation_ok w \<Longrightarrow> inflation_ok (execute_inflation i b w)"
  by (auto simp: execute_inflation_def SetInflationPct_def clamp_inflation_def Let_def split: sum.split)
    (simp_all add: inflation_ok_def inflation_defs)

lemma inflation_ok_putSlot:
  "inflation_ok w \<Longrightarrow> (\<And>w'. inflation_ok w' \<Longrightarrow> inflation_ok (snd (rest w'))) \<Longrightarrow> inflation_ok (snd (putSlot w a k v rest))"
  by (simp add: putSlot_def split: outcome.split)

lemma inflation_ok_vote: "inflation_ok w \<Longrightarrow> inflation_ok (snd (govVote input caller w b))"
proof -
  have "inflation_ok w2" if "count_vote i d w1 = Some w2" "inflation_ok w1" for i d w1 w2
    using that by (auto simp: count_vote_def Let_def split: if_splits)
  moreover have "inflation_ok (snd (charge_credits i t d cr c w2)) = inflation_ok w2" for i t d cr c w2
    by (simp add: charge_credits_def Let_def)
  ultimately show "inflation_ok w \<Longrightarrow> inflation_ok (snd (govVote input caller w b))"
    by (auto simp: govVote_def Let_def split: option.split)
qed

lemma inflation_ok_ops:
  assumes "inflation_ok w"
  shows "inflation_ok (snd (govCreateProposal spare input caller w b))"
    "inflation_ok (snd (govFinalize input caller w b))" "inflation_ok (snd (govCreateMarket spare input caller w b))"
    "inflation_ok (snd (govTradeMarket input caller w b))"
proof -
  show "inflation_ok (snd (govCreateProposal spare input caller w b))"
    using assms unfolding govCreateProposal_def Let_def
    by (auto intro!: inflation_ok_putSlot split: prod.split)
  show "inflation_ok (snd (govFinalize input caller w b))"
    using assms by (simp add: govFinalize_def Let_def inflation_ok_execute)
  show "inflation_ok (snd (govCreateMarket spare input caller w b))"
    using assms by (simp add: govCreateMarket_def Let_def split: prod.split)
  show "inflation_ok (snd (govTradeMarket input caller w b))"
    using assms by (simp add: govTradeMarket_def Let_def)
qed

lemma inflation_ok_call:
  assumes "inflation_ok w" shows "inflation_ok (snd (governancePrecompile spare input caller w b))"
proof -
  have "inflation_ok (snd (switch (gov_table spare) (unknown_selector msg) sel input caller w b))" for sel msg
    by (rule switch_cases[where P = "\<lambda>f. inflation_ok (snd (f input caller w b))"])
      (use assms inflation_ok_ops inflation_ok_vote in \<open>auto simp: gov_table_def unknown_selector_def gov_reads Let_def\<close>)
  then show ?thesis
    using assms by (simp add: governancePrecompile_def)
qed

lemma inflation_ok_run: "inflation_ok w \<Longrightarrow> inflation_ok (run_calls (governancePrecompile spare) cs w)"
proof (induction cs arbitrary: w)
  case (Cons c cs)
  then show ?case
    using inflation_ok_call[of w] by (cases c) auto
qed simp

subsection \<open>Votes and the tally\<close>

definition yes_votes :: "World \<Rightarrow> bytes \<Rightarrow> nat" where
  "yes_votes w i = readBigInt (sload w gov_addr (govVotesKey i))"

definition no_votes :: "World \<Rightarrow> bytes \<Rightarrow> nat" where
  "no_votes w i = readBigInt (sload w gov_addr (govNoVotesKey i))"

definition proposal :: "World \<Rightarrow> bytes \<Rightarrow> slot" where
  "proposal w i = sload w gov_addr (govProposalKey i)"

text \<open>The keys of one proposal and one voter.\<close>

definition vote_keys_apart :: "bytes \<Rightarrow> string \<Rightarrow> bool" where
  "vote_keys_apart i c \<longleftrightarrow>
     distinct [govProposalKey i, govVotesKey i, govNoVotesKey i, govVoteRecordKey i (bytes_of_string c),
               govCreditsKey (bytes_of_string c)]"

lemma count_vote_effect:
  assumes "count_vote i d w = Some w'" "govVotesKey i \<noteq> govNoVotesKey i"
  shows "yes_votes w' i = yes_votes w i + (if d = 1 then 1 else 0)"
    "no_votes w' i = no_votes w i + (if d = 1 then 0 else 1)"
    "k \<notin> {govVotesKey i, govNoVotesKey i} \<Longrightarrow> sload w' gov_addr k = sload w gov_addr k"
  using assms
  by (auto simp: count_vote_def yes_votes_def no_votes_def Let_def sload_sstore readBigInt_fill split: if_splits)

lemma charge_credits_frame:
  "k \<noteq> govCreditsKey (bytes_of_string c) \<Longrightarrow>
   sload (snd (charge_credits i t d cr c w)) gov_addr k = sload w gov_addr k"
  by (simp add: charge_credits_def Let_def sload_sstore)

lemma charge_credits_total: "fst (charge_credits i t d cr c w) \<noteq> Panic"
  by (simp add: charge_credits_def Let_def)

text \<open>
  A vote that passed the checks for an active proposal and a fresh voter is counted, whatever
  \<^verbatim>\<open>charge_credits\<close> answers in the end.
\<close>

lemma govVote_counted:
  assumes "vote_keys_apart i c" "69 \<le> length input" "slice 4 36 input = i"
    and "proposal w i \<noteq> zero_slot" "proposal w i ! 1 = ProposalStatusActive"
    and "sload w gov_addr (govVoteRecordKey i (bytes_of_string c)) = zero_slot"
    and "fst (govVote input c w b) \<noteq> Panic"
  defines "w' \<equiv> snd (govVote input c w b)"
  shows "yes_votes w' i = yes_votes w i + (if input ! 36 = 1 then 1 else 0)"
    "no_votes w' i = no_votes w i + (if input ! 36 = 1 then 0 else 1)"
    "proposal w' i = proposal w i"
    "sload w' gov_addr (govVoteRecordKey i (bytes_of_string c)) = (input ! 36) # fill_be 31 (readBigInt (readSlot input 37))"
    "k \<notin> {govVotesKey i, govNoVotesKey i, govVoteRecordKey i (bytes_of_string c), govCreditsKey (bytes_of_string c)}
      \<Longrightarrow> sload w' gov_addr k = sload w gov_addr k"
proof -
  let ?w1 = "sstore (touch w gov_addr) gov_addr (govVoteRecordKey i (bytes_of_string c))
    ((input ! 36) # fill_be 31 (readBigInt (readSlot input 37)))"
  obtain w2 where w2: "count_vote i (input ! 36) ?w1 = Some w2"
    and w': "w' = snd (charge_credits i (proposal w i ! 0) (input ! 36) (readBigInt (readSlot input 37)) c w2)"
    using assms(2-7) unfolding govVote_def Let_def proposal_def w'_def
    by (auto split: if_splits option.splits)
  have apart: "govVotesKey i \<noteq> govNoVotesKey i"
    using assms(1) by (simp add: vote_keys_apart_def)
  have w1: "yes_votes ?w1 i = yes_votes w i" "no_votes ?w1 i = no_votes w i"
    using assms(1) by (auto simp: yes_votes_def no_votes_def vote_keys_apart_def sload_sstore)
  have frame: "sload w' gov_addr k = sload w2 gov_addr k" if "k \<noteq> govCreditsKey (bytes_of_string c)" for k
    using charge_credits_frame[OF that] by (simp add: w')
  have "yes_votes w' i = yes_votes w2 i" "no_votes w' i = no_votes w2 i"
    using assms(1) by (auto simp: yes_votes_def no_votes_def frame vote_keys_apart_def)
  then show "yes_votes w' i = yes_votes w i + (if input ! 36 = 1 then 1 else 0)"
    "no_votes w' i = no_votes w i + (if input ! 36 = 1 then 0 else 1)"
    using count_vote_effect(1,2)[OF w2 apart] w1 by simp_all
  have rec: "sload w' gov_addr k = sload ?w1 gov_addr k"
    if "k \<notin> {govVotesKey i, govNoVotesKey i, govCreditsKey (bytes_of_string c)}" for k
    using that frame[of k] count_vote_effect(3)[OF w2 apart, of k] by simp
  show "proposal w' i = proposal w i"
    using assms(1) rec[of "govProposalKey i"] by (auto simp: proposal_def vote_keys_apart_def sload_sstore)
  show "sload w' gov_addr (govVoteRecordKey i (bytes_of_string c)) = (input ! 36) # fill_be 31 (readBigInt (readSlot input 37))"
    using assms(1) rec[of "govVoteRecordKey i (bytes_of_string c)"]
    by (auto simp: vote_keys_apart_def sload_sstore)
  show "k \<notin> {govVotesKey i, govNoVotesKey i, govVoteRecordKey i (bytes_of_string c), govCreditsKey (bytes_of_string c)}
      \<Longrightarrow> sload w' gov_addr k = sload w gov_addr k"
    using rec[of k] by (auto simp: sload_sstore)
qed

lemma govVote_Ret_checks:
  assumes "fst (govVote input c w b) = Ret out"
  defines "i \<equiv> slice 4 36 input"
  shows "69 \<le> length input" "proposal w i \<noteq> zero_slot" "proposal w i ! 1 = ProposalStatusActive"
    "sload w gov_addr (govVoteRecordKey i (bytes_of_string c)) = zero_slot"
  using assms by (auto simp: govVote_def Let_def proposal_def split: if_splits)

text \<open>A sequence of votes on one proposal, all of them accepted.\<close>

fun accepted_votes :: "bytes \<Rightarrow> (bytes \<times> string) list \<Rightarrow> World \<Rightarrow> World option" where
  "accepted_votes i [] w = Some w"
| "accepted_votes i ((input, c) # vs) w =
     (case govVote input c w 0 of
        (Ret _, w') \<Rightarrow> (if slice 4 36 input = i then accepted_votes i vs w' else None)
      | _ \<Rightarrow> None)"

lemma accepted_votes_tally:
  assumes "accepted_votes i vs w = Some w'" "\<And>input c. (input, c) \<in> set vs \<Longrightarrow> vote_keys_apart i c"
  shows "yes_votes w' i = yes_votes w i + length (filter (\<lambda>(input, c). input ! 36 = 1) vs)
    \<and> no_votes w' i = no_votes w i + length (filter (\<lambda>(input, c). input ! 36 \<noteq> 1) vs)
    \<and> proposal w' i = proposal w i"
  using assms
proof (induction vs arbitrary: w)
  case (Cons v vs)
  obtain input c where v: "v = (input, c)"
    by (cases v)
  obtain out w1 where vote: "govVote input c w 0 = (Ret out, w1)"
    and i: "slice 4 36 input = i" and rest: "accepted_votes i vs w1 = Some w'"
    using Cons.prems(1) v by (auto split: prod.splits outcome.splits if_splits)
  have "fst (govVote input c w 0) = Ret out" "w1 = snd (govVote input c w 0)"
    using vote by simp_all
  note checks = govVote_Ret_checks[OF this(1), unfolded i]
  have "vote_keys_apart i c"
    using Cons.prems(2)[of input c] v by simp
  note counted = govVote_counted(1-3)[OF this checks(1) i checks(2-4), of 0]
  have "yes_votes w' i = yes_votes w1 i + length (filter (\<lambda>(input, c). input ! 36 = 1) vs)
    \<and> no_votes w' i = no_votes w1 i + length (filter (\<lambda>(input, c). input ! 36 \<noteq> 1) vs)
    \<and> proposal w' i = proposal w1 i"
    by (rule Cons.IH[OF rest]) (use Cons.prems(2) in auto)
  then show ?case
    using counted vote v by auto
qed simp

subsection \<open>The life of a proposal\<close>

lemma govFinalize_Ret:
  assumes "govFinalize input c w b = (Ret out, w')" "length (proposal w (slice 4 36 input)) = 32"
  defines "i \<equiv> slice 4 36 input"
  defines "passed \<equiv> vote_passed (proposal w i ! 0) (yes_votes w i) (no_votes w i)"
  shows "proposal w i ! 1 = ProposalStatusActive" "out = boolResult passed"
    "proposal w' i = (proposal w i)[1 := if passed then ProposalStatusPassed else ProposalStatusFailed]"
  using assms
  by (auto simp: govFinalize_def Let_def proposal_def yes_votes_def no_votes_def sload_sstore split: if_splits)

lemma closed_proposal:
  assumes "proposal w (slice 4 36 input) ! 1 \<noteq> ProposalStatusActive"
  shows "\<exists>e. fst (govVote input c w b) = Err e" "\<exists>e. fst (govFinalize input c w b) = Err e"
    "sload (snd (govVote input c w b)) a k = sload w a k" "sload (snd (govFinalize input c w b)) a k = sload w a k"
  using assms by (auto simp: govVote_def govFinalize_def Let_def proposal_def)

text \<open>
  A call that does not write the record of proposal \<open>i\<close>: the keys it writes differ from the
  proposal's key. For the creation of a proposal this says that the new one has another
  identifier; the index of a new proposal is the counter in the state of the call.
\<close>

definition create_apart :: "bytes \<Rightarrow> bytes \<Rightarrow> u64 \<Rightarrow> bool" where
  "create_apart i new n \<longleftrightarrow>
     govProposalKey i \<notin> set [govProposalKey new, govDescriptionKey new, govTargetKey new, govCalldataKey new,
       govVotesKey new, proposalCountKey, proposalIndexKey n]
     \<and> proposalCountKey \<notin> set [govProposalKey new, govDescriptionKey new, govTargetKey new, govCalldataKey new]"

definition call_apart :: "nat \<Rightarrow> bytes \<Rightarrow> bytes \<Rightarrow> string \<Rightarrow> World \<Rightarrow> u64 \<Rightarrow> bool" where
  "call_apart spare i input caller w b \<longleftrightarrow>
     (let sel = selectorBytes input; j = slice 4 36 input; voter = bytes_of_string caller; k = govProposalKey i in
      if sel = govCreateProposalSelector
      then create_apart i (fst (generateProposalID spare input caller b))
             (big_Uint64 (readBigInt (sload w gov_addr proposalCountKey)))
      else if sel = govVoteSelector
      then k \<notin> set [govVoteRecordKey j voter, govVotesKey j, govNoVotesKey j, govCreditsKey voter]
      else if sel = govFinalizeSelector then j = i \<or> govProposalKey j \<noteq> k
      else if sel = govCreateMarketSelector then govMarketKey (fst (generateMarketID spare input b)) \<noteq> k
      else if sel = govTradeMarketSelector then govTradeKey j voter \<noteq> k
      else True)"

fun calls_apart :: "nat \<Rightarrow> bytes \<Rightarrow> (bytes \<times> string \<times> u64) list \<Rightarrow> World \<Rightarrow> bool" where
  "calls_apart spare i [] w = True"
| "calls_apart spare i ((input, caller, b) # cs) w =
     (call_apart spare i input caller w b
      \<and> calls_apart spare i cs (snd (governancePrecompile spare input caller w b)))"

lemma create_keeps:
  assumes "create_apart i (fst (generateProposalID spare input caller b))
             (big_Uint64 (readBigInt (sload w gov_addr proposalCountKey)))"
  shows "proposal (snd (govCreateProposal spare input caller w b)) i = proposal w i"
proof -
  obtain new input' where g: "generateProposalID spare input caller b = (new, input')"
    by (cases "generateProposalID spare input caller b")
  have own: "govProposalKey new \<noteq> govProposalKey i" "govDescriptionKey new \<noteq> govProposalKey i"
      "govTargetKey new \<noteq> govProposalKey i" "govCalldataKey new \<noteq> govProposalKey i"
      "govVotesKey new \<noteq> govProposalKey i" "proposalCountKey \<noteq> govProposalKey i"
      "proposalIndexKey (big_Uint64 (readBigInt (sload w gov_addr proposalCountKey))) \<noteq> govProposalKey i"
    and count: "govProposalKey new \<noteq> proposalCountKey" "govDescriptionKey new \<noteq> proposalCountKey"
      "govTargetKey new \<noteq> proposalCountKey" "govCalldataKey new \<noteq> proposalCountKey"
    using assms by (auto simp: create_apart_def g)
  have keep: "sload (sstore w' gov_addr k v) gov_addr k' = sload w' gov_addr k'" if "k \<noteq> k'" for w' k v k'
    using that by (simp add: sload_sstore)
  have put: "sload (snd (putSlot w1 gov_addr proposalCountKey c (\<lambda>w2. (r, AddLog (sstore w2 gov_addr (govVotesKey new) v)
      x t d n)))) gov_addr (govProposalKey i) = sload w1 gov_addr (govProposalKey i)" for w1 c r v x t d n
    by (simp add: putSlot_cases keep own)
  show ?thesis
    by (simp add: govCreateProposal_def proposal_def Let_def g put keep own count)
qed

lemma vote_keeps:
  assumes "k \<notin> set [govVoteRecordKey (slice 4 36 input) (bytes_of_string c), govVotesKey (slice 4 36 input),
      govNoVotesKey (slice 4 36 input), govCreditsKey (bytes_of_string c)]"
  shows "sload (snd (govVote input c w b)) gov_addr k = sload w gov_addr k"
proof -
  have "sload w2 gov_addr k = sload w1 gov_addr k" if "count_vote (slice 4 36 input) d w1 = Some w2" for w1 w2 d
    using that assms by (auto simp: count_vote_def Let_def sload_sstore split: if_splits)
  then show ?thesis
    using assms by (auto simp: govVote_def Let_def sload_sstore charge_credits_frame split: option.split)
qed

lemma finalize_keeps:
  assumes "govProposalKey (slice 4 36 input) \<noteq> govProposalKey i"
  shows "proposal (snd (govFinalize input c w b)) i = proposal w i"
  using assms by (simp add: govFinalize_def Let_def proposal_def sload_sstore)

lemma market_keeps:
  "govMarketKey (fst (generateMarketID spare input b)) \<noteq> govProposalKey i \<Longrightarrow>
     proposal (snd (govCreateMarket spare input c w b)) i = proposal w i"
  "govTradeKey (slice 4 36 input) (bytes_of_string c) \<noteq> govProposalKey i \<Longrightarrow>
     proposal (snd (govTradeMarket input c w b)) i = proposal w i"
  by (cases "generateMarketID spare input b",
      simp_all add: govCreateMarket_def govTradeMarket_def Let_def proposal_def sload_sstore)

text \<open>Such calls leave a closed proposal as it is, also votes on it and attempts to finalize it.\<close>

lemma closed_call:
  assumes "call_apart spare i input caller w b" "proposal w i ! 1 \<noteq> ProposalStatusActive"
  shows "proposal (snd (governancePrecompile spare input caller w b)) i = proposal w i"
proof -
  have fin: "proposal (snd (govFinalize input caller w b)) i = proposal w i"
    if "slice 4 36 input = i \<or> govProposalKey (slice 4 36 input) \<noteq> govProposalKey i"
    using that
  proof
    assume "slice 4 36 input = i"
    then show ?thesis
      using closed_proposal(4)[of w input caller b gov_addr "govProposalKey i"] assms(2)
      by (simp add: proposal_def)
  qed (rule finalize_keeps)
  have reads: "proposal (snd (govGetProposal input caller w b)) i = proposal w i"
    "proposal (snd (govGetVote input caller w b)) i = proposal w i"
    "proposal (snd (govGetCredits input caller w b)) i = proposal w i"
    by (simp_all add: gov_reads proposal_def Let_def)
  have vote: "proposal (snd (govVote input caller w b)) i = proposal w i"
    if "govProposalKey i \<notin> set [govVoteRecordKey (slice 4 36 input) (bytes_of_string caller),
      govVotesKey (slice 4 36 input), govNoVotesKey (slice 4 36 input), govCreditsKey (bytes_of_string caller)]"
    using vote_keeps[OF that] by (simp add: proposal_def)
  show ?thesis
    using assms(1) create_keeps vote fin reads market_keeps
    by (simp add: governancePrecompile_def switch_def gov_table_def unknown_selector_def call_apart_def Let_def
        split: if_splits)
qed

lemma closed_run:
  assumes "calls_apart spare i cs w" "proposal w i ! 1 \<noteq> ProposalStatusActive"
  shows "proposal (run_calls (governancePrecompile spare) cs w) i = proposal w i"
  using assms
proof (induction cs arbitrary: w)
  case (Cons x cs)
  obtain input caller b where x: "x = (input, caller, b)"
    by (cases x)
  then have "proposal (snd (governancePrecompile spare input caller w b)) i = proposal w i"
    using Cons.prems by (intro closed_call) simp_all
  then show ?case
    using Cons x by simp
qed simp

subsection \<open>The calldata is overwritten while it is read\<close>

lemma nth_copy_at_inside:
  assumes "off \<le> i" "i < off + length src" "i < length dst"
  shows "copy_at off src dst ! i = src ! (i - off)"
proof -
  have "off < length dst" "i - off < length src" "i - off < length dst - off"
    using assms by linarith+
  then show ?thesis
    using assms by (simp add: copy_at_def nth_append)
qed

lemma slice_copy_at_inside:
  assumes "off \<le> lo" "hi \<le> off + length src" "hi \<le> length dst"
  shows "slice lo hi (copy_at off src dst) = slice (lo - off) (hi - off) src"
proof (cases "lo < hi")
  case True
  then have "off \<le> length dst"
    using assms by simp
  show ?thesis
  proof (rule nth_equalityI)
    show "length (slice lo hi (copy_at off src dst)) = length (slice (lo - off) (hi - off) src)"
      using assms \<open>off \<le> length dst\<close> by simp
    fix n assume "n < length (slice lo hi (copy_at off src dst))"
    then show "slice lo hi (copy_at off src dst) ! n = slice (lo - off) (hi - off) src ! n"
      using assms \<open>off \<le> length dst\<close>
      by (simp add: slice_def nth_copy_at_inside)
  qed
qed (use assms in \<open>simp add: slice_def\<close>)

lemma proposal_fields_overwritten:
  fixes spare :: nat and b :: u64
  assumes "121 \<le> length input" "length caller = 64"
  defines "input' \<equiv> snd (generateProposalID spare input caller b)"
  shows "slice 37 69 input' = bytes_of_string (take 32 caller)"
    "slice 69 89 input' = bytes_of_string (take 20 (drop 32 caller))"
proof -
  have input': "input' = snd (append_shared spare 101 (decimal b) (copy_at 37 (bytes_of_string caller) input))"
    using assms(1,2) by (simp add: input'_def generateProposalID_def append_shared_def)
  have "slice lo hi input' = slice (lo - 37) (hi - 37) (bytes_of_string caller)"
    if "37 \<le> lo" "hi \<le> 101" for lo hi
    using assms(1,2) that
    by (simp add: input' append_shared_def slice_copy_at_below slice_copy_at_inside)
  from this[of 37 69] this[of 69 89]
  show "slice 37 69 input' = bytes_of_string (take 32 caller)"
    "slice 69 89 input' = bytes_of_string (take 20 (drop 32 caller))"
    by (simp_all add: slice_def bytes_of_string_def take_map drop_map)
qed

end
