(* ===== verification/Account_Manager.thy ===== *)
theory Account_Manager
  imports Governance
begin

text \<open>
  Precompile 0x1B, the account manager (\<^verbatim>\<open>evm/account_manager.go\<close>): the three custody stages, the
  rotated key, session keys, guardians and the freeze flag of an account.
\<close>

definition am_addr :: string where "am_addr = PrecompileAddrHex 0x1B"

definition AccountSlotStage :: u8 where "AccountSlotStage = 0x01"
definition AccountSlotSessionKeys :: u8 where "AccountSlotSessionKeys = 0x02"
definition AccountSlotGuardians :: u8 where "AccountSlotGuardians = 0x03"

definition StageOnboarding :: u8 where "StageOnboarding = 0"
definition StageStandard :: u8 where "StageStandard = 1"
definition StageSelfCustody :: u8 where "StageSelfCustody = 2"

lemmas stage_consts = StageOnboarding_def StageStandard_def StageSelfCustody_def

definition Stage1WaitingPeriod :: u64 where "Stage1WaitingPeriod = 2592000"

definition accountGetStageSelector :: u32 where "accountGetStageSelector = 0xB1C2D3E4"
definition accountGraduateSelector :: u32 where "accountGraduateSelector = 0xC2D3E4F5"
definition accountAdvanceSelector :: u32 where "accountAdvanceSelector = 0xD3E4F5A6"
definition accountRotateKeySelector :: u32 where "accountRotateKeySelector = 0xE4F5A6B7"
definition accountCreateSessionSelector :: u32 where "accountCreateSessionSelector = 0xF5A6B7C8"
definition accountRevokeSessionSelector :: u32 where "accountRevokeSessionSelector = 0xA6B7C8D9"
definition accountGetSessionSelector :: u32 where "accountGetSessionSelector = 0xB7C8D9E0"
definition accountSetGuardianSelector :: u32 where "accountSetGuardianSelector = 0xC8D9E0F1"
definition accountGetGuardianSelector :: u32 where "accountGetGuardianSelector = 0xD9E0F1A2"
definition accountFreezeSelector :: u32 where "accountFreezeSelector = 0xE0F1A2B3"
definition accountUnfreezeSelector :: u32 where "accountUnfreezeSelector = 0xF1A2B3C4"

subsection \<open>Keys\<close>

definition accountStageKey :: "bytes \<Rightarrow> slot" where "accountStageKey a = storageKey (AccountSlotStage # a)"
definition accountKeyKey :: "bytes \<Rightarrow> slot" where "accountKeyKey a = storageKey (0x05 # a)"
definition accountSessionKey :: "bytes \<Rightarrow> bytes \<Rightarrow> slot" where
  "accountSessionKey a keyID = storageKey (AccountSlotSessionKeys # a @ keyID)"
definition accountGuardianKey :: "bytes \<Rightarrow> u8 \<Rightarrow> slot" where
  "accountGuardianKey a idx = storageKey (AccountSlotGuardians # a @ [idx])"
definition accountGuardianCountKey :: "bytes \<Rightarrow> slot" where
  "accountGuardianCountKey a = storageKey (0x06 # a)"

text \<open>
  \<^verbatim>\<open>encodeBlockNumber\<close> gets the slot by value: it writes into its own copy and returns nothing, so a
  call of it leaves the caller's slot as it is. \<open>encodeBlockNumber\<close> is the slot after the call.
\<close>

definition encodeBlockNumber :: "slot \<Rightarrow> nat \<Rightarrow> u64 \<Rightarrow> slot" where
  "encodeBlockNumber sl startByte v = (let copied = copy_at startByte (u64be v) sl in sl)"

definition decodeBlockNumber :: "slot \<Rightarrow> nat \<Rightarrow> u64" where
  "decodeBlockNumber sl startByte = be64 (slice startByte (startByte + 8) sl)"

definition slot_first :: "slot \<Rightarrow> u8" where
  "slot_first sl = (if sl \<noteq> zero_slot then sl ! 0 else 0)"

subsection \<open>Operations\<close>

definition accountGetStage :: call where
  "accountGetStage input caller w0 b =
     (if length input < 4 + 32 then (Err (Errorf ''AccountManager: getStage input too short''), w0)
      else let w = touch w0 am_addr in
           (Ret [slot_first (sload w am_addr (accountStageKey (slice 4 36 input)))], w))"

definition accountGraduate :: call where
  "accountGraduate input caller w0 b =
     (let w = touch w0 am_addr; stageKey = accountStageKey (bytes_of_string caller);
          stageSlot = sload w am_addr stageKey in
      if slot_first stageSlot \<noteq> StageOnboarding
      then (Err (Errorf ''AccountManager: can only graduate from Stage 0''), w)
      else
        let stageSlot1 = encodeBlockNumber (stageSlot[0 := StageStandard]) 1 b in
        (Ret (boolResult True),
         AddLog (sstore w am_addr stageKey stageSlot1) am_addr
           [storageKey (bytes_of_string ''StageGraduated''), stringToHash (bytes_of_string caller)]
           [StageStandard] b))"

definition accountAdvance :: call where
  "accountAdvance input caller w0 b =
     (let w = touch w0 am_addr; stageKey = accountStageKey (bytes_of_string caller);
          stageSlot = sload w am_addr stageKey in
      if slot_first stageSlot \<noteq> StageStandard
      then (Err (Errorf ''AccountManager: can only advance from Stage 1''), w)
      else if b < decodeBlockNumber stageSlot 1 + Stage1WaitingPeriod
      then (Err (Errorf ''AccountManager: must wait 30 days in Stage 1''), w)
      else
        (Ret (boolResult True),
         AddLog (sstore w am_addr stageKey (stageSlot[0 := StageSelfCustody])) am_addr
           [storageKey (bytes_of_string ''StageAdvanced''), stringToHash (bytes_of_string caller)]
           [StageSelfCustody] b))"

definition accountRotateKey :: call where
  "accountRotateKey input caller w0 b =
     (if length input < 4 + 32 then (Err (Errorf ''AccountManager: rotateKey input too short''), w0)
      else
        let newKey = slice 4 36 input in
        (Ret (boolResult True),
         AddLog (sstore (touch w0 am_addr) am_addr (accountKeyKey (bytes_of_string caller)) newKey) am_addr
           [storageKey (bytes_of_string ''KeyRotated''), stringToHash (bytes_of_string caller)] newKey b))"

text \<open>The length check asks for 72 bytes; the expiry is read at 132 to 135.\<close>

definition accountCreateSession :: call where
  "accountCreateSession input caller w0 b =
     (if length input < 4 + 32 + 32 + 4 then (Err (Errorf ''AccountManager: createSession input too short''), w0)
      else if length input < 136 then (Panic, w0)
      else
        let keyID = slice 4 36 input; sessionPubKey = slice 36 68 input;
            sl = (copy_at 1 sessionPubKey zero_slot)[30 := input ! 134, 31 := input ! 135] in
        (Ret (boolResult True),
         sstore (touch w0 am_addr) am_addr (accountSessionKey (bytes_of_string caller) keyID) sl))"

definition accountRevokeSession :: call where
  "accountRevokeSession input caller w0 b =
     (if length input < 4 + 32 then (Err (Errorf ''AccountManager: revokeSession input too short''), w0)
      else
        let w = touch w0 am_addr;
            sessionKey = accountSessionKey (bytes_of_string caller) (slice 4 36 input);
            sessionSlot = sload w am_addr sessionKey in
        if sessionSlot = zero_slot then (Err (Errorf ''AccountManager: session key not found''), w)
        else (Ret (boolResult True), sstore w am_addr sessionKey (sessionSlot[0 := 0xFF])))"

definition accountGetSession :: call where
  "accountGetSession input caller w0 b =
     (if length input < 4 + 32 then (Err (Errorf ''AccountManager: getSession input too short''), w0)
      else
        let w = touch w0 am_addr;
            sessionSlot = sload w am_addr (accountSessionKey (bytes_of_string caller) (slice 4 36 input)) in
        if sessionSlot = zero_slot then (Err (Errorf ''AccountManager: session key not found''), w)
        else (Ret (drop 1 sessionSlot @ [0, sessionSlot ! 0]), w))"

definition accountSetGuardian :: call where
  "accountSetGuardian input caller w0 b =
     (if length input < 4 + 20 + 1 then (Err (Errorf ''AccountManager: setGuardian input too short''), w0)
      else
        let guardianAddr = slice 4 24 input; weight = input ! 24;
            w = touch w0 am_addr; countKey = accountGuardianCountKey (bytes_of_string caller);
            countSlot = sload w am_addr countKey; guardianCount = slot_first countSlot in
        if 10 \<le> guardianCount then (Err (Errorf ''AccountManager: max 10 guardians''), w)
        else
          let w1 = sstore w am_addr (accountGuardianKey (bytes_of_string caller) guardianCount)
                     ((copy_at 0 guardianAddr zero_slot)[20 := weight]) in
          (Ret (boolResult True), sstore w1 am_addr countKey (countSlot[0 := guardianCount + 1])))"

definition accountGetGuardianCount :: call where
  "accountGetGuardianCount input caller w0 b =
     (if length input < 4 + 32 then (Err (Errorf ''AccountManager: getGuardianCount input too short''), w0)
      else let w = touch w0 am_addr in
           (Ret [slot_first (sload w am_addr (accountGuardianCountKey (slice 4 36 input)))], w))"

definition accountFreeze :: call where
  "accountFreeze input caller w0 b =
     (let w = touch w0 am_addr; stageKey = accountStageKey (bytes_of_string caller) in
      (Ret (boolResult True),
       AddLog (sstore w am_addr stageKey ((sload w am_addr stageKey)[31 := 1])) am_addr
         [storageKey (bytes_of_string ''AccountFrozen''), stringToHash (bytes_of_string caller)] [1] b))"

definition accountUnfreeze :: call where
  "accountUnfreeze input caller w0 b =
     (let w = touch w0 am_addr; stageKey = accountStageKey (bytes_of_string caller);
          stageSlot = sload w am_addr stageKey in
      if stageSlot ! 31 \<noteq> 1 then (Err (Errorf ''AccountManager: account not frozen''), w)
      else (Ret (boolResult True), sstore w am_addr stageKey (stageSlot[31 := 0])))"

definition am_table :: "(u32 \<times> call) list" where
  "am_table =
    [(accountGetStageSelector, accountGetStage), (accountGraduateSelector, accountGraduate),
     (accountAdvanceSelector, accountAdvance), (accountRotateKeySelector, accountRotateKey),
     (accountCreateSessionSelector, accountCreateSession), (accountRevokeSessionSelector, accountRevokeSession),
     (accountGetSessionSelector, accountGetSession), (accountSetGuardianSelector, accountSetGuardian),
     (accountGetGuardianSelector, accountGetGuardianCount), (accountFreezeSelector, accountFreeze),
     (accountUnfreezeSelector, accountUnfreeze)]"

definition accountManagerPrecompile :: call where
  "accountManagerPrecompile input caller w b =
     (if length input < 4 then (Err (Errorf ''AccountManager: input too short''), w)
      else switch am_table (unknown_selector ''AccountManager: unknown selector'')
             (selectorBytes input) input caller w b)"

lemmas am_ops = accountGetStage_def accountGraduate_def accountAdvance_def accountRotateKey_def
  accountCreateSession_def accountRevokeSession_def accountGetSession_def accountSetGuardian_def
  accountGetGuardianCount_def accountFreeze_def accountUnfreeze_def

interpretation am: confined_contract accountManagerPrecompile "{am_addr}"
proof unfold_locales
  fix w input caller b
  have "confined {am_addr} w
    (snd (switch am_table (unknown_selector ''AccountManager: unknown selector'') sel input caller w b))" for sel
    by (rule confined_switch)
      (auto simp: am_table_def unknown_selector_def am_ops Let_def intro!: confined_sstore)
  then show "confined {am_addr} w (snd (accountManagerPrecompile input caller w b))"
    by (simp add: accountManagerPrecompile_def)
qed

subsection \<open>Stages\<close>

definition stage_of :: "World \<Rightarrow> string \<Rightarrow> u8" where
  "stage_of w who = slot_first (sload w am_addr (accountStageKey (bytes_of_string who)))"

lemma slot_first_update: "length sl = 32 \<Longrightarrow> slot_first (sl[0 := x]) = x"
proof -
  assume "length sl = 32"
  then have "(sl[0 := x]) ! 0 = x" "sl[0 := x] = zero_slot \<Longrightarrow> x = zero_slot ! 0"
    by (simp, metis nth_list_update_eq zero_less_numeral)
  then show ?thesis
    by (auto simp: slot_first_def zero_slot_def)
qed

text \<open>The stage moves by one, only for the caller and only forward.\<close>

lemma graduate_stage:
  assumes "accountGraduate input c w b = (Ret out, w')"
    and "length (sload w am_addr (accountStageKey (bytes_of_string c))) = 32"
  shows "stage_of w c = StageOnboarding" "stage_of w' c = StageStandard"
    "sload w' am_addr (accountStageKey (bytes_of_string c)) =
       (sload w am_addr (accountStageKey (bytes_of_string c)))[0 := StageStandard]"
  using assms
  by (auto simp: accountGraduate_def Let_def stage_of_def encodeBlockNumber_def sload_sstore slot_first_update
      split: if_splits)

lemma advance_stage:
  assumes "accountAdvance input c w b = (Ret out, w')"
    and "length (sload w am_addr (accountStageKey (bytes_of_string c))) = 32"
  shows "stage_of w c = StageStandard" "stage_of w' c = StageSelfCustody"
    "decodeBlockNumber (sload w am_addr (accountStageKey (bytes_of_string c))) 1 + Stage1WaitingPeriod \<le> b"
  using assms
  by (auto simp: accountAdvance_def Let_def stage_of_def sload_sstore slot_first_update split: if_splits)

text \<open>
  The block of the graduation is not in the slot: an account that had no stage slot before can
  advance in the block of its graduation, once the chain is higher than the waiting period.
\<close>

lemma graduated_slot: "decodeBlockNumber (zero_slot[0 := StageStandard]) 1 = 0"
  by code_simp

lemma advance_at_once:
  assumes "sload w am_addr (accountStageKey (bytes_of_string c)) = zero_slot" "Stage1WaitingPeriod \<le> b"
  shows "\<exists>out1 w1 out2 w2. accountGraduate i1 c w b = (Ret out1, w1) \<and> accountAdvance i2 c w1 b = (Ret out2, w2)
    \<and> stage_of w2 c = StageSelfCustody"
proof -
  have first: "slot_first zero_slot = StageOnboarding"
    by (simp add: slot_first_def stage_consts)
  obtain out1 w1 where g: "accountGraduate i1 c w b = (Ret out1, w1)"
    using assms(1) first by (simp add: accountGraduate_def Let_def)
  have w1: "sload w1 am_addr (accountStageKey (bytes_of_string c)) = zero_slot[0 := StageStandard]"
    using graduate_stage(3)[OF g] assms(1) by simp
  moreover have "slot_first (zero_slot[0 := StageStandard]) = StageStandard"
    by (simp add: slot_first_update)
  ultimately obtain out2 w2 where a: "accountAdvance i2 c w1 b = (Ret out2, w2)"
    using assms(2) graduated_slot by (auto simp: accountAdvance_def Let_def not_less)
  with g advance_stage(2)[OF a] w1 show ?thesis
    by auto
qed

text \<open>At most ten guardians.\<close>

lemma guardian_count_bound:
  assumes "accountSetGuardian input c w b = (Ret out, w')"
    and "length (sload w am_addr (accountGuardianCountKey (bytes_of_string c))) = 32"
  shows "slot_first (sload w' am_addr (accountGuardianCountKey (bytes_of_string c)))
      = slot_first (sload w am_addr (accountGuardianCountKey (bytes_of_string c))) + 1"
    "slot_first (sload w am_addr (accountGuardianCountKey (bytes_of_string c))) < 10"
  using assms
  by (auto simp: accountSetGuardian_def Let_def sload_sstore slot_first_update not_le split: if_splits)

end
