(* ===== verification/Privacy.thy ===== *)
theory Privacy
  imports Governance
begin

text \<open>
  Precompile 0x1C, selective disclosure (\<^verbatim>\<open>evm/privacy.go\<close>): commitments and the structural checks
  that stand in for the verification of zero-knowledge proofs.

  \<^verbatim>\<open>privacyVerifyRange\<close> hashes \<^verbatim>\<open>append(input[4:36], proof...)\<close>. The slice shares the calldata's array,
  which has room for the proof, so the append moves the proof down to position 36 of the calldata.
  The hash is that of the commitment followed by the proof; the effect on the calldata is
  \<open>privacy_calldata_after\<close>.
\<close>

definition privacy_addr :: string where "privacy_addr = PrecompileAddrHex 0x1C"

definition PrivacySlotCommitments :: u8 where "PrivacySlotCommitments = 0x01"
definition PrivacySlotProofs :: u8 where "PrivacySlotProofs = 0x02"

definition ProofTypeRange :: u8 where "ProofTypeRange = 0"
definition ProofTypeMembership :: u8 where "ProofTypeMembership = 1"
definition ProofTypeIdentity :: u8 where "ProofTypeIdentity = 2"
definition ProofTypeBalance :: u8 where "ProofTypeBalance = 3"
definition ProofTypeAge :: u8 where "ProofTypeAge = 4"
definition ProofTypeCustom :: u8 where "ProofTypeCustom = 5"

definition privacyCommitSelector :: u32 where "privacyCommitSelector = 0xC1D2E3F4"
definition privacyVerifyRangeSelector :: u32 where "privacyVerifyRangeSelector = 0xD2E3F4A5"
definition privacyVerifyMembershipSelector :: u32 where "privacyVerifyMembershipSelector = 0xE3F4A5B6"
definition privacyVerifyIdentitySelector :: u32 where "privacyVerifyIdentitySelector = 0xF4A5B6C7"
definition privacyVerifyBalanceSelector :: u32 where "privacyVerifyBalanceSelector = 0xA5B6C7D8"
definition privacyGetCommitmentSelector :: u32 where "privacyGetCommitmentSelector = 0xB6C7D8E9"
definition privacyRevokeSelector :: u32 where "privacyRevokeSelector = 0xC7D8E9F0"

definition privacyCommitKey :: "bytes \<Rightarrow> slot" where
  "privacyCommitKey commitmentHash = storageKey (PrivacySlotCommitments # commitmentHash)"

definition privacyProofKey :: "bytes \<Rightarrow> slot" where
  "privacyProofKey proofHash = storageKey (PrivacySlotProofs # proofHash)"

subsection \<open>Proof checks\<close>

definition hasNonZero :: "bytes \<Rightarrow> bool" where
  "hasNonZero proof \<longleftrightarrow> (\<exists>x\<in>set proof. x \<noteq> 0)"

definition verifyRangeProof :: "nat \<Rightarrow> nat \<Rightarrow> bytes \<Rightarrow> bool" where
  "verifyRangeProof minVal maxVal proof \<longleftrightarrow>
     \<not> length proof < 32 \<and> hasNonZero proof \<and> minVal < maxVal"

definition verifyMembershipProof :: "bytes \<Rightarrow> bytes \<Rightarrow> bool" where
  "verifyMembershipProof merkleRoot proof \<longleftrightarrow>
     \<not> (length proof < 32 \<or> length merkleRoot \<noteq> 32) \<and> hasNonZero proof"

definition verifyIdentityProof :: "u8 \<Rightarrow> bytes \<Rightarrow> bool" where
  "verifyIdentityProof attributeType proof \<longleftrightarrow>
     \<not> length proof < 32 \<and> \<not> 5 < attributeType \<and> hasNonZero proof"

subsection \<open>Commitments\<close>

definition commitment_record :: "u8 \<Rightarrow> string \<Rightarrow> u64 \<Rightarrow> slot" where
  "commitment_record proofType caller b =
     copy_at 9 (u64be b) (copy_at 1 (take 8 (bytes_of_string caller)) (zero_slot[0 := proofType]))"

definition commitment_hash :: "u8 \<Rightarrow> bytes \<Rightarrow> u8 \<Rightarrow> u64 \<Rightarrow> bytes" where
  "commitment_hash c0 data proofType b = sha256 (c0 # data @ [proofType] @ decimal b)"

text \<open>\<^verbatim>\<open>caller[0]\<close> panics on the empty caller.\<close>

definition privacyCommit :: call where
  "privacyCommit input caller w0 b =
     (if length input < 4 + 1 + 32 then (Err (Errorf ''Privacy: commit input too short''), w0)
      else
        let proofType = input ! 4; data = slice 5 37 input in
        case bytes_of_string caller of
          [] \<Rightarrow> (Panic, w0)
        | c0 # _ \<Rightarrow>
            let h = commitment_hash c0 data proofType b;
                w1 = sstore (touch w0 privacy_addr) privacy_addr (privacyCommitKey h)
                       (commitment_record proofType caller b);
                w2 = AddLog w1 privacy_addr [storageKey (bytes_of_string ''CommitmentCreated''), h] [proofType] b in
            (Ret h, w2))"

definition proof_slot :: "bool \<Rightarrow> slot" where
  "proof_slot valid = (if valid then zero_slot[31 := 1] else zero_slot)"

definition privacyVerifyRange :: call where
  "privacyVerifyRange input caller w0 b =
     (if length input < 4 + 32 + 32 + 32 then (Err (Errorf ''Privacy: verifyRange input too short''), w0)
      else
        let commitmentHash = slice 4 36 input;
            minVal = readBigInt (readSlot input 36); maxVal = readBigInt (readSlot input 68);
            proof = drop 100 input; w = touch w0 privacy_addr;
            commitSlot = sload w privacy_addr (privacyCommitKey commitmentHash) in
        if commitSlot = zero_slot then (Ret (boolResult False), w)
        else if commitSlot ! 0 \<noteq> ProofTypeRange then (Ret (boolResult False), w)
        else
          let valid = verifyRangeProof minVal maxVal proof;
              proofHash = sha256 (commitmentHash @ proof);
              w1 = sstore w privacy_addr (privacyProofKey proofHash) (proof_slot valid);
              w2 = AddLog w1 privacy_addr
                     [storageKey (bytes_of_string ''RangeProofVerified''), commitmentHash] (boolToBytes valid) 0 in
          (Ret (boolResult valid), w2))"

definition privacyVerifyMembership :: call where
  "privacyVerifyMembership input caller w0 b =
     (if length input < 4 + 32 + 32 then (Err (Errorf ''Privacy: verifyMembership input too short''), w0)
      else
        let commitmentHash = slice 4 36 input; merkleRoot = slice 36 68 input;
            proof = drop 68 input; w = touch w0 privacy_addr;
            commitSlot = sload w privacy_addr (privacyCommitKey commitmentHash) in
        if commitSlot = zero_slot then (Ret (boolResult False), w)
        else
          let valid = verifyMembershipProof merkleRoot proof in
          (Ret (boolResult valid),
           AddLog w privacy_addr
             [storageKey (bytes_of_string ''MembershipProofVerified''), commitmentHash] (boolToBytes valid) 0))"

definition privacyVerifyIdentity :: call where
  "privacyVerifyIdentity input caller w0 b =
     (if length input < 4 + 32 + 1 then (Err (Errorf ''Privacy: verifyIdentity input too short''), w0)
      else
        let commitmentHash = slice 4 36 input; attributeType = input ! 36;
            proof = drop 37 input; w = touch w0 privacy_addr;
            commitSlot = sload w privacy_addr (privacyCommitKey commitmentHash) in
        if commitSlot = zero_slot then (Ret (boolResult False), w)
        else
          let valid = verifyIdentityProof attributeType proof in
          (Ret (boolResult valid),
           AddLog w privacy_addr
             [storageKey (bytes_of_string ''IdentityProofVerified''), commitmentHash] (boolToBytes valid) 0))"

text \<open>The minimum balance is read as an unsigned integer, so its sign test always succeeds.\<close>

definition privacyVerifyBalance :: call where
  "privacyVerifyBalance input caller w b =
     (if length input < 4 + 32 + 32 then (Err (Errorf ''Privacy: verifyBalance input too short''), w)
      else
        let minBalance = readBigInt (readSlot input 36); proof = drop 68 input;
            valid = (0 < length proof \<and> 0 \<le> int minBalance) in
        (Ret (boolResult valid),
         AddLog w privacy_addr [storageKey (bytes_of_string ''BalanceProofVerified'')] (boolToBytes valid) 0))"

definition privacyGetCommitment :: call where
  "privacyGetCommitment input caller w0 b =
     (if length input < 4 + 32 then (Err (Errorf ''Privacy: getCommitment input too short''), w0)
      else
        let w = touch w0 privacy_addr;
            commitSlot = sload w privacy_addr (privacyCommitKey (slice 4 36 input)) in
        if commitSlot = zero_slot then (Err (Errorf ''Privacy: commitment not found''), w)
        else
          (Ret (commitSlot ! 0 # slice 9 17 commitSlot @ [if commitSlot ! 0 = 0 then 1 else 0]), w))"

definition privacyRevoke :: call where
  "privacyRevoke input caller w0 b =
     (if length input < 4 + 32 then (Err (Errorf ''Privacy: revoke input too short''), w0)
      else
        let commitmentHash = slice 4 36 input; w = touch w0 privacy_addr;
            commitKey = privacyCommitKey commitmentHash; commitSlot = sload w privacy_addr commitKey in
        if commitSlot = zero_slot then (Err (Errorf ''Privacy: commitment not found''), w)
        else
          let w1 = sstore w privacy_addr commitKey (commitSlot[0 := 0]);
              w2 = AddLog w1 privacy_addr
                     [storageKey (bytes_of_string ''CommitmentRevoked''), commitmentHash] [0] 0 in
          (Ret (boolResult True), w2))"

definition privacy_table :: "(u32 \<times> call) list" where
  "privacy_table =
    [(privacyCommitSelector, privacyCommit), (privacyVerifyRangeSelector, privacyVerifyRange),
     (privacyVerifyMembershipSelector, privacyVerifyMembership),
     (privacyVerifyIdentitySelector, privacyVerifyIdentity),
     (privacyVerifyBalanceSelector, privacyVerifyBalance),
     (privacyGetCommitmentSelector, privacyGetCommitment), (privacyRevokeSelector, privacyRevoke)]"

definition privacyPrecompile :: call where
  "privacyPrecompile input caller w b =
     (if length input < 4 then (Err (Errorf ''Privacy: input too short''), w)
      else switch privacy_table (unknown_selector ''Privacy: unknown selector'')
             (selectorBytes input) input caller w b)"

text \<open>The calldata after a call: a range proof that is checked is moved down to position 36.\<close>

definition privacy_calldata_after :: "bytes \<Rightarrow> World \<Rightarrow> bytes" where
  "privacy_calldata_after input w =
     (let commitSlot = sload w privacy_addr (privacyCommitKey (slice 4 36 input)) in
      if selectorBytes input = privacyVerifyRangeSelector \<and> 100 \<le> length input
         \<and> commitSlot \<noteq> zero_slot \<and> commitSlot ! 0 = ProofTypeRange
      then copy_at 36 (drop 100 input) input else input)"

lemmas privacy_ops = privacyCommit_def privacyVerifyRange_def privacyVerifyMembership_def
  privacyVerifyIdentity_def privacyVerifyBalance_def privacyGetCommitment_def privacyRevoke_def

interpretation privacy: registry privacyPrecompile privacy_addr
proof unfold_locales
  fix w input caller b
  have "stays_in privacy_addr w
    (snd (switch privacy_table (unknown_selector ''Privacy: unknown selector'') sel input caller w b))" for sel
    by (rule stays_in_switch)
      (auto simp: privacy_table_def unknown_selector_def privacy_ops Let_def split: list.splits)
  then show "stays_in privacy_addr w (snd (privacyPrecompile input caller w b))"
    by (simp add: privacyPrecompile_def)
qed

subsection \<open>What a commitment records\<close>

lemma commitment_record_fields:
  "commitment_record t caller b ! 0 = t" "slice 9 17 (commitment_record t caller b) = u64be b"
  "length (commitment_record t caller b) = 32"
  by (simp_all add: commitment_record_def nth_copy_at_below slice_copy_at_same)

lemma commitment_record_not_zero:
  assumes "caller \<noteq> []" "hd (bytes_of_string caller) \<noteq> 0"
  shows "commitment_record t caller b \<noteq> zero_slot"
proof
  assume eq: "commitment_record t caller b = zero_slot"
  obtain c cs where c: "bytes_of_string caller = c # cs"
    using assms(1) by (cases "bytes_of_string caller") (auto simp: bytes_of_string_def)
  have "commitment_record t caller b ! 1 = c"
    by (simp add: commitment_record_def copy_at_def c nth_append)
  with eq assms(2) c show False
    by (simp add: zero_slot_def)
qed

lemma commit_recorded:
  assumes "privacyCommit input caller w b = (Ret h, w')"
  shows "sload w' privacy_addr (privacyCommitKey h) = commitment_record (input ! 4) caller b"
  using assms by (auto simp: privacyCommit_def Let_def sload_sstore split: if_splits list.splits)

text \<open>A commitment can be read back with its type and its block; type 0 is reported as revoked.\<close>

lemma get_committed:
  assumes c: "privacyCommit input caller w b = (Ret h, w')"
    and nz: "hd (bytes_of_string caller) \<noteq> 0"
    and r: "length req = 4"
  shows "privacyGetCommitment (req @ h) caller' w' b' =
    (Ret (input ! 4 # u64be b @ [if input ! 4 = ProofTypeRange then 1 else 0]), touch w' privacy_addr)"
proof -
  have ne: "caller \<noteq> []" and len: "length h = 32"
    using c by (auto simp: privacyCommit_def Let_def commitment_hash_def bytes_of_string_def
        split: if_splits list.splits)
  have "slice 4 36 (req @ h) = h"
    using r len by (simp add: slice_def)
  then show ?thesis
    using commit_recorded[OF c] commitment_record_not_zero[OF ne nz] r len
    by (simp add: privacyGetCommitment_def Let_def commitment_record_fields ProofTypeRange_def)
qed

text \<open>
  Revocation sets the type to 0, which is the type of range proofs: a revoked commitment of any
  type passes \<^verbatim>\<open>verifyRange\<close> with every proof of 32 bytes that are not all zero.
\<close>

lemma revoked_passes_range:
  assumes r: "privacyRevoke req caller w b = (Ret out, w')"
    and len: "100 \<le> length input" "slice 4 36 input = slice 4 36 req"
    and nz: "sload w' privacy_addr (privacyCommitKey (slice 4 36 req)) \<noteq> zero_slot"
    and wf: "length (sload w privacy_addr (privacyCommitKey (slice 4 36 req))) = 32"
  shows "fst (privacyVerifyRange input caller' w' b') =
    Ret (boolResult (verifyRangeProof (readBigInt (readSlot input 36)) (readBigInt (readSlot input 68))
      (drop 100 input)))"
proof -
  have "sload w' privacy_addr (privacyCommitKey (slice 4 36 req)) ! 0 = ProofTypeRange"
    using r wf by (auto simp: privacyRevoke_def Let_def sload_sstore ProofTypeRange_def split: if_splits)
  then show ?thesis
    using nz len by (simp add: privacyVerifyRange_def Let_def)
qed

end
