(* ===== verification/State_Rent.thy ===== *)
theory State_Rent
  imports Governance
begin

text \<open>
  Precompile 0x1E, state rent (\<^verbatim>\<open>evm/state_rent.go\<close>): payments, the status flag and the amount due.
  One 32-byte slot per account holds the paid total, with bytes 29 to 31 overwritten by the
  frozen flag and the low 16 bits of the block of the last payment.
\<close>

definition rent_addr :: string where "rent_addr = PrecompileAddrHex 0x1E"

definition StateRentSlotState :: u8 where "StateRentSlotState = 0x01"
definition StateRentBurnPercent :: u8 where "StateRentBurnPercent = 60"
definition StateRentValidatorPercent :: u8 where "StateRentValidatorPercent = 30"
definition StateRentTreasuryPercent :: u8 where "StateRentTreasuryPercent = 10"
definition GracePeriod :: u64 where "GracePeriod = 2592000"
definition RentPerByteYear :: nat where "RentPerByteYear = 5000000000000"
definition BaseAccountFee :: nat where "BaseAccountFee = 10000000000000000"

definition rentPaySelector :: u32 where "rentPaySelector = 0xE1F2A3B4"
definition rentGetStatusSelector :: u32 where "rentGetStatusSelector = 0xF2A3B4C5"
definition rentGetDueSelector :: u32 where "rentGetDueSelector = 0xA3B4C5D6"

definition rentNormalizeAddress :: "bytes \<Rightarrow> bytes" where
  "rentNormalizeAddress a = copy_at 0 a (replicate 20 0)"

definition rentStateKey :: "bytes \<Rightarrow> slot" where
  "rentStateKey a = storageKey (StateRentSlotState # rentNormalizeAddress a)"

definition rentDistributionKey :: "bytes \<Rightarrow> slot" where
  "rentDistributionKey a = storageKey (0x10 # rentNormalizeAddress a)"

text \<open>\<^verbatim>\<open>string(rune(b))\<close>: the UTF-8 form of the low 32 bits as a code point, or of U+FFFD.\<close>

definition rune_bytes :: "u64 \<Rightarrow> bytes" where
  "rune_bytes b =
     (let cp = sint (ucast b :: 32 word); n = nat cp; tail = (\<lambda>m. of_nat (128 + m mod 64)) in
      if cp < 0 \<or> 0x10FFFF < cp \<or> 0xD800 \<le> cp \<and> cp \<le> 0xDFFF then [0xEF, 0xBF, 0xBD]
      else if n < 0x80 then [of_nat n]
      else if n < 0x800 then [of_nat (192 + n div 64), tail n]
      else if n < 0x10000 then [of_nat (224 + n div 4096), tail (n div 64), tail n]
      else [of_nat (240 + n div 262144), tail (n div 4096), tail (n div 64), tail n])"

definition rent_slot_paid :: "slot \<Rightarrow> nat \<Rightarrow> u64 \<Rightarrow> slot" where
  "rent_slot_paid rentSlot newRent b =
     (fill_be 32 newRent)[30 := ucast (drop_bit 8 b), 31 := ucast b, 29 := 0]"

definition distribution_record :: "u64 \<Rightarrow> slot" where
  "distribution_record b =
     copy_at 4 (u64be b)
       (zero_slot[0 := StateRentBurnPercent, 1 := StateRentValidatorPercent, 2 := StateRentTreasuryPercent])"

definition rentPay :: call where
  "rentPay input caller w0 b =
     (if length input < 4 + 32 then (Err (Errorf ''StateRent: pay input too short''), w0)
      else
        let amount = readBigInt (readSlot input 4) in
        if amount = 0 then (Err (Errorf ''StateRent: amount must be > 0''), w0)
        else
          let w = touch w0 rent_addr; rentKey = rentStateKey (bytes_of_string caller);
              rentSlot = sload w rent_addr rentKey; newRent = readBigInt rentSlot + amount in
          if 256 ^ 32 \<le> newRent then (Panic, w)
          else
            let w1 = sstore w rent_addr rentKey (rent_slot_paid rentSlot newRent b);
                w2 = sstore w1 rent_addr (rentDistributionKey (bytes_of_string caller)) (distribution_record b);
                w3 = AddLog w2 rent_addr
                       [storageKey (bytes_of_string ''RentPaid''), sha256 (bytes_of_string caller @ rune_bytes b)]
                       (big_bytes amount) b in
            (Ret (boolResult True), EconoAccrueRent w3 (big_Uint64 amount) b))"

definition rentGetStatus :: call where
  "rentGetStatus input caller w0 b =
     (if length input < 4 + 32 then (Err (Errorf ''StateRent: getStatus input too short''), w0)
      else
        let w = touch w0 rent_addr; rentSlot = sload w rent_addr (rentStateKey (slice 4 36 input)) in
        if rentSlot = zero_slot then (Ret [0], w) else (Ret [rentSlot ! 29], w))"

definition estimateAccountSize :: "World \<Rightarrow> bytes \<Rightarrow> nat" where
  "estimateAccountSize w accountAddr =
     (case GetAccount w (string_of_bytes accountAddr) of
        None \<Rightarrow> 0
      | Some acc \<Rightarrow> length (Storage acc) * 64 + length (Code acc))"

definition lastRentBlock :: "slot \<Rightarrow> u64" where
  "lastRentBlock rentSlot = push_bit 8 (ucast (rentSlot ! 30)) OR ucast (rentSlot ! 31)"

definition rentGetDue :: call where
  "rentGetDue input caller w0 b =
     (if length input < 4 + 20 then (Err (Errorf ''StateRent: getDue input too short''), w0)
      else
        let accountAddr = slice 4 24 input; w = touch w0 rent_addr;
            rentKey = rentStateKey accountAddr; rentSlot = sload w rent_addr rentKey in
        if rentSlot = zero_slot then (Ret (fill_be 32 1000000000000000000), w)
        else
          let blocksElapsed = b - lastRentBlock rentSlot;
              accountSize = estimateAccountSize w accountAddr;
              yearsElapsed = unat blocksElapsed div 31536000;
              dueAmount = BaseAccountFee +
                (if 1024 < accountSize then accountSize * RentPerByteYear * yearsElapsed else 0) in
          if GracePeriod < blocksElapsed
          then (Ret (zero_slot[0 := 0xFF]), sstore w rent_addr rentKey (rentSlot[29 := 1]))
          else if 256 ^ 32 \<le> dueAmount then (Panic, w)
          else (Ret (fill_be 32 dueAmount), w))"

definition rent_table :: "(u32 \<times> call) list" where
  "rent_table =
    [(rentPaySelector, rentPay), (rentGetStatusSelector, rentGetStatus), (rentGetDueSelector, rentGetDue)]"

definition stateRentPrecompile :: call where
  "stateRentPrecompile input caller w b =
     (if length input < 4 then (Err (Errorf ''StateRent: input too short''), w)
      else switch rent_table (unknown_selector ''StateRent: unknown selector'')
             (selectorBytes input) input caller w b)"

lemma EconoAccrueRent_frame [simp]:
  "acct (EconoAccrueRent w v b) a = acct w a" "sload (EconoAccrueRent w v b) a k = sload w a k"
  "balance_of (EconoAccrueRent w v b) a = balance_of w a"
  "confined A w0 (EconoAccrueRent w v b) = confined A w0 w"
  by (simp_all add: EconoAccrueRent_def Let_def confined_def)

interpretation rent: confined_contract stateRentPrecompile "{rent_addr}"
proof unfold_locales
  fix w input caller b
  have "confined {rent_addr} w
    (snd (switch rent_table (unknown_selector ''StateRent: unknown selector'') sel input caller w b))" for sel
    by (rule confined_switch)
      (auto simp: rent_table_def unknown_selector_def rentPay_def rentGetStatus_def rentGetDue_def Let_def
        intro!: confined_sstore)
  then show "confined {rent_addr} w (snd (stateRentPrecompile input caller w b))"
    by (simp add: stateRentPrecompile_def)
qed

subsection \<open>The last payment\<close>

text \<open>
  Only the low 16 bits of the block survive. A payment at a block beyond the grace period plus
  \<open>2^16\<close> is already overdue in the same block.
\<close>

lemma lastRentBlock_paid: "lastRentBlock (rent_slot_paid sl v b) = take_bit 16 b"
proof -
  have "rent_slot_paid sl v b ! 30 = ucast (drop_bit 8 b)" "rent_slot_paid sl v b ! 31 = ucast b"
    by (simp_all add: rent_slot_paid_def)
  moreover have "push_bit 8 (ucast (ucast (drop_bit 8 b) :: u8)) OR ucast (ucast b :: u8) = take_bit 16 b"
  proof (rule bit_word_eqI)
    fix n assume "n < LENGTH(64)"
    then show "bit (push_bit 8 (ucast (ucast (drop_bit 8 b) :: u8)) OR ucast (ucast b :: u8) :: u64) n =
      bit (take_bit 16 b) n"
      by (cases "n < 8"; cases "n < 16") (auto simp: bit_simps)
  qed
  ultimately show ?thesis
    by (simp add: lastRentBlock_def)
qed

end
