(* ===== verification/Cross_Chain.thy ===== *)
theory Cross_Chain
  imports Governance
begin

text \<open>
  Precompile 0x1F, cross-chain attestations (\<^verbatim>\<open>evm/cross_chain_attestation.go\<close>): verified oracles
  witness an event of another chain, anyone may challenge it within a window of blocks. An oracle
  that has witnessed an event is remembered by an account of its own under a derived name.
\<close>

definition cc_addr :: string where "cc_addr = PrecompileAddrHex 0x1F"

definition attestSelector :: u32 where "attestSelector = 0xC1A2B3D4"
definition getAttestSelector :: u32 where "getAttestSelector = 0xD2B3C4E5"
definition challengeSelector :: u32 where "challengeSelector = 0xE3C4D5F6"
definition getCountSelector :: u32 where "getCountSelector = 0xF4D5E6A7"

definition MaxAttestersPerEvent :: u64 where "MaxAttestersPerEvent = 20"
definition ChallengeWindow :: u64 where "ChallengeWindow = 100"
definition ccSlotAttestation :: u8 where "ccSlotAttestation = 0x01"

definition isVerifiedOracle :: "string \<Rightarrow> World \<Rightarrow> bool" where
  "isVerifiedOracle caller w \<longleftrightarrow>
     (case GetAccount w caller of None \<Rightarrow> False | Some acc \<Rightarrow> 2 \<le> DoxDevLevel acc)"

definition ccAttestationKey :: "bytes \<Rightarrow> u64 \<Rightarrow> bytes \<Rightarrow> slot" where
  "ccAttestationKey sourceChain sourceBlock sourceTxHash =
     storageKey (ccSlotAttestation # sourceChain @ u64be sourceBlock @ sourceTxHash)"

definition ccAttesterKey :: "slot \<Rightarrow> string \<Rightarrow> string" where
  "ccAttesterKey attKey attester = ''cc_att_'' @ hex_encode (take 8 attKey) @ ''_'' @ attester"

text \<open>The key of the event that the calldata names.\<close>

definition cc_event :: "bytes \<Rightarrow> slot" where
  "cc_event input =
     ccAttestationKey (slice 4 36 input) (big_Uint64 (be_nat (slice 36 68 input))) (slice 68 100 input)"

subsection \<open>The attestation slot\<close>

definition att_count :: "slot \<Rightarrow> u64" where
  "att_count sl = push_bit 8 (ucast (sl ! 0)) OR ucast (sl ! 1)"

definition att_first :: "slot \<Rightarrow> u64" where
  "att_first sl = be64 (slice 2 10 sl)"

definition att_confidence :: "u64 \<Rightarrow> u8" where
  "att_confidence attCount =
     (if 10 \<le> attCount then 100 else if 5 \<le> attCount then 75
      else if 3 \<le> attCount then 50 else if 1 \<le> attCount then 25 else 0)"

definition att_slot :: "u64 \<Rightarrow> u64 \<Rightarrow> u8 \<Rightarrow> string \<Rightarrow> slot" where
  "att_slot attCount firstAttBlock confidence attesterKey =
     [ucast (drop_bit 8 attCount), ucast attCount] @ u64be firstAttBlock @ [confidence, 0]
       @ take 20 (sha256 (bytes_of_string attesterKey))"

text \<open>The count after one more witness.\<close>

definition next_count :: "slot \<Rightarrow> u64" where
  "next_count existing =
     (let c = (if existing \<noteq> zero_slot then att_count existing else 0) + 1 in
      if MaxAttestersPerEvent < c then MaxAttestersPerEvent else c)"

definition ccWitnessEvent :: call where
  "ccWitnessEvent input caller w0 b =
     (if length input < 4 + 32 + 32 + 32
      then (Err (Errorf ''CrossChainAttestation: witness input too short''), w0)
      else if \<not> isVerifiedOracle caller w0
      then (Err (Errorf ''CrossChainAttestation: caller not verified (need Dox_Dev 2+)''), w0)
      else
        let attKey = cc_event input; w = touch w0 cc_addr; existing = sload w cc_addr attKey;
            attCount0 = (if existing \<noteq> zero_slot then att_count existing else 0);
            firstAttBlock = (if existing \<noteq> zero_slot then att_first existing else b);
            attesterKey = ccAttesterKey attKey caller in
        if GetAccount w attesterKey \<noteq> None
        then (Err (Errorf ''CrossChainAttestation: attester already witnessed this event''), w)
        else if 0 < attCount0 \<and> firstAttBlock + ChallengeWindow < b
        then (Err (Errorf ''CrossChainAttestation: challenge window expired''), w)
        else
          let attCount = next_count existing;
              w1 = upd_acct (touch w attesterKey) attesterKey (\<lambda>acc. acc\<lparr>DoxDevLevel := 1\<rparr>);
              confidence = att_confidence attCount;
              w2 = sstore w1 cc_addr attKey (att_slot attCount firstAttBlock confidence attesterKey);
              eventHash = sha256 (slice 4 36 input @ slice 68 100 input);
              commitHash = sha256 (bytes_of_string
                (caller @ '':'' @ dec_string (unat b) @ '':'' @ hex_encode eventHash));
              w3 = AddLog w2 cc_addr [storageKey (bytes_of_string ''Witnessed''), commitHash] [ucast attCount] b in
          (Ret ([ucast (drop_bit 8 attCount), ucast attCount, confidence] @ u64be firstAttBlock), w3))"

definition ccGetAttestation :: call where
  "ccGetAttestation input caller w0 b =
     (if length input < 4 + 32 + 32 + 32
      then (Err (Errorf ''CrossChainAttestation: getAttestation input too short''), w0)
      else
        let w = touch w0 cc_addr; sl = sload w cc_addr (cc_event input) in
        if sl = zero_slot then (Err (Errorf ''CrossChainAttestation: no attestation found''), w)
        else
          (Ret ([ucast (drop_bit 8 (att_count sl)), ucast (att_count sl), sl ! 10]
             @ u64be (att_first sl) @ u64be (att_first sl) @ [sl ! 11]), w))"

definition ccChallengeAttestation :: call where
  "ccChallengeAttestation input caller w0 b =
     (if length input < 4 + 32 + 32 + 32
      then (Err (Errorf ''CrossChainAttestation: challenge input too short''), w0)
      else
        let w = touch w0 cc_addr; attKey = cc_event input; sl = sload w cc_addr attKey in
        if sl = zero_slot then (Err (Errorf ''CrossChainAttestation: no attestation to challenge''), w)
        else if att_first sl + ChallengeWindow < b then (Ret [0, 0, 0, 0, 0], w)
        else if sl ! 11 = 1 then (Ret [0, 0, 0, 0, 0], w)
        else
          let attCount = att_count sl;
              w1 = sstore w cc_addr attKey (sl[11 := 1]);
              w2 = sstore w1 cc_addr attKey (sl[11 := 1, 10 := 0]);
              challengeHash = sha256 (bytes_of_string
                (''challenge:'' @ caller @ '':'' @ dec_string (unat b) @ '':'' @ hex_encode (slice 68 100 input)));
              w3 = AddLog w2 cc_addr [storageKey (bytes_of_string ''Challenged''), challengeHash] [ucast attCount] b in
          (Ret [1, ucast (drop_bit 8 attCount), ucast attCount, 0], w3))"

definition ccGetAttestationCount :: call where
  "ccGetAttestationCount input caller w0 b =
     (if length input < 4 + 32 + 32 + 32
      then (Err (Errorf ''CrossChainAttestation: getCount input too short''), w0)
      else
        let w = touch w0 cc_addr; sl = sload w cc_addr (cc_event input) in
        if sl = zero_slot then (Ret [0, 0], w)
        else (Ret [ucast (drop_bit 8 (att_count sl)), ucast (att_count sl)], w))"

definition cc_table :: "(u32 \<times> call) list" where
  "cc_table =
    [(attestSelector, ccWitnessEvent), (getAttestSelector, ccGetAttestation),
     (challengeSelector, ccChallengeAttestation), (getCountSelector, ccGetAttestationCount)]"

definition crossChainAttestationPrecompile :: call where
  "crossChainAttestationPrecompile input caller w b =
     (if length input < 4 then (Err (Errorf ''CrossChainAttestation: input too short''), w)
      else switch cc_table (unknown_selector ''CrossChainAttestation: unknown selector'')
             (selectorBytes input) input caller w b)"

lemmas cc_ops = ccWitnessEvent_def ccGetAttestation_def ccChallengeAttestation_def ccGetAttestationCount_def

subsection \<open>Confinement\<close>

definition cc_accounts :: "string set" where
  "cc_accounts = {cc_addr} \<union> {a. \<exists>rest. a = ''cc_att_'' @ rest}"

lemma cc_addr_in [simp]: "cc_addr \<in> cc_accounts"
  by (simp add: cc_accounts_def)

lemma attester_in [simp]: "ccAttesterKey k c \<in> cc_accounts"
  by (simp add: cc_accounts_def ccAttesterKey_def)

lemma attester_not_addr [simp]: "ccAttesterKey k c \<noteq> cc_addr"
  by (simp add: ccAttesterKey_def cc_addr_def PrecompileAddrHex_def)

lemma confined_level:
  assumes "confined A w w'" "a \<in> A"
  shows "confined A w (upd_acct w' a (\<lambda>acc. acc\<lparr>DoxDevLevel := l\<rparr>))"
  using assms by (auto simp: confined_def acct_upd_acct balance_of_def)

lemma sload_level [simp]: "sload (upd_acct w a (\<lambda>acc. acc\<lparr>DoxDevLevel := l\<rparr>)) x k = sload w x k"
  by (simp add: sload_def acct_upd_acct)

interpretation cross_chain: confined_contract crossChainAttestationPrecompile cc_accounts
proof unfold_locales
  fix w input caller b
  have "confined cc_accounts w
    (snd (switch cc_table (unknown_selector ''CrossChainAttestation: unknown selector'') sel input caller w b))" for sel
    by (rule confined_switch)
      (auto simp: cc_table_def unknown_selector_def cc_ops Let_def intro!: confined_sstore confined_level)
  then show "confined cc_accounts w (snd (crossChainAttestationPrecompile input caller w b))"
    by (simp add: crossChainAttestationPrecompile_def)
qed

subsection \<open>Well-formed attestations\<close>

lemma att_slot_fields:
  "length (att_slot c f conf k) = 32"
  "att_slot c f conf k ! 10 = conf" "att_slot c f conf k ! 11 = 0"
  "att_first (att_slot c f conf k) = f"
  by (simp_all add: att_slot_def att_first_def slice_def nth_append)

lemma att_count_slot:
  assumes "c \<le> 20"
  shows "att_count (att_slot c f conf k) = c"
proof -
  have "unat c < 256"
    using assms by (simp add: word_le_nat_alt)
  moreover from this have "unat (drop_bit 8 c) = 0"
    by (subst unat_drop_bit_eq) (simp add: drop_bit_eq_div)
  moreover have "unat (ucast c :: u8) = take_bit 8 (unat c)"
    by (simp add: unsigned_ucast_eq)
  ultimately have "ucast (drop_bit 8 c) = (0 :: u8)" "ucast (ucast c :: u8) = c"
    by (simp_all add: unsigned_eq_0_iff word_eq_iff_unsigned unsigned_ucast_eq take_bit_eq_self_iff_drop_bit_eq_0)
  then show ?thesis
    by (simp add: att_count_def att_slot_def)
qed

text \<open>
  The record of an event that \<open>n\<close> oracles witnessed: nothing for none, else a count that stops at
  20 and the confidence of the count, or 0 while the event is challenged.
\<close>

definition att_by :: "nat \<Rightarrow> slot \<Rightarrow> bool" where
  "att_by n sl \<longleftrightarrow>
     (if n = 0 then sl = zero_slot
      else length sl = 32 \<and> att_count sl = of_nat (min 20 n)
        \<and> sl ! 10 = (if sl ! 11 = 1 then 0 else att_confidence (att_count sl)))"

lemma small_count:
  fixes n :: nat
  assumes "n \<le> 20"
  shows "unat (of_nat n :: u64) = n"
  using assms by (simp add: unat_of_nat take_bit_nat_eq_self)

lemma att_by_zero: "att_by n sl \<Longrightarrow> sl = zero_slot \<longleftrightarrow> n = 0"
proof -
  have "unat (of_nat (min 20 n) :: u64) \<noteq> 0" if "n \<noteq> 0"
    using that by (subst small_count) simp_all
  moreover have "att_count zero_slot = 0"
    by (simp add: att_count_def zero_slot_def)
  ultimately show "att_by n sl \<Longrightarrow> sl = zero_slot \<longleftrightarrow> n = 0"
    by (auto simp: att_by_def split: if_splits)
qed

lemma next_count_by:
  assumes "att_by n sl"
  shows "next_count sl = of_nat (min 20 (Suc n))"
proof -
  have c: "(if sl \<noteq> zero_slot then att_count sl else 0) = of_nat (min 20 n)"
    using assms att_by_zero[OF assms] by (auto simp: att_by_def)
  show ?thesis
  proof (cases "n < 20")
    case True
    then have "of_nat (min 20 n) + 1 = (of_nat (Suc n) :: u64)" "min 20 (Suc n) = Suc n"
      by (simp_all add: min_def)
    moreover have "\<not> 20 < (of_nat (Suc n) :: u64)"
      unfolding word_less_nat_alt using True by (subst small_count) simp_all
    ultimately show ?thesis
      unfolding next_count_def c Let_def MaxAttestersPerEvent_def by (simp only: if_False)
  next
    case False
    then show ?thesis
      unfolding next_count_def c Let_def MaxAttestersPerEvent_def by (simp add: min_def)
  qed
qed

lemma att_by_witness:
  assumes "att_by n sl"
  shows "att_by (Suc n) (att_slot (next_count sl) f (att_confidence (next_count sl)) k)"
proof -
  have "next_count sl \<le> 20"
    using small_count[of "min 20 (Suc n)"] by (simp add: next_count_by[OF assms] word_le_nat_alt)
  then show ?thesis
    by (simp add: att_by_def att_slot_fields att_count_slot) (simp add: next_count_by[OF assms])
qed

lemma att_by_challenge:
  assumes "att_by n sl" "sl \<noteq> zero_slot"
  shows "att_by n (sl[11 := 1, 10 := 0])"
  using assms by (auto simp: att_by_def att_count_def)

lemma witness_effect:
  assumes "ccWitnessEvent input caller w b = (Ret out, w')"
  defines "k \<equiv> cc_event input"
  defines "existing \<equiv> sload w cc_addr k"
  shows "isVerifiedOracle caller w" "GetAccount w (ccAttesterKey k caller) = None"
    and "GetAccount w' (ccAttesterKey k caller) \<noteq> None"
    and "sload w' cc_addr k = att_slot (next_count existing)
           (if existing \<noteq> zero_slot then att_first existing else b)
           (att_confidence (next_count existing)) (ccAttesterKey k caller)"
    and "k' \<noteq> k \<Longrightarrow> sload w' cc_addr k' = sload w cc_addr k'"
proof -
  let ?a = "ccAttesterKey k caller"
  show ver: "isVerifiedOracle caller w"
    using assms(1) by (auto simp: ccWitnessEvent_def split: if_splits)
  have fresh: "GetAccount (touch w cc_addr) ?a = None"
    and w': "\<exists>t d. w' = AddLog (sstore (upd_acct (touch (touch w cc_addr) ?a) ?a (\<lambda>acc. acc\<lparr>DoxDevLevel := 1\<rparr>)) cc_addr k
      (att_slot (next_count existing) (if existing \<noteq> zero_slot then att_first existing else b)
         (att_confidence (next_count existing)) ?a)) cc_addr t d b"
    using assms(1)
    by (auto simp: ccWitnessEvent_def Let_def k_def existing_def split: if_splits)
  show "GetAccount w ?a = None"
    using fresh by (auto simp: GetAccount_def touch_def split: if_splits)
  show "GetAccount w' ?a \<noteq> None"
    using w' by (auto simp: GetAccount_def AddLog_def sstore_def upd_acct_def)
  show "sload w' cc_addr k = att_slot (next_count existing)
           (if existing \<noteq> zero_slot then att_first existing else b)
           (att_confidence (next_count existing)) ?a"
    using w' by (auto simp: sload_sstore)
  show "sload w' cc_addr k' = sload w cc_addr k'" if "k' \<noteq> k"
    using w' that by (auto simp: sload_sstore)
qed

text \<open>No call forgets an account, so an oracle can witness an event only once.\<close>

lemma Exist_mono:
  "Exist w a \<Longrightarrow> Exist (touch w x) a" "Exist w a \<Longrightarrow> Exist (sstore w x k v) a"
  "Exist w a \<Longrightarrow> Exist (AddLog w x t d n) a" "Exist w a \<Longrightarrow> Exist (upd_acct w x f) a"
  by (simp_all add: Exist_def touch_def sstore_def AddLog_def upd_acct_def)

lemma cross_chain_exist:
  assumes "Exist w a"
  shows "Exist (snd (crossChainAttestationPrecompile input caller w b)) a"
proof -
  have "Exist (snd (switch cc_table (unknown_selector ''CrossChainAttestation: unknown selector'') sel input caller w b)) a" for sel
    by (rule switch_cases[where P = "\<lambda>f. Exist (snd (f input caller w b)) a"])
      (use assms in \<open>auto simp: cc_table_def unknown_selector_def cc_ops Let_def intro!: Exist_mono\<close>)
  then show ?thesis
    using assms by (simp add: crossChainAttestationPrecompile_def)
qed

lemma cross_chain_run_exist:
  "Exist w a \<Longrightarrow> Exist (run_calls crossChainAttestationPrecompile cs w) a"
proof (induction cs arbitrary: w)
  case (Cons c cs)
  then show ?case
    by (cases c) (simp add: cross_chain_exist)
qed simp

lemma witness_once:
  assumes "ccWitnessEvent input caller w b = (Ret out, w')"
    and "cc_event input' = cc_event input"
  shows "\<exists>e. fst (ccWitnessEvent input' caller (run_calls crossChainAttestationPrecompile cs w') b') = Err e"
proof -
  have "Exist w' (ccAttesterKey (cc_event input) caller)"
    using witness_effect(3)[OF assms(1)] by (simp add: Exist_def GetAccount_def)
  then have "Exist (touch (run_calls crossChainAttestationPrecompile cs w') cc_addr) (ccAttesterKey (cc_event input') caller)"
    unfolding assms(2) by (intro Exist_mono cross_chain_run_exist)
  then show ?thesis
    by (auto simp: ccWitnessEvent_def Let_def Exist_def GetAccount_def)
qed

subsection \<open>The witnesses of an event\<close>

text \<open>
  No call of the contract makes or unmakes an oracle: the accounts that remember witnesses are
  created with level 1.
\<close>

lemma oracle_level: "isVerifiedOracle c w \<longleftrightarrow> 2 \<le> DoxDevLevel (acct w c)"
  by (auto simp: isVerifiedOracle_def GetAccount_def acct_def NewAccount_def split: option.splits)

lemma oracle_frame [simp]:
  "isVerifiedOracle c (touch w x) = isVerifiedOracle c w"
  "isVerifiedOracle c (sstore w x k v) = isVerifiedOracle c w"
  "isVerifiedOracle c (AddLog w x t d n) = isVerifiedOracle c w"
  by (simp_all add: oracle_level acct_upd_acct sstore_def AddLog_def) (simp add: acct_def)

lemma witness_oracles:
  "isVerifiedOracle c (snd (ccWitnessEvent input caller w b)) = isVerifiedOracle c w"
proof -
  have "isVerifiedOracle c (upd_acct (touch w' a) a (\<lambda>acc. acc\<lparr>DoxDevLevel := 1\<rparr>)) = isVerifiedOracle c w'"
    if "GetAccount w' a = None" for w' a
  proof -
    have "DoxDevLevel (acct w' a) = 0"
      using that by (simp add: acct_def GetAccount_def NewAccount_def)
    then show ?thesis
      by (auto simp: oracle_level acct_upd_acct word_le_nat_alt)
  qed
  then show ?thesis
    by (simp add: ccWitnessEvent_def Let_def)
qed

lemma record_oracles:
  "isVerifiedOracle c (snd (ccGetAttestation input caller w b)) = isVerifiedOracle c w"
  "isVerifiedOracle c (snd (ccChallengeAttestation input caller w b)) = isVerifiedOracle c w"
  "isVerifiedOracle c (snd (ccGetAttestationCount input caller w b)) = isVerifiedOracle c w"
  by (simp_all add: ccGetAttestation_def ccChallengeAttestation_def ccGetAttestationCount_def Let_def)

lemma cross_chain_oracles:
  "isVerifiedOracle c (snd (crossChainAttestationPrecompile input caller w b)) = isVerifiedOracle c w"
proof -
  have "isVerifiedOracle c (snd (switch cc_table (unknown_selector ''CrossChainAttestation: unknown selector'')
      sel input caller w b)) = isVerifiedOracle c w" for sel
    by (rule switch_cases[where P = "\<lambda>f. isVerifiedOracle c (snd (f input caller w b)) = isVerifiedOracle c w"])
      (auto simp: cc_table_def unknown_selector_def witness_oracles record_oracles)
  then show ?thesis
    by (simp add: crossChainAttestationPrecompile_def)
qed

text \<open>The callers of the attestations of an event that were accepted along a sequence of calls.\<close>

definition witnessed :: "slot \<Rightarrow> bytes \<Rightarrow> string \<Rightarrow> World \<Rightarrow> u64 \<Rightarrow> bool" where
  "witnessed k input caller w b \<longleftrightarrow>
     selectorBytes input = attestSelector \<and> cc_event input = k
     \<and> (case fst (crossChainAttestationPrecompile input caller w b) of Ret _ \<Rightarrow> True | _ \<Rightarrow> False)"

fun witnesses :: "slot \<Rightarrow> (bytes \<times> string \<times> u64) list \<Rightarrow> World \<Rightarrow> string list" where
  "witnesses k [] w = []"
| "witnesses k ((input, caller, b) # cs) w =
     (if witnessed k input caller w b then [caller] else [])
     @ witnesses k cs (snd (crossChainAttestationPrecompile input caller w b))"

definition event_inv :: "slot \<Rightarrow> string list \<Rightarrow> World \<Rightarrow> bool" where
  "event_inv k ws w \<longleftrightarrow> distinct ws \<and> att_by (length ws) (sload w cc_addr k)
     \<and> (\<forall>c \<in> set ws. isVerifiedOracle c w \<and> Exist w (ccAttesterKey k c))"

lemma witnessed_Ret:
  assumes "witnessed k input caller w b"
  obtains out where "ccWitnessEvent input caller w b = (Ret out, snd (crossChainAttestationPrecompile input caller w b))"
    and "cc_event input = k"
  using assms
  by (cases "ccWitnessEvent input caller w b")
    (auto simp: witnessed_def crossChainAttestationPrecompile_def switch_def cc_table_def
      split: outcome.splits if_splits)

lemma event_inv_witnessed:
  assumes "event_inv k ws w" "witnessed k input caller w b"
  shows "event_inv k (ws @ [caller]) (snd (crossChainAttestationPrecompile input caller w b))"
proof -
  let ?w' = "snd (crossChainAttestationPrecompile input caller w b)"
  obtain out where r: "ccWitnessEvent input caller w b = (Ret out, ?w')" and k: "cc_event input = k"
    using witnessed_Ret[OF assms(2)] by blast
  note e = witness_effect[OF r, unfolded k]
  have new: "caller \<notin> set ws" and ex: "Exist ?w' (ccAttesterKey k caller)"
    using assms(1) e(2,3) by (auto simp: event_inv_def Exist_def GetAccount_def)
  show ?thesis
    using assms(1) new ex e(1) att_by_witness cross_chain_oracles cross_chain_exist
    by (auto simp: event_inv_def e(4))
qed

text \<open>Every other call leaves the record of the event, but for a challenge.\<close>

lemma witness_other:
  assumes "cc_event input \<noteq> k \<or> (\<forall>out. fst (ccWitnessEvent input caller w b) \<noteq> Ret out)"
  shows "sload (snd (ccWitnessEvent input caller w b)) cc_addr k = sload w cc_addr k"
  using assms by (auto simp: ccWitnessEvent_def Let_def sload_sstore split: if_splits)

lemma challenge_by:
  assumes "att_by n (sload w cc_addr k)"
  shows "att_by n (sload (snd (ccChallengeAttestation input caller w b)) cc_addr k)"
  using assms att_by_challenge[OF assms]
  by (auto simp: ccChallengeAttestation_def Let_def sload_sstore)

lemma other_call_by:
  assumes "att_by n (sload w cc_addr k)" "\<not> witnessed k input caller w b"
  shows "att_by n (sload (snd (crossChainAttestationPrecompile input caller w b)) cc_addr k)"
proof (cases "4 \<le> length input \<and> selectorBytes input = attestSelector")
  case True
  then have c: "crossChainAttestationPrecompile input caller w b = ccWitnessEvent input caller w b"
    by (simp add: crossChainAttestationPrecompile_def switch_def cc_table_def)
  show ?thesis
    using assms(1) witness_other[of input k caller w b] True assms(2)
    by (auto simp: c witnessed_def split: outcome.splits)
next
  case False
  then show ?thesis
    using assms(1) challenge_by[OF assms(1)]
    by (auto simp: crossChainAttestationPrecompile_def switch_def cc_table_def unknown_selector_def
        ccGetAttestation_def ccGetAttestationCount_def Let_def)
qed

lemma event_inv_step:
  assumes "event_inv k ws w"
  shows "event_inv k (ws @ (if witnessed k input caller w b then [caller] else []))
           (snd (crossChainAttestationPrecompile input caller w b))"
proof (cases "witnessed k input caller w b")
  case True
  with event_inv_witnessed[OF assms] show ?thesis
    by simp
next
  case False
  then show ?thesis
    using assms other_call_by cross_chain_oracles cross_chain_exist by (auto simp: event_inv_def)
qed

lemma event_inv_run:
  "event_inv k ws w \<Longrightarrow> event_inv k (ws @ witnesses k cs w) (run_calls crossChainAttestationPrecompile cs w)"
proof (induction cs arbitrary: ws w)
  case (Cons c cs)
  obtain input caller b where c: "c = (input, caller, b)"
    by (cases c)
  from Cons.IH[OF event_inv_step[OF Cons.prems]] show ?case
    by (simp only: c witnesses.simps run_calls.simps append_assoc)
qed simp

lemma run_oracles: "isVerifiedOracle c (run_calls crossChainAttestationPrecompile cs w) = isVerifiedOracle c w"
proof (induction cs arbitrary: w)
  case (Cons x cs)
  then show ?case
    by (cases x) (simp add: cross_chain_oracles)
qed simp

end
