(* ===== verification/Mineral_Rights.thy ===== *)
theory Mineral_Rights
  imports Two_Way
begin

text \<open>
  Precompile 0x20, the mineral rights registry (\<^verbatim>\<open>evm/mineral_rights.go\<close>): claims, their verifiers, the
  approval of reserves, the issue of tokens, monitoring and transfer.
\<close>

definition mrt_addr :: string where "mrt_addr = PrecompileAddrHex 0x20"

definition mrtRegisterClaimSelector :: u32 where "mrtRegisterClaimSelector = 0xA1B2C3D4"
definition mrtVerifyClaimSelector :: u32 where "mrtVerifyClaimSelector = 0xB2C3D4E5"
definition mrtApproveReserveSelector :: u32 where "mrtApproveReserveSelector = 0xC3D4E5A6"
definition mrtIssueTokensSelector :: u32 where "mrtIssueTokensSelector = 0xD4E5A6B7"
definition mrtGetClaimSelector :: u32 where "mrtGetClaimSelector = 0xE5A6B7C8"
definition mrtGetTokensSelector :: u32 where "mrtGetTokensSelector = 0xF6B7C8D9"
definition mrtEnvironmentalCheckSelector :: u32 where "mrtEnvironmentalCheckSelector = 0xA7B8C9D0"
definition mrtTransferRightsSelector :: u32 where "mrtTransferRightsSelector = 0xB8C9D0E1"

definition RoleLawyer :: u8 where "RoleLawyer = 1"
definition RoleSurveyor :: u8 where "RoleSurveyor = 2"
definition TierInferred :: u8 where "TierInferred = 1"
definition TierIndicated :: u8 where "TierIndicated = 2"
definition TierMeasured :: u8 where "TierMeasured = 3"

definition ClaimStatusPending :: u8 where "ClaimStatusPending = 1"
definition ClaimStatusVerified :: u8 where "ClaimStatusVerified = 2"
definition ClaimStatusReserved :: u8 where "ClaimStatusReserved = 3"
definition ClaimStatusIssued :: u8 where "ClaimStatusIssued = 4"
definition ClaimStatusActive :: u8 where "ClaimStatusActive = 5"
definition ClaimStatusFrozen :: u8 where "ClaimStatusFrozen = 6"
definition ClaimStatusCancelled :: u8 where "ClaimStatusCancelled = 7"

lemmas claim_consts = TierInferred_def TierIndicated_def TierMeasured_def
  ClaimStatusPending_def ClaimStatusVerified_def ClaimStatusReserved_def ClaimStatusIssued_def
  ClaimStatusActive_def ClaimStatusFrozen_def ClaimStatusCancelled_def

record MineralClaim =
  DeedHash :: slot
  ClaimOwner :: string
  Transferee :: string
  TotalOunces :: u64
  TokenSupply :: u64
  VerifiedDate :: u64
  IssueDate :: u64
  claim_Status :: u8
  ConfidenceTier :: u8
  EnvCheckBlock :: u64
  VerifierCount :: u8
  SpotPrice :: u64

definition no_claim :: MineralClaim where
  "no_claim = \<lparr>DeedHash = zero_slot, ClaimOwner = [], Transferee = [], TotalOunces = 0, TokenSupply = 0,
     VerifiedDate = 0, IssueDate = 0, claim_Status = 0, ConfidenceTier = 0, EnvCheckBlock = 0,
     VerifierCount = 0, SpotPrice = 0\<rparr>"

subsection \<open>Storage\<close>

definition mrt_slot :: "u8 \<Rightarrow> bytes \<Rightarrow> slot" where "mrt_slot n claimID = storageKey (n # claimID)"

definition mrtVerifierKey :: "bytes \<Rightarrow> string \<Rightarrow> slot" where
  "mrtVerifierKey claimID verifier = storageKey (0x0B # claimID @ bytes_of_string verifier)"

definition mrtBalanceKey :: "bytes \<Rightarrow> string \<Rightarrow> slot" where
  "mrtBalanceKey claimID owner = storageKey (0x0C # claimID @ bytes_of_string owner)"

text \<open>
  The reads test each slot against zero first; an empty slot gives the empty string or the number 0
  in any case.
\<close>

definition slot_string :: "slot \<Rightarrow> string" where
  "slot_string sl = string_of_bytes (takeWhile (\<lambda>x. x \<noteq> 0) sl)"

definition slot_u64 :: "slot \<Rightarrow> u64" where "slot_u64 sl = big_Uint64 (be_nat sl)"

definition mrtGetClaimStorage :: "World \<Rightarrow> bytes \<Rightarrow> MineralClaim" where
  "mrtGetClaimStorage w claimID =
     (let s = (\<lambda>n. sload w mrt_addr (mrt_slot n claimID)) in
      if s 0x01 = zero_slot then no_claim
      else \<lparr>DeedHash = s 0x01, ClaimOwner = slot_string (s 0x02), Transferee = slot_string (s 0x03),
            TotalOunces = slot_u64 (s 0x05), TokenSupply = slot_u64 (s 0x06),
            VerifiedDate = slot_u64 (s 0x07), IssueDate = slot_u64 (s 0x08),
            claim_Status = s 0x04 ! 0, ConfidenceTier = s 0x04 ! 1,
            EnvCheckBlock = slot_u64 (s 0x09), VerifierCount = s 0x04 ! 2, SpotPrice = slot_u64 (s 0x0A)\<rparr>)"

definition string_slot :: "string \<Rightarrow> slot" where
  "string_slot s = copy_at 0 (take 32 (bytes_of_string s)) zero_slot"

definition status_slot :: "MineralClaim \<Rightarrow> slot" where
  "status_slot c = zero_slot[0 := claim_Status c, 1 := ConfidenceTier c, 2 := VerifierCount c]"

definition mrtSetClaimStorage :: "World \<Rightarrow> bytes \<Rightarrow> MineralClaim \<Rightarrow> World" where
  "mrtSetClaimStorage w claimID c =
     (let put = (\<lambda>n v w. sstore w mrt_addr (mrt_slot n claimID) v);
          w1 = put 0x01 (DeedHash c) w;
          w2 = (if ClaimOwner c \<noteq> [] then put 0x02 (string_slot (ClaimOwner c)) w1 else w1);
          w3 = (if Transferee c \<noteq> [] then put 0x03 (string_slot (Transferee c)) w2 else w2);
          w4 = put 0x04 (status_slot c) w3;
          w5 = put 0x05 (fill_be 32 (unat (TotalOunces c))) w4;
          w6 = put 0x06 (fill_be 32 (unat (TokenSupply c))) w5;
          w7 = put 0x07 (fill_be 32 (unat (VerifiedDate c))) w6;
          w8 = put 0x08 (fill_be 32 (unat (IssueDate c))) w7;
          w9 = put 0x09 (fill_be 32 (unat (EnvCheckBlock c))) w8 in
      put 0x0A (fill_be 32 (unat (SpotPrice c))) w9)"

definition verifier_count_key :: "bytes \<Rightarrow> slot" where "verifier_count_key claimID = mrt_slot 0x0D claimID"

definition mrtCountVerifiers :: "World \<Rightarrow> bytes \<Rightarrow> u8" where
  "mrtCountVerifiers w claimID =
     (let sl = sload w mrt_addr (verifier_count_key claimID) in if sl = zero_slot then 0 else sl ! 0)"

definition mrtIncrementVerifierCount :: "World \<Rightarrow> bytes \<Rightarrow> World" where
  "mrtIncrementVerifierCount w claimID =
     (let sl = sload w mrt_addr (verifier_count_key claimID) in
      sstore w mrt_addr (verifier_count_key claimID) (sl[0 := sl ! 0 + 1]))"

text \<open>The roles of all records in the storage that carry the claim, approving or not.\<close>

definition mrtGetVerifierRoles :: "World \<Rightarrow> bytes \<Rightarrow> u8 list" where
  "mrtGetVerifierRoles w claimID =
     map (\<lambda>(k, v). v ! 0)
       (filter (\<lambda>(k, v). 1 \<le> v ! 0 \<and> v ! 0 \<le> 5 \<and> slice 2 32 v = take 30 claimID) (Storage (acct w mrt_addr)))"

definition claim_count_key :: slot where "claim_count_key = storageKey [0x01]"

definition mrtIncrementClaimCount ::
  "World \<Rightarrow> (World \<Rightarrow> 'a outcome \<times> World) \<Rightarrow> 'a outcome \<times> World" where
  "mrtIncrementClaimCount w = addSlot w mrt_addr claim_count_key 1"

definition claimStatusName :: "u8 \<Rightarrow> string" where
  "claimStatusName st =
     (if st = ClaimStatusPending then ''PENDING'' else if st = ClaimStatusVerified then ''VERIFIED''
      else if st = ClaimStatusReserved then ''RESERVED'' else if st = ClaimStatusIssued then ''ISSUED''
      else if st = ClaimStatusActive then ''ACTIVE'' else if st = ClaimStatusFrozen then ''FROZEN''
      else if st = ClaimStatusCancelled then ''CANCELLED'' else ''UNKNOWN'')"

subsection \<open>Operations\<close>

definition mrt_verified_caller :: "World \<Rightarrow> string \<Rightarrow> bool" where
  "mrt_verified_caller w caller \<longleftrightarrow>
     (case GetAccount w caller of None \<Rightarrow> False | Some acc \<Rightarrow> \<not> DoxDevLevel acc < 2)"

definition mrtRegisterClaim :: call where
  "mrtRegisterClaim input caller w0 b =
     (if length input < 4 + 32 + 32 + 32 then (Err (Errorf ''MRT: registerClaim input too short''), w0)
      else
        let deedHash = slice 4 36 input;
            owner0 = string_of_bytes (trimRightZeros (slice 68 100 input));
            owner = (if owner0 = [] then caller else owner0) in
        if \<not> mrt_verified_caller w0 caller
        then (Err (Errorf ''MRT: caller not verified (need Dox_Dev 2+)''), w0)
        else
          let claimID = sha256 (bytes_of_string (caller @ '':'' @ hex_encode deedHash @ '':'' @ dec_string (unat b)));
              w = touch w0 mrt_addr in
          if sload w mrt_addr (mrt_slot 0x01 claimID) \<noteq> zero_slot
          then (Err (Errorf ''MRT: claim already exists''), w)
          else
            let w1 = mrtSetClaimStorage w claimID
                       (no_claim\<lparr>DeedHash := deedHash, ClaimOwner := owner, claim_Status := ClaimStatusPending\<rparr>) in
            mrtIncrementClaimCount w1 (\<lambda>w2.
              (Ret claimID, AddLog w2 mrt_addr [claimID, deedHash] [ClaimStatusPending] b)))"

definition mrt_advances :: "World \<Rightarrow> bytes \<Rightarrow> MineralClaim \<Rightarrow> u8 \<Rightarrow> bool" where
  "mrt_advances w claimID claim approved \<longleftrightarrow>
     claim_Status claim = ClaimStatusPending \<and> approved = 1 \<and> 2 \<le> mrtCountVerifiers w claimID \<and>
     (let roles = mrtGetVerifierRoles w claimID in RoleLawyer \<in> set roles \<and> RoleSurveyor \<in> set roles)"

definition mrtVerifyClaim :: call where
  "mrtVerifyClaim input caller w0 b =
     (if length input < 4 + 32 + 32 + 1 then (Err (Errorf ''MRT: verifyClaim input too short''), w0)
      else
        let claimID = slice 4 36 input; role = slice 36 68 input ! 31; approved = input ! 68 in
        if \<not> mrt_verified_caller w0 caller
        then (Err (Errorf ''MRT: caller not verified (need Dox_Dev 2+)''), w0)
        else
          let w = touch w0 mrt_addr; claim = mrtGetClaimStorage w claimID in
          if claim_Status claim = 0 then (Err (Errorf ''MRT: claim not found''), w)
          else if claim_Status claim = ClaimStatusCancelled \<or> claim_Status claim = ClaimStatusFrozen
          then (Err (Errorf (''MRT: claim is '' @ claimStatusName (claim_Status claim))), w)
          else
            let verifierKey = mrtVerifierKey claimID caller in
            if sload w mrt_addr verifierKey \<noteq> zero_slot
            then (Err (Errorf ''MRT: verifier already attested''), w)
            else
              let w1 = sstore w mrt_addr verifierKey ([role, approved] @ take 30 claimID);
                  w2 = mrtIncrementVerifierCount w1 claimID;
                  verifierCount = mrtCountVerifiers w2 claimID;
                  advance = mrt_advances w2 claimID claim approved;
                  claim' = (if advance then claim\<lparr>claim_Status := ClaimStatusVerified\<rparr> else claim);
                  w3 = (if advance then mrtSetClaimStorage w2 claimID claim' else w2);
                  w4 = AddLog w3 mrt_addr [claimID, zero_slot[31 := role]] [approved] b;
                  w5 = (if claim_Status claim' = ClaimStatusVerified \<and> approved = 1
                        then EconoAccrueMRT w4 (TokenSupply claim') b else w4) in
              (Ret [1, verifierCount], w5))"

definition tier_verifiers :: "u8 \<Rightarrow> u8 option" where
  "tier_verifiers tier =
     (if tier = TierMeasured then Some 3 else if tier = TierIndicated then Some 3
      else if tier = TierInferred then Some 2 else None)"

definition mrtApproveReserve :: call where
  "mrtApproveReserve input caller w0 b =
     (if length input < 4 + 32 + 32 + 32 then (Err (Errorf ''MRT: approveReserve input too short''), w0)
      else
        let claimID = slice 4 36 input; tierBytes = slice 36 68 input; ouncesBytes = slice 68 100 input;
            tier = tierBytes ! 31; ounces = big_Uint64 (be_nat ouncesBytes) in
        if \<not> mrt_verified_caller w0 caller
        then (Err (Errorf ''MRT: caller not verified (need Dox_Dev 2+ geologist/lab)''), w0)
        else
          let w = touch w0 mrt_addr; claim = mrtGetClaimStorage w claimID in
          if claim_Status claim = 0 then (Err (Errorf ''MRT: claim not found''), w)
          else if claim_Status claim < ClaimStatusVerified
          then (Err (Errorf ''MRT: claim must be verified first''), w)
          else if ClaimStatusReserved \<le> claim_Status claim
          then (Err (Errorf ''MRT: reserves already approved''), w)
          else
            let verifierCount = mrtCountVerifiers w claimID in
            (case tier_verifiers tier of
               None \<Rightarrow> (Err (Errorf ''MRT: invalid tier''), w)
             | Some need \<Rightarrow>
                 if verifierCount < need then (Err (Errorf ''MRT: tier requires more verifiers''), w)
                 else
                   let w1 = mrtSetClaimStorage w claimID
                              (claim\<lparr>claim_Status := ClaimStatusReserved, TotalOunces := ounces,
                                 ConfidenceTier := tier, VerifiedDate := b, VerifierCount := verifierCount\<rparr>);
                       w2 = AddLog w1 mrt_addr [claimID, tierBytes] (take 8 ouncesBytes) b in
                   (Ret (1 # u64be ounces), w2)))"

definition issuance_rate :: "u8 \<Rightarrow> u64 option" where
  "issuance_rate tier =
     (if tier = TierMeasured then Some 800000 else if tier = TierIndicated then Some 600000
      else if tier = TierInferred then Some 400000 else None)"

definition mrtIssueTokens :: call where
  "mrtIssueTokens input caller w0 b =
     (if length input < 4 + 32 then (Err (Errorf ''MRT: issueTokens input too short''), w0)
      else
        let claimID = slice 4 36 input; w = touch w0 mrt_addr; claim = mrtGetClaimStorage w claimID in
        if claim_Status claim = 0 then (Err (Errorf ''MRT: claim not found''), w)
        else if claim_Status claim < ClaimStatusReserved
        then (Err (Errorf ''MRT: reserves must be approved first''), w)
        else if ClaimStatusIssued \<le> claim_Status claim
        then (Err (Errorf ''MRT: tokens already issued''), w)
        else
          (case issuance_rate (ConfidenceTier claim) of
             None \<Rightarrow> (Err (Errorf ''MRT: invalid confidence tier''), w)
           | Some issuanceRate \<Rightarrow>
               let tokenSupply = TotalOunces claim; issuanceValue = tokenSupply * issuanceRate div 1000000;
                   w1 = mrtSetClaimStorage w claimID
                          (claim\<lparr>claim_Status := ClaimStatusIssued, TokenSupply := tokenSupply,
                             IssueDate := b, SpotPrice := 20000000000\<rparr>) in
               addSlot w1 mrt_addr (mrtBalanceKey claimID (ClaimOwner claim)) (unat tokenSupply) (\<lambda>w2.
                 (Ret (1 # u64be tokenSupply @ u64be issuanceValue),
                  AddLog w2 mrt_addr [claimID] (take 8 (fill_be 32 (unat tokenSupply))) b))))"

definition mrtGetClaim :: call where
  "mrtGetClaim input caller w0 b =
     (if length input < 4 + 32 then (Err (Errorf ''MRT: getClaim input too short''), w0)
      else
        let w = touch w0 mrt_addr; claim = mrtGetClaimStorage w (slice 4 36 input) in
        if claim_Status claim = 0 then (Err (Errorf ''MRT: claim not found''), w)
        else (Ret ([claim_Status claim] @ u64be (TotalOunces claim) @ u64be (TokenSupply claim)
               @ [ConfidenceTier claim, VerifierCount claim]), w))"

definition mrtGetTokens :: call where
  "mrtGetTokens input caller w0 b =
     (if length input < 4 + 32 + 32 then (Err (Errorf ''MRT: getTokens input too short''), w0)
      else
        let claimID = slice 4 36 input; owner = string_of_bytes (trimRightZeros (slice 36 68 input));
            w = touch w0 mrt_addr; balance = sload w mrt_addr (mrtBalanceKey claimID owner) in
        (Ret ((if balance \<noteq> zero_slot then slice 24 32 balance else replicate 8 0)
           @ u64be (TotalOunces (mrtGetClaimStorage w claimID))), w))"

definition mrtEnvironmentalCheck :: call where
  "mrtEnvironmentalCheck input caller w0 b =
     (if length input < 4 + 32 + 32 then (Err (Errorf ''MRT: environmentalCheck input too short''), w0)
      else
        let claimID = slice 4 36 input; blockBytes = slice 36 68 input;
            checkBlock = big_Uint64 (be_nat blockBytes) in
        if \<not> mrt_verified_caller w0 caller
        then (Err (Errorf ''MRT: caller not verified (need Dox_Dev 2+ inspector)''), w0)
        else
          let w = touch w0 mrt_addr; claim = mrtGetClaimStorage w claimID in
          if claim_Status claim = 0 then (Err (Errorf ''MRT: claim not found''), w)
          else if claim_Status claim < ClaimStatusIssued then (Err (Errorf ''MRT: claim not yet active''), w)
          else
            let w1 = mrtSetClaimStorage w claimID
                       (claim\<lparr>claim_Status := ClaimStatusActive, EnvCheckBlock := checkBlock\<rparr>) in
            (Ret [1, 1], AddLog w1 mrt_addr [claimID, blockBytes] [1] b))"

definition current_holder :: "MineralClaim \<Rightarrow> string" where
  "current_holder c = (if Transferee c \<noteq> [] then Transferee c else ClaimOwner c)"

definition mrtTransferRights :: call where
  "mrtTransferRights input caller w0 b =
     (if length input < 4 + 32 + 32 then (Err (Errorf ''MRT: transferRights input too short''), w0)
      else
        let claimID = slice 4 36 input; newOwnerBytes = slice 36 68 input;
            newOwner = string_of_bytes (trimRightZeros newOwnerBytes);
            w = touch w0 mrt_addr; claim = mrtGetClaimStorage w claimID in
        if claim_Status claim = 0 then (Err (Errorf ''MRT: claim not found''), w)
        else if caller \<noteq> current_holder claim
        then (Err (Errorf ''MRT: only current rights holder can transfer''), w)
        else
          let w1 = mrtSetClaimStorage w claimID (claim\<lparr>Transferee := newOwner\<rparr>) in
          (Ret [1], AddLog w1 mrt_addr [claimID, newOwnerBytes] [1] b))"

definition mrt_table :: "(u32 \<times> call) list" where
  "mrt_table =
    [(mrtRegisterClaimSelector, mrtRegisterClaim), (mrtVerifyClaimSelector, mrtVerifyClaim),
     (mrtApproveReserveSelector, mrtApproveReserve), (mrtIssueTokensSelector, mrtIssueTokens),
     (mrtGetClaimSelector, mrtGetClaim), (mrtGetTokensSelector, mrtGetTokens),
     (mrtEnvironmentalCheckSelector, mrtEnvironmentalCheck), (mrtTransferRightsSelector, mrtTransferRights)]"

definition mineralRightsPrecompile :: call where
  "mineralRightsPrecompile input caller w b =
     (if length input < 4 then (Err (Errorf ''MRT: input too short''), w)
      else switch mrt_table (unknown_selector ''MRT: unknown selector'') (selectorBytes input) input caller w b)"

lemmas mrt_ops = mrtRegisterClaim_def mrtVerifyClaim_def mrtApproveReserve_def mrtIssueTokens_def
  mrtGetClaim_def mrtGetTokens_def mrtEnvironmentalCheck_def mrtTransferRights_def

subsection \<open>Confinement\<close>

lemma confined_set_claim: "confined {mrt_addr} w w' \<Longrightarrow> confined {mrt_addr} w (mrtSetClaimStorage w' cid c)"
  by (auto simp: mrtSetClaimStorage_def Let_def intro!: confined_sstore)

lemma EconoAccrueMRT_frame [simp]:
  "acct (EconoAccrueMRT w v b) a = acct w a" "sload (EconoAccrueMRT w v b) a k = sload w a k"
  "confined A w0 (EconoAccrueMRT w v b) = confined A w0 w"
  by (simp_all add: EconoAccrueMRT_def Let_def confined_def)

lemma confined_If: "confined A w x \<Longrightarrow> confined A w y \<Longrightarrow> confined A w (if c then x else y)"
  by simp

lemma verify_confined: "confined {mrt_addr} w (snd (mrtVerifyClaim input caller w b))"
  unfolding mrtVerifyClaim_def Let_def if_distrib[of snd] snd_conv
  by (intro confined_If)
    (simp_all add: confined_set_claim confined_sstore mrtIncrementVerifierCount_def Let_def
      del: if_split_asm)

lemma mrt_ops_confined:
  "confined {mrt_addr} w (snd (mrtRegisterClaim input caller w b))"
  "confined {mrt_addr} w (snd (mrtApproveReserve input caller w b))"
  "confined {mrt_addr} w (snd (mrtIssueTokens input caller w b))"
  "confined {mrt_addr} w (snd (mrtEnvironmentalCheck input caller w b))"
  "confined {mrt_addr} w (snd (mrtTransferRights input caller w b))"
  by (auto simp: mrtRegisterClaim_def mrtApproveReserve_def mrtIssueTokens_def mrtEnvironmentalCheck_def
      mrtTransferRights_def Let_def addSlot_def mrtIncrementClaimCount_def split: option.splits
      intro!: confined_set_claim confined_putSlot)

interpretation mrt: confined_contract mineralRightsPrecompile "{mrt_addr}"
proof unfold_locales
  fix w input caller b
  have "confined {mrt_addr} w
    (snd (switch mrt_table (unknown_selector ''MRT: unknown selector'') sel input caller w b))" for sel
    by (rule confined_switch)
      (auto simp: mrt_table_def unknown_selector_def mrt_ops_confined verify_confined mrtGetClaim_def
        mrtGetTokens_def Let_def)
  then show "confined {mrt_addr} w (snd (mineralRightsPrecompile input caller w b))"
    by (simp add: mineralRightsPrecompile_def)
qed

subsection \<open>Reading back a claim\<close>

lemma slot_u64_fill [simp]: "slot_u64 (fill_be 32 (unat v)) = v"
  using readUint64_writeUint64[of v] by (simp add: slot_u64_def readUint64_def writeUint64_fill)

lemma status_slot_fields [simp]:
  "status_slot c ! 0 = claim_Status c" "status_slot c ! Suc 0 = ConfidenceTier c" "status_slot c ! 2 = VerifierCount c"
  by (simp_all add: status_slot_def)

definition claim_keys :: "bytes \<Rightarrow> slot list" where
  "claim_keys cid = map (\<lambda>n. mrt_slot n cid) [1, 2, 3, 4, 5, 6, 7, 8, 9, 10]"

text \<open>Empty names are not written, names are cut at 32 bytes and at the first zero byte.\<close>

lemma get_set_claim:
  assumes "distinct (claim_keys cid)" "DeedHash c \<noteq> zero_slot"
  shows "mrtGetClaimStorage (mrtSetClaimStorage w cid c) cid =
    c\<lparr>ClaimOwner := slot_string (if ClaimOwner c = [] then sload w mrt_addr (mrt_slot 2 cid) else string_slot (ClaimOwner c)),
      Transferee := slot_string (if Transferee c = [] then sload w mrt_addr (mrt_slot 3 cid) else string_slot (Transferee c))\<rparr>"
proof -
  have eq: "mrt_slot n cid = mrt_slot m cid \<longleftrightarrow> n = m"
    if "n \<in> {1, 2, 3, 4, 5, 6, 7, 8, 9, 10}" "m \<in> {1, 2, 3, 4, 5, 6, 7, 8, 9, 10}" for n m
  proof -
    have "inj_on (\<lambda>n. mrt_slot n cid) {1, 2, 3, 4, 5, 6, 7, 8, 9, 10}"
      using assms(1) unfolding claim_keys_def distinct_map list.set by (rule conjunct2)
    then show ?thesis
      using that by (rule inj_on_eq_iff)
  qed
  show ?thesis
    using assms(2)
    by (cases "ClaimOwner c = []"; cases "Transferee c = []")
      (simp_all add: mrtGetClaimStorage_def mrtSetClaimStorage_def Let_def sload_sstore eq)
qed

lemma of_char_of_u8: "of_char (char_of (unat b)) = (b :: u8)"
proof -
  have "of_char (char_of (unat b)) = (of_nat (of_char (char_of (unat b) :: char)) :: u8)"
    by (simp only: of_nat_of_char)
  also have "(of_char (char_of (unat b) :: char) :: nat) = unat b"
    using unat_u8_bound[of b] by simp
  finally show ?thesis
    by simp
qed

lemma bytes_of_string_of_bytes [simp]: "bytes_of_string (string_of_bytes bs) = bs"
  by (induction bs) (simp_all add: string_of_bytes_def bytes_of_string_def of_char_of_u8)

lemma slot_string_string_slot:
  assumes "length sl = 32" "s = slot_string sl"
  shows "slot_string (string_slot s) = s"
proof -
  let ?t = "takeWhile (\<lambda>x. x \<noteq> 0) sl"
  have t: "bytes_of_string s = ?t" "length ?t \<le> 32"
    using assms length_takeWhile_le[of "\<lambda>x. x \<noteq> 0" sl] by (simp_all add: slot_string_def)
  have "string_slot s = ?t @ replicate (32 - length ?t) 0"
    using t by (simp add: string_slot_def copy_at_def zero_slot_def)
  moreover have "takeWhile (\<lambda>x. x \<noteq> 0) (?t @ replicate n 0) = ?t" for n
    by (induction sl) (auto simp: takeWhile_append takeWhile_replicate)
  ultimately show ?thesis
    using assms(2) by (simp add: slot_string_def)
qed

text \<open>Writing back a claim that was read, with its names unchanged, stores exactly that claim.\<close>

definition slots_sized :: "World \<Rightarrow> bool" where
  "slots_sized w \<longleftrightarrow> (\<forall>k. length (sload w mrt_addr k) = 32)"

lemma get_update_claim:
  assumes keys: "distinct (claim_keys cid)" and sized: "slots_sized w"
    and c: "c = mrtGetClaimStorage w cid" "claim_Status c \<noteq> 0"
    and same: "DeedHash c' = DeedHash c" "ClaimOwner c' = ClaimOwner c"
  shows "mrtGetClaimStorage (mrtSetClaimStorage w cid c') cid =
    c'\<lparr>Transferee := (if Transferee c' = [] then Transferee c else slot_string (string_slot (Transferee c')))\<rparr>"
proof -
  have nz: "sload w mrt_addr (mrt_slot 1 cid) \<noteq> zero_slot"
    using c by (auto simp: mrtGetClaimStorage_def no_claim_def split: if_splits)
  then have "DeedHash c' \<noteq> zero_slot" "Transferee c = slot_string (sload w mrt_addr (mrt_slot 3 cid))"
    and o: "ClaimOwner c = slot_string (sload w mrt_addr (mrt_slot 2 cid))"
    using c same by (auto simp: mrtGetClaimStorage_def Let_def)
  moreover have "slot_string (string_slot (ClaimOwner c)) = ClaimOwner c"
    using sized o by (intro slot_string_string_slot) (auto simp: slots_sized_def)
  ultimately show ?thesis
    using same by (subst get_set_claim[OF keys]) (auto simp: o)
qed

lemma get_kept_transferee:
  assumes "slots_sized w" "c = mrtGetClaimStorage w cid"
  shows "(if Transferee c = [] then Transferee c else slot_string (string_slot (Transferee c))) = Transferee c"
proof (cases "c = no_claim")
  case False
  then have "Transferee c = slot_string (sload w mrt_addr (mrt_slot 3 cid))"
    using assms by (auto simp: mrtGetClaimStorage_def Let_def split: if_splits)
  then show ?thesis
    using assms by (auto simp: slots_sized_def intro!: slot_string_string_slot)
qed (simp add: no_claim_def)

subsection \<open>The life of a claim\<close>

text \<open>
  What a claim may go through, as a relation between two readings of it: verification, approval of
  the reserve with the number of verifiers its tier needs, one issue of tokens, monitoring, transfer.
\<close>

inductive claim_step :: "MineralClaim \<Rightarrow> MineralClaim \<Rightarrow> bool" where
  verified: "claim_Status c = ClaimStatusPending \<Longrightarrow> claim_step c (c\<lparr>claim_Status := ClaimStatusVerified\<rparr>)"
| reserved: "claim_Status c = ClaimStatusVerified \<Longrightarrow> tier_verifiers tier = Some need \<Longrightarrow> need \<le> n \<Longrightarrow>
    claim_step c (c\<lparr>claim_Status := ClaimStatusReserved, TotalOunces := oz, ConfidenceTier := tier,
      VerifiedDate := d, VerifierCount := n\<rparr>)"
| issued: "claim_Status c = ClaimStatusReserved \<Longrightarrow>
    claim_step c (c\<lparr>claim_Status := ClaimStatusIssued, TokenSupply := TotalOunces c, IssueDate := d, SpotPrice := p\<rparr>)"
| checked: "ClaimStatusIssued \<le> claim_Status c \<Longrightarrow>
    claim_step c (c\<lparr>claim_Status := ClaimStatusActive, EnvCheckBlock := d\<rparr>)"
| transferred: "claim_Status c \<noteq> 0 \<Longrightarrow> claim_step c (c\<lparr>Transferee := t\<rparr>)"

inductive_cases claim_stepE: "claim_step c c'"

definition claim_inv :: "MineralClaim \<Rightarrow> bool" where
  "claim_inv c \<longleftrightarrow> claim_Status c \<le> ClaimStatusActive
     \<and> (claim_Status c < ClaimStatusIssued \<longrightarrow> TokenSupply c = 0)
     \<and> (ClaimStatusIssued \<le> claim_Status c \<longrightarrow> TokenSupply c = TotalOunces c)
     \<and> (ClaimStatusReserved \<le> claim_Status c \<longrightarrow>
          (\<exists>need. tier_verifiers (ConfidenceTier c) = Some need \<and> need \<le> VerifierCount c))"

lemma claim_step_inv: "claim_step c c' \<Longrightarrow> claim_inv c \<Longrightarrow> claim_inv c'"
  by (induction rule: claim_step.induct) (auto simp: claim_inv_def claim_consts word_le_nat_alt word_less_nat_alt)

lemma claim_steps_inv: "claim_step\<^sup>*\<^sup>* c c' \<Longrightarrow> claim_inv c \<Longrightarrow> claim_inv c'"
  by (induction rule: rtranclp_induct) (auto intro: claim_step_inv)

lemma claim_step_status: "claim_step c c' \<Longrightarrow> claim_inv c \<Longrightarrow> claim_Status c \<le> claim_Status c'"
  by (induction rule: claim_step.induct) (auto simp: claim_inv_def claim_consts word_le_nat_alt word_less_nat_alt)

text \<open>Once tokens are issued their number never changes again.\<close>

lemma issued_once:
  assumes "claim_step\<^sup>*\<^sup>* c c'" "claim_inv c" "ClaimStatusIssued \<le> claim_Status c"
  shows "TokenSupply c' = TokenSupply c \<and> ClaimStatusIssued \<le> claim_Status c'"
  using assms(1)
proof (induction rule: rtranclp_induct)
  case (step y z)
  then show ?case
    using claim_steps_inv[OF step.hyps(1) assms(2)]
    by (elim conjE claim_stepE) (auto simp: claim_inv_def claim_consts word_le_nat_alt word_less_nat_alt)
qed (use assms in simp)

subsection \<open>Every call is a step of the claim it names\<close>

definition mrt_keys_apart :: "bytes \<Rightarrow> string \<Rightarrow> string \<Rightarrow> bool" where
  "mrt_keys_apart cid caller owner \<longleftrightarrow> distinct (claim_keys cid) \<and>
     set (claim_keys cid) \<inter> {verifier_count_key cid, mrtVerifierKey cid caller, mrtBalanceKey cid owner} = {}"

lemma get_other_key:
  assumes "k \<notin> set (claim_keys cid)"
  shows "mrtGetClaimStorage (sstore w mrt_addr k v) cid = mrtGetClaimStorage w cid"
proof -
  have "mrt_slot n cid \<noteq> k" if "n \<in> {1, 2, 3, 4, 5, 6, 7, 8, 9, 10}" for n
    using assms that by (auto simp: claim_keys_def)
  then show ?thesis
    by (simp add: mrtGetClaimStorage_def sload_sstore eq_commute[of k])
qed

lemma get_frame [simp]:
  "mrtGetClaimStorage (touch w x) cid = mrtGetClaimStorage w cid"
  "mrtGetClaimStorage (AddLog w x t d n) cid = mrtGetClaimStorage w cid"
  "mrtGetClaimStorage (EconoAccrueMRT w m n) cid = mrtGetClaimStorage w cid"
  by (simp_all add: mrtGetClaimStorage_def)

lemma slots_sized_frame [simp]:
  "slots_sized (touch w x) = slots_sized w" "slots_sized (AddLog w x t d n) = slots_sized w"
  "slots_sized (EconoAccrueMRT w m n) = slots_sized w"
  by (simp_all add: slots_sized_def)

lemma slots_sized_sstore: "slots_sized w \<Longrightarrow> length v = 32 \<Longrightarrow> slots_sized (sstore w mrt_addr k v)"
  by (simp add: slots_sized_def sload_sstore)

lemma slots_sized_set: "slots_sized w \<Longrightarrow> length (DeedHash c) = 32 \<Longrightarrow> slots_sized (mrtSetClaimStorage w cid c)"
  by (auto simp: mrtSetClaimStorage_def Let_def string_slot_def status_slot_def intro!: slots_sized_sstore)

lemma deed_sized: "slots_sized w \<Longrightarrow> length (DeedHash (mrtGetClaimStorage w cid)) = 32"
  by (simp add: mrtGetClaimStorage_def no_claim_def slots_sized_def Let_def)

definition claim_moves :: "bytes \<Rightarrow> World \<Rightarrow> World \<Rightarrow> bool" where
  "claim_moves cid w w' \<longleftrightarrow> slots_sized w' \<and> claim_step\<^sup>=\<^sup>= (mrtGetClaimStorage w cid) (mrtGetClaimStorage w' cid)"

lemma claim_moves_refl: "slots_sized w \<Longrightarrow> mrtGetClaimStorage w' cid = mrtGetClaimStorage w cid \<Longrightarrow> slots_sized w' \<Longrightarrow> claim_moves cid w w'"
  by (simp add: claim_moves_def)

text \<open>A write of an updated claim is a step when the updated claim is one.\<close>

lemma claim_moves_set:
  assumes "distinct (claim_keys cid)" "slots_sized w" "slots_sized w1"
    and c: "mrtGetClaimStorage w1 cid = c" "mrtGetClaimStorage w cid = c" "claim_Status c \<noteq> 0"
    and c': "DeedHash c' = DeedHash c" "ClaimOwner c' = ClaimOwner c" "Transferee c' = Transferee c"
    and "claim_step c c'"
  shows "claim_moves cid w (mrtSetClaimStorage w1 cid c')"
proof -
  have "mrtGetClaimStorage (mrtSetClaimStorage w1 cid c') cid = c'"
    using get_update_claim[OF assms(1,3) c(1)[symmetric] c(3) c'(1,2)] get_kept_transferee[OF assms(3) c(1)[symmetric]] c'(3)
    by (cases c') (auto split: if_splits)
  then show ?thesis
    using assms(10) c(2) c'(1) deed_sized[OF assms(2), of cid]
    by (auto simp: claim_moves_def intro!: slots_sized_set assms(3))
qed

lemma if_both: "(c \<Longrightarrow> P x) \<Longrightarrow> (\<not> c \<Longrightarrow> P y) \<Longrightarrow> P (if c then x else y)"
  by simp

lemma count_incremented:
  assumes "slots_sized w" "verifier_count_key cid \<notin> set (claim_keys cid)"
  shows "mrtGetClaimStorage (mrtIncrementVerifierCount w cid) cid = mrtGetClaimStorage w cid"
    and "slots_sized (mrtIncrementVerifierCount w cid)"
  using assms by (auto simp: mrtIncrementVerifierCount_def Let_def get_other_key intro!: slots_sized_sstore)
    (simp add: slots_sized_def)

lemma verify_moves:
  assumes "slots_sized w" "mrt_keys_apart (slice 4 36 input) caller owner"
  shows "claim_moves (slice 4 36 input) w (snd (mrtVerifyClaim input caller w b))"
proof (cases "length input < 69")
  case False
  let ?cid = "slice 4 36 input" and ?role = "slice 36 68 input ! 31" and ?ok = "input ! 68"
  let ?w1 = "sstore (touch w mrt_addr) mrt_addr (mrtVerifierKey ?cid caller) ([?role, ?ok] @ take 30 ?cid)"
  let ?w2 = "mrtIncrementVerifierCount ?w1 ?cid"
  have keys: "distinct (claim_keys ?cid)" "mrtVerifierKey ?cid caller \<notin> set (claim_keys ?cid)"
    "verifier_count_key ?cid \<notin> set (claim_keys ?cid)"
    using assms(2) by (auto simp: mrt_keys_apart_def)
  have "slots_sized ?w1"
    using assms(1) False by (intro slots_sized_sstore) (simp_all add: slice_def)
  then have w2: "slots_sized ?w2" "mrtGetClaimStorage ?w2 ?cid = mrtGetClaimStorage w ?cid"
    using count_incremented[of ?w1 ?cid] keys by (simp_all add: get_other_key)
  let ?c = "mrtGetClaimStorage w ?cid"
  define adv where "adv = mrt_advances ?w2 ?cid ?c ?ok"
  have set: "claim_moves ?cid w (mrtSetClaimStorage ?w2 ?cid (?c\<lparr>claim_Status := ClaimStatusVerified\<rparr>))" if adv
    using that keys(1) assms(1) w2
    by (intro claim_moves_set)
      (auto simp: adv_def mrt_advances_def ClaimStatusPending_def intro!: claim_step.verified)
  have frame: "claim_moves cid w (AddLog w' x t d n) = claim_moves cid w w'"
    "claim_moves cid w (EconoAccrueMRT w' m n) = claim_moves cid w w'"
    "claim_moves cid w (touch w' x) = claim_moves cid w w'" for cid w' x t d n m
    by (simp_all add: claim_moves_def)
  have same: "claim_moves ?cid w w" "claim_moves ?cid w ?w2"
    using assms(1) w2 by (auto intro: claim_moves_refl)
  note unfold = mrtVerifyClaim_def Let_def if_distrib[of snd] snd_conv get_frame adv_def[symmetric]
  show ?thesis
  proof (cases adv)
    case True
    show ?thesis
      unfolding unfold if_P[OF True]
      by (intro if_both[where P = "claim_moves ?cid w"]; (unfold frame)?; rule same set[OF True])
  next
    case False
    show ?thesis
      unfolding unfold if_not_P[OF False]
      by (intro if_both[where P = "claim_moves ?cid w"]; (unfold frame)?; rule same)
  qed
qed (use assms in \<open>simp add: mrtVerifyClaim_def claim_moves_def\<close>)

lemma claim_moves_frame [simp]:
  "claim_moves cid w (AddLog w' x t d n) = claim_moves cid w w'"
  "claim_moves cid w (touch w' x) = claim_moves cid w w'"
  by (simp_all add: claim_moves_def)

lemma claim_moves_same [simp]: "slots_sized w \<Longrightarrow> claim_moves cid w w"
  by (rule claim_moves_refl) simp_all

lemma status_between:
  "\<not> st < ClaimStatusVerified \<Longrightarrow> \<not> ClaimStatusReserved \<le> st \<Longrightarrow> st = ClaimStatusVerified"
  "\<not> st < ClaimStatusReserved \<Longrightarrow> \<not> ClaimStatusIssued \<le> st \<Longrightarrow> st = ClaimStatusReserved"
  by (simp_all add: claim_consts word_le_nat_alt word_less_nat_alt word_unat_eq_iff)

lemma approve_moves:
  assumes "slots_sized w" "distinct (claim_keys (slice 4 36 input))"
  shows "claim_moves (slice 4 36 input) w (snd (mrtApproveReserve input caller w b))"
  using assms
  by (auto simp: mrtApproveReserve_def Let_def not_less split: option.splits
      intro!: claim_moves_set claim_step.reserved status_between(1))

lemma check_moves:
  assumes "slots_sized w" "distinct (claim_keys (slice 4 36 input))"
  shows "claim_moves (slice 4 36 input) w (snd (mrtEnvironmentalCheck input caller w b))"
  using assms
  by (auto simp: mrtEnvironmentalCheck_def Let_def not_less
      intro!: claim_moves_set claim_step.checked)

lemma transfer_moves:
  assumes "slots_sized w" "distinct (claim_keys (slice 4 36 input))"
  shows "claim_moves (slice 4 36 input) w (snd (mrtTransferRights input caller w b))"
proof -
  let ?cid = "slice 4 36 input" and ?c = "mrtGetClaimStorage w (slice 4 36 input)"
  have "claim_moves ?cid w (mrtSetClaimStorage (touch w mrt_addr) ?cid (?c\<lparr>Transferee := t\<rparr>))"
    if "claim_Status ?c \<noteq> 0" for t
  proof -
    have "mrtGetClaimStorage (mrtSetClaimStorage (touch w mrt_addr) ?cid (?c\<lparr>Transferee := t\<rparr>)) ?cid =
      ?c\<lparr>Transferee := (if t = [] then Transferee ?c else slot_string (string_slot t))\<rparr>"
      using get_update_claim[OF assms(2), of "touch w mrt_addr" ?c "?c\<lparr>Transferee := t\<rparr>"] that assms(1) by simp
    then show ?thesis
      using that assms(1) deed_sized[OF assms(1), of ?cid]
      by (auto simp: claim_moves_def intro!: claim_step.transferred slots_sized_set)
  qed
  then show ?thesis
    using assms by (auto simp: mrtTransferRights_def Let_def)
qed

lemma issue_moves:
  assumes "slots_sized w" "mrt_keys_apart (slice 4 36 input) caller (ClaimOwner (mrtGetClaimStorage w (slice 4 36 input)))"
  shows "claim_moves (slice 4 36 input) w (snd (mrtIssueTokens input caller w b))"
proof -
  let ?cid = "slice 4 36 input" and ?c = "mrtGetClaimStorage w (slice 4 36 input)"
  let ?k = "mrtBalanceKey ?cid (ClaimOwner ?c)"
  let ?w1 = "mrtSetClaimStorage (touch w mrt_addr) ?cid
    (?c\<lparr>claim_Status := ClaimStatusIssued, TokenSupply := TotalOunces ?c, IssueDate := b, SpotPrice := 20000000000\<rparr>)"
  have keys: "distinct (claim_keys ?cid)" "?k \<notin> set (claim_keys ?cid)"
    using assms(2) by (auto simp: mrt_keys_apart_def)
  have step: "claim_moves ?cid w ?w1" if "claim_Status ?c = ClaimStatusReserved"
    using that keys(1) assms(1)
    by (intro claim_moves_set) (auto simp: ClaimStatusReserved_def intro!: claim_step.issued)
  have stored: "claim_moves ?cid w (sstore w' mrt_addr ?k (fill_be 32 v))" if "claim_moves ?cid w w'" for w' v
    using that keys(2) by (simp add: claim_moves_def get_other_key slots_sized_sstore)
  show ?thesis
    using assms(1)
    by (auto simp: mrtIssueTokens_def Let_def addSlot_def putSlot_cases split: option.splits
        intro!: stored step status_between(2))
qed

text \<open>Calls other than a registration, by their selector.\<close>

lemma call_moves:
  assumes "slots_sized w" "mrt_keys_apart (slice 4 36 input) caller (ClaimOwner (mrtGetClaimStorage w (slice 4 36 input)))"
    and "selectorBytes input \<noteq> mrtRegisterClaimSelector"
  shows "claim_moves (slice 4 36 input) w (snd (mineralRightsPrecompile input caller w b))"
proof -
  have keys: "distinct (claim_keys (slice 4 36 input))"
    using assms(2) by (simp add: mrt_keys_apart_def)
  have "claim_moves (slice 4 36 input) w (snd (f input caller w b))"
    if "(s, f) \<in> set mrt_table" "s \<noteq> mrtRegisterClaimSelector" for s f
    using that assms(1) verify_moves[OF assms(1,2)] approve_moves[OF assms(1) keys] check_moves[OF assms(1) keys]
      transfer_moves[OF assms(1) keys] issue_moves[OF assms(1,2)]
    by (auto simp: mrt_table_def mrtGetClaim_def mrtGetTokens_def Let_def)
  then show ?thesis
    using assms(1,3)
    by (auto simp: mineralRightsPrecompile_def switch_def unknown_selector_def
        split: option.splits dest!: map_of_SomeD)
qed

lemma claim_step_owner: "claim_step c c' \<Longrightarrow> ClaimOwner c' = ClaimOwner c"
  by (induction rule: claim_step.induct) auto

definition names_claim :: "bytes \<Rightarrow> string \<Rightarrow> bytes \<times> string \<times> u64 \<Rightarrow> bool" where
  "names_claim cid owner call \<longleftrightarrow>
     (case call of (input, caller, b) \<Rightarrow>
        slice 4 36 input = cid \<and> selectorBytes input \<noteq> mrtRegisterClaimSelector \<and> mrt_keys_apart cid caller owner)"

lemma run_claim_steps:
  assumes "slots_sized w" "list_all (names_claim cid (ClaimOwner (mrtGetClaimStorage w cid))) cs"
  shows "claim_step\<^sup>*\<^sup>* (mrtGetClaimStorage w cid) (mrtGetClaimStorage (run_calls mineralRightsPrecompile cs w) cid)"
  using assms
proof (induction cs arbitrary: w)
  case (Cons call cs)
  obtain input caller b where call: "call = (input, caller, b)"
    by (cases call)
  let ?w1 = "snd (mineralRightsPrecompile input caller w b)"
  have "claim_moves cid w ?w1"
    using Cons.prems call call_moves[of w input caller b] by (auto simp: names_claim_def)
  then have step: "claim_step\<^sup>=\<^sup>= (mrtGetClaimStorage w cid) (mrtGetClaimStorage ?w1 cid)" and "slots_sized ?w1"
    by (simp_all add: claim_moves_def)
  moreover have "ClaimOwner (mrtGetClaimStorage ?w1 cid) = ClaimOwner (mrtGetClaimStorage w cid)"
    using step by (auto dest: claim_step_owner)
  ultimately have "claim_step\<^sup>*\<^sup>* (mrtGetClaimStorage ?w1 cid) (mrtGetClaimStorage (run_calls mineralRightsPrecompile cs ?w1) cid)"
    using Cons.prems by (intro Cons.IH) simp_all
  with step show ?case
    by (auto simp: call intro: converse_rtranclp_into_rtranclp)
qed simp

end
