(* ===== verification/Trustless_Lock.thy ===== *)
theory Trustless_Lock
  imports Governance
begin

text \<open>
  Precompile 0x1A, the liquidity locks (\<^verbatim>\<open>evm/trustless_lock.go\<close>): time, vesting and multi-signature
  locks, their packed header, release and extension.
\<close>

definition lock_addr :: string where "lock_addr = PrecompileAddrHex 0x1A"

definition TrustlessSlotLocks :: u8 where "TrustlessSlotLocks = 0x01"
definition LockTypeTime :: u8 where "LockTypeTime = 0"
definition LockTypeVesting :: u8 where "LockTypeVesting = 1"
definition LockTypeMultiSig :: u8 where "LockTypeMultiSig = 2"

lemmas lock_types = LockTypeTime_def LockTypeVesting_def LockTypeMultiSig_def

definition trustlessCreateTimeLockSelector :: u32 where "trustlessCreateTimeLockSelector = 0xA1B2C3D4"
definition trustlessCreateVestingLockSelector :: u32 where "trustlessCreateVestingLockSelector = 0xB2C3D4E5"
definition trustlessCreateMultiSigLockSelector :: u32 where "trustlessCreateMultiSigLockSelector = 0xC3D4E5F6"
definition trustlessGetLockSelector :: u32 where "trustlessGetLockSelector = 0xD4E5F6A7"
definition trustlessReleasableAmountSelector :: u32 where "trustlessReleasableAmountSelector = 0xE5F6A7B8"
definition trustlessReleaseSelector :: u32 where "trustlessReleaseSelector = 0xF6A7B8C9"
definition trustlessExtendSelector :: u32 where "trustlessExtendSelector = 0xA7B8C9D0"

subsection \<open>Keys and encodings\<close>

definition trustlessLockKey :: "bytes \<Rightarrow> slot" where
  "trustlessLockKey lockID = storageKey (TrustlessSlotLocks # lockID)"

definition trustlessVestingDataKey :: "bytes \<Rightarrow> slot" where
  "trustlessVestingDataKey lockID = storageKey (0x04 # lockID)"

definition lockCountKey :: slot where "lockCountKey = storageKey (bytes_of_string ''lockCount'')"

definition encodeUnlockBlock :: "slot \<Rightarrow> u64 \<Rightarrow> slot" where
  "encodeUnlockBlock sl v = copy_at 1 (u64be v) sl"

definition decodeUnlockBlock :: "slot \<Rightarrow> u64" where
  "decodeUnlockBlock sl = be64 (slice 1 9 sl)"

definition encodeLockHeader :: "bytes \<Rightarrow> u8 \<Rightarrow> bytes \<Rightarrow> u64 \<Rightarrow> u64 \<Rightarrow> slot" where
  "encodeLockHeader poolAddr lockType recipient unlockBlock createdBlock =
     (copy_at 9 poolAddr (encodeUnlockBlock (zero_slot[0 := lockType]) unlockBlock))
       [29 := recipient ! 19, 30 := ucast (drop_bit 8 createdBlock), 31 := ucast createdBlock]"

definition encodeVestingData :: "u64 \<Rightarrow> u64 \<Rightarrow> slot" where
  "encodeVestingData vestingEnd vestingCliff = copy_at 8 (u64be vestingCliff) (copy_at 0 (u64be vestingEnd) zero_slot)"

definition decodeVestingEnd :: "slot \<Rightarrow> u64" where "decodeVestingEnd sl = be64 (slice 0 8 sl)"
definition decodeVestingCliff :: "slot \<Rightarrow> u64" where "decodeVestingCliff sl = be64 (slice 8 16 sl)"

definition generateLockID :: "bytes \<Rightarrow> bytes \<Rightarrow> bytes \<Rightarrow> nat \<Rightarrow> u64 \<Rightarrow> bytes" where
  "generateLockID poolAddr token0 token1 amount b =
     sha256 (poolAddr @ token0 @ token1 @ big_bytes amount @ decimal b)"

definition getTrustlessParam :: "string \<Rightarrow> World \<Rightarrow> u64 \<Rightarrow> nat" where
  "getTrustlessParam key w defaultVal =
     (let v = readBigInt (sload w lock_addr (storageKey (bytes_of_string (''param:'' @ key)))) in
      if v = 0 then unat defaultVal else v)"

definition readUint64FromBytes :: "bytes \<Rightarrow> nat \<Rightarrow> u64" where
  "readUint64FromBytes input off = (if length input < off + 8 then 0 else be64 (slice off (off + 8) input))"

subsection \<open>Creation\<close>

definition bump_lock_count ::
  "World \<Rightarrow> (World \<Rightarrow> 'a outcome \<times> World) \<Rightarrow> 'a outcome \<times> World" where
  "bump_lock_count w = addSlot w lock_addr lockCountKey 1"

definition trustlessCreateTimeLock :: call where
  "trustlessCreateTimeLock input caller w0 b =
     (if length input < 4 + 20 + 20 + 20 + 32 + 32 + 20
      then (Err (Errorf ''TrustlessLock: createTimeLock input too short''), w0)
      else
        let poolAddr = slice 4 24 input; token0 = slice 24 44 input; token1 = slice 44 64 input;
            amount = readBigInt (readSlot input 64); lockPeriod = readBigInt (readSlot input 96);
            recipient = slice 128 148 input;
            w = touch w0 lock_addr in
        if lockPeriod < getTrustlessParam ''minLockPeriod'' w 2592000
        then (Err (Errorf ''TrustlessLock: lock period below minimum''), w)
        else
          let lockID = generateLockID poolAddr token0 token1 amount b;
              unlockBlock = b + big_Uint64 lockPeriod in
          bump_lock_count
            (sstore w lock_addr (trustlessLockKey lockID)
               (encodeLockHeader poolAddr LockTypeTime recipient unlockBlock b)) (\<lambda>w1.
            (Ret lockID,
             AddLog w1 lock_addr [storageKey (bytes_of_string ''TimeLockCreated''), lockID]
               (big_bytes amount) b)))"

definition trustlessCreateVestingLock :: call where
  "trustlessCreateVestingLock input caller w0 b =
     (if length input < 4 + 20 + 20 + 20 + 32 + 8 + 8 + 8 + 20
      then (Err (Errorf ''TrustlessLock: createVestingLock input too short''), w0)
      else
        let poolAddr = slice 4 24 input; token0 = slice 24 44 input; token1 = slice 44 64 input;
            amount = readBigInt (readSlot input 64);
            vestingStart = readUint64FromBytes input 96; vestingEnd = readUint64FromBytes input 104;
            vestingCliff = readUint64FromBytes input 112;
            recipient = slice 120 140 input in
        if vestingEnd \<le> vestingStart
        then (Err (Errorf ''TrustlessLock: vesting end must be after start''), w0)
        else
          let lockID = generateLockID poolAddr token0 token1 amount b;
              w1 = sstore (touch w0 lock_addr) lock_addr (trustlessLockKey lockID)
                     (encodeLockHeader poolAddr LockTypeVesting recipient vestingStart b);
              w2 = sstore w1 lock_addr (trustlessVestingDataKey lockID)
                     (encodeVestingData vestingEnd vestingCliff) in
          bump_lock_count w2 (\<lambda>w3.
            (Ret lockID,
             AddLog w3 lock_addr [storageKey (bytes_of_string ''VestingLockCreated''), lockID]
               (big_bytes amount) b)))"

definition trustlessCreateMultiSigLock :: call where
  "trustlessCreateMultiSigLock input caller w0 b =
     (if length input < 4 + 20 + 20 + 20 + 32 + 1 + 20
      then (Err (Errorf ''TrustlessLock: createMultiSigLock input too short''), w0)
      else
        let poolAddr = slice 4 24 input; token0 = slice 24 44 input; token1 = slice 44 64 input;
            amount = readBigInt (readSlot input 64); threshold = input ! 96;
            recipient = slice 97 117 input in
        if threshold = 0 then (Err (Errorf ''TrustlessLock: threshold must be > 0''), w0)
        else
          let lockID = generateLockID poolAddr token0 token1 amount b in
          bump_lock_count
            (sstore (touch w0 lock_addr) lock_addr (trustlessLockKey lockID)
               (encodeLockHeader poolAddr LockTypeMultiSig recipient (ucast threshold) b)) (\<lambda>w1.
            (Ret lockID,
             AddLog w1 lock_addr [storageKey (bytes_of_string ''MultiSigLockCreated''), lockID]
               (big_bytes amount) b)))"

subsection \<open>Reading, release and extension\<close>

definition trustlessGetLock :: call where
  "trustlessGetLock input caller w0 b =
     (if length input < 4 + 32 then (Err (Errorf ''TrustlessLock: getLock input too short''), w0)
      else
        let w = touch w0 lock_addr; headerSlot = sload w lock_addr (trustlessLockKey (slice 4 36 input)) in
        if headerSlot = zero_slot then (Err (Errorf ''TrustlessLock: lock not found''), w)
        else (Ret ((copy_at 1 (slice 1 9 headerSlot) ((replicate 42 0)[0 := headerSlot ! 0]))[41 := 1]), w))"

text \<open>The amount, before it is written out: an \<^verbatim>\<open>int64\<close> that the bytes only show without its sign.\<close>

definition releasable_at :: "World \<Rightarrow> bytes \<Rightarrow> slot \<Rightarrow> u64 \<Rightarrow> int" where
  "releasable_at w lockID headerSlot b =
     (let lockType = headerSlot ! 0 in
      if lockType = LockTypeTime then (if decodeUnlockBlock headerSlot \<le> b then 1 else 0)
      else if lockType = LockTypeVesting then
        (let vestingSlot = sload w lock_addr (trustlessVestingDataKey lockID);
             vestingEnd = decodeVestingEnd vestingSlot; vestingCliff = decodeVestingCliff vestingSlot in
         if vestingEnd \<le> b then 1
         else if vestingCliff \<le> b then
           (let vestingStart = decodeUnlockBlock headerSlot;
                elapsed = b - vestingStart; period = vestingEnd - vestingStart in
            if 0 < period then sint (elapsed * 1000 div period) else 0)
         else 0)
      else 0)"

definition trustlessReleasableAmount :: call where
  "trustlessReleasableAmount input caller w0 b =
     (if length input < 4 + 32 then (Err (Errorf ''TrustlessLock: releasableAmount input too short''), w0)
      else
        let lockID = slice 4 36 input; w = touch w0 lock_addr;
            headerSlot = sload w lock_addr (trustlessLockKey lockID) in
        if headerSlot = zero_slot then (Ret (replicate 32 0), w)
        else (Ret (fill_be 32 (nat \<bar>releasable_at w lockID headerSlot b\<bar>)), w))"

definition trustlessRelease :: call where
  "trustlessRelease input caller w0 b =
     (if length input < 4 + 32 then (Err (Errorf ''TrustlessLock: release input too short''), w0)
      else
        let lockID = slice 4 36 input in
        case trustlessReleasableAmount ([0xE5, 0xF6, 0xA7, 0xB8] @ lockID) caller w0 b of
          (Ret releasableOut, w) \<Rightarrow>
            (let releasable = readBigInt (readSlot releasableOut 0) in
             if releasable = 0 then (Err (Errorf ''TrustlessLock: nothing to release''), w)
             else
               let lockKey = trustlessLockKey lockID;
                   w1 = sstore w lock_addr lockKey ((sload w lock_addr lockKey)[0 := 0]) in
               (Ret (fill_be 32 releasable),
                AddLog w1 lock_addr [storageKey (bytes_of_string ''LockReleased''), lockID]
                  (big_bytes releasable) b))
        | (Err e, w) \<Rightarrow> (Err e, w)
        | (Panic, w) \<Rightarrow> (Panic, w))"

definition trustlessExtend :: call where
  "trustlessExtend input caller w0 b =
     (if length input < 4 + 32 + 32 then (Err (Errorf ''TrustlessLock: extend input too short''), w0)
      else
        let lockID = slice 4 36 input; additionalBlocks = readBigInt (readSlot input 36) in
        if additionalBlocks = 0 then (Err (Errorf ''TrustlessLock: additional blocks must be > 0''), w0)
        else
          let w = touch w0 lock_addr; lockKey = trustlessLockKey lockID;
              headerSlot = sload w lock_addr lockKey in
          if headerSlot ! 0 \<noteq> LockTypeTime
          then (Err (Errorf ''TrustlessLock: only time locks can be extended''), w)
          else
            let newUnlock = decodeUnlockBlock headerSlot + big_Uint64 additionalBlocks in
            (Ret ((replicate 32 0)[31 := 1]),
             AddLog (sstore w lock_addr lockKey (encodeUnlockBlock headerSlot newUnlock)) lock_addr
               [storageKey (bytes_of_string ''LockExtended''), lockID] (big_bytes additionalBlocks) b))"

definition lock_table :: "(u32 \<times> call) list" where
  "lock_table =
    [(trustlessCreateTimeLockSelector, trustlessCreateTimeLock),
     (trustlessCreateVestingLockSelector, trustlessCreateVestingLock),
     (trustlessCreateMultiSigLockSelector, trustlessCreateMultiSigLock),
     (trustlessGetLockSelector, trustlessGetLock),
     (trustlessReleasableAmountSelector, trustlessReleasableAmount),
     (trustlessReleaseSelector, trustlessRelease), (trustlessExtendSelector, trustlessExtend)]"

definition trustlessLockPrecompile :: call where
  "trustlessLockPrecompile input caller w b =
     (if length input < 4 then (Err (Errorf ''TrustlessLock: input too short''), w)
      else switch lock_table (unknown_selector ''TrustlessLock: unknown selector'')
             (selectorBytes input) input caller w b)"

subsection \<open>Confinement\<close>

lemma lock_ops_confined:
  "confined {lock_addr} w (snd (trustlessCreateTimeLock input caller w b))"
  "confined {lock_addr} w (snd (trustlessCreateVestingLock input caller w b))"
  "confined {lock_addr} w (snd (trustlessCreateMultiSigLock input caller w b))"
  "confined {lock_addr} w (snd (trustlessGetLock input caller w b))"
  "confined {lock_addr} w (snd (trustlessReleasableAmount input caller w b))"
  "confined {lock_addr} w (snd (trustlessRelease input caller w b))"
  "confined {lock_addr} w (snd (trustlessExtend input caller w b))"
  by (auto simp: trustlessCreateTimeLock_def trustlessCreateVestingLock_def trustlessCreateMultiSigLock_def
      trustlessGetLock_def trustlessReleasableAmount_def trustlessRelease_def trustlessExtend_def
      bump_lock_count_def addSlot_def Let_def intro!: confined_putSlot confined_sstore)

interpretation locks: confined_contract trustlessLockPrecompile "{lock_addr}"
proof unfold_locales
  fix w input caller b
  have "confined {lock_addr} w
    (snd (switch lock_table (unknown_selector ''TrustlessLock: unknown selector'') sel input caller w b))" for sel
    by (rule confined_switch) (auto simp: lock_table_def unknown_selector_def lock_ops_confined)
  then show "confined {lock_addr} w (snd (trustlessLockPrecompile input caller w b))"
    by (simp add: trustlessLockPrecompile_def)
qed

subsection \<open>Headers\<close>

lemma decode_encode_unlock [simp]: "9 \<le> length sl \<Longrightarrow> decodeUnlockBlock (encodeUnlockBlock sl v) = v"
  by (simp add: decodeUnlockBlock_def encodeUnlockBlock_def slice_copy_at_same)

lemma length_encodeUnlockBlock [simp]: "9 \<le> length sl \<Longrightarrow> length (encodeUnlockBlock sl v) = length sl"
  by (simp add: encodeUnlockBlock_def)

lemma encodeUnlockBlock_type [simp]: "9 \<le> length sl \<Longrightarrow> encodeUnlockBlock sl v ! 0 = sl ! 0"
  by (simp add: encodeUnlockBlock_def nth_copy_at_below)

lemma slice_update_beyond: "hi \<le> n \<Longrightarrow> slice lo hi (xs[n := x]) = slice lo hi xs"
  by (simp add: slice_def flip: drop_take)

lemma header_fields:
  assumes "length poolAddr = 20"
  shows "length (encodeLockHeader poolAddr t r u c) = 32" "encodeLockHeader poolAddr t r u c ! 0 = t"
    "decodeUnlockBlock (encodeLockHeader poolAddr t r u c) = u"
    "slice 9 29 (encodeLockHeader poolAddr t r u c) = poolAddr"
proof -
  let ?h = "encodeUnlockBlock (zero_slot[0 := t]) u"
  have h: "length ?h = 32" "?h ! 0 = t" "decodeUnlockBlock ?h = u"
    by simp_all
  show "length (encodeLockHeader poolAddr t r u c) = 32"
    using h(1) by (simp add: encodeLockHeader_def)
  show "encodeLockHeader poolAddr t r u c ! 0 = t"
    using h(1,2) by (simp add: encodeLockHeader_def nth_copy_at_below)
  show "decodeUnlockBlock (encodeLockHeader poolAddr t r u c) = u"
    using h by (simp add: encodeLockHeader_def decodeUnlockBlock_def slice_update_beyond slice_copy_at_below)
  show "slice 9 29 (encodeLockHeader poolAddr t r u c) = poolAddr"
    using h assms by (simp add: encodeLockHeader_def slice_update_beyond slice_copy_at_same)
qed

lemma vesting_fields [simp]:
  "decodeVestingEnd (encodeVestingData e c) = e" "decodeVestingCliff (encodeVestingData e c) = c"
  by (simp_all add: decodeVestingEnd_def decodeVestingCliff_def encodeVestingData_def slice_copy_at_same
      slice_copy_at_below)

text \<open>A header is the zero slot exactly if all its fields, and the two bytes of the block, are zero.\<close>

lemma header_layout:
  assumes "length poolAddr = 20"
  shows "encodeLockHeader poolAddr t r u c =
    t # u64be u @ poolAddr @ [r ! 19, ucast (drop_bit 8 c), ucast c]"
proof -
  have z: "zero_slot = 0 # replicate 8 0 @ replicate 20 0 @ [0, 0, 0]"
    by (simp add: zero_slot_def numeral_eq_Suc)
  have e: "encodeUnlockBlock (zero_slot[0 := t]) u = t # u64be u @ replicate 20 0 @ [0, 0, 0]"
    by (simp add: encodeUnlockBlock_def copy_at_def z)
  have p: "copy_at 9 poolAddr (t # u64be u @ replicate 20 0 @ [0, 0, 0]) = (t # u64be u @ poolAddr) @ [0, 0, 0]"
    using assms by (simp add: copy_at_def)
  have "(h @ [0, 0, 0])[29 := x, 30 := y, 31 := v] = h @ [x, y, v]" if "length h = 29"
    for h :: bytes and x y v
    using that by (simp add: list_update_append)
  from this[of "t # u64be u @ poolAddr"] show ?thesis
    using assms by (simp add: encodeLockHeader_def e p)
qed

lemma block_bytes_zero:
  "(ucast (drop_bit 8 c) = (0 :: u8) \<and> ucast c = (0 :: u8)) \<longleftrightarrow> unat (c :: u64) mod 65536 = 0"
proof -
  have "unat (ucast (drop_bit 8 c) :: u8) = unat c div 256 mod 256" "unat (ucast c :: u8) = unat c mod 256"
    by (simp_all add: unsigned_ucast_eq take_bit_eq_mod del: drop_bit_numeral_minus_bit1)
      (simp add: drop_bit_eq_div unat_div)
  moreover have "unat c mod 65536 = 256 * (unat c div 256 mod 256) + unat c mod 256"
    using mod_mult2_eq[of "unat c" 256 256] by simp
  moreover have "x = 0 \<longleftrightarrow> unat x = 0" for x :: u8
    by (simp add: unat_eq_0)
  ultimately show ?thesis
    by (metis add_is_0 mult_eq_0_iff zero_neq_numeral)
qed

lemma header_zero_iff:
  assumes "length poolAddr = 20"
  shows "encodeLockHeader poolAddr t r u c = zero_slot \<longleftrightarrow>
    t = 0 \<and> u = 0 \<and> poolAddr = replicate 20 0 \<and> r ! 19 = 0 \<and> unat c mod 65536 = 0"
proof -
  have z: "zero_slot = 0 # replicate 8 0 @ replicate 20 0 @ [0, 0, 0]"
    by (simp add: zero_slot_def numeral_eq_Suc)
  have "u64be 0 = replicate 8 0"
    by code_simp
  then have "u64be u = replicate 8 0 \<longleftrightarrow> u = 0"
    by (metis be64_u64be)
  then show ?thesis
    unfolding header_layout[OF assms] z using assms block_bytes_zero[of c] by (auto simp: append_eq_append_conv)
qed

subsection \<open>When a lock opens\<close>

definition lock_header :: "World \<Rightarrow> bytes \<Rightarrow> slot" where
  "lock_header w i = sload w lock_addr (trustlessLockKey i)"

lemma release_iff:
  assumes "36 \<le> length input"
  defines "i \<equiv> slice 4 36 input"
  assumes "lock_header w i \<noteq> zero_slot" "nat \<bar>releasable_at (touch w lock_addr) i (lock_header w i) b\<bar> < 256 ^ 32"
  shows "(\<exists>out. fst (trustlessRelease input c w b) = Ret out)
      \<longleftrightarrow> releasable_at (touch w lock_addr) i (lock_header w i) b \<noteq> 0"
    and "releasable_at (touch w lock_addr) i (lock_header w i) b \<noteq> 0 \<Longrightarrow>
      lock_header (snd (trustlessRelease input c w b)) i = (lock_header w i)[0 := 0]"
    and "k \<noteq> trustlessLockKey i \<Longrightarrow> sload (snd (trustlessRelease input c w b)) a k = sload w a k"
proof -
  have i: "slice 4 36 ([0xE5, 0xF6, 0xA7, 0xB8] @ i) = i" "length i = 32"
    using assms(1) by (simp_all add: i_def slice_def)
  have amount: "readBigInt (readSlot (fill_be 32 (nat \<bar>releasable_at (touch w lock_addr) i (lock_header w i) b\<bar>)) 0)
      = nat \<bar>releasable_at (touch w lock_addr) i (lock_header w i) b\<bar>"
    using assms(4) by (simp add: readSlot_def slice_def readBigInt_fill)
  have call: "trustlessReleasableAmount ([0xE5, 0xF6, 0xA7, 0xB8] @ i) c w b =
      (Ret (fill_be 32 (nat \<bar>releasable_at (touch w lock_addr) i (lock_header w i) b\<bar>)), touch w lock_addr)"
    using i assms(3) by (simp add: trustlessReleasableAmount_def Let_def lock_header_def)
  show "(\<exists>out. fst (trustlessRelease input c w b) = Ret out)
      \<longleftrightarrow> releasable_at (touch w lock_addr) i (lock_header w i) b \<noteq> 0"
    using assms(1) call amount by (simp add: trustlessRelease_def Let_def i_def[symmetric])
  show "lock_header (snd (trustlessRelease input c w b)) i = (lock_header w i)[0 := 0]"
    if "releasable_at (touch w lock_addr) i (lock_header w i) b \<noteq> 0"
    using assms(1) call amount that
    by (simp add: trustlessRelease_def Let_def i_def[symmetric] lock_header_def sload_sstore)
  show "k \<noteq> trustlessLockKey i \<Longrightarrow> sload (snd (trustlessRelease input c w b)) a k = sload w a k"
    using assms(1) call amount
    by (simp add: trustlessRelease_def Let_def i_def[symmetric] sload_sstore)
qed

lemma release_zero:
  assumes "36 \<le> length input" "lock_header w (slice 4 36 input) = zero_slot"
  shows "\<exists>e. fst (trustlessRelease input c w b) = Err e"
proof -
  let ?i = "slice 4 36 input"
  have i: "slice 4 36 ([0xE5, 0xF6, 0xA7, 0xB8] @ ?i) = ?i" "length ?i = 32"
    using assms(1) by (simp_all add: slice_def)
  have "readBigInt (readSlot (replicate 32 0) 0) = 0"
    by code_simp
  with assms i show ?thesis
    by (simp add: trustlessRelease_def trustlessReleasableAmount_def Let_def lock_header_def)
qed

lemma time_lock_created:
  assumes "trustlessCreateTimeLock input c w b = (Ret i, w')" "trustlessLockKey i \<noteq> lockCountKey"
  shows "lock_header w' i = encodeLockHeader (slice 4 24 input) LockTypeTime (slice 128 148 input)
      (b + big_Uint64 (readBigInt (readSlot input 96))) b"
    "148 \<le> length input"
  using assms
  by (auto simp: trustlessCreateTimeLock_def Let_def bump_lock_count_def lock_header_def sload_sstore
      split: if_splits dest!: addSlot_Ret)

end
