(* ===== verification/Dead_Man_Switch.thy ===== *)
theory Dead_Man_Switch
  imports Precompile
begin

text \<open>
  Precompile 0x15, the dead man's switch (\<^verbatim>\<open>evm/precompiles.go\<close>). A switch is one slot
  \<^verbatim>\<open>[truthType(1) | interval(8) | lastHeartbeat(8) | state(1) | createdAt(8) | ..]\<close>; its state is
  0 active, 2 claimed, 3 cancelled. The lemmas describe it as a state machine.
\<close>

definition dms_addr :: string where "dms_addr = PrecompileAddrHex 0x15"

definition selDMSCreateSwitch :: u32 where "selDMSCreateSwitch = 0x7F78EDCF"
definition selDMSHeartbeat :: u32 where "selDMSHeartbeat = 0x7018B39E"
definition selDMSClaim :: u32 where "selDMSClaim = 0x40FADB8B"
definition selDMSCancel :: u32 where "selDMSCancel = 0x26C1497E"
definition selDMSCanClaim :: u32 where "selDMSCanClaim = 0xA688A635"
definition selDMSTimeUntilClaimable :: u32 where "selDMSTimeUntilClaimable = 0xD75235C5"
definition selDMSGetSwitchInfo :: u32 where "selDMSGetSwitchInfo = 0x0034AFAA"
definition selDMSTotalSwitches :: u32 where "selDMSTotalSwitches = 0x890219ED"

lemmas dms_selectors =
  selDMSCreateSwitch_def selDMSHeartbeat_def selDMSClaim_def selDMSCancel_def selDMSCanClaim_def
  selDMSTimeUntilClaimable_def selDMSGetSwitchInfo_def selDMSTotalSwitches_def

definition switch_key :: "u64 \<Rightarrow> slot" where
  "switch_key i = storageKey (0x10 # big_bytes (unat i))"

definition switch_data :: "World \<Rightarrow> u64 \<Rightarrow> slot" where
  "switch_data w i = sload w dms_addr (switch_key i)"

definition sw_state :: "slot \<Rightarrow> u8" where "sw_state data = data ! 17"
definition sw_interval :: "slot \<Rightarrow> u64" where "sw_interval data = readUint64FromInput data 1"
definition sw_lastHB :: "slot \<Rightarrow> u64" where "sw_lastHB data = readUint64FromInput data 9"

definition switch_record :: "u8 \<Rightarrow> u64 \<Rightarrow> u64 \<Rightarrow> slot" where
  "switch_record truthType interval b =
     copy_at 18 (u64be b)
       ((copy_at 9 (u64be b) (copy_at 1 (u64be interval) (zero_slot[0 := truthType])))[17 := 0])"

text \<open>
  \<^verbatim>\<open>copy(keyRef[:], input[33:65])\<close> slices before any length check and panics beyond the capacity of the
  array; \<open>spare\<close> is the room of the array beyond the calldata. The key reference is used nowhere.
\<close>

definition dms_create :: "nat \<Rightarrow> call" where
  "dms_create spare input caller w b =
     (let truthType = readByte input 4; heir = readAddress input 5;
          heartbeatInterval = readUint64FromInput input 25 in
      if length input + spare < 65 then (Panic, w)
      else if heartbeatInterval < 86400 \<or> heartbeatInterval > 31536000
      then (Err (Errorf ''DeadMansSwitch: invalid interval''), w)
      else if truthType = 0 \<and> readUint64FromInput heir 0 = 0
      then (Err (Errorf ''DeadMansSwitch: dark truth needs heir''), w)
      else
        let totalSwitches = readUint64 (sload w dms_addr (writeUint64 0)) + 1;
            w1 = sstore w dms_addr (writeUint64 0) (writeUint64 totalSwitches);
            w2 = sstore w1 dms_addr (switch_key totalSwitches)
                   (switch_record truthType heartbeatInterval b) in
        (Ret (u64be totalSwitches), w2))"

definition dms_heartbeat :: call where
  "dms_heartbeat input caller w b =
     (let i = readUint64FromInput input 4; data = switch_data w i in
      if sw_state data \<noteq> 0 then (Ret [0], w)
      else (Ret [1], sstore w dms_addr (switch_key i) (copy_at 9 (u64be b) data)))"

definition dms_claim :: call where
  "dms_claim input caller w b =
     (let i = readUint64FromInput input 4; data = switch_data w i in
      if sw_state data \<noteq> 0 then (Ret [0], w)
      else if b \<le> sw_lastHB data + sw_interval data then (Ret [0], w)
      else (Ret [1], sstore w dms_addr (switch_key i) (data[17 := 2])))"

definition dms_cancel :: call where
  "dms_cancel input caller w b =
     (let i = readUint64FromInput input 4; data = switch_data w i in
      if sw_state data \<noteq> 0 then (Ret [0], w)
      else (Ret [1], sstore w dms_addr (switch_key i) (data[17 := 3])))"

definition dms_canClaim :: call where
  "dms_canClaim input caller w b =
     (let data = switch_data w (readUint64FromInput input 4) in
      if sw_state data \<noteq> 0 then (Ret [0], w)
      else if b > sw_lastHB data + sw_interval data then (Ret [1], w) else (Ret [0], w))"

definition dms_timeUntilClaimable :: call where
  "dms_timeUntilClaimable input caller w b =
     (let data = switch_data w (readUint64FromInput input 4) in
      if sw_state data \<noteq> 0 then (Ret (replicate 8 0), w)
      else let deadline = sw_lastHB data + sw_interval data in
           if deadline \<le> b then (Ret (replicate 8 0), w) else (Ret (u64be (deadline - b)), w))"

definition dms_getSwitchInfo :: call where
  "dms_getSwitchInfo input caller w b = (Ret (switch_data w (readUint64FromInput input 4)), w)"

definition dms_totalSwitches :: call where
  "dms_totalSwitches input caller w b =
     (Ret (u64be (readUint64 (sload w dms_addr (writeUint64 0)))), w)"

definition dms_table :: "nat \<Rightarrow> (u32 \<times> call) list" where
  "dms_table spare =
    [(selDMSCreateSwitch, dms_create spare), (selDMSHeartbeat, dms_heartbeat), (selDMSClaim, dms_claim),
     (selDMSCancel, dms_cancel), (selDMSCanClaim, dms_canClaim),
     (selDMSTimeUntilClaimable, dms_timeUntilClaimable), (selDMSGetSwitchInfo, dms_getSwitchInfo),
     (selDMSTotalSwitches, dms_totalSwitches)]"

definition deadManSwitchPrecompile :: "nat \<Rightarrow> call" where
  "deadManSwitchPrecompile spare input caller w b =
     switch (dms_table spare) (unknown_selector ''DeadMansSwitch: unknown selector'') (selectorBytes input)
       input caller (touch w dms_addr) b"

lemmas dms_mutators = dms_create_def dms_heartbeat_def dms_claim_def dms_cancel_def
lemmas dms_queries =
  dms_canClaim_def dms_timeUntilClaimable_def dms_getSwitchInfo_def dms_totalSwitches_def

interpretation dms: registry "deadManSwitchPrecompile spare" dms_addr for spare
proof unfold_locales
  fix w input caller b
  have "stays_in dms_addr (touch w dms_addr) (snd (deadManSwitchPrecompile spare input caller w b))"
    unfolding deadManSwitchPrecompile_def
    by (rule stays_in_switch) (auto simp: dms_table_def unknown_selector_def dms_mutators dms_queries Let_def)
  then show "stays_in dms_addr w (snd (deadManSwitchPrecompile spare input caller w b))"
    by simp
qed

subsection \<open>Switch records\<close>

lemma readUint64FromInput_slice:
  assumes "slice off (off + 8) bs = u64be v" "off + 8 \<le> length bs"
  shows "readUint64FromInput bs off = v"
  using assms be64_u64be[of v] by (simp add: readUint64FromInput_def be64_def big_Uint64_def)

lemma switch_record_fields [simp, go_bytes]:
  "length (switch_record t n b) = 32"
  "sw_state (switch_record t n b) = 0"
  "sw_interval (switch_record t n b) = n"
  "sw_lastHB (switch_record t n b) = b"
proof -
  let ?d = "(copy_at 9 (u64be b) (copy_at 1 (u64be n) (zero_slot[0 := t])))"
  have sl: "slice lo hi (xs[17 := 0]) = slice lo hi xs" if "hi \<le> 17" for lo hi and xs :: bytes
    using that by (simp add: slice_def take_update_swap drop_update_swap list_update_beyond flip: drop_take)
  show "length (switch_record t n b) = 32"
    by (simp add: switch_record_def)
  show "sw_state (switch_record t n b) = 0"
    by (simp add: sw_state_def switch_record_def nth_copy_at_below)
  have "slice 1 9 (switch_record t n b) = u64be n"
    by (simp add: switch_record_def slice_copy_at_below slice_copy_at_same sl)
  then show "sw_interval (switch_record t n b) = n"
    unfolding sw_interval_def by (intro readUint64FromInput_slice) (simp_all add: switch_record_def)
  have "slice 9 17 (switch_record t n b) = u64be b"
    by (simp add: switch_record_def slice_copy_at_below slice_copy_at_same sl)
  then show "sw_lastHB (switch_record t n b) = b"
    unfolding sw_lastHB_def by (intro readUint64FromInput_slice) (simp_all add: switch_record_def)
qed

lemma heartbeat_record [simp, go_bytes]:
  assumes "length data = 32"
  shows "sw_state (copy_at 9 (u64be b) data) = sw_state data"
    and "sw_interval (copy_at 9 (u64be b) data) = sw_interval data"
    and "sw_lastHB (copy_at 9 (u64be b) data) = b"
proof -
  show "sw_state (copy_at 9 (u64be b) data) = sw_state data"
    using assms by (simp add: sw_state_def nth_copy_at_above)
  show "sw_interval (copy_at 9 (u64be b) data) = sw_interval data"
    using assms by (simp add: sw_interval_def readUint64FromInput_def slice_copy_at_below)
  have "slice 9 17 (copy_at 9 (u64be b) data) = u64be b"
    using assms by (simp add: slice_copy_at_same)
  then show "sw_lastHB (copy_at 9 (u64be b) data) = b"
    unfolding sw_lastHB_def using assms by (intro readUint64FromInput_slice) simp_all
qed

subsection \<open>The state machine of one switch\<close>

text \<open>Every slot of the contract has 32 bytes, and every operation keeps it so.\<close>

definition dms_wf :: "World \<Rightarrow> bool" where
  "dms_wf w \<longleftrightarrow> (\<forall>k. length (sload w dms_addr k) = 32)"

lemma dms_wf_sstore: "dms_wf w \<Longrightarrow> length v = 32 \<Longrightarrow> dms_wf (sstore w dms_addr k v)"
  by (auto simp: dms_wf_def sload_sstore)

lemma dms_wf_touch [simp]: "dms_wf (touch w a) = dms_wf w"
  by (simp add: dms_wf_def)

lemma dms_wf_switch_data: "dms_wf w \<Longrightarrow> length (switch_data w i) = 32"
  by (simp add: dms_wf_def switch_data_def)

lemma dms_wf_step:
  assumes "dms_wf w" shows "dms_wf (snd (deadManSwitchPrecompile spare input caller w b))"
  unfolding deadManSwitchPrecompile_def
proof (rule switch_cases[where P = "\<lambda>f. dms_wf (snd (f input caller (touch w dms_addr) b))"])
  fix s f
  assume "(s, f) \<in> set (dms_table spare)"
  then show "dms_wf (snd (f input caller (touch w dms_addr) b))"
    using assms
    by (auto simp: dms_table_def dms_mutators dms_queries Let_def dms_wf_switch_data
        intro!: dms_wf_sstore)
qed (use assms in \<open>simp add: unknown_selector_def\<close>)

text \<open>A switch that is claimed or cancelled refuses every further operation.\<close>

lemma dms_terminal:
  assumes "sw_state (switch_data w (readUint64FromInput input 4)) \<noteq> 0"
  shows "dms_heartbeat input caller w b = (Ret [0], w)"
    and "dms_claim input caller w b = (Ret [0], w)"
    and "dms_cancel input caller w b = (Ret [0], w)"
    and "dms_canClaim input caller w b = (Ret [0], w)"
  using assms by (simp_all add: dms_mutators dms_queries Let_def)

lemma dms_claim_iff_canClaim:
  "fst (dms_claim input caller w b) = Ret [1] \<longleftrightarrow> fst (dms_canClaim input caller w b) = Ret [1]"
  by (auto simp: dms_claim_def dms_canClaim_def Let_def)

lemma dms_create_data:
  assumes "fst (dms_create spare input caller w b) = Ret out"
    and "writeUint64 0 \<noteq> switch_key (readUint64 (sload w dms_addr (writeUint64 0)) + 1)"
  shows "switch_data (snd (dms_create spare input caller w b))
           (readUint64 (sload w dms_addr (writeUint64 0)) + 1) =
         switch_record (readByte input 4) (readUint64FromInput input 25) b"
    and "86400 \<le> readUint64FromInput input 25" "readUint64FromInput input 25 \<le> 31536000"
    and "out = u64be (readUint64 (sload w dms_addr (writeUint64 0)) + 1)"
  using assms
  by (auto simp: dms_create_def Let_def switch_data_def sload_sstore not_less split: if_splits)

end
