(* ===== verification/Way_Stablecoin.thy ===== *)
theory Way_Stablecoin
  imports Trustless_Lock Dead_Man_Switch
begin

text \<open>
  Precompile 0x22, the Bitcoin-backed stablecoin (\<^verbatim>\<open>evm/way_stablecoin.go\<close>), with the derivation of
  vault addresses and the deposit check of \<^verbatim>\<open>evm/btcwallet.go\<close>. \<^verbatim>\<open>writeBigInt\<close> into a slot is \<open>putSlot\<close>,
  by \<open>writeSlot_writeBigInt\<close>.
\<close>

definition way_addr :: string where "way_addr = PrecompileAddrHex 0x22"

definition WaySlotVaultBTC :: u8 where "WaySlotVaultBTC = 0x01"
definition WaySlotVault1Way :: u8 where "WaySlotVault1Way = 0x02"
definition WaySlotUserHasVault :: u8 where "WaySlotUserHasVault = 0x03"
definition WaySlotVaultCreator :: u8 where "WaySlotVaultCreator = 0x06"
definition WayMintRatio :: nat where "WayMintRatio = 7000"
definition WayMinCRatio :: nat where "WayMinCRatio = 13000"

definition selWayCreateVault :: u32 where "selWayCreateVault = 0xA2B1C3D4"
definition selWayDepositBTC :: u32 where "selWayDepositBTC = 0xB3C2D4E5"
definition selWayMint1Way :: u32 where "selWayMint1Way = 0xC4D3E5F6"
definition selWayBurn1Way :: u32 where "selWayBurn1Way = 0xD5E4F6A7"
definition selWayGetUserVault :: u32 where "selWayGetUserVault = 0xA8B7C9D0"
definition selWayGetPrice :: u32 where "selWayGetPrice = 0xB9C8D0E1"
definition selWayGetTotalSupply :: u32 where "selWayGetTotalSupply = 0xCAD9E0F2"
definition selWayGetVault :: u32 where "selWayGetVault = 0x9EB29EF0"
definition selWayUpdateBTCPrice :: u32 where "selWayUpdateBTCPrice = 0xDBC0F1A2"

definition way_btc_key :: "bytes \<Rightarrow> slot" where "way_btc_key v = storageKey (WaySlotVaultBTC # v)"
definition way_debt_key :: "bytes \<Rightarrow> slot" where "way_debt_key v = storageKey (WaySlotVault1Way # v)"
definition way_user_key :: "bytes \<Rightarrow> slot" where "way_user_key u = storageKey (WaySlotUserHasVault # u)"
definition way_creator_key :: "bytes \<Rightarrow> slot" where "way_creator_key v = storageKey (WaySlotVaultCreator # v)"
definition way_price_key :: slot where "way_price_key = storageKey (bytes_of_string ''price:btc:usd'')"
definition way_committed_key :: slot where "way_committed_key = storageKey (bytes_of_string ''total:committed'')"

subsection \<open>Bitcoin deposits\<close>

definition WayChainMasterPub :: string where
  "WayChainMasterPub = replicate 64 CHR ''0''"

definition VaultBTCDomain :: bytes where
  "VaultBTCDomain = bytes_of_string ''waychain:vault:btc:v1''"

definition DerivedVaultBTCAddress :: "bytes \<Rightarrow> string" where
  "DerivedVaultBTCAddress vaultID =
     ''bc1v'' @ hex_encode (sha256 (bytes_of_string WayChainMasterPub @ VaultBTCDomain @ vaultID))"

record BTCTxProof =
  TxID :: bytes
  OutIndex :: u64
  bp_Amount :: nat
  ToAddr :: string

definition VerifyBTCDeposit :: "bytes \<Rightarrow> BTCTxProof \<Rightarrow> nat outcome" where
  "VerifyBTCDeposit vaultID proof =
     (if ToAddr proof \<noteq> DerivedVaultBTCAddress vaultID
      then Err (Errorf ''1WAY: BTC proof does not pay the vault address'')
      else if bp_Amount proof \<le> 0 then Err (Errorf ''1WAY: BTC proof amount must be > 0'')
      else if length (TxID proof) \<noteq> 32 then Err (Errorf ''1WAY: BTC proof txid must be 32 bytes'')
      else Ret (bp_Amount proof))"

subsection \<open>Access\<close>

definition deadManActiveForVault :: "World \<Rightarrow> bytes \<Rightarrow> bool" where
  "deadManActiveForVault w vaultID \<longleftrightarrow> sload w dms_addr (storageKey (0x10 # vaultID)) ! 0 = 1"

text \<open>
  The creator is compared as the string of all 32 bytes of its slot, padding included, so it is
  never the empty string.
\<close>

definition requireCallerIsCreatorOrDeadMan :: "World \<Rightarrow> bytes \<Rightarrow> string \<Rightarrow> go_error option \<times> World" where
  "requireCallerIsCreatorOrDeadMan w0 vaultID caller =
     (let w = touch w0 way_addr; creator = string_of_bytes (sload w way_addr (way_creator_key vaultID)) in
      if creator = caller then (None, w)
      else if creator \<noteq> [] then
        let w1 = touch w dms_addr in
        if deadManActiveForVault w1 vaultID then (None, w1)
        else (Some (Errorf ''1WAY: caller is not vault creator or authorized dead-mans-switch''), w1)
      else (Some (Errorf ''1WAY: caller is not vault creator or authorized dead-mans-switch''), w))"

subsection \<open>Operations\<close>

definition dox_level_2 :: "World \<Rightarrow> string \<Rightarrow> bool" where
  "dox_level_2 w caller \<longleftrightarrow>
     (case GetAccount w caller of None \<Rightarrow> False | Some acc \<Rightarrow> \<not> DoxDevLevel acc < 2)"

definition wayCreateVault :: call where
  "wayCreateVault input caller w0 b =
     (if length input < 36 then (Err (Errorf ''1WAY: createVault input too short''), w0)
      else
        let vaultID = slice 4 36 input; w = touch w0 way_addr; usrVaultKey = way_user_key (bytes_of_string caller) in
        if \<not> dox_level_2 w caller then (Err (Errorf ''1WAY: caller must have Dox_Dev Level 2+''), w)
        else if readUint64 (sload w way_addr usrVaultKey) \<noteq> 0
        then (Err (Errorf ''1WAY: user already has vault''), w)
        else
          putSlot w way_addr (way_btc_key vaultID) 0 (\<lambda>w1.
          putSlot w1 way_addr (way_debt_key vaultID) 0 (\<lambda>w2.
            let w3 = sstore w2 way_addr (way_creator_key vaultID) (copy_at 0 (take 32 (bytes_of_string caller)) zero_slot);
                w4 = sstore w3 way_addr usrVaultKey (writeUint64 1) in
            (Ret vaultID, w4))))"

definition wayDepositBTC :: call where
  "wayDepositBTC input caller w0 b =
     (if length input < 100
      then (Err (Errorf ''1WAY: depositBTC needs vaultID+amount+txid+outIndex+toAddr (>=100 bytes)''), w0)
      else
        let vaultID = slice 4 36 input; amount = readUint256 input 36 in
        case requireCallerIsCreatorOrDeadMan w0 vaultID caller of
          (Some e, w) \<Rightarrow> (Err e, w)
        | (None, w) \<Rightarrow>
            if length input < 108 then (Panic, w)
            else
              (case VerifyBTCDeposit vaultID
                      \<lparr>TxID = slice 68 100 input, OutIndex = readUint64FromBytes input 100,
                       bp_Amount = amount, ToAddr = string_of_bytes (drop 108 input)\<rparr> of
                 Err e \<Rightarrow> (Err e, w)
               | Panic \<Rightarrow> (Panic, w)
               | Ret verified \<Rightarrow>
                   addSlot (touch w way_addr) way_addr (way_btc_key vaultID) verified (\<lambda>w1.
                   addSlot w1 way_addr way_committed_key verified (\<lambda>w2. (Ret [1], w2)))))"

definition btc_price :: "World \<Rightarrow> nat" where
  "btc_price w =
     (let price = readBigInt (sload w way_addr way_price_key) in
      if price = 0 then 68000000000000000000 else price)"

definition way_mint_amount :: "nat \<Rightarrow> nat \<Rightarrow> nat" where
  "way_mint_amount btcAmount btcPrice = btcAmount div 10 ^ 8 * btcPrice * WayMintRatio div 10000"

definition wayMint1Way :: call where
  "wayMint1Way input caller w0 b =
     (if length input < 36 then (Err (Errorf ''1WAY: mint input too short''), w0)
      else
        let vaultID = slice 4 36 input in
        case requireCallerIsCreatorOrDeadMan (touch w0 way_addr) vaultID caller of
          (Some e, w) \<Rightarrow> (Err e, w)
        | (None, w) \<Rightarrow>
            let btcAmount = readBigInt (sload w way_addr (way_btc_key vaultID)) in
            if btcAmount = 0 then (Err (Errorf ''1WAY: no BTC deposited''), w)
            else
              let mintAmount = way_mint_amount btcAmount (btc_price w) in
              addSlot w way_addr (way_debt_key vaultID) mintAmount (\<lambda>w1. (Ret (big_bytes mintAmount), w1)))"

definition wayBurn1Way :: call where
  "wayBurn1Way input caller w0 b =
     (if length input < 68 then (Err (Errorf ''1WAY: burn input too short''), w0)
      else
        let vaultID = slice 4 36 input; amount = readUint256 input 36 in
        case requireCallerIsCreatorOrDeadMan (touch w0 way_addr) vaultID caller of
          (Some e, w) \<Rightarrow> (Err e, w)
        | (None, w) \<Rightarrow>
            let newDebt = int (readBigInt (sload w way_addr (way_debt_key vaultID))) - int amount in
            putSlot w way_addr (way_debt_key vaultID) (if newDebt < 0 then 0 else newDebt) (\<lambda>w1. (Ret [1], w1)))"

definition wayGetUserVault :: call where
  "wayGetUserVault input caller w0 b =
     (if length input < 24 then (Err (Errorf ''1WAY: getUserVault input too short''), w0)
      else
        let user = readAddress input 4; w = touch w0 way_addr;
            hasVault = sload w way_addr (way_user_key user) in
        (Ret (if hasVault \<noteq> zero_slot then (replicate 32 0)[0 := 1] else replicate 32 0), w))"

definition wayGetVault :: call where
  "wayGetVault input caller w0 b =
     (if length input < 36 then (Err (Errorf ''1WAY: getVault input too short''), w0)
      else
        let vaultID = slice 4 36 input; w = touch w0 way_addr;
            btc = readBigInt (sload w way_addr (way_btc_key vaultID));
            debt = readBigInt (sload w way_addr (way_debt_key vaultID));
            creatorPresent = (if sload w way_addr (way_creator_key vaultID) \<noteq> zero_slot then 1 else 0) in
        (Ret (fill_be 32 btc @ fill_be 32 debt @ writeUint64 creatorPresent), w))"

definition wayGetPrice :: call where
  "wayGetPrice input caller w0 b = (let w = touch w0 way_addr in (Ret (fill_be 32 (btc_price w)), w))"

definition wayUpdateBTCPrice :: call where
  "wayUpdateBTCPrice input caller w0 b =
     (if length input < 36 then (Err (Errorf ''1WAY: updatePrice input too short''), w0)
      else
        let price = readUint256 input 4; w = touch w0 way_addr in
        if \<not> dox_level_2 w caller then (Err (Errorf ''1WAY: only verified oracles can update price''), w)
        else putSlot w way_addr way_price_key (int price) (\<lambda>w1. (Ret [1], w1)))"

definition way_supply :: "Account \<Rightarrow> nat" where
  "way_supply acc =
     sum_list (map (readBigInt \<circ> snd) (filter (\<lambda>(k, v). length k = 32 \<and> k ! 0 = WaySlotVault1Way) (Storage acc)))"

text \<open>\<^verbatim>\<open>FillBytes\<close> panics when the sum needs more than 32 bytes.\<close>

definition wayGetTotalSupply :: call where
  "wayGetTotalSupply input caller w0 b =
     (let w = touch w0 way_addr; total = way_supply (acct w way_addr) in
      if 256 ^ 32 \<le> total then (Panic, w) else (Ret (fill_be 32 total), w))"

definition way_table :: "(u32 \<times> call) list" where
  "way_table =
    [(selWayCreateVault, wayCreateVault), (selWayDepositBTC, wayDepositBTC), (selWayMint1Way, wayMint1Way),
     (selWayBurn1Way, wayBurn1Way), (selWayGetUserVault, wayGetUserVault), (selWayGetVault, wayGetVault),
     (selWayGetPrice, wayGetPrice), (selWayGetTotalSupply, wayGetTotalSupply),
     (selWayUpdateBTCPrice, wayUpdateBTCPrice)]"

definition wayStablecoinPrecompile :: call where
  "wayStablecoinPrecompile input caller w b =
     (if length input < 4 then (Err (Errorf ''1WAY: input too short''), w)
      else switch way_table (unknown_selector ''1WAY: unknown selector'')
             (selectorBytes input) input caller w b)"

subsection \<open>Who may operate a vault\<close>

lemma require_frame:
  assumes "requireCallerIsCreatorOrDeadMan w0 vid caller = (r, w)"
  shows "acct w a = acct w0 a" "balance_of w a = balance_of w0 a" "sload w a k = sload w0 a k"
    "confined A w0 w"
  using assms by (auto simp: requireCallerIsCreatorOrDeadMan_def Let_def split: if_splits)

lemma require_confined:
  "requireCallerIsCreatorOrDeadMan w0 vid caller = (r, w) \<Longrightarrow> confined A w0 w"
  "requireCallerIsCreatorOrDeadMan (touch w0 x) vid caller = (r, w) \<Longrightarrow> confined A w0 w"
  using require_frame(4) by fastforce+

definition may_operate :: "World \<Rightarrow> bytes \<Rightarrow> string \<Rightarrow> bool" where
  "may_operate w vid caller \<longleftrightarrow>
     string_of_bytes (sload w way_addr (way_creator_key vid)) = caller
     \<or> string_of_bytes (sload w way_addr (way_creator_key vid)) \<noteq> [] \<and> deadManActiveForVault w vid"

lemma require_iff: "fst (requireCallerIsCreatorOrDeadMan w vid caller) = None \<longleftrightarrow> may_operate w vid caller"
  by (simp add: requireCallerIsCreatorOrDeadMan_def may_operate_def deadManActiveForVault_def Let_def)

lemma may_operate_frame: "may_operate (touch w x) vid caller = may_operate w vid caller"
  by (simp add: may_operate_def deadManActiveForVault_def)

text \<open>A creator whose account key is not exactly 32 characters is not recognised as the creator.\<close>

lemma long_key_locked_out:
  assumes "length caller \<noteq> 32" "length (sload w way_addr (way_creator_key vid)) = 32"
    and "\<not> deadManActiveForVault w vid"
  shows "\<not> may_operate w vid caller"
  using assms by (auto simp: may_operate_def string_of_bytes_def)

lemma way_ops_confined:
  "confined {way_addr} w (snd (wayCreateVault input caller w b))"
  "confined {way_addr} w (snd (wayDepositBTC input caller w b))"
  "confined {way_addr} w (snd (wayMint1Way input caller w b))"
  "confined {way_addr} w (snd (wayBurn1Way input caller w b))"
  "confined {way_addr} w (snd (wayUpdateBTCPrice input caller w b))"
  by (auto simp: wayCreateVault_def wayDepositBTC_def wayMint1Way_def wayBurn1Way_def wayUpdateBTCPrice_def
      addSlot_def Let_def split: prod.splits option.splits outcome.splits dest: require_confined
      intro!: confined_putSlot confined_sstore)

interpretation way: confined_contract wayStablecoinPrecompile "{way_addr}"
proof unfold_locales
  fix w input caller b
  have "confined {way_addr} w
    (snd (switch way_table (unknown_selector ''1WAY: unknown selector'') sel input caller w b))" for sel
    by (rule confined_switch)
      (auto simp: way_table_def unknown_selector_def way_ops_confined wayGetUserVault_def wayGetVault_def
        wayGetPrice_def wayGetTotalSupply_def Let_def)
  then show "confined {way_addr} w (snd (wayStablecoinPrecompile input caller w b))"
    by (simp add: wayStablecoinPrecompile_def)
qed

subsection \<open>Deposits, mints and burns\<close>

definition vault_btc :: "World \<Rightarrow> bytes \<Rightarrow> nat" where
  "vault_btc w vid = readBigInt (sload w way_addr (way_btc_key vid))"

definition vault_1way :: "World \<Rightarrow> bytes \<Rightarrow> nat" where
  "vault_1way w vid = readBigInt (sload w way_addr (way_debt_key vid))"

lemma deposit_effect:
  assumes d: "wayDepositBTC input caller w b = (Ret out, w')"
    and apart: "way_btc_key (slice 4 36 input) \<noteq> way_committed_key"
  shows "may_operate w (slice 4 36 input) caller"
    and "string_of_bytes (drop 108 input) = DerivedVaultBTCAddress (slice 4 36 input)"
    and "0 < readUint256 input 36"
    and "vault_btc w' (slice 4 36 input) = vault_btc w (slice 4 36 input) + readUint256 input 36"
    and "readBigInt (sload w' way_addr way_committed_key) =
           readBigInt (sload w way_addr way_committed_key) + readUint256 input 36"
    and "k \<noteq> way_btc_key (slice 4 36 input) \<Longrightarrow> k \<noteq> way_committed_key \<Longrightarrow>
           sload w' way_addr k = sload w way_addr k"
proof -
  let ?v = "slice 4 36 input" and ?a = "readUint256 input 36"
  obtain w1 where r: "requireCallerIsCreatorOrDeadMan w ?v caller = (None, w1)"
    using d by (auto simp: wayDepositBTC_def Let_def split: if_splits prod.splits option.splits)
  show "may_operate w ?v caller"
    using r require_iff[of w ?v caller] by simp
  define p where "p = \<lparr>TxID = slice 68 100 input, OutIndex = readUint64FromBytes input 100,
    bp_Amount = ?a, ToAddr = string_of_bytes (drop 108 input)\<rparr>"
  obtain v where v: "VerifyBTCDeposit ?v p = Ret v"
    and add: "addSlot (touch w1 way_addr) way_addr (way_btc_key ?v) v (\<lambda>w1.
      addSlot w1 way_addr way_committed_key v (\<lambda>w2. (Ret [1], w2))) = (Ret out, w')"
    using d r by (auto simp: wayDepositBTC_def Let_def p_def split: if_splits outcome.splits)
  from v have "v = ?a" "0 < ?a" "string_of_bytes (drop 108 input) = DerivedVaultBTCAddress ?v"
    by (auto simp: VerifyBTCDeposit_def p_def split: if_splits)
  then show "0 < ?a" "string_of_bytes (drop 108 input) = DerivedVaultBTCAddress ?v"
    by simp_all
  note same = require_frame(3)[OF r]
  from addSlot_Ret[OF add] have add2: "addSlot (sstore (touch w1 way_addr) way_addr (way_btc_key ?v) (fill_be 32 (vault_btc w ?v + ?a)))
      way_addr way_committed_key ?a (\<lambda>w2. (Ret [1], w2)) = (Ret out, w')"
    and b1: "vault_btc w ?v + ?a < 256 ^ 32"
    by (simp_all add: same vault_btc_def \<open>v = ?a\<close>)
  from addSlot_Ret[OF add2] apart
  have w': "w' = sstore (sstore (touch w1 way_addr) way_addr (way_btc_key ?v) (fill_be 32 (vault_btc w ?v + ?a)))
      way_addr way_committed_key (fill_be 32 (readBigInt (sload w way_addr way_committed_key) + ?a))"
    and b2: "readBigInt (sload w way_addr way_committed_key) + ?a < 256 ^ 32"
    by (simp_all add: sload_sstore same)
  show "vault_btc w' ?v = vault_btc w ?v + ?a"
    using apart b1 by (simp add: w' vault_btc_def sload_sstore readBigInt_fill)
  show "readBigInt (sload w' way_addr way_committed_key) = readBigInt (sload w way_addr way_committed_key) + ?a"
    using b2 by (simp add: w' sload_sstore readBigInt_fill)
  show "sload w' way_addr k = sload w way_addr k" if "k \<noteq> way_btc_key ?v" "k \<noteq> way_committed_key"
    using that by (simp add: w' sload_sstore same)
qed

lemma mint_1way_effect:
  assumes "wayMint1Way input caller w b = (Ret out, w')"
  defines "vid \<equiv> slice 4 36 input"
  defines "m \<equiv> way_mint_amount (vault_btc w vid) (btc_price w)"
  shows "may_operate w vid caller" "0 < vault_btc w vid" "out = big_bytes m"
    and "vault_1way w' vid = vault_1way w vid + m"
    and "k \<noteq> way_debt_key vid \<Longrightarrow> sload w' way_addr k = sload w way_addr k"
proof -
  obtain w1 where r: "requireCallerIsCreatorOrDeadMan (touch w way_addr) vid caller = (None, w1)"
    using assms(1) by (auto simp: wayMint1Way_def Let_def vid_def split: if_splits prod.splits option.splits)
  show "may_operate w vid caller"
    using r require_iff[of "touch w way_addr" vid caller] by (simp add: may_operate_frame)
  have same: "sload w1 a k = sload w a k" for a k
    using require_frame(3)[OF r] by simp
  have nz: "0 < vault_btc w vid" and add: "addSlot w1 way_addr (way_debt_key vid) m (\<lambda>w1. (Ret (big_bytes m), w1)) = (Ret out, w')"
    using assms(1) r
    by (auto simp: wayMint1Way_def Let_def vid_def m_def vault_btc_def same btc_price_def split: if_splits)
  show "0 < vault_btc w vid"
    by (rule nz)
  from addSlot_Ret[OF add] have bound: "vault_1way w vid + m < 256 ^ 32" and out: "out = big_bytes m"
    and w': "w' = sstore w1 way_addr (way_debt_key vid) (fill_be 32 (vault_1way w vid + m))"
    by (auto simp: vault_1way_def same)
  show "out = big_bytes m"
    by (rule out)
  show "vault_1way w' vid = vault_1way w vid + m"
    unfolding w' using bound by (simp add: vault_1way_def sload_sstore readBigInt_fill)
  show "sload w' way_addr k = sload w way_addr k" if "k \<noteq> way_debt_key vid"
    using that by (simp add: w' sload_sstore same)
qed

lemma burn_1way_effect:
  assumes "wayBurn1Way input caller w b = (Ret out, w')"
  defines "vid \<equiv> slice 4 36 input"
  shows "may_operate w vid caller"
    and "vault_1way w' vid = vault_1way w vid - readUint256 input 36"
    and "k \<noteq> way_debt_key vid \<Longrightarrow> sload w' way_addr k = sload w way_addr k"
proof -
  let ?a = "readUint256 input 36"
  obtain w1 where r: "requireCallerIsCreatorOrDeadMan (touch w way_addr) vid caller = (None, w1)"
    using assms(1) by (auto simp: wayBurn1Way_def Let_def vid_def split: if_splits prod.splits option.splits)
  show "may_operate w vid caller"
    using r require_iff[of "touch w way_addr" vid caller] by (simp add: may_operate_frame)
  have same: "sload w1 a k = sload w a k" for a k
    using require_frame(3)[OF r] by simp
  have "reduceSlot w1 way_addr (way_debt_key vid) ?a (\<lambda>w1. (Ret [1], w1)) = (Ret out, w')"
    using assms(1) r by (auto simp: wayBurn1Way_def Let_def vid_def reduceSlot_def split: if_splits)
  from reduceSlot_Ret[OF this] have bound: "vault_1way w vid - ?a < 256 ^ 32"
    and w': "w' = sstore w1 way_addr (way_debt_key vid) (fill_be 32 (vault_1way w vid - ?a))"
    by (auto simp: vault_1way_def same)
  show "vault_1way w' vid = vault_1way w vid - ?a"
    unfolding w' using bound by (simp add: vault_1way_def sload_sstore readBigInt_fill)
  show "sload w' way_addr k = sload w way_addr k" if "k \<noteq> way_debt_key vid"
    using that by (simp add: w' sload_sstore same)
qed

text \<open>
  Creation does not look at the vault: an identifier already in use is reset to no coins and no
  debt, and changes hands.
\<close>

lemma create_resets:
  fixes input :: bytes
  defines "vid \<equiv> slice 4 36 input"
  assumes "wayCreateVault input caller w b = (Ret out, w')"
    and "distinct [way_btc_key vid, way_debt_key vid, way_creator_key vid, way_user_key (bytes_of_string caller)]"
  shows "vault_btc w' vid = 0 \<and> vault_1way w' vid = 0 \<and>
    sload w' way_addr (way_creator_key vid) = copy_at 0 (take 32 (bytes_of_string caller)) zero_slot"
  using assms
  by (auto simp: wayCreateVault_def Let_def putSlot_small vault_btc_def vault_1way_def sload_sstore readBigInt_fill
      split: if_splits)

lemma mint_at_most: "way_mint_amount btc price * 10000 \<le> btc div 10 ^ 8 * price * WayMintRatio"
  by (simp add: way_mint_amount_def)

end
