(* ===== verification/Sway.thy ===== *)
theory Sway
  imports Precompile
begin

text \<open>
  Precompile 0x24, the SWAY rewards token (\<^verbatim>\<open>evm/sway_token.go\<close>): the seeded supply and its
  allocation buckets, minting under the ceiling, burning, and the selectors. A holder's balance
  is a slot of the holder's own account, keyed by prefix 0x30 and the account string.
\<close>

definition sway_addr :: string where "sway_addr = PrecompileAddrHex 0x24"

definition SwayInitialSupply :: u64 where "SwayInitialSupply = 1000000000"
definition SwayHardCeiling :: u64 where "SwayHardCeiling = 5000000000"
definition SwayAllocFutureTasks :: nat where "SwayAllocFutureTasks = 45"
definition SwayAllocDEXLP :: nat where "SwayAllocDEXLP = 20"
definition SwayAllocEcosystem :: nat where "SwayAllocEcosystem = 35"
definition SwayBaseEmissionBps :: int where "SwayBaseEmissionBps = 250"
definition SwayExpansionEmissionDeltaBps :: int where "SwayExpansionEmissionDeltaBps = -100"
definition SwayConsolidationEmissionDeltaBps :: int where "SwayConsolidationEmissionDeltaBps = 150"
definition SwayBaseBurnBps :: nat where "SwayBaseBurnBps = 2000"

definition swayKeyTotalSupply :: slot where
  "swayKeyTotalSupply = storageKey (bytes_of_string ''sway:totalSupply'')"
definition swayKeyInit :: slot where
  "swayKeyInit = storageKey (bytes_of_string ''sway:initialized'')"
definition swayKeyBucket :: "string \<Rightarrow> slot" where
  "swayKeyBucket b = storageKey (bytes_of_string (''sway:bucket:'' @ b))"

definition sway_bal_key :: "bytes \<Rightarrow> slot" where "sway_bal_key who = storageKey (0x30 # who)"

definition selSwayMint :: u32 where "selSwayMint = 0xA1B2C3E4"
definition selSwayBurn :: u32 where "selSwayBurn = 0xB2C3D4F5"
definition selSwayGetBalance :: u32 where "selSwayGetBalance = 0xC3D4E5A6"
definition selSwayGetTotalSupply :: u32 where "selSwayGetTotalSupply = 0xD4E5A6B7"
definition selSwayGetEmission :: u32 where "selSwayGetEmission = 0xE5A6B7C8"
definition selSwayInit :: u32 where "selSwayInit = 0x0A1B2C3D"
definition selSwaySwapFeeReward :: u32 where "selSwaySwapFeeReward = 0x1A2B3C4D"
definition selSwayMintToCaller :: u32 where "selSwayMintToCaller = 0xF6A7B8C9"

text \<open>
  \<^verbatim>\<open>slot = writeBigInt(v)\<close> followed by the rest, or the panic; a negative \<open>v\<close> is stored as its
  absolute value, which is what \<^verbatim>\<open>Bytes()\<close> returns.
\<close>

definition store_big :: "World \<Rightarrow> string \<Rightarrow> slot \<Rightarrow> int \<Rightarrow> World option" where
  "store_big w a k v =
     (case writeBigInt (nat \<bar>v\<bar>) of Ret sl \<Rightarrow> Some (sstore w a k sl) | _ \<Rightarrow> None)"

lemma store_big_Some:
  "0 \<le> v \<Longrightarrow> v < 256 ^ 32 \<Longrightarrow> store_big w a k v = Some (sstore w a k (fill_be 32 (nat v)))"
  by (simp add: store_big_def writeBigInt_Ret nat_less_iff)

lemma store_big_cases:
  "store_big w a k v = (if nat \<bar>v\<bar> < 256 ^ 32 then Some (sstore w a k (fill_be 32 (nat \<bar>v\<bar>))) else None)"
  by (simp add: store_big_def writeBigInt_cases)

definition sway_total :: "World \<Rightarrow> nat" where
  "sway_total w = readBigInt (sload w sway_addr swayKeyTotalSupply)"

definition sway_bucket :: "World \<Rightarrow> string \<Rightarrow> nat" where
  "sway_bucket w b = readBigInt (sload w sway_addr (swayKeyBucket b))"

definition sway_balance :: "World \<Rightarrow> string \<Rightarrow> nat" where
  "sway_balance w who = readBigInt (sload w who (sway_bal_key (bytes_of_string who)))"

subsection \<open>Seeding\<close>

definition sway_alloc :: "nat \<Rightarrow> slot" where
  "sway_alloc pct = fill_be 32 (unat SwayInitialSupply * pct div 100)"

definition SwayInit :: "World \<Rightarrow> World" where
  "SwayInit w0 =
     (let w = touch w0 sway_addr in
      if readBigInt (sload w sway_addr swayKeyInit) \<noteq> 0 then w
      else
        let w1 = sstore w sway_addr swayKeyTotalSupply (fill_be 32 (unat SwayInitialSupply));
            w2 = sstore w1 sway_addr swayKeyInit (fill_be 32 1);
            w3 = sstore w2 sway_addr (swayKeyBucket ''futureTasks'') (sway_alloc SwayAllocFutureTasks);
            w4 = sstore w3 sway_addr (swayKeyBucket ''dexLP'') (sway_alloc SwayAllocDEXLP) in
        sstore w4 sway_addr (swayKeyBucket ''ecosystem'') (sway_alloc SwayAllocEcosystem))"

definition SwayCirculating :: "World \<Rightarrow> nat" where
  "SwayCirculating w = (case GetAccount w sway_addr of None \<Rightarrow> 0 | Some _ \<Rightarrow> sway_total w)"

definition SwayBucketBalance :: "World \<Rightarrow> string \<Rightarrow> nat" where
  "SwayBucketBalance w name = (case GetAccount w sway_addr of None \<Rightarrow> 0 | Some _ \<Rightarrow> sway_bucket w name)"

definition SwayEmissionBps :: "World \<Rightarrow> u64" where
  "SwayEmissionBps w =
     (let delta = (if policy_Phase (econoPolicy w) = 1 then SwayExpansionEmissionDeltaBps
                   else SwayConsolidationEmissionDeltaBps);
          rate = SwayBaseEmissionBps + delta in
      of_int (if rate < 0 then 0 else rate))"

definition SwayProjectedEmissionFromGBP :: "World \<Rightarrow> u64 \<Rightarrow> nat" where
  "SwayProjectedEmissionFromGBP w pctBps =
     (let gbp = EconoGBPEquiv w in
      if gbp = 0 then 0
      else let epochsPerYear = (365 * 24 * 3600) div (3 * 10000 :: nat) in
           unat gbp * epochsPerYear * unat pctBps div 10000)"

subsection \<open>Minting and burning\<close>

definition swayMintInternal ::
  "World \<Rightarrow> string \<Rightarrow> nat \<Rightarrow> string \<Rightarrow> unit outcome \<times> World" where
  "swayMintInternal w0 to amount bucket =
     (if amount = 0 then (Err (Errorf ''SWAY: amount must be positive''), w0)
      else
        let w = touch w0 sway_addr in
        if bucket \<noteq> '''' \<and> sway_bucket w bucket < amount
        then (Err (Errorf ''SWAY: bucket exhausted''), w)
        else
          let newTotal = sway_total w + amount in
          if big_Uint64 newTotal > SwayHardCeiling
          then (Err (Errorf ''SWAY: hard ceiling exceeded''), w)
          else
            case store_big w to (sway_bal_key (bytes_of_string to)) (int (sway_balance w to + amount)) of
              None \<Rightarrow> (Panic, touch w to)
            | Some w1 \<Rightarrow>
                (case store_big w1 sway_addr swayKeyTotalSupply (int newTotal) of
                   None \<Rightarrow> (Panic, w1)
                 | Some w2 \<Rightarrow>
                     if bucket = '''' then (Ret (), w2)
                     else case store_big w2 sway_addr (swayKeyBucket bucket)
                                 (int (sway_bucket w2 bucket) - int amount) of
                            None \<Rightarrow> (Panic, w2)
                          | Some w3 \<Rightarrow> (Ret (), w3)))"

definition swayBurnInternal :: "World \<Rightarrow> string \<Rightarrow> nat \<Rightarrow> unit outcome \<times> World" where
  "swayBurnInternal w from amount =
     (if amount = 0 then (Err (Errorf ''SWAY: amount must be positive''), w)
      else
        let wt = touch w from; cur = sway_balance wt from in
        if cur < amount then (Err (Errorf ''SWAY: insufficient balance''), wt)
        else
          case store_big wt from (sway_bal_key (bytes_of_string from)) (int (cur - amount)) of
            None \<Rightarrow> (Panic, wt)
          | Some w1 \<Rightarrow>
              (case store_big w1 sway_addr swayKeyTotalSupply (int (sway_total w1) - int amount) of
                 None \<Rightarrow> (Panic, w1)
               | Some w2 \<Rightarrow> (Ret (), w2)))"

definition SwayBurnFromFees :: "World \<Rightarrow> nat \<Rightarrow> nat \<times> World" where
  "SwayBurnFromFees w0 feeAmount =
     (let burn0 = feeAmount * SwayBaseBurnBps div 10000 in
      if burn0 = 0 then (0, w0)
      else
        let w = touch w0 sway_addr; eco = sway_bucket w ''ecosystem''; burn = min burn0 eco in
        if burn = 0 then (0, w)
        else
          let w1 = sstore w sway_addr (swayKeyBucket ''ecosystem'') (fill_be 32 (eco - burn)) in
          case store_big w1 sway_addr swayKeyTotalSupply (int (sway_total w1) - int burn) of
            Some w2 \<Rightarrow> (burn, w2)
          | None \<Rightarrow> (burn, w1))"

subsection \<open>Selectors\<close>

definition ret_one :: "unit outcome \<times> World \<Rightarrow> bytes outcome \<times> World" where
  "ret_one r = (case r of (Ret _, w) \<Rightarrow> (Ret [1], w) | (Err e, w) \<Rightarrow> (Err e, w) | (Panic, w) \<Rightarrow> (Panic, w))"

definition sway_mint :: call where
  "sway_mint input caller w b =
     (if caller \<noteq> PrecompileAddrHex 0x25 \<and> caller \<noteq> PrecompileAddrHex 0x19
      then (Err (Errorf ''SWAY: unauthorized minter''), w)
      else ret_one (swayMintInternal w (hex_encode (readAddress input 4))
                      (readBigInt (readSlot input 24)) ''dexLP''))"

definition sway_mintToCaller :: call where
  "sway_mintToCaller input caller w b =
     (let amount = readBigInt (readSlot input 4) in
      if caller = PrecompileAddrHex 0x18 then ret_one (swayMintInternal w caller amount ''dexLP'')
      else if caller = PrecompileAddrHex 0x23 then ret_one (swayMintInternal w caller amount ''futureTasks'')
      else (Err (Errorf ''SWAY: unauthorized minter''), w))"

definition sway_burn :: call where
  "sway_burn input caller w b =
     ret_one (swayBurnInternal w (hex_encode (readAddress input 4)) (readBigInt (readSlot input 24)))"

text \<open>The balance query dereferences the account without a nil check and keys by raw bytes.\<close>

definition sway_getBalance :: call where
  "sway_getBalance input caller w b =
     (let addr = readAddress input 4 in
      case GetAccount w (hex_encode addr) of
        None \<Rightarrow> (Panic, w)
      | Some _ \<Rightarrow> (Ret (fill_be 32 (readBigInt (sload w (hex_encode addr) (sway_bal_key addr)))), w))"

definition sway_getTotalSupply :: call where
  "sway_getTotalSupply input caller w b =
     (Ret (fill_be 32 (case GetAccount w sway_addr of None \<Rightarrow> 0 | Some _ \<Rightarrow> sway_total w)), w)"

definition sway_getEmission :: call where
  "sway_getEmission input caller w b = (Ret (fill_be 32 (unat (SwayEmissionBps w))), w)"

definition sway_swapFee :: call where
  "sway_swapFee input caller w b =
     (let lpAddr = readAddress input 4 in
      (Ret [1], sstore w (hex_encode lpAddr) (sway_bal_key lpAddr) (fill_be 32 1)))"

definition sway_init :: call where
  "sway_init input caller w b = (Ret [1], SwayInit w)"

definition sway_table :: "(u32 \<times> call) list" where
  "sway_table =
    [(selSwayInit, sway_init), (selSwayMint, sway_mint), (selSwayMintToCaller, sway_mintToCaller),
     (selSwayBurn, sway_burn), (selSwayGetBalance, sway_getBalance),
     (selSwayGetTotalSupply, sway_getTotalSupply), (selSwayGetEmission, sway_getEmission),
     (selSwaySwapFeeReward, sway_swapFee)]"

definition swayPrecompile :: call where
  "swayPrecompile input caller w b =
     (if length input < 4 then (Err (Errorf ''SWAY: input too short''), w)
      else switch sway_table (unknown_selector ''SWAY: unknown selector'') (selectorBytes input)
             input caller w b)"

subsection \<open>A successful mint\<close>

text \<open>
  The slots a mint writes: the recipient's balance, the total and the bucket. They are
  different slots unless SHA-256 collides or the recipient is the token account itself.
\<close>

definition sway_slots_apart :: "string \<Rightarrow> string \<Rightarrow> bool" where
  "sway_slots_apart to bucket \<longleftrightarrow>
     to \<noteq> sway_addr \<and> swayKeyBucket bucket \<noteq> swayKeyTotalSupply"

lemma swayMint_success:
  assumes "fst (swayMintInternal w to amount bucket) = Ret ()"
    and "sway_slots_apart to bucket" "bucket \<noteq> ''''"
  shows "0 < amount" "amount \<le> sway_bucket w bucket"
    and "big_Uint64 (sway_total w + amount) \<le> SwayHardCeiling"
    and "sway_balance w to + amount < 256 ^ 32" "sway_total w + amount < 256 ^ 32"
    and "\<exists>w'. snd (swayMintInternal w to amount bucket) =
           sstore (sstore (sstore w' to (sway_bal_key (bytes_of_string to)) (fill_be 32 (sway_balance w to + amount)))
             sway_addr swayKeyTotalSupply (fill_be 32 (sway_total w + amount)))
             sway_addr (swayKeyBucket bucket) (fill_be 32 (sway_bucket w bucket - amount))
         \<and> w' = touch w sway_addr"
  using assms
  by (auto simp: swayMintInternal_def Let_def store_big_cases sway_slots_apart_def sway_bucket_def
      sway_total_def sway_balance_def sload_sstore nat_diff_distrib nat_add_distrib not_less
      split: if_splits option.splits)

end
