(* ===== verification/Faucet.thy ===== *)
theory Faucet
  imports Sway
begin

text \<open>
  Precompile 0x27, the gas faucet (\<^verbatim>\<open>evm/faucet.go\<close>), and the one-shot genesis seeding
  (\<^verbatim>\<open>evm/genesis_seed.go\<close>) that the founder's drip triggers. A drip moves tokens from the
  faucet's reserve to the caller at most once per cooldown.
\<close>

subsection \<open>Text helpers\<close>

text \<open>\<^verbatim>\<open>strings.ToLower\<close> on ASCII letters, and \<^verbatim>\<open>strings.TrimPrefix(s, "0x")\<close>.\<close>

definition ToLower :: "string \<Rightarrow> string" where
  "ToLower s = map (\<lambda>c. if 65 \<le> (of_char c :: nat) \<and> (of_char c :: nat) \<le> 90
     then char_of ((of_char c :: nat) + 32) else c) s"

definition trim0x :: "string \<Rightarrow> string" where
  "trim0x s = (if take 2 s = ''0x'' then drop 2 s else s)"

definition callerAccountKey :: "string \<Rightarrow> string" where
  "callerAccountKey caller =
     (let s = trim0x (ToLower caller) in if 64 \<le> length s then take 40 s else s)"

subsection \<open>Genesis seeding\<close>

record GenesisSeedAccount =
  gs_Address :: string
  gs_Balance :: u64
  gs_Level :: u8

definition FounderAddress :: string where
  "FounderAddress = ''e5da0c28804c512ac7e0f4a53ad8d6fd13f81e76''"

definition GenesisBootstrapAccounts :: "GenesisSeedAccount list" where
  "GenesisBootstrapAccounts =
     [\<lparr>gs_Address = PrecompileAddrHex 0x03, gs_Balance = 10000000, gs_Level = 3\<rparr>,
      \<lparr>gs_Address = ''00000000000000000000000000000000000000ec'', gs_Balance = 13500000, gs_Level = 3\<rparr>,
      \<lparr>gs_Address = ''e5da0c28804c512ac7e0f4a53ad8d6fd13f81e76'', gs_Balance = 1000000, gs_Level = 3\<rparr>]"

definition seedAccountIfEmpty :: "World \<Rightarrow> string \<Rightarrow> u64 \<Rightarrow> u8 \<Rightarrow> World" where
  "seedAccountIfEmpty w a bal level =
     (let w1 = touch w a;
          w2 = (if balance_of w1 a = 0 then set_balance w1 a (int (unat bal)) else w1) in
      if 0 < level \<and> DoxDevLevel (acct w2 a) < level
      then upd_acct w2 a (\<lambda>acc. acc\<lparr>DoxDevLevel := level\<rparr>) else w2)"

definition faucet_addr :: string where "faucet_addr = PrecompileAddrHex 0x27"
definition autopilotSlot :: u8 where "autopilotSlot = 0x50"

definition SeedAllGenesis :: "World \<Rightarrow> World" where
  "SeedAllGenesis w =
     (let w1 = foldl (\<lambda>w a. seedAccountIfEmpty w (gs_Address a) (gs_Balance a) (gs_Level a))
                 w GenesisBootstrapAccounts;
          w2 = touch w1 faucet_addr;
          w3 = (if balance_of w2 faucet_addr = 0
                then set_balance w2 faucet_addr 1000000000000000000000000 else w2) in
      case hex_decode FounderAddress of
        None \<Rightarrow> w3
      | Some founderBytes \<Rightarrow>
          sstore w3 (PrecompileAddrHex 0x23) (storageKey [autopilotSlot])
            (copy_at 12 founderBytes zero_slot))"

subsection \<open>The faucet\<close>

definition FaucetDefaultDripAmount :: nat where "FaucetDefaultDripAmount = 1000000000000000000"
definition FaucetDefaultCooldown :: u64 where "FaucetDefaultCooldown = 1000"

definition selFaucetDrip :: u32 where "selFaucetDrip = 0x2A7AB5DA"
definition selFaucetGetDripAmount :: u32 where "selFaucetGetDripAmount = 0xF7C3438B"
definition selFaucetGetLastDrip :: u32 where "selFaucetGetLastDrip = 0x1DECB48C"
definition selFaucetGetBalance :: u32 where "selFaucetGetBalance = 0x1AC9C1D0"
definition selFaucetSetDripAmount :: u32 where "selFaucetSetDripAmount = 0x94AC47F1"
definition selFaucetSetCooldown :: u32 where "selFaucetSetCooldown = 0x8567A687"

definition isFaucetAdmin :: "string \<Rightarrow> World \<Rightarrow> bool \<times> World" where
  "isFaucetAdmin caller w =
     (let callerKey = callerAccountKey caller in
      if callerKey = PrecompileAddrHex 0x03 then (True, w)
      else let badgeAddr = PrecompileAddrHex 0x13;
               levelKey = storageKey (0x20 # bytes_of_string callerKey) in
           (3 \<le> readBigInt (sload w badgeAddr levelKey), touch w badgeAddr))"

definition faucet_amount :: "World \<Rightarrow> nat" where
  "faucet_amount w =
     (let drip = readBigInt (sload w faucet_addr (storageKey [0x00])) in
      if drip = 0 then FaucetDefaultDripAmount else drip)"

definition faucet_cooldown :: "World \<Rightarrow> u64" where
  "faucet_cooldown w =
     (let cooldown = readUint64 (sload w faucet_addr (storageKey [0x01])) in
      if cooldown = 0 then FaucetDefaultCooldown else cooldown)"

text \<open>The first twenty characters of the caller's key, as the code slices the string.\<close>

definition last_drip_key :: "string \<Rightarrow> slot" where
  "last_drip_key caller = storageKey (0x10 # bytes_of_string (take 20 (callerAccountKey caller)))"

definition faucet_drip :: call where
  "faucet_drip input caller w0 b =
     (let w = (if callerAccountKey caller = FounderAddress then SeedAllGenesis w0 else w0);
          cooldown = faucet_cooldown w;
          lastDrip = readUint64 (sload w faucet_addr (last_drip_key caller)) in
      if lastDrip \<noteq> 0 \<and> b < lastDrip + cooldown then (Ret [0], w)
      else
        let drip = faucet_amount w; reserve = balance_of w faucet_addr in
        if reserve < int drip then (Ret [0], w)
        else
          let w1 = set_balance w faucet_addr (reserve - int drip);
              w2 = add_balance (touch w1 caller) caller (int drip);
              w3 = sstore w2 faucet_addr (last_drip_key caller) (fill_be 32 (unat b));
              total = readBigInt (sload w3 faucet_addr (storageKey [0x02])) + drip in
          case store_big w3 faucet_addr (storageKey [0x02]) (int total) of
            None \<Rightarrow> (Panic, w3)
          | Some w4 \<Rightarrow>
              (Ret [1], AddLog w4 faucet_addr [storageKey (bytes_of_string ''FaucetDrip'')]
                          (bytes_of_string caller) b))"

definition faucet_getDripAmount :: call where
  "faucet_getDripAmount input caller w b = (Ret (fill_be 32 (faucet_amount w)), w)"

definition faucet_getLastDrip :: call where
  "faucet_getLastDrip input caller w b =
     (Ret (u64be (readUint64 (sload w faucet_addr (storageKey (0x10 # readAddress input 4))))), w)"

definition faucet_getBalance :: call where
  "faucet_getBalance input caller w b =
     (let v = nat \<bar>balance_of w faucet_addr\<bar> in
      if 256 ^ 32 \<le> v then (Panic, w) else (Ret (fill_be 32 v), w))"

definition faucet_setDripAmount :: call where
  "faucet_setDripAmount input caller w b =
     (case isFaucetAdmin caller w of
        (False, w1) \<Rightarrow> (Err (Errorf ''GasFaucet: setDripAmount requires admin''), w1)
      | (True, w1) \<Rightarrow>
          (case store_big w1 faucet_addr (storageKey [0x00]) (int (readUint256 input 4)) of
             None \<Rightarrow> (Panic, w1) | Some w2 \<Rightarrow> (Ret [1], w2)))"

definition faucet_setCooldown :: call where
  "faucet_setCooldown input caller w b =
     (case isFaucetAdmin caller w of
        (False, w1) \<Rightarrow> (Err (Errorf ''GasFaucet: setCooldown requires admin''), w1)
      | (True, w1) \<Rightarrow>
          (Ret [1], sstore w1 faucet_addr (storageKey [0x01]) (writeUint64 (readUint64FromInput input 4))))"

definition faucet_table :: "(u32 \<times> call) list" where
  "faucet_table =
    [(selFaucetDrip, faucet_drip), (selFaucetGetDripAmount, faucet_getDripAmount),
     (selFaucetGetLastDrip, faucet_getLastDrip), (selFaucetGetBalance, faucet_getBalance),
     (selFaucetSetDripAmount, faucet_setDripAmount), (selFaucetSetCooldown, faucet_setCooldown)]"

text \<open>\<^verbatim>\<open>callerKey[:20]\<close> panics for a caller key of fewer than twenty characters.\<close>

definition faucetPrecompile :: call where
  "faucetPrecompile input caller w b =
     (let w1 = touch w faucet_addr in
      if length (callerAccountKey caller) < 20 then (Panic, w1)
      else switch faucet_table (unknown_selector ''GasFaucet: unknown selector'') (selectorBytes input)
             input caller w1 b)"

subsection \<open>Drips\<close>

lemma faucet_drip_success:
  assumes "fst (faucet_drip input caller w b) = Ret [1]" "callerAccountKey caller \<noteq> FounderAddress"
  shows "int (faucet_amount w) \<le> balance_of w faucet_addr"
    and "balance_of (snd (faucet_drip input caller w b)) x =
           balance_of w x - (if x = faucet_addr then int (faucet_amount w) else 0)
                          + (if x = caller then int (faucet_amount w) else 0)"
  using assms
  by (auto simp: faucet_drip_def Let_def store_big_cases balance_of_set_balance
      balance_of_add_balance split: if_splits option.splits)

subsection \<open>The cooldown\<close>

text \<open>The genesis seeding writes a storage slot of the task registry only.\<close>

lemma seed_other_slots:
  assumes "a \<noteq> PrecompileAddrHex 0x23"
  shows "sload (SeedAllGenesis w) a k = sload w a k"
proof -
  have seed: "sload (seedAccountIfEmpty w x bal lvl) a k = sload w a k" for w x bal lvl
    by (auto simp: seedAccountIfEmpty_def Let_def sload_def acct_upd_acct set_balance_def)
  show ?thesis
    using assms
    by (auto simp: SeedAllGenesis_def GenesisBootstrapAccounts_def Let_def seed sload_sstore
        split: option.splits)
qed

lemma seed_faucet_slots [simp]: "sload (SeedAllGenesis w) faucet_addr k = sload w faucet_addr k"
proof (rule seed_other_slots)
  show "faucet_addr \<noteq> PrecompileAddrHex 0x23"
    by code_simp
qed

lemma seed_faucet_cooldown [simp]: "faucet_cooldown (SeedAllGenesis w) = faucet_cooldown w"
  by (simp add: faucet_cooldown_def)

lemma faucet_keys_apart:
  "storageKey [0x00] \<noteq> storageKey [0x01]" "storageKey [0x02] \<noteq> storageKey [0x01]"
  by code_simp+

text \<open>A caller's drip record lies in none of the three slots the faucet keeps for itself.\<close>

definition drip_key_apart :: "string \<Rightarrow> bool" where
  "drip_key_apart caller \<longleftrightarrow>
     last_drip_key caller \<notin> {storageKey [0x00], storageKey [0x01], storageKey [0x02]}"

text \<open>The record of a drip in block \<open>d\<close>, while the cooldown is \<open>c\<close> blocks.\<close>

definition dripped :: "string \<Rightarrow> u64 \<Rightarrow> u64 \<Rightarrow> World \<Rightarrow> bool" where
  "dripped caller d c w \<longleftrightarrow>
     readUint64 (sload w faucet_addr (last_drip_key caller)) = d \<and> faucet_cooldown w = c"

lemma faucet_drip_slots:
  assumes "fst (faucet_drip input caller w b) = Ret [1]" "drip_key_apart caller"
  shows "dripped caller b (faucet_cooldown w) (snd (faucet_drip input caller w b))"
  using assms faucet_keys_apart
  by (auto simp: faucet_drip_def Let_def store_big_cases sload_sstore faucet_cooldown_def dripped_def
      drip_key_apart_def writeUint64_fill[symmetric] split: if_splits option.splits)

lemma faucet_drip_limited:
  assumes "dripped caller d c w" "d \<noteq> 0" "b < d + c"
  shows "faucet_drip input caller w b =
    (Ret [0], if callerAccountKey caller = FounderAddress then SeedAllGenesis w else w)"
  using assms by (auto simp: faucet_drip_def dripped_def Let_def)

text \<open>
  A drip, of whichever account, in a block before the end of the cooldown keeps the record: one
  with the same record key is refused, one with another key writes elsewhere.
\<close>

lemma drip_keeps_record:
  assumes "dripped caller d c w" "d \<noteq> 0" "b < d + c" "drip_key_apart caller" "drip_key_apart caller'"
  shows "dripped caller d c (snd (faucet_drip input caller' w b))"
proof (cases "last_drip_key caller' = last_drip_key caller")
  case True
  then have "dripped caller' d c w"
    using assms(1) by (simp add: dripped_def)
  from faucet_drip_limited[OF this assms(2,3)] show ?thesis
    using assms(1) by (simp add: dripped_def)
next
  case False
  then show ?thesis
    using assms(1,4,5) faucet_keys_apart
    by (auto simp: faucet_drip_def Let_def store_big_cases sload_sstore faucet_cooldown_def dripped_def
        drip_key_apart_def split: if_splits option.splits)
qed

lemma amount_keeps_record:
  assumes "dripped caller d c w" "drip_key_apart caller"
  shows "dripped caller d c (snd (faucet_setDripAmount input caller' w b))"
  using assms faucet_keys_apart
  by (auto simp: faucet_setDripAmount_def isFaucetAdmin_def Let_def store_big_cases sload_sstore
      faucet_cooldown_def dripped_def drip_key_apart_def split: option.splits bool.splits prod.splits)

lemma faucet_call_keeps_record:
  assumes "dripped caller d c w" "d \<noteq> 0" "b < d + c" "drip_key_apart caller" "drip_key_apart caller'"
    and "selectorBytes input \<noteq> selFaucetSetCooldown"
  shows "dripped caller d c (snd (faucetPrecompile input caller' w b))"
proof -
  have t: "dripped caller d c (touch w faucet_addr)"
    using assms(1) by (simp add: dripped_def faucet_cooldown_def)
  note keeps = drip_keeps_record[OF t assms(2-5)] amount_keeps_record[OF t assms(4)]
  show ?thesis
    using t keeps assms(6)
    by (auto simp: faucetPrecompile_def Let_def faucet_table_def switch_def unknown_selector_def
        faucet_getDripAmount_def faucet_getLastDrip_def faucet_getBalance_def)
qed

lemma faucet_run_keeps_record:
  assumes "dripped caller d c w" "d \<noteq> 0" "drip_key_apart caller"
    and "\<forall>(inp, caller', b') \<in> set cs.
           b' < d + c \<and> drip_key_apart caller' \<and> selectorBytes inp \<noteq> selFaucetSetCooldown"
  shows "dripped caller d c (run_calls faucetPrecompile cs w)"
  using assms
proof (induction cs arbitrary: w)
  case (Cons x cs)
  then show ?case
    by (cases x) (auto intro!: Cons.IH faucet_call_keeps_record)
qed simp

lemma seedAccountIfEmpty_balance:
  "balance_of (seedAccountIfEmpty w a bal lvl) x =
     (if x = a \<and> balance_of w a = 0 then int (unat bal) else balance_of w x)"
  by (auto simp: seedAccountIfEmpty_def Let_def balance_of_def acct_upd_acct set_balance_def)

end
