(* ===== verification/Task_Registry.thy ===== *)
theory Task_Registry
  imports Two_Way Faucet
begin

text \<open>
  Precompile 0x23, task payments (\<^verbatim>\<open>evm/task_registry.go\<close>): quests with their cap, the autopilot,
  bounties, and community tasks with an escrow.

  Most cases slice the calldata without a length check. A Go slice expression may reach up to the
  capacity of the array, so \<^verbatim>\<open>input[4:36]\<close> of a short calldata reads the bytes behind it, and panics
  only beyond the capacity. \<open>spare\<close> holds those bytes; an index \<^verbatim>\<open>input[i]\<close> is bounded by the length.
\<close>

definition task_addr :: string where "task_addr = PrecompileAddrHex 0x23"
definition giveaway_addr :: string where "giveaway_addr = PrecompileAddrHex 0x02"
definition QUEST_SUPPLY_PCT :: nat where "QUEST_SUPPLY_PCT = 5"
definition autopilot_key :: slot where "autopilot_key = storageKey [0x50]"
definition paid_key :: slot where "paid_key = storageKey [0x40]"

definition with_slice ::
  "bytes \<Rightarrow> bytes \<Rightarrow> nat \<Rightarrow> nat \<Rightarrow> World \<Rightarrow> (bytes \<Rightarrow> 'a outcome \<times> World) \<Rightarrow> 'a outcome \<times> World" where
  "with_slice spare input lo hi w rest =
     (if hi \<le> length (input @ spare) then rest (slice lo hi (input @ spare)) else (Panic, w))"

definition with_byte :: "bytes \<Rightarrow> nat \<Rightarrow> World \<Rightarrow> (u8 \<Rightarrow> 'a outcome \<times> World) \<Rightarrow> 'a outcome \<times> World" where
  "with_byte input i w rest = (if i < length input then rest (input ! i) else (Panic, w))"

subsection \<open>Tasks and rewards\<close>

text \<open>A task identifier is the text up to the first zero byte.\<close>

definition task_name :: "bytes \<Rightarrow> string" where
  "task_name taskIdBytes = string_of_bytes (takeWhile (\<lambda>x. x \<noteq> 0) taskIdBytes)"

definition quest_rewards :: "(string \<times> nat) list" where
  "quest_rewards =
    [(''wallet-setup'', 100), (''first-transfer'', 10), (''faucet-claim'', 10), (''receive-way'', 10),
     (''governance-vote'', 25), (''doxdev-badge'', 100), (''badge-curate'', 200), (''gov-propose'', 25),
     (''1way-mint'', 300), (''1way-burn'', 150), (''2way-open'', 25), (''first-swap'', 10),
     (''add-liquidity'', 10), (''stability-deposit'', 50), (''btc-bridge'', 25), (''sway-stake'', 50),
     (''wifr-bridge'', 50), (''bijo-journal'', 100), (''lock-time'', 25), (''lock-vesting'', 50),
     (''mrt-claim'', 150), (''dms-setup'', 150), (''oracle-feed'', 150), (''account-recovery'', 50),
     (''privacy-proof'', 100), (''staterent-pay'', 50), (''xchain-attest'', 100),
     (''template-deploy'', 100), (''validator-72h'', 100)]"

definition taskRewardAmount :: "bytes \<Rightarrow> nat" where
  "taskRewardAmount taskIdBytes =
     (case map_of quest_rewards (task_name taskIdBytes) of Some amt \<Rightarrow> amt | None \<Rightarrow> 0)"

definition autoEligibleTasks :: "string list" where
  "autoEligibleTasks =
    [''first-transfer'', ''faucet-claim'', ''receive-way'', ''governance-vote'', ''gov-propose'',
     ''1way-mint'', ''1way-burn'', ''2way-open'', ''first-swap'', ''add-liquidity'', ''stability-deposit'',
     ''btc-bridge'', ''sway-stake'', ''wifr-bridge'', ''bijo-journal'', ''lock-time'', ''lock-vesting'',
     ''staterent-pay'']"

definition isAutoEligible :: "bytes \<Rightarrow> bool" where
  "isAutoEligible taskIdBytes \<longleftrightarrow> task_name taskIdBytes \<in> set autoEligibleTasks"

definition autopilotAddress :: "World \<Rightarrow> string" where
  "autopilotAddress w =
     (case GetAccount w task_addr of
        None \<Rightarrow> []
      | Some _ \<Rightarrow>
          let a = slice 12 32 (sload w task_addr autopilot_key) in
          if \<forall>x\<in>set a. x = 0 then [] else hex_encode a)"

text \<open>\<^verbatim>\<open>EqualFold\<close> against hexadecimal digits, whose only case variants are the ASCII ones.\<close>

definition EqualFold :: "string \<Rightarrow> string \<Rightarrow> bool" where
  "EqualFold s t \<longleftrightarrow> ToLower s = ToLower t"

definition isAutopilot :: "string \<Rightarrow> World \<Rightarrow> bool" where
  "isAutopilot caller w \<longleftrightarrow> (let ap = autopilotAddress w in ap \<noteq> [] \<and> EqualFold caller ap)"

definition level_at_least :: "u8 \<Rightarrow> World \<Rightarrow> string \<Rightarrow> bool" where
  "level_at_least n w caller \<longleftrightarrow>
     (case GetAccount w caller of None \<Rightarrow> False | Some acc \<Rightarrow> \<not> DoxDevLevel acc < n)"

definition QuestCap :: "World \<Rightarrow> nat" where
  "QuestCap w = QuestTotalSupply w * QUEST_SUPPLY_PCT div 100"

definition quest_paid :: "World \<Rightarrow> nat" where
  "quest_paid w = readBigInt (sload w task_addr paid_key)"

definition QuestPoolRemaining :: "World \<Rightarrow> nat" where
  "QuestPoolRemaining w =
     (let rem = int (QuestCap w) - int (quest_paid w) in if rem < 0 then 0 else nat rem)"

definition claim_key :: "string \<Rightarrow> slot" where
  "claim_key a = storageKey (0x10 # bytes_of_string a)"

definition claim_slot :: "bytes \<Rightarrow> u8 \<Rightarrow> slot" where
  "claim_slot taskId flag = (copy_at 0 taskId zero_slot)[31 := flag]"

definition task_status :: "slot \<Rightarrow> string" where
  "task_status s = (if s ! 31 = 1 then ''claimed'' else if s ! 31 = 2 then ''verified'' else ''none'')"

definition TaskStatusOf :: "World \<Rightarrow> bytes \<Rightarrow> string \<Rightarrow> string" where
  "TaskStatusOf w taskId claimant =
     (let a = ToLower (trim0x claimant) in
      case GetAccount w a of None \<Rightarrow> ''none'' | Some _ \<Rightarrow> task_status (sload w a (claim_key a)))"

definition verifyAndPay :: "World \<Rightarrow> bytes \<Rightarrow> string \<Rightarrow> unit outcome \<times> World" where
  "verifyAndPay w0 taskIdBytes claimantAddr =
     (let reward = taskRewardAmount taskIdBytes; w = touch w0 task_addr;
          paid = quest_paid w; newPaid = paid + reward in
      if QuestCap w < newPaid then (Err (Errorf ''quest cap reached''), w)
      else
        let w1 = sstore (touch w claimantAddr) claimantAddr (claim_key claimantAddr) (claim_slot taskIdBytes 2);
            w2 = touch (touch w1 treasury_addr) claimantAddr in
        if int reward \<le> balance_of w2 treasury_addr then
          let w3 = add_balance (add_balance w2 treasury_addr (- int reward)) claimantAddr (int reward) in
          putSlot w3 task_addr paid_key (int newPaid) (\<lambda>w4.
            let w5 = AddLog w4 task_addr [sha256 (bytes_of_string ''TaskPaid''), sha256 taskIdBytes] (big_bytes reward) 0 in
            (Ret (), EconoAccruePayout w5 (big_Uint64 reward) (isProTask taskIdBytes) 0))
        else putSlot w2 task_addr paid_key (int newPaid) (\<lambda>w3. (Ret (), w3)))"

definition ret_ok :: "unit outcome \<times> World \<Rightarrow> bytes outcome \<times> World" where
  "ret_ok r = (case r of (Ret _, w) \<Rightarrow> (Ret [1], w) | (Err e, w) \<Rightarrow> (Err e, w) | (Panic, w) \<Rightarrow> (Panic, w))"

subsection \<open>Quests\<close>

definition taskClaim :: "bytes \<Rightarrow> call" where
  "taskClaim spare input caller w b =
     with_slice spare input 4 36 w (\<lambda>taskIdBytes.
       (Ret [1], sstore (touch w caller) caller (claim_key caller) (claim_slot taskIdBytes 1)))"

definition taskVerify :: "bytes \<Rightarrow> call" where
  "taskVerify spare input caller w b =
     with_slice spare input 4 36 w (\<lambda>taskIdBytes.
       let claimant = readAddress input 36 in
       if \<not> level_at_least 2 w caller then (Err (Errorf ''unauthorized: need badge''), w)
       else ret_ok (verifyAndPay w taskIdBytes (hex_encode claimant)))"

definition taskAutoVerify :: "bytes \<Rightarrow> call" where
  "taskAutoVerify spare input caller w b =
     with_slice spare input 4 36 w (\<lambda>taskIdBytes.
       let claimant = readAddress input 36 in
       if \<not> isAutopilot caller w
       then (Err (Errorf ''unauthorized: caller is not the designated autopilot''), w)
       else if \<not> isAutoEligible taskIdBytes
       then (Err (Errorf ''task is not auto-eligible; use human taskVerify''), w)
       else ret_ok (verifyAndPay w taskIdBytes (hex_encode claimant)))"

definition questSetAutopilot :: call where
  "questSetAutopilot input caller w b =
     (let addr = readAddress input 4 in
      if \<not> level_at_least 3 w caller then (Err (Errorf ''unauthorized: need Dox_Dev L3''), w)
      else (Ret [1], sstore (touch w task_addr) task_addr autopilot_key (copy_at 12 addr zero_slot)))"

definition questGetAutopilot :: call where
  "questGetAutopilot input caller w b = (Ret (bytes_of_string (autopilotAddress w)), w)"

definition taskStatus :: "bytes \<Rightarrow> call" where
  "taskStatus spare input caller w b =
     with_slice spare input 4 36 w (\<lambda>_.
       (Ret (bytes_of_string (case GetAccount w caller of
          None \<Rightarrow> ''none'' | Some _ \<Rightarrow> task_status (sload w caller (claim_key caller)))), w))"

text \<open>The account is dereferenced without a nil check.\<close>

definition taskStatusOf :: call where
  "taskStatusOf input caller w b =
     (let claimantAddr = hex_encode (readAddress input 36) in
      case GetAccount w claimantAddr of
        None \<Rightarrow> (Panic, w)
      | Some _ \<Rightarrow> (Ret (bytes_of_string (task_status (sload w claimantAddr (claim_key claimantAddr)))), w))"

definition getTaskReward :: "bytes \<Rightarrow> call" where
  "getTaskReward spare input caller w b =
     with_slice spare input 4 36 w (\<lambda>taskIdBytes.
       (Ret (writeUint64 (big_Uint64 (taskRewardAmount taskIdBytes))), w))"

definition questPoolRemaining :: call where
  "questPoolRemaining input caller w b =
     (case GetAccount w treasury_addr of
        None \<Rightarrow> (Ret zero_slot, w)
      | Some acc \<Rightarrow> (Ret (writeUint64 (big_Uint64 (nat \<bar>Balance acc\<bar>))), w))"

definition questFund :: "bytes \<Rightarrow> call" where
  "questFund spare input caller w b =
     with_slice spare input 4 36 w (\<lambda>amount.
       (Ret [1], add_balance (touch w treasury_addr) treasury_addr (int (be_nat amount))))"

definition giveaway_key :: "string \<Rightarrow> slot" where
  "giveaway_key a = storageKey (0x11 # bytes_of_string a)"

definition giveawayClaim :: "bytes \<Rightarrow> call" where
  "giveawayClaim spare input caller w b =
     with_slice spare input 4 36 w (\<lambda>_.
       case GetAccount w caller of
         None \<Rightarrow> (Panic, w)
       | Some _ \<Rightarrow>
           if sload w caller (giveaway_key caller) ! 31 = 1 then (Err (Errorf ''already claimed''), w)
           else
             let w1 = sstore w caller (giveaway_key caller) (zero_slot[31 := 1]) in
             (case GetAccount w1 giveaway_addr of
                None \<Rightarrow> (Panic, w1)
              | Some _ \<Rightarrow>
                  if 5 \<le> balance_of w1 giveaway_addr
                  then (Ret [1], add_balance (add_balance w1 giveaway_addr (- 5)) caller 5)
                  else (Ret [1], w1)))"

subsection \<open>Bounties\<close>

definition bounty_key :: "nat \<Rightarrow> slot" where "bounty_key i = storageKey (0x20 # big_bytes i)"
definition fix_key :: "nat \<Rightarrow> slot" where "fix_key i = storageKey (0x18 # big_bytes i)"
definition delegated_key :: "bytes \<Rightarrow> slot" where "delegated_key d = storageKey (0x19 # d)"

definition bounty_slot :: "u8 \<Rightarrow> u8 \<Rightarrow> nat \<Rightarrow> slot" where
  "bounty_slot t lane amount = copy_at 2 (take 30 (big_bytes amount)) (zero_slot[0 := t, 1 := lane])"

definition registerBounty :: "bytes \<Rightarrow> call" where
  "registerBounty spare input caller w b =
     with_byte input 4 w (\<lambda>bountyType.
     with_slice spare input 5 37 w (\<lambda>amount.
     with_byte input 37 w (\<lambda>lane.
     with_slice spare input 38 70 w (\<lambda>descHash.
       case GetAccount w task_addr of
         None \<Rightarrow> (Panic, w)
       | Some _ \<Rightarrow>
           (Ret [1], sstore w task_addr (bounty_key (be_nat descHash)) (bounty_slot bountyType lane (be_nat amount)))))))"

definition claimFix :: "bytes \<Rightarrow> call" where
  "claimFix spare input caller w b =
     with_slice spare input 4 36 w (\<lambda>bountyId.
     with_slice spare input 36 68 w (\<lambda>prHash.
       (Ret [1], sstore (touch w caller) caller (fix_key (be_nat bountyId))
          ((copy_at 0 (big_bytes (be_nat prHash)) zero_slot)[31 := 1]))))"

definition verifyFix :: "bytes \<Rightarrow> call" where
  "verifyFix spare input caller w b =
     with_slice spare input 4 36 w (\<lambda>bountyId.
       let claimantAddr = hex_encode (readAddress input 36) in
       if \<not> level_at_least 2 w caller then (Err (Errorf ''unauthorized: need badge''), w)
       else
         let w1 = sstore (touch w claimantAddr) claimantAddr (fix_key (be_nat bountyId)) (zero_slot[31 := 2]) in
         (case GetAccount w1 task_addr of
            None \<Rightarrow> (Panic, w1)
          | Some _ \<Rightarrow>
              let amount = int (readBigInt (sload w1 task_addr (bounty_key (be_nat bountyId))));
                  w2 = touch (touch w1 treasury_addr) claimantAddr in
              if amount \<le> balance_of w2 treasury_addr
              then (Ret [1], add_balance (add_balance w2 treasury_addr (- amount)) claimantAddr amount)
              else (Ret [1], w2)))"

text \<open>
  \<^verbatim>\<open>Mul(bounty, 8).Div(bounty, 10)\<close> stores a tenth of the bounty: the product is overwritten.
\<close>

definition delegateMicroTask :: "bytes \<Rightarrow> call" where
  "delegateMicroTask spare input caller w b =
     with_slice spare input 4 36 w (\<lambda>bountyId.
       let registrant = readAddress input 36; i = be_nat bountyId in
     with_slice spare input 56 88 w (\<lambda>amount.
       if \<not> level_at_least 2 w caller then (Err (Errorf ''unauthorized: need professional badge''), w)
       else
         (case GetAccount w task_addr of
            None \<Rightarrow> (Panic, w)
          | Some _ \<Rightarrow>
              let bounty = readBigInt (sload w task_addr (bounty_key i));
                  alreadyDelegated = readBigInt (sload w caller (delegated_key (big_bytes i)));
                  total = alreadyDelegated + be_nat amount in
              if bounty div 10 < total then (Err (Errorf ''exceeds 80% delegation limit''), w)
              else (Ret [1], sstore w caller (delegated_key (big_bytes i @ registrant))
                     (copy_at 0 (big_bytes (be_nat amount)) zero_slot)))))"

subsection \<open>Community tasks\<close>

definition community_key :: "bytes \<Rightarrow> slot" where "community_key taskId = storageKey (0x30 # taskId)"
definition escrow_key :: "bytes \<Rightarrow> slot" where "escrow_key taskId = storageKey (0x31 # taskId)"

definition community_record :: "u8 \<Rightarrow> u8 \<Rightarrow> nat \<Rightarrow> slot" where
  "community_record minLevel verifyMode reward =
     (let rb = big_bytes reward in copy_at (32 - length rb) rb (zero_slot[0 := minLevel, 1 := verifyMode]))"

definition createTask :: "bytes \<Rightarrow> call" where
  "createTask spare input caller w b =
     with_slice spare input 4 36 w (\<lambda>taskId.
     with_slice spare input 36 68 w (\<lambda>reward.
     with_byte input 68 w (\<lambda>minLevel.
     with_byte input 69 w (\<lambda>verifyMode.
       if be_nat reward = 0 then (Err (Errorf ''reward must be > 0''), w)
       else (Ret [1], sstore (touch w task_addr) task_addr (community_key taskId)
              (community_record minLevel verifyMode (be_nat reward)))))))"

definition task_escrow :: "World \<Rightarrow> bytes \<Rightarrow> nat" where
  "task_escrow w taskId = readBigInt (sload w task_addr (escrow_key taskId))"

definition escrowTask :: "bytes \<Rightarrow> call" where
  "escrowTask spare input caller w0 b =
     with_slice spare input 4 36 w0 (\<lambda>taskId.
     with_slice spare input 36 68 w0 (\<lambda>amountBytes.
       let amount = be_nat amountBytes; w = touch w0 caller in
       if balance_of w caller < int amount then (Err (Errorf ''insufficient balance to escrow''), w)
       else
         let w1 = touch w task_addr; esc = task_escrow w1 taskId + amount in
         if 256 ^ 32 \<le> esc then (Panic, w1)
         else
           let w2 = add_balance w1 task_addr (int amount);
               w3 = sstore w2 task_addr (escrow_key taskId) (fill_be 32 esc) in
           (Ret [1], add_balance w3 caller (- int amount))))"

definition verifyCommunity :: "bytes \<Rightarrow> call" where
  "verifyCommunity spare input caller w0 b =
     with_slice spare input 4 36 w0 (\<lambda>taskId.
       let claimantAddr = hex_encode (readAddress input 36); w = touch w0 task_addr;
           rec = sload w task_addr (community_key taskId) in
       if rec ! 0 = 0 \<and> rec ! 1 = 0 then (Err (Errorf ''unknown task''), w)
       else
         let verifyMode = rec ! 1; reward = be_nat (slice 2 32 rec) in
         if verifyMode = 0 \<and> \<not> isAutopilot caller w
         then (Err (Errorf ''unauthorized: need autopilot oracle''), w)
         else if verifyMode \<noteq> 0 \<and> \<not> level_at_least 2 w caller
         then (Err (Errorf ''unauthorized: need Dox_Dev L2 verifier''), w)
         else
           let esc = task_escrow w taskId; src = (if 0 < esc then task_addr else treasury_addr);
               w1 = sstore (touch w claimantAddr) claimantAddr (claim_key claimantAddr) (claim_slot taskId 2);
               w2 = touch (touch w1 src) claimantAddr;
               w3 = (if 0 < esc then sstore w2 task_addr (escrow_key taskId) (fill_be 32 (esc - reward)) else w2);
               w4 = (if int reward \<le> balance_of w3 src then add_balance w3 src (- int reward) else w3) in
           (Ret [1], add_balance w4 claimantAddr (int reward)))"

definition getTask :: "bytes \<Rightarrow> call" where
  "getTask spare input caller w0 b =
     with_slice spare input 4 36 w0 (\<lambda>taskId.
       let w = touch w0 task_addr in (Ret (sload w task_addr (community_key taskId)), w))"

definition task_table :: "bytes \<Rightarrow> (u32 \<times> call) list" where
  "task_table spare =
    [(0xA1B2C3D4, taskClaim spare), (0xB2C3D4E5, taskVerify spare), (0x04A78446, taskAutoVerify spare),
     (0x7680323F, questSetAutopilot), (0x79B592DB, questGetAutopilot), (0xC3D4E5F6, taskStatus spare),
     (0xB5C0A0CF, taskStatusOf), (0xE32481A4, getTaskReward spare), (0xDF95446F, questPoolRemaining),
     (0xCEA1B2C3, questFund spare), (0xE5F6A7B8, giveawayClaim spare), (0x24A5B6C7, registerBounty spare),
     (0x35B6C7D8, claimFix spare), (0x46C7D8E9, verifyFix spare), (0x58E9F0A1, delegateMicroTask spare),
     (0x71C2D3E4, createTask spare), (0x82D3E4F5, escrowTask spare), (0x93E4F5A6, verifyCommunity spare),
     (0xA4F5A6B7, getTask spare)]"

definition taskRegistryPrecompile :: "bytes \<Rightarrow> call" where
  "taskRegistryPrecompile spare input caller w b =
     (if length input < 4 then (Err (Errorf ''input too short''), w)
      else switch (task_table spare) (unknown_selector ''unknown selector'') (selectorBytes input) input caller w b)"

subsection \<open>The quest cap\<close>

lemma EconoAccruePayout_frame [simp]:
  "acct (EconoAccruePayout w v p b) a = acct w a" "sload (EconoAccruePayout w v p b) a k = sload w a k"
  "balance_of (EconoAccruePayout w v p b) a = balance_of w a"
  by (simp_all add: EconoAccruePayout_def Let_def)

lemma paid_key_apart: "paid_key \<noteq> storageKey [waySupplySlot]"
  unfolding paid_key_def storageKey_def waySupplySlot_def by code_simp

lemma task_addresses [simp]:
  "task_addr \<noteq> treasury_addr" "treasury_addr \<noteq> task_addr" "giveaway_addr \<noteq> treasury_addr"
  "giveaway_addr \<noteq> task_addr"
  by (simp_all add: task_addr_def treasury_addr_def giveaway_addr_def PrecompileAddrHex_def fmt_02x_def
      hex_encode_def hex_digit_def)

text \<open>The registry's own claim record, should it be named as a claimant, is none of its counters.\<close>

lemma own_claim_apart: "claim_key task_addr \<noteq> paid_key" "claim_key task_addr \<noteq> storageKey [waySupplySlot]"
  unfolding claim_key_def paid_key_def storageKey_def waySupplySlot_def by code_simp+

text \<open>The fate of a verification within the cap.\<close>

lemma verifyAndPay_Ret:
  assumes v: "verifyAndPay w taskId claimant = (Ret u, w')"
  defines "reward \<equiv> taskRewardAmount taskId"
  shows "quest_paid w' = quest_paid w + reward" "quest_paid w' \<le> QuestCap w'" "QuestCap w' = QuestCap w"
    and "sload w' claimant (claim_key claimant) = claim_slot taskId 2"
    and "\<forall>a. balance_of w' a = balance_of w a
           + (if int reward \<le> balance_of w treasury_addr
              then (if a = claimant then int reward else 0) - (if a = treasury_addr then int reward else 0)
              else 0)"
proof -
  let ?w1 = "touch (touch (sstore (touch (touch w task_addr) claimant) claimant (claim_key claimant)
    (claim_slot taskId 2)) treasury_addr) claimant"
  let ?w3 = "add_balance (add_balance ?w1 treasury_addr (- int reward)) claimant (int reward)"
  have cap: "quest_paid w + reward \<le> QuestCap w"
    using v by (auto simp: verifyAndPay_def Let_def reward_def quest_paid_def QuestCap_def QuestTotalSupply_def
        split: if_splits)
  define pay where "pay \<longleftrightarrow> int reward \<le> balance_of w treasury_addr"
  have bound: "quest_paid w + reward < 256 ^ 32" and
    w': "w' = (if pay then EconoAccruePayout (AddLog (sstore ?w3 task_addr paid_key (fill_be 32 (quest_paid w + reward)))
             task_addr [sha256 (bytes_of_string ''TaskPaid''), sha256 taskId] (big_bytes reward) 0)
             (big_Uint64 reward) (isProTask taskId) 0
          else sstore ?w1 task_addr paid_key (fill_be 32 (quest_paid w + reward)))"
    using v cap
    by (auto simp: verifyAndPay_def Let_def reward_def quest_paid_def QuestCap_def QuestTotalSupply_def
        pay_def simp flip: of_nat_add split: if_splits dest!: putSlot_Ret)
  show paid: "quest_paid w' = quest_paid w + reward"
    using bound by (auto simp: w' quest_paid_def sload_sstore readBigInt_fill)
  show same: "QuestCap w' = QuestCap w"
    using own_claim_apart paid_key_apart
    by (auto simp: w' QuestCap_def QuestTotalSupply_def sload_sstore simp flip: task_addr_def)
  show "quest_paid w' \<le> QuestCap w'"
    using cap by (simp add: paid same)
  show "sload w' claimant (claim_key claimant) = claim_slot taskId 2"
    using own_claim_apart by (auto simp: w' sload_sstore)
  show "\<forall>a. balance_of w' a = balance_of w a
           + (if int reward \<le> balance_of w treasury_addr
              then (if a = claimant then int reward else 0) - (if a = treasury_addr then int reward else 0)
              else 0)"
    by (auto simp: w' balance_of_add_balance pay_def)
qed

lemma verifyAndPay_capped:
  assumes "QuestCap w < quest_paid w + taskRewardAmount taskId"
  shows "verifyAndPay w taskId claimant = (Err (Errorf ''quest cap reached''), touch w task_addr)"
  using assms by (simp add: verifyAndPay_def Let_def quest_paid_def QuestCap_def QuestTotalSupply_def)

text \<open>A second verification of the same task is paid again.\<close>

lemma verified_again:
  assumes v: "verifyAndPay w taskId claimant = (Ret u, w')"
    and cap: "quest_paid w' + taskRewardAmount taskId \<le> QuestCap w'" "QuestCap w' < 256 ^ 32"
  shows "\<exists>u w''. verifyAndPay w' taskId claimant = (Ret u, w'')"
proof -
  have "quest_paid w' + taskRewardAmount taskId < 256 ^ 32"
    using cap by linarith
  then show ?thesis
    using cap(1)
    by (simp add: verifyAndPay_def Let_def quest_paid_def QuestCap_def QuestTotalSupply_def putSlot_cases
        flip: of_nat_add)
qed

subsection \<open>Money\<close>

definition holdings :: "string set \<Rightarrow> World \<Rightarrow> int" where
  "holdings S w = (\<Sum>a\<in>S. balance_of w a)"

lemma holdings_frame [simp]:
  "holdings S (touch w x) = holdings S w" "holdings S (sstore w x k v) = holdings S w"
  "holdings S (AddLog w x t d n) = holdings S w" "holdings S (EconoAccruePayout w n2 p b) = holdings S w"
  by (simp_all add: holdings_def)

lemma holdings_add_balance:
  assumes "finite S" "a \<in> S"
  shows "holdings S (add_balance w a d) = holdings S w + d"
  using assms by (simp add: holdings_def balance_of_add_balance sum.distrib)

lemma holdings_putSlot:
  assumes "holdings S w' = h" "\<And>sl. holdings S (snd (rest (sstore w' a k sl))) = h"
  shows "holdings S (snd (putSlot w' a k v rest)) = h"
  using assms by (auto simp: putSlot_def split: outcome.split)

lemma holdings_with_slice:
  "holdings S w = h \<Longrightarrow> (\<And>x. holdings S (snd (rest x)) = h) \<Longrightarrow> holdings S (snd (with_slice spare input lo hi w rest)) = h"
  by (simp add: with_slice_def)

lemma holdings_with_byte:
  "holdings S w = h \<Longrightarrow> (\<And>x. holdings S (snd (rest x)) = h) \<Longrightarrow> holdings S (snd (with_byte input i w rest)) = h"
  by (simp add: with_byte_def)

lemma holdings_verifyAndPay:
  assumes "finite S" "treasury_addr \<in> S" "claimant \<in> S"
  shows "holdings S (snd (verifyAndPay w taskId claimant)) = holdings S w"
  using assms
  by (auto simp: verifyAndPay_def Let_def holdings_add_balance intro!: holdings_putSlot)

lemma snd_ret_ok [simp]: "snd (ret_ok r) = snd r"
  by (auto simp: ret_ok_def split: prod.splits outcome.splits)

definition pays :: "bytes \<Rightarrow> string \<Rightarrow> string set" where
  "pays input caller = {treasury_addr, giveaway_addr, task_addr, caller, hex_encode (readAddress input 36)}"

definition minting_selectors :: "u32 set" where
  "minting_selectors = {0xCEA1B2C3, 0x93E4F5A6}"

lemma task_table_conserves:
  assumes S: "finite S" "pays input caller \<subseteq> S"
    and f: "(s, f) \<in> set (task_table spare)" "s \<notin> minting_selectors"
  shows "holdings S (snd (f input caller w b)) = holdings S w"
  using f S
  by (auto simp: task_table_def minting_selectors_def pays_def taskClaim_def taskVerify_def taskAutoVerify_def
      questSetAutopilot_def questGetAutopilot_def taskStatus_def taskStatusOf_def getTaskReward_def
      questPoolRemaining_def giveawayClaim_def registerBounty_def claimFix_def verifyFix_def
      delegateMicroTask_def createTask_def escrowTask_def getTask_def Let_def holdings_verifyAndPay
      holdings_add_balance split: option.splits intro!: holdings_with_slice holdings_with_byte)

lemma registry_conserves:
  assumes "finite S" "pays input caller \<subseteq> S" "selectorBytes input \<notin> minting_selectors"
  shows "holdings S (snd (taskRegistryPrecompile spare input caller w b)) = holdings S w"
  using assms task_table_conserves[OF assms(1,2)]
  by (auto simp: taskRegistryPrecompile_def switch_def unknown_selector_def split: option.splits
      dest!: map_of_SomeD)

text \<open>The two exceptions create money: funding always, a community payment when the payer is short.\<close>

lemma fund_creates:
  assumes "36 \<le> length input" "finite S" "treasury_addr \<in> S"
  shows "holdings S (snd (questFund spare input caller w b)) = holdings S w + int (be_nat (slice 4 36 input))"
  using assms by (simp add: questFund_def with_slice_def slice_def holdings_add_balance)

definition community_payer :: "World \<Rightarrow> bytes \<Rightarrow> string" where
  "community_payer w taskId = (if 0 < task_escrow w taskId then task_addr else treasury_addr)"

lemma community_pays:
  assumes v: "verifyCommunity spare input caller w b = (Ret out, w')"
    and len: "36 \<le> length input" and S: "finite S" "pays input caller \<subseteq> S"
  defines "taskId \<equiv> slice 4 36 input"
  defines "reward \<equiv> int (be_nat (slice 2 32 (sload w task_addr (community_key taskId))))"
  shows "holdings S w' = holdings S w +
    (if reward \<le> balance_of w (community_payer w taskId) then 0 else reward)"
proof -
  have id: "slice 4 36 (input @ spare) = taskId"
    using len by (simp add: taskId_def slice_def)
  show ?thesis
    using v len S
    by (auto simp: verifyCommunity_def with_slice_def Let_def id reward_def community_payer_def pays_def
        task_escrow_def holdings_add_balance split: if_splits)
qed

end
