(* ===== verification/Swap_Route.thy ===== *)
theory Swap_Route
  imports Trustless_Lock Sway
begin

text \<open>
  Precompile 0x25, the exchange (\<^verbatim>\<open>evm/swap_route.go\<close>): pairs, the quote of a swap with its SWAY reward,
  and liquidity, which mints SWAY and opens a time lock at 0x1A.
\<close>

definition swap_addr :: string where "swap_addr = PrecompileAddrHex 0x25"

definition srSlotPairCount :: u8 where "srSlotPairCount = 0x00"
definition srSlotPairPrefix :: u8 where "srSlotPairPrefix = 0x10"

definition srCreatePairSelector :: u32 where "srCreatePairSelector = 0x1a2b3c4d"
definition srSwapExactTokens0 :: u32 where "srSwapExactTokens0 = 0x2e878dc0"
definition srSwapExactTokens1 :: u32 where "srSwapExactTokens1 = 0x38ed1739"
definition srAddLiquiditySelector :: u32 where "srAddLiquiditySelector = 0xe868b10b"
definition srRemoveLiquiditySelector :: u32 where "srRemoveLiquiditySelector = 0xbaa2abde"
definition srGetPairSelector :: u32 where "srGetPairSelector = 0xe6a537a4"
definition srGetReservesSelector :: u32 where "srGetReservesSelector = 0x23312f44"

definition pair_id :: "bytes \<Rightarrow> bytes \<Rightarrow> bytes" where
  "pair_id token0 token1 = take 20 (sha256 (token0 @ token1))"

definition pair_key :: "bytes \<Rightarrow> slot" where
  "pair_key pairID = storageKey (srSlotPairPrefix # pairID)"

definition pair_count_key :: slot where "pair_count_key = zero_slot[0 := srSlotPairCount]"

text \<open>\<^verbatim>\<open>copy(pairData[20:], token1[:])\<close> keeps twelve of the twenty bytes.\<close>

definition pair_data :: "bytes \<Rightarrow> bytes \<Rightarrow> slot" where
  "pair_data token0 token1 = copy_at 20 (take 12 token1) (copy_at 0 token0 zero_slot)"

definition srCreatePair :: call where
  "srCreatePair input caller w0 b =
     (if (case GetAccount w0 caller of None \<Rightarrow> True | Some acc \<Rightarrow> DoxDevLevel acc < 2)
      then (Err (Errorf ''SwapRoute: createPair requires Dox_Dev Level 2+''), w0)
      else if length input < 44 then (Err (Errorf ''SwapRoute: createPair input too short''), w0)
      else
        let token0 = slice 4 24 input; token1 = slice 24 44 input; w = touch w0 swap_addr;
            pairID = pair_id token0 token1; pairStorageKey = pair_key pairID in
        if sload w swap_addr pairStorageKey ! 0 \<noteq> 0 then (Ret pairID, w)
        else
          let count = readUint64 (sload w swap_addr pair_count_key) + 1;
              w1 = sstore w swap_addr pair_count_key (writeUint64 count);
              w2 = sstore w1 swap_addr pairStorageKey (pair_data token0 token1) in
          (Ret pairID, w2))"

definition srGetPair :: call where
  "srGetPair input caller w0 b =
     (if length input < 44 then (Err (Errorf ''SwapRoute: getPair input too short''), w0)
      else
        let pairID = pair_id (slice 4 24 input) (slice 24 44 input); w = touch w0 swap_addr in
        if sload w swap_addr (pair_key pairID) ! 0 = 0 then (Ret (replicate 20 0), w) else (Ret pairID, w))"

definition selectorToBytes :: "u32 \<Rightarrow> bytes" where
  "selectorToBytes sel =
     [ucast (drop_bit 24 sel), ucast (drop_bit 16 sel), ucast (drop_bit 8 sel), ucast sel]"

definition liquidity_key :: slot where "liquidity_key = storageKey (bytes_of_string ''swaproute:liquidity'')"
definition reserve0_key :: slot where "reserve0_key = storageKey (bytes_of_string ''swaproute:reserve0'')"
definition reserve1_key :: slot where "reserve1_key = storageKey (bytes_of_string ''swaproute:reserve1'')"

text \<open>An error of the reward mint is dropped; a panic is not.\<close>

definition try_mint :: "World \<Rightarrow> string \<Rightarrow> nat \<Rightarrow> (World \<Rightarrow> 'a outcome \<times> World) \<Rightarrow> 'a outcome \<times> World" where
  "try_mint w caller amount rest =
     (case swayMintInternal w caller amount ''dexLP'' of
        (Panic, w1) \<Rightarrow> (Panic, w1)
      | (_, w1) \<Rightarrow> rest w1)"

definition lock_input :: "slot \<Rightarrow> slot \<Rightarrow> string \<Rightarrow> bytes" where
  "lock_input amountSlot periodSlot caller =
     selectorToBytes trustlessCreateTimeLockSelector @ replicate 20 0 @ replicate 40 0
       @ amountSlot @ periodSlot @ take 20 (bytes_of_string caller)"

definition srAddLiquidity :: call where
  "srAddLiquidity input caller w0 b =
     (if length input < 68 then (Err (Errorf ''SwapRoute: addLiquidity input too short''), w0)
      else
        let amount0 = readBigInt (readSlot input 4); amount1 = readBigInt (readSlot input 36);
            w = touch w0 swap_addr; totalLiq = readBigInt (sload w swap_addr liquidity_key);
            liquidity = amount0 + amount1 in
        putSlot w swap_addr liquidity_key (int (totalLiq + liquidity)) (\<lambda>w1.
        try_mint w1 caller 100 (\<lambda>w2.
          case writeSlot (int liquidity) of
            Ret amountSlot \<Rightarrow>
              (case writeSlot 2592000 of
                 Ret periodSlot \<Rightarrow>
                   (case trustlessLockPrecompile (lock_input amountSlot periodSlot caller) caller w2 b of
                      (Panic, w3) \<Rightarrow> (Panic, w3)
                    | (_, w3) \<Rightarrow> (writeBigInt liquidity, w3))
               | _ \<Rightarrow> (Panic, w2))
          | _ \<Rightarrow> (Panic, w2))))"

definition srRemoveLiquidity :: call where
  "srRemoveLiquidity input caller w b =
     (Err (Errorf ''SwapRoute: removeLiquidity requires TrustlessLock integration - check lock status at 0x1A''), w)"

definition reserve :: "World \<Rightarrow> slot \<Rightarrow> nat" where
  "reserve w k = (let r = readBigInt (sload w swap_addr k) in if r = 0 then 1000000 else r)"

definition amount_out :: "nat \<Rightarrow> nat \<Rightarrow> nat \<Rightarrow> nat" where
  "amount_out r0 r1 amountIn = amountIn * 997 * r1 div (r0 * 1000 + amountIn * 997)"

definition srSwap :: call where
  "srSwap input caller w0 b =
     (if length input < 68 then (Err (Errorf ''SwapRoute: swap input too short''), w0)
      else
        let amountIn = readBigInt (readSlot input 4); amountOutMin = readBigInt (readSlot input 36);
            w = touch w0 swap_addr; r0 = reserve w reserve0_key; r1 = reserve w reserve1_key;
            amountOut = amount_out r0 r1 amountIn in
        if amountOut < amountOutMin then (Err (Errorf ''SwapRoute: insufficient output amount''), w)
        else
          let feeAmount = amountIn * 3 div 1000 in
          try_mint w caller feeAmount (\<lambda>w1. (writeBigInt amountOut, w1)))"

definition srGetReserves :: call where
  "srGetReserves input caller w b = (Ret (replicate 64 0), w)"

definition swap_table :: "(u32 \<times> call) list" where
  "swap_table =
    [(srCreatePairSelector, srCreatePair), (srSwapExactTokens0, srSwap), (srSwapExactTokens1, srSwap),
     (srAddLiquiditySelector, srAddLiquidity), (srRemoveLiquiditySelector, srRemoveLiquidity),
     (srGetPairSelector, srGetPair), (srGetReservesSelector, srGetReserves)]"

definition swapRoutePrecompile :: call where
  "swapRoutePrecompile input caller w b =
     (if length input < 4 then (Err (Errorf ''SwapRoute: input too short''), w)
      else switch swap_table (unknown_selector ''SwapRoute: unknown selector'')
             (selectorBytes input) input caller w b)"

subsection \<open>The quote\<close>

text \<open>A quote never reaches the reserve, and paying it out keeps the product of the reserves.\<close>

lemma amount_out_bound:
  assumes "0 < r0"
  shows "amount_out r0 r1 a * (r0 * 1000 + a * 997) \<le> a * 997 * r1"
  unfolding amount_out_def by simp

lemma amount_out_less:
  assumes "0 < r0" "0 < r1"
  shows "amount_out r0 r1 a < r1"
proof (rule ccontr)
  assume "\<not> amount_out r0 r1 a < r1"
  then have "r1 * (r0 * 1000 + a * 997) \<le> a * 997 * r1"
    using amount_out_bound[OF assms(1), of r1 a]
    by (meson mult_le_mono1 not_le order_trans)
  then show False
    using assms by (simp add: algebra_simps)
qed

lemma constant_product:
  assumes "0 < r0" "0 < r1"
  shows "r0 * r1 \<le> (r0 + a) * (r1 - amount_out r0 r1 a)"
proof -
  let ?o = "amount_out r0 r1 a"
  have "?o * (r0 * 1000 + a * 997) \<le> a * 997 * r1"
    by (rule amount_out_bound[OF assms(1)])
  then have "997 * (?o * (r0 + a)) \<le> 997 * (a * r1)"
    by (simp add: algebra_simps)
  then have "?o * (r0 + a) \<le> a * r1"
    by simp
  moreover have "(r0 + a) * (r1 - ?o) = (r0 + a) * r1 - ?o * (r0 + a)"
    by (simp add: diff_mult_distrib2 mult.commute)
  ultimately show ?thesis
    by (simp add: algebra_simps)
qed

subsection \<open>Confinement\<close>

lemma store_big_confined:
  "store_big w' a k v = Some w'' \<Longrightarrow> confined A w w' \<Longrightarrow> a \<in> A \<Longrightarrow> confined A w w''"
  by (auto simp: store_big_cases split: if_splits intro: confined_sstore)

lemma swayMint_confined:
  assumes "confined A w w'" "sway_addr \<in> A" "to \<in> A"
  shows "confined A w (snd (swayMintInternal w' to amount bucket))"
proof -
  have "confined A w' (snd (swayMintInternal w' to amount bucket))"
    using assms(2,3)
    by (auto simp: swayMintInternal_def Let_def split: option.splits dest!: store_big_confined[where A = A])
  then show ?thesis
    by (rule confined_trans[OF assms(1)])
qed

lemma try_mint_confined:
  assumes "confined A w w'" "sway_addr \<in> A" "caller \<in> A"
    and "\<And>w1. confined A w w1 \<Longrightarrow> confined A w (snd (rest w1))"
  shows "confined A w (snd (try_mint w' caller amount rest))"
proof -
  obtain r w1 where m: "swayMintInternal w' caller amount ''dexLP'' = (r, w1)"
    by force
  have "confined A w w1"
    using swayMint_confined[OF assms(1-3), of amount "''dexLP''"] by (simp add: m)
  then show ?thesis
    using assms(4) by (cases r) (simp_all add: try_mint_def m)
qed

lemma swap_confined: "confined {sway_addr, caller} w (snd (srSwap input caller w b))"
  by (auto simp: srSwap_def Let_def intro!: try_mint_confined)

abbreviation swap_accounts :: "string \<Rightarrow> string set" where
  "swap_accounts caller \<equiv> {swap_addr, sway_addr, lock_addr, caller}"

lemma locks_confined:
  assumes "trustlessLockPrecompile inp c w' b = (r, w2)" "confined (swap_accounts caller) w w'"
  shows "confined (swap_accounts caller) w w2"
  using locks.entry_confined[of w' inp c b] assms by (auto simp: confined_def)

lemma liquidity_confined: "confined (swap_accounts caller) w (snd (srAddLiquidity input caller w b))"
  by (auto simp: srAddLiquidity_def Let_def split: outcome.splits prod.splits
      intro!: confined_putSlot try_mint_confined dest: locks_confined)

interpretation swap: caller_contract swapRoutePrecompile swap_accounts
proof unfold_locales
  fix w input caller b
  have "confined (swap_accounts caller) w (snd (srSwap input caller w b))"
    using swap_confined[of caller w input b] by (auto simp: confined_def)
  then have "confined (swap_accounts caller) w
    (snd (switch swap_table (unknown_selector ''SwapRoute: unknown selector'') sel input caller w b))" for sel
    by (intro confined_switch)
      (auto simp: swap_table_def unknown_selector_def liquidity_confined srCreatePair_def srGetPair_def
        srRemoveLiquidity_def srGetReserves_def Let_def intro!: confined_sstore)
  then show "confined (swap_accounts caller) w (snd (swapRoutePrecompile input caller w b))"
    by (simp add: swapRoutePrecompile_def)
qed

text \<open>A swap pays from no reserve: the quote of the next swap is the same.\<close>

lemma swap_reserve:
  assumes "caller \<noteq> swap_addr"
  shows "reserve (snd (srSwap input caller w b)) k = reserve w k"
proof -
  have "swap_addr \<notin> {sway_addr, caller}"
    using assms by (auto simp: swap_addr_def sway_addr_def PrecompileAddrHex_def fmt_02x_def hex_encode_def hex_digit_def)
  then show ?thesis
    using swap_confined[of caller w input b] by (simp add: confined_def reserve_def sload_def)
qed

lemma swap_quote:
  assumes "srSwap input caller w b = (Ret out, w')"
  defines "q \<equiv> amount_out (reserve w reserve0_key) (reserve w reserve1_key) (readBigInt (readSlot input 4))"
  shows "out = fill_be 32 q \<and> readBigInt (readSlot input 36) \<le> q \<and> q < 256 ^ 32"
proof -
  have "writeBigInt q = Ret out \<and> readBigInt (readSlot input 36) \<le> q"
    using assms(1)
    by (auto simp: srSwap_def Let_def try_mint_def q_def reserve_def split: if_splits outcome.splits prod.splits)
  then show ?thesis
    by (auto simp: writeBigInt_cases split: if_splits)
qed

end
