(* ===== verification/Template_Registry.thy ===== *)
theory Template_Registry
  imports Governance
begin

text \<open>
  Precompile 0x26, the contract templates (\<^verbatim>\<open>evm/template_registry.go\<close>), and precompile 0x21, the
  Keccak-256 bridge (\<^verbatim>\<open>evm/keccak_precompile.go\<close>). The Keccak digest itself is computed by an imported
  package and is a parameter.
\<close>

definition tr_addr :: string where "tr_addr = PrecompileAddrHex 0x26"

definition trSlotRegistrar :: u8 where "trSlotRegistrar = 0x01"
definition trTemplatePrefix :: u8 where "trTemplatePrefix = 0x10"
definition TemplateTypeAttestation :: u8 where "TemplateTypeAttestation = 0x01"
definition TemplateTypeTrustlessLock :: u8 where "TemplateTypeTrustlessLock = 0x02"
definition TemplateTypeDeadMansSwitch :: u8 where "TemplateTypeDeadMansSwitch = 0x03"
definition TemplateTypeStorageEndowment :: u8 where "TemplateTypeStorageEndowment = 0x04"

lemmas template_types = TemplateTypeAttestation_def TemplateTypeTrustlessLock_def
  TemplateTypeDeadMansSwitch_def TemplateTypeStorageEndowment_def

definition trRegisterSelector :: u32 where "trRegisterSelector = 0x7cbd749e"
definition trDeploySelector :: u32 where "trDeploySelector = 0x1de26edf"
definition trGetSelector :: u32 where "trGetSelector = 0x8ecfe43a"
definition trCheckRegistrarSelector :: u32 where "trCheckRegistrarSelector = 0x47b4d00d"

definition registrar_key :: "bytes \<Rightarrow> slot" where
  "registrar_key addr = sha256 (trSlotRegistrar # addr)"

definition template_key :: "bytes \<Rightarrow> slot" where
  "template_key templateID = storageKey (trTemplatePrefix # templateID)"

definition template_record :: "u8 \<Rightarrow> string \<Rightarrow> bytes \<Rightarrow> slot" where
  "template_record t caller templateID =
     copy_at 18 (take 14 templateID) (copy_at 2 (take 16 (bytes_of_string caller)) (zero_slot[0 := t, 1 := 1]))"

definition trRegisterTemplate :: call where
  "trRegisterTemplate input caller w0 b =
     (let w = touch w0 tr_addr; callerAddr = copy_at 0 (take 20 (bytes_of_string caller)) (replicate 20 0) in
      if readUint64 (sload w tr_addr (registrar_key callerAddr)) = 0
         \<and> (case GetAccount w caller of None \<Rightarrow> True | Some acc \<Rightarrow> DoxDevLevel acc < 2)
      then (Err (Errorf ''TemplateRegistry: only registrars or L2+ can register templates''), w)
      else if length input < 37
      then (Err (Errorf ''TemplateRegistry: registerTemplate input too short''), w)
      else
        let templateID = slice 4 36 input; templateKey = template_key templateID in
        if sload w tr_addr templateKey ! 0 \<noteq> 0
        then (Err (Errorf ''TemplateRegistry: template already exists''), w)
        else
          let count = readUint64 (sload w tr_addr zero_slot) + 1;
              w1 = sstore w tr_addr zero_slot (writeUint64 count);
              w2 = sstore w1 tr_addr templateKey (template_record (input ! 36) caller templateID) in
          (Ret [1], w2))"

definition requiredLevel :: "u8 \<Rightarrow> u8" where
  "requiredLevel t =
     (if t = TemplateTypeAttestation then 1 else if t = TemplateTypeTrustlessLock then 1
      else if t = TemplateTypeDeadMansSwitch then 2 else if t = TemplateTypeStorageEndowment then 3 else 0)"

definition generateContractAddress :: "string \<Rightarrow> u64 \<Rightarrow> bytes" where
  "generateContractAddress caller nonce = take 20 (sha256 (bytes_of_string caller @ decimal nonce))"

definition trDeployTemplate :: call where
  "trDeployTemplate input caller w0 b =
     (if length input < 36 then (Err (Errorf ''TemplateRegistry: deployTemplate input too short''), w0)
      else
        let w = touch w0 tr_addr; templateData = sload w tr_addr (template_key (slice 4 36 input)) in
        if templateData ! 0 = 0 \<or> templateData ! 1 \<noteq> 1
        then (Err (Errorf ''TemplateRegistry: template not found or inactive''), w)
        else
          (case GetAccount w caller of
             None \<Rightarrow> (Err (Errorf ''TemplateRegistry: caller has no account''), w)
           | Some callerAcc \<Rightarrow>
               if DoxDevLevel callerAcc < requiredLevel (templateData ! 0)
               then (Err (Errorf ''TemplateRegistry: insufficient Dox_Dev level''), w)
               else
                 let contractAddr = generateContractAddress caller b;
                     count = readUint64 (sload w tr_addr zero_slot);
                     w1 = sstore w tr_addr zero_slot (writeUint64 (count + 1)) in
                 (Ret contractAddr, w1)))"

definition trGetTemplate :: call where
  "trGetTemplate input caller w0 b =
     (if length input < 36 then (Err (Errorf ''TemplateRegistry: getTemplate input too short''), w0)
      else
        let w = touch w0 tr_addr; templateData = sload w tr_addr (template_key (slice 4 36 input)) in
        if templateData ! 0 = 0 then (Err (Errorf ''TemplateRegistry: template not found''), w)
        else (Ret [templateData ! 0, templateData ! 1], w))"

definition trIsRegistrar :: call where
  "trIsRegistrar input caller w0 b =
     (let target = readAddress input 4; w = touch w0 tr_addr in
      (Ret (if readUint64 (sload w tr_addr (registrar_key target)) \<noteq> 0 then [1] else [0]), w))"

definition tr_table :: "(u32 \<times> call) list" where
  "tr_table =
    [(trRegisterSelector, trRegisterTemplate), (trDeploySelector, trDeployTemplate),
     (trGetSelector, trGetTemplate), (trCheckRegistrarSelector, trIsRegistrar)]"

definition templateRegistryPrecompile :: call where
  "templateRegistryPrecompile input caller w b =
     (if length input < 4 then (Err (Errorf ''TemplateRegistry: input too short''), w)
      else switch tr_table (unknown_selector ''TemplateRegistry: unknown selector'')
             (selectorBytes input) input caller w b)"

lemmas tr_ops = trRegisterTemplate_def trDeployTemplate_def trGetTemplate_def trIsRegistrar_def

interpretation templates: registry templateRegistryPrecompile tr_addr
proof unfold_locales
  fix w input caller b
  have "stays_in tr_addr w
    (snd (switch tr_table (unknown_selector ''TemplateRegistry: unknown selector'') sel input caller w b))" for sel
    by (rule stays_in_switch)
      (auto simp: tr_table_def unknown_selector_def tr_ops Let_def split: option.splits)
  then show "stays_in tr_addr w (snd (templateRegistryPrecompile input caller w b))"
    by (simp add: templateRegistryPrecompile_def)
qed

text \<open>A template is deployable from its registration on, by callers of the level of its type.\<close>

lemma registered:
  assumes "trRegisterTemplate input caller w b = (Ret out, w')"
    and "template_key (slice 4 36 input) \<noteq> zero_slot"
  shows "sload w' tr_addr (template_key (slice 4 36 input)) ! 0 = input ! 36"
    and "sload w' tr_addr (template_key (slice 4 36 input)) ! 1 = 1"
proof -
  have "sload w' tr_addr (template_key (slice 4 36 input)) = template_record (input ! 36) caller (slice 4 36 input)"
    using assms by (auto simp: trRegisterTemplate_def Let_def sload_sstore split: if_splits)
  then show "sload w' tr_addr (template_key (slice 4 36 input)) ! 0 = input ! 36"
    "sload w' tr_addr (template_key (slice 4 36 input)) ! 1 = 1"
    by (simp_all add: template_record_def nth_copy_at_below)
qed

lemma deploy_iff:
  assumes "36 \<le> length input" "templateData = sload w tr_addr (template_key (slice 4 36 input))"
  shows "(\<exists>out w'. trDeployTemplate input caller w b = (Ret out, w')) \<longleftrightarrow>
    templateData ! 0 \<noteq> 0 \<and> templateData ! 1 = 1 \<and>
    (\<exists>acc. GetAccount (touch w tr_addr) caller = Some acc \<and> requiredLevel (templateData ! 0) \<le> DoxDevLevel acc)"
  using assms by (auto simp: trDeployTemplate_def Let_def not_less split: option.splits)

subsection \<open>Keccak-256\<close>

definition keccakHashSel :: u32 where "keccakHashSel = 0x1901A39A"
definition keccakHash4Sel :: u32 where "keccakHash4Sel = 0x6963203C"

definition keccak256Precompile :: "(bytes \<Rightarrow> bytes) \<Rightarrow> call" where
  "keccak256Precompile keccakBytes input caller w b =
     (if length input < 4 then (Err (Errorf ''0x21: input too short''), w)
      else
        let sel = selectorBytes input in
        if sel = keccakHashSel then (Ret (keccakBytes (drop 4 input)), w)
        else if sel = keccakHash4Sel then (Ret (take 4 (keccakBytes (drop 4 input))), w)
        else (Err (Errorf ''0x21: unknown selector''), w))"

interpretation keccak: registry "keccak256Precompile keccakBytes" addr
  by unfold_locales (simp add: keccak256Precompile_def Let_def)

end
