(* ===== verification/Evm.thy ===== *)
theory Evm
  imports Oracle_Precompiles Oracle_Scheduler Bijo Bitcoin_Registry Storage_Endowment
    Stability_Pool Account_Manager Privacy State_Rent Cross_Chain Mineral_Rights Way_Stablecoin
    Task_Registry Swap_Route Template_Registry "HOL-Library.AList"
begin

text \<open>
  The execution layer: the table of precompiles (\<^verbatim>\<open>evm/precompiles.go\<close>), the dispatcher
  (\<^verbatim>\<open>evm/interpreter.go\<close>) and the bridge to the revm library (\<^verbatim>\<open>evm/revm_bridge.go\<close>).

  Parameters. \<open>V\<close> is \<^verbatim>\<open>ed25519.Verify\<close>. \<open>H\<close> holds the Keccak digest of the imported package and the
  bytes that lie behind a calldata in its array, up to the array's capacity. \<open>revm_execute\<close> is the
  foreign function that runs revm: the request to its response, \<open>None\<close> for a null or unreadable
  result. Its Rust side is \<^verbatim>\<open>revm-ffi\<close> of the repository, a wrapper of the external revm crate that is
  not modelled: what is proved here holds for every answer it may give. Text
  encodings of the request (hexadecimal rendering, JSON) are left out; the response keeps its
  strings, because the bridge parses them.
\<close>

record Host =
  keccakBytes :: "bytes \<Rightarrow> bytes"
  spare_of :: "bytes \<Rightarrow> bytes"

subsection \<open>The precompile table\<close>

record Precompile =
  pc_Address :: u8
  pc_Name :: string
  pc_Gas :: u64
  pc_Fn :: call

definition precompile :: "u8 \<Rightarrow> string \<Rightarrow> u64 \<Rightarrow> call \<Rightarrow> u8 \<times> Precompile" where
  "precompile a name gas fn = (a, \<lparr>pc_Address = a, pc_Name = name, pc_Gas = gas, pc_Fn = fn\<rparr>)"

definition PrecompilesTable :: "sig_verify \<Rightarrow> Host \<Rightarrow> (u8 \<times> Precompile) list" where
  "PrecompilesTable V H =
     [precompile 0x0C ''OracleAggregator'' 5000 (oracleAggregator V),
      precompile 0x0D ''OracleScheduler'' 3000 oracleScheduler,
      precompile 0x0E ''OracleVerifier'' 1500 (oracleVerifier V),
      precompile 0x0F ''TLSVerifier'' 10000 (tlsVerifier V),
      precompile 0x10 ''AggregateSignatureVerify'' 15000 (blsVerify V),
      precompile 0x11 ''AccountRecovery'' 8000 (accountRecovery V),
      precompile 0x12 ''StateRentCalc'' 2000 stateRentCalc,
      precompile 0x13 ''DoxDevBadge'' 5000 doxDevBadgePrecompile,
      precompile 0x14 ''BinaryJournal (BIJO)'' 5000 bijoPrecompile,
      precompile 0x15 ''DeadMansSwitch'' 5000 (\<lambda>input. deadManSwitchPrecompile (length (spare_of H input)) input),
      precompile 0x16 ''BitcoinRegistry'' 5000 bitcoinRegistryPrecompile,
      precompile 0x17 ''StorageEndowment'' 5000 storageEndowmentPrecompile,
      precompile 0x18 ''TwoWayVault'' 10000 twoWayVaultPrecompile,
      precompile 0x19 ''StabilityPool'' 8000 stabilityPoolPrecompile,
      precompile 0x1A ''TrustlessLock'' 5000 trustlessLockPrecompile,
      precompile 0x1B ''AccountManager'' 3000 accountManagerPrecompile,
      precompile 0x1C ''Privacy'' 10000 privacyPrecompile,
      precompile 0x1D ''Governance'' 5000 (\<lambda>input. governancePrecompile (length (spare_of H input)) input),
      precompile 0x1E ''StateRent'' 3000 stateRentPrecompile,
      precompile 0x1F ''CrossChainAttestation'' 5000 crossChainAttestationPrecompile,
      precompile 0x20 ''MineralRightsRegistry'' 8000 mineralRightsPrecompile,
      precompile 0x21 ''Keccak256'' 1000 (keccak256Precompile (keccakBytes H)),
      precompile 0x22 ''WayStablecoin'' 8000 wayStablecoinPrecompile,
      precompile 0x23 ''TaskRegistry'' 5000 (\<lambda>input. taskRegistryPrecompile (spare_of H input) input),
      precompile 0x24 ''SwayToken'' 5000 swayPrecompile,
      precompile 0x25 ''SwapRoute'' 6000 swapRoutePrecompile,
      precompile 0x26 ''TemplateRegistry'' 5000 templateRegistryPrecompile,
      precompile 0x27 ''GasFaucet'' 3000 faucetPrecompile]"

definition IsPrecompile :: "u8 \<Rightarrow> bool" where
  "IsPrecompile addr \<longleftrightarrow> 0x0C \<le> addr \<and> addr \<le> 0x27"

definition ExecutePrecompile ::
  "sig_verify \<Rightarrow> Host \<Rightarrow> u8 \<Rightarrow> bytes \<Rightarrow> string \<Rightarrow> World \<Rightarrow> u64 \<Rightarrow> (bytes outcome \<times> u64) \<times> World" where
  "ExecutePrecompile V H addr input caller w b =
     (case map_of (PrecompilesTable V H) addr of
        None \<Rightarrow> ((Err (Errorf ''unknown precompile''), 0), w)
      | Some pc \<Rightarrow> (let (result, w') = pc_Fn pc input caller w b in ((result, pc_Gas pc), w')))"

definition PrecompileGas :: "sig_verify \<Rightarrow> Host \<Rightarrow> u8 \<Rightarrow> u64" where
  "PrecompileGas V H addr =
     (case map_of (PrecompilesTable V H) addr of None \<Rightarrow> 0 | Some pc \<Rightarrow> pc_Gas pc)"

subsection \<open>Contexts and results\<close>

record EVM =
  evm_Lane :: LaneType
  BlockNum :: u64
  evm_Timestamp :: u64
  ChainID :: u64
  evm_GasLimit :: u64
  doxDevOracle :: string

definition NewEVM :: "LaneType \<Rightarrow> u64 \<Rightarrow> u64 \<Rightarrow> u64 \<Rightarrow> u64 \<Rightarrow> string \<Rightarrow> EVM" where
  "NewEVM lane blockNum timestamp chainID gasLimit doxDevAddr =
     \<lparr>evm_Lane = lane, BlockNum = blockNum, evm_Timestamp = timestamp, ChainID = chainID,
      evm_GasLimit = gasLimit, doxDevOracle = doxDevAddr\<rparr>"

record ExecutionResult =
  ReturnData :: bytes
  GasUsed :: u64
  er_Logs :: "LogEntry list"
  er_Error :: "go_error option"

definition result_ok :: "bytes \<Rightarrow> u64 \<Rightarrow> ExecutionResult" where
  "result_ok d g = \<lparr>ReturnData = d, GasUsed = g, er_Logs = [], er_Error = None\<rparr>"

definition result_err :: "bytes \<Rightarrow> u64 \<Rightarrow> go_error \<Rightarrow> ExecutionResult" where
  "result_err d g e = \<lparr>ReturnData = d, GasUsed = g, er_Logs = [], er_Error = Some e\<rparr>"

record CallContext =
  ctx_Caller :: string
  ctx_Address :: string
  ctx_Value :: int
  ctx_GasLimit :: u64
  ctx_Calldata :: bytes
  ctx_ReadOnly :: bool

subsection \<open>The bridge to revm\<close>

record revmAccountState =
  ra_Nonce :: u64
  ra_Balance :: int
  ra_Code :: bytes
  ra_Storage :: "(slot \<times> slot) list"

record revmExecuteRequest =
  rq_Caller :: string
  rq_Address :: string
  rq_Value :: "int option"
  rq_GasLimit :: u64
  rq_Calldata :: bytes
  rq_Code :: bytes
  rq_IsCreate :: bool
  rq_State :: "(string \<times> revmAccountState) list"

record revmAccountStateOut =
  ro_Nonce :: u64
  ro_Balance :: string
  ro_Code :: string
  ro_Storage :: "(string \<times> string) list"

record revmExecuteResponse =
  rs_Success :: bool
  rs_ReturnData :: string
  rs_GasUsed :: u64
  rs_Error :: string
  rs_State :: "(string \<times> revmAccountStateOut) list"
  rs_NewContract :: string

type_synonym revm = "revmExecuteRequest \<Rightarrow> revmExecuteResponse option"

text \<open>\<^verbatim>\<open>hex.DecodeString\<close> with its error ignored: the bytes decoded before the fault.\<close>

fun hex_decode_prefix :: "string \<Rightarrow> bytes" where
  "hex_decode_prefix (c # d # cs) =
     (case (hex_value c, hex_value d) of
        (Some h, Some l) \<Rightarrow> of_nat (16 * h + l) # hex_decode_prefix cs
      | _ \<Rightarrow> [])"
| "hex_decode_prefix _ = []"

definition decodeHexBytes :: "string \<Rightarrow> bytes" where
  "decodeHexBytes s = hex_decode_prefix (trim0x s)"

text \<open>\<^verbatim>\<open>SetString(s, 16)\<close>: an optional sign and at least one digit; a failure reads as zero.\<close>

fun hex_number :: "nat \<Rightarrow> string \<Rightarrow> nat option" where
  "hex_number acc [] = Some acc"
| "hex_number acc (c # cs) =
     (case hex_value c of None \<Rightarrow> None | Some d \<Rightarrow> hex_number (16 * acc + d) cs)"

definition parseHexBig :: "string \<Rightarrow> int" where
  "parseHexBig s0 =
     (let s = trim0x s0;
          neg = (take 1 s = ''-'');
          digits = (if neg \<or> take 1 s = ''+'' then drop 1 s else s) in
      if digits = [] then 0
      else case hex_number 0 digits of
             None \<Rightarrow> 0
           | Some n \<Rightarrow> (if neg then - int n else int n))"

definition toEvmAddr :: "string \<Rightarrow> string" where
  "toEvmAddr a =
     (let addr = trim0x a; raw = decodeHexBytes addr in
      if length raw = 20 then ''0x'' @ addr else ''0x'' @ hex_encode (take 20 (sha256 raw)))"

fun strip_zeros :: "string \<Rightarrow> string" where
  "strip_zeros (c # d # cs) = (if c = CHR ''0'' then strip_zeros (d # cs) else c # d # cs)"
| "strip_zeros s = s"

definition unpadHex :: "string \<Rightarrow> string" where
  "unpadHex s = strip_zeros (trim0x s)"

text \<open>\<^verbatim>\<open>copy(key[:], bytes)\<close> into a zeroed 32-byte array.\<close>

definition slot_of :: "bytes \<Rightarrow> slot" where
  "slot_of bs = copy_at 0 (take 32 bs) zero_slot"

definition put_code :: "bytes \<Rightarrow> Account \<Rightarrow> Account" where
  "put_code code acc = acc\<lparr>Code := code, CodeHash := sha256 code\<rparr>"

definition apply_out :: "string \<Rightarrow> World \<Rightarrow> string \<times> revmAccountStateOut \<Rightarrow> World" where
  "apply_out caller w entry =
     (let (addrStr, out) = entry; addr = unpadHex addrStr;
          w1 = touch w addr;
          w2 = (if addr \<noteq> caller then upd_acct w1 addr (\<lambda>acc. acc\<lparr>Nonce := ro_Nonce out\<rparr>) else w1);
          w3 = (if ro_Balance out \<noteq> [] then set_balance w2 addr (parseHexBig (ro_Balance out)) else w2);
          w4 = (if ro_Code out \<noteq> [] then upd_acct w3 addr (put_code (decodeHexBytes (ro_Code out))) else w3) in
      foldl (\<lambda>w (k, v). sstore w addr (slot_of (decodeHexBytes k)) (slot_of (decodeHexBytes v)))
        w4 (ro_Storage out))"

definition revm_account :: "bool \<Rightarrow> Account \<Rightarrow> revmAccountState" where
  "revm_account full acc =
     \<lparr>ra_Nonce = Nonce acc, ra_Balance = Balance acc, ra_Code = (if full then Code acc else []),
      ra_Storage = (if full then Storage acc else [])\<rparr>"

definition revm_request :: "World \<Rightarrow> CallContext \<Rightarrow> bytes \<Rightarrow> revmExecuteRequest" where
  "revm_request w ctx code =
     \<lparr>rq_Caller = toEvmAddr (ctx_Caller ctx), rq_Address = toEvmAddr (ctx_Address ctx),
      rq_Value = (if 0 < ctx_Value ctx then Some (ctx_Value ctx) else None),
      rq_GasLimit = ctx_GasLimit ctx, rq_Calldata = ctx_Calldata ctx, rq_Code = code,
      rq_IsCreate = (ctx_Address ctx = []),
      rq_State =
        (if ctx_Address ctx = [] then
           [(toEvmAddr (ctx_Caller ctx), revm_account False (acct w (ctx_Caller ctx)))]
         else AList.update (toEvmAddr (ctx_Address ctx)) (revm_account True (acct w (ctx_Address ctx)))
                [(toEvmAddr (ctx_Caller ctx), revm_account False (acct w (ctx_Caller ctx)))])\<rparr>"

definition executeWithRevm ::
  "revm \<Rightarrow> CallContext \<Rightarrow> bytes \<Rightarrow> World \<Rightarrow> ExecutionResult \<times> World" where
  "executeWithRevm revm_execute ctx code w0 =
     (let w1 = touch w0 (ctx_Caller ctx);
          w = (if ctx_Address ctx = [] then w1 else touch w1 (ctx_Address ctx)) in
      case revm_execute (revm_request w ctx code) of
        None \<Rightarrow> (result_err [] 0 (Errorf ''revm: no result''), w)
      | Some resp \<Rightarrow>
          if \<not> rs_Success resp then
            (result_err (decodeHexBytes (rs_ReturnData resp)) (rs_GasUsed resp)
               (Errorf (''revm: '' @ (if rs_Error resp = [] then ''unknown revm error'' else rs_Error resp))), w)
          else
            let w2 = foldl (apply_out (ctx_Caller ctx)) w (rs_State resp);
                result = result_ok (decodeHexBytes (rs_ReturnData resp)) (rs_GasUsed resp) in
            if rs_NewContract resp = [] then (result, w2)
            else
              let contractAddr = unpadHex (rs_NewContract resp);
                  w3 = touch w2 contractAddr;
                  w4 = (if ReturnData result \<noteq> [] then upd_acct w3 contractAddr (put_code (ReturnData result))
                        else w3) in
              (result\<lparr>er_Logs := [\<lparr>log_Address = contractAddr, log_Topics = [],
                 log_Data = bytes_of_string contractAddr, log_Block = 0\<rparr>]\<rparr>, w4))"

subsection \<open>The dispatcher\<close>

text \<open>
  The last byte of an address whose other bytes are all zero, when that address decodes as
  hexadecimal at all.
\<close>

definition precompile_form :: "string \<Rightarrow> u8 option" where
  "precompile_form address =
     (case hex_decode (trim0x (ToLower address)) of
        None \<Rightarrow> None
      | Some decoded \<Rightarrow>
          if decoded = [] then None
          else if list_all (\<lambda>x. x = 0) (butlast decoded) then Some (last decoded) else None)"

definition Execute ::
  "sig_verify \<Rightarrow> Host \<Rightarrow> revm \<Rightarrow> EVM \<Rightarrow> CallContext \<Rightarrow> World \<Rightarrow>
   ExecutionResult outcome \<times> World" where
  "Execute V H revm_execute evm ctx w =
     (let routed = (if ctx_Address ctx = [] then None
                    else case precompile_form (ctx_Address ctx) of
                           None \<Rightarrow> None
                         | Some a \<Rightarrow> if IsPrecompile a then Some a else None) in
      case routed of
        Some a \<Rightarrow>
          (case ExecutePrecompile V H a (ctx_Calldata ctx) (ctx_Caller ctx) w (BlockNum evm) of
             ((Ret result, _), w') \<Rightarrow> (Ret (result_ok result (PrecompileGas V H a)), w')
           | ((Err e, _), w') \<Rightarrow> (Ret (result_err [] 0 e), w')
           | ((Panic, _), w') \<Rightarrow> (Panic, w'))
      | None \<Rightarrow>
          if ctx_Address ctx = [] then
            (let (r, w') = executeWithRevm revm_execute ctx (ctx_Calldata ctx) w in (Ret r, w'))
          else
            let w1 = touch w (ctx_Address ctx); code = Code (acct w1 (ctx_Address ctx)) in
            if code = [] \<and> ctx_Calldata ctx = [] then
              (Ret (result_ok [] 21000),
               if ctx_Caller ctx \<noteq> ctx_Address ctx \<and> 0 < ctx_Value ctx
               then add_balance w1 (ctx_Address ctx) (ctx_Value ctx) else w1)
            else if code \<noteq> [] then
              (let (r, w') = executeWithRevm revm_execute ctx code w1 in (Ret r, w'))
            else
              (let (r, w') = executeWithRevm revm_execute ctx (ctx_Calldata ctx) w1 in (Ret r, w')))"

text \<open>
  The calldata as the call leaves it: only governance and the range proofs of the privacy contract
  write into it.
\<close>

definition calldata_after :: "Host \<Rightarrow> EVM \<Rightarrow> CallContext \<Rightarrow> World \<Rightarrow> bytes" where
  "calldata_after H evm ctx w =
     (let input = ctx_Calldata ctx; a = precompile_form (ctx_Address ctx) in
      if a = Some 0x1C then privacy_calldata_after input w
      else if a = Some 0x1D
      then gov_calldata_after (length (spare_of H input)) input (ctx_Caller ctx) (BlockNum evm)
      else input)"

definition DeployContractFromCode ::
  "string \<Rightarrow> bytes \<Rightarrow> ContractClassT \<Rightarrow> World \<Rightarrow> string outcome \<times> World" where
  "DeployContractFromCode caller code class w0 =
     (let w = touch w0 caller; account = acct w caller in
      case EnforceContractClass (DoxDevLevel account) class of
        Some e \<Rightarrow> (Err e, w)
      | None \<Rightarrow>
          let hash = sha256 (bytes_of_string
                (''template:'' @ caller @ '':'' @ dec_string (unat (Nonce account))));
              addr = hex_encode (take 20 hash);
              w1 = upd_acct w caller (\<lambda>acc. acc\<lparr>Nonce := Nonce acc + 1\<rparr>);
              w2 = CreateAccount w1 addr code;
              w3 = upd_acct w2 addr (\<lambda>acc. acc\<lparr>DoxDevLevel := DoxDevLevel account, ContractClass := class\<rparr>) in
          (Ret addr, w3))"

subsection \<open>Facts\<close>

lemma PrecompilesTable_keys:
  "map fst (PrecompilesTable V H) = map word_of_nat [0x0C..<0x28]"
  by (simp add: PrecompilesTable_def precompile_def upt_rec)

lemma PrecompilesTable_total:
  "map_of (PrecompilesTable V H) addr \<noteq> None \<longleftrightarrow> IsPrecompile addr"
proof -
  have "map_of (PrecompilesTable V H) addr \<noteq> None \<longleftrightarrow> addr \<in> set (map fst (PrecompilesTable V H))"
    by (auto simp: map_of_eq_None_iff)
  also have "\<dots> \<longleftrightarrow> (\<exists>n. 12 \<le> n \<and> n < 40 \<and> addr = word_of_nat n)"
    unfolding PrecompilesTable_keys set_map set_upt image_iff Bex_def atLeastLessThan_iff
    by (simp only: conj_assoc)
  also have "\<dots> \<longleftrightarrow> IsPrecompile addr"
  proof
    assume "\<exists>n. 12 \<le> n \<and> n < 40 \<and> addr = word_of_nat n"
    then obtain n where "12 \<le> n" "n < 40" "addr = word_of_nat n" by auto
    then show "IsPrecompile addr"
      by (simp add: IsPrecompile_def word_le_nat_alt unat_of_nat take_bit_nat_eq_self)
  next
    assume "IsPrecompile addr"
    then show "\<exists>n. 12 \<le> n \<and> n < 40 \<and> addr = word_of_nat n"
      by (intro exI[of _ "unat addr"]) (simp add: IsPrecompile_def word_le_nat_alt)
  qed
  finally show ?thesis .
qed

lemma precompile_form_PrecompileAddrHex:
  "precompile_form (PrecompileAddrHex a) = Some a"
proof -
  have low: "ToLower (PrecompileAddrHex a) = PrecompileAddrHex a"
  proof -
    have "\<not> (65 \<le> (of_char (hex_digit n) :: nat) \<and> (of_char (hex_digit n) :: nat) \<le> 90)"
      if "n < 16" for n
    proof -
      have "n \<in> set [0..<16]" using that by simp
      then show ?thesis by (auto simp: upt_rec hex_digit_def)
    qed
    from this[of "unat a div 16"] this[of "unat a mod 16"] show ?thesis
      using unat_u8_bound[of a]
      by (auto simp: ToLower_def PrecompileAddrHex_def fmt_02x_def hex_encode_def
          less_mult_imp_div_less)
  qed
  have hex: "PrecompileAddrHex a = hex_encode (replicate 19 0 @ [a])"
  proof -
    have "hex_encode (replicate 19 0) = ''00000000000000000000000000000000000000''"
      by code_simp
    then show ?thesis
      by (simp only: PrecompileAddrHex_def fmt_02x_def hex_encode_append)
  qed
  have trim: "trim0x (PrecompileAddrHex a) = PrecompileAddrHex a"
    by (simp add: trim0x_def PrecompileAddrHex_def)
  show ?thesis
    by (simp only: precompile_form_def low trim) (simp add: hex list_all_iff)
qed

end
