(* ===== verification/Validators.thy ===== *)
theory Validators
  imports Go_Bytes Go_Float "HOL-Library.List_Lexorder" "HOL-Library.Multiset"
begin

text \<open>
  The validator set (\<^verbatim>\<open>types.go\<close>, \<^verbatim>\<open>validators.go\<close>): registration, removal, jailing after
  missed blocks, and the square-root weighted choice of a proposer. The invariant \<open>vs_inv\<close>
  ties the sorted list of identifiers to the stake table; every operation keeps it.
\<close>

subsection \<open>Identifiers\<close>

text \<open>\<^verbatim>\<open>type ValidatorID [20]byte\<close>; only the last byte enters \<^verbatim>\<open>String()\<close>.\<close>

type_synonym ValidatorID = bytes

definition ValidatorID_String :: "ValidatorID \<Rightarrow> string" where
  "ValidatorID_String i = fmt_02x (i ! 19)"

definition NewValidatorID :: "u8 \<Rightarrow> ValidatorID" where
  "NewValidatorID b = (replicate 20 0)[19 := b]"

definition MaxValidators :: nat where "MaxValidators = 200"
definition MinStake :: u64 where "MinStake = 100"
definition JailThreshold :: int where "JailThreshold = 50"

subsection \<open>The set and its operations\<close>

record ValidatorSet =
  IDs :: "ValidatorID list"
  Stakes :: "ValidatorID \<rightharpoonup> u64"
  Missed :: "ValidatorID \<rightharpoonup> int"
  Jailed :: "ValidatorID list"
  seed :: "u64"

datatype vs_error = AlreadyRegistered | StakeBelowMinimum | MaxValidatorsReached

definition NewValidatorSet :: ValidatorSet where
  "NewValidatorSet = \<lparr>IDs = [], Stakes = Map.empty, Missed = Map.empty, Jailed = [], seed = 0\<rparr>"

definition stake_of :: "ValidatorSet \<Rightarrow> ValidatorID \<Rightarrow> u64" where
  "stake_of vs i = (case Stakes vs i of None \<Rightarrow> 0 | Some s \<Rightarrow> s)"

definition missed_of :: "ValidatorSet \<Rightarrow> ValidatorID \<Rightarrow> int" where
  "missed_of vs i = (case Missed vs i of None \<Rightarrow> 0 | Some m \<Rightarrow> m)"

text \<open>
  \<^verbatim>\<open>sort.Slice\<close> by \<^verbatim>\<open>string(a[:]) < string(b[:])\<close>: the bytewise lexicographic order, which
  determines the result because the identifiers are pairwise different.
\<close>

definition vs_Add :: "ValidatorSet \<Rightarrow> ValidatorID \<Rightarrow> u64 \<Rightarrow> vs_error + ValidatorSet" where
  "vs_Add vs i stake =
     (if Stakes vs i \<noteq> None then Inl AlreadyRegistered
      else if stake < MinStake then Inl StakeBelowMinimum
      else if MaxValidators \<le> length (IDs vs) then Inl MaxValidatorsReached
      else Inr (vs\<lparr>Stakes := (Stakes vs)(i \<mapsto> stake),
                    Missed := (Missed vs)(i \<mapsto> 0),
                    IDs := sort (IDs vs @ [i])\<rparr>))"

text \<open>
  The batch stops at the first error and keeps what was added before it; identifiers beyond
  the list of stakes are skipped.
\<close>

fun vs_AddMultiple ::
  "ValidatorSet \<Rightarrow> ValidatorID list \<Rightarrow> u64 list \<Rightarrow> vs_error option \<times> ValidatorSet" where
  "vs_AddMultiple vs (i # is) (s # ss) =
     (case vs_Add vs i s of
        Inl e \<Rightarrow> (Some e, vs)
      | Inr vs' \<Rightarrow> vs_AddMultiple vs' is ss)"
| "vs_AddMultiple vs _ _ = (None, vs)"

definition vs_Remove :: "ValidatorSet \<Rightarrow> ValidatorID \<Rightarrow> ValidatorSet" where
  "vs_Remove vs i =
     vs\<lparr>IDs := remove1 i (IDs vs), Stakes := (Stakes vs)(i := None), Missed := (Missed vs)(i := None)\<rparr>"

definition vs_Jail :: "ValidatorSet \<Rightarrow> ValidatorID \<Rightarrow> ValidatorSet" where
  "vs_Jail vs i = (let vs' = vs_Remove vs i in vs'\<lparr>Jailed := Jailed vs' @ [i]\<rparr>)"

definition vs_MarkMissed :: "ValidatorSet \<Rightarrow> ValidatorID \<Rightarrow> bool \<times> ValidatorSet" where
  "vs_MarkMissed vs i =
     (let vs' = vs\<lparr>Missed := (Missed vs)(i \<mapsto> missed_of vs i + 1)\<rparr> in
      if JailThreshold \<le> missed_of vs' i then (True, vs_Jail vs' i) else (False, vs'))"

definition vs_TotalStake :: "ValidatorSet \<Rightarrow> u64" where
  "vs_TotalStake vs = foldl (\<lambda>total v. total + stake_of vs v) 0 (IDs vs)"

definition vs_Count :: "ValidatorSet \<Rightarrow> nat" where
  "vs_Count vs = length (IDs vs)"

definition vs_SqrtWeight :: "ValidatorSet \<Rightarrow> ValidatorID \<Rightarrow> float64" where
  "vs_SqrtWeight vs i = fl_sqrt (float_of_u64 (stake_of vs i))"

definition vs_TotalSqrtWeight :: "ValidatorSet \<Rightarrow> float64" where
  "vs_TotalSqrtWeight vs =
     foldl (\<lambda>total i. fl_add total (fl_sqrt (float_of_u64 (stake_of vs i)))) 0 (IDs vs)"

text \<open>
  The lottery. \<open>rand_Float64\<close> stands for \<^verbatim>\<open>rand.New(rand.NewSource(seed)).Float64()\<close>. The loop
  adds weights until the running sum reaches the pick and falls through to the last
  identifier; with no validators the code indexes an empty slice.
\<close>

fun vs_pick :: "ValidatorSet \<Rightarrow> float64 \<Rightarrow> float64 \<Rightarrow> ValidatorID list \<Rightarrow> ValidatorID option" where
  "vs_pick vs pick cumulative [] = None"
| "vs_pick vs pick cumulative (i # is) =
     (let c = fl_add cumulative (fl_sqrt (float_of_u64 (stake_of vs i))) in
      if pick \<le> c then Some i else vs_pick vs pick c is)"

definition vs_SelectProposer ::
  "(u64 \<Rightarrow> float64) \<Rightarrow> ValidatorSet \<Rightarrow> u64 \<Rightarrow> ValidatorID outcome \<times> ValidatorSet" where
  "vs_SelectProposer rand_Float64 vs height =
     (let totalWeight = vs_TotalSqrtWeight vs in
      if totalWeight \<le> 0 then
        (case IDs vs of [] \<Rightarrow> (Panic, vs) | i # _ \<Rightarrow> (Ret i, vs))
      else
        let vs' = vs\<lparr>seed := height * 2654435761 + of_nat (length (IDs vs)) * 3141592653\<rparr>;
            pick = fl_mul (rand_Float64 (seed vs')) totalWeight in
        case vs_pick vs' pick 0 (IDs vs') of
          Some i \<Rightarrow> (Ret i, vs')
        | None \<Rightarrow> (if IDs vs' = [] then (Panic, vs') else (Ret (last (IDs vs')), vs')))"

subsection \<open>The invariant\<close>

definition vs_inv :: "ValidatorSet \<Rightarrow> bool" where
  "vs_inv vs \<longleftrightarrow>
     sorted (IDs vs) \<and> distinct (IDs vs) \<and> set (IDs vs) = dom (Stakes vs)
     \<and> length (IDs vs) \<le> MaxValidators
     \<and> (\<forall>i s. Stakes vs i = Some s \<longrightarrow> MinStake \<le> s)
     \<and> (\<forall>i \<in> set (IDs vs). 0 \<le> missed_of vs i \<and> missed_of vs i < JailThreshold)"

lemma vs_inv_New: "vs_inv NewValidatorSet"
  by (simp add: vs_inv_def NewValidatorSet_def MaxValidators_def)

lemma vs_inv_Add:
  assumes "vs_inv vs" "vs_Add vs i s = Inr vs'"
  shows "vs_inv vs'"
proof -
  from assms(2) have new: "Stakes vs i = None" and s: "MinStake \<le> s"
    and room: "length (IDs vs) < MaxValidators"
    and vs': "vs' = vs\<lparr>Stakes := (Stakes vs)(i \<mapsto> s), Missed := (Missed vs)(i \<mapsto> 0),
                        IDs := sort (IDs vs @ [i])\<rparr>"
    by (auto simp: vs_Add_def split: if_splits)
  from new assms(1) have fresh: "i \<notin> set (IDs vs)"
    by (auto simp: vs_inv_def)
  with assms(1) new s room show ?thesis
    by (auto simp: vs_inv_def vs' missed_of_def JailThreshold_def)
qed

lemma vs_inv_Remove:
  assumes "vs_inv vs" shows "vs_inv (vs_Remove vs i)"
proof -
  have "sorted (remove1 i (IDs vs))" "distinct (remove1 i (IDs vs))"
    using assms by (simp_all add: vs_inv_def sorted_remove1 distinct_remove1)
  moreover have "set (remove1 i (IDs vs)) = set (IDs vs) - {i}"
    using assms by (simp add: vs_inv_def set_remove1_eq)
  moreover have "length (remove1 i (IDs vs)) \<le> length (IDs vs)"
    by (simp add: length_remove1)
  ultimately show ?thesis
    using assms by (auto simp: vs_inv_def vs_Remove_def missed_of_def)
qed

lemma vs_inv_Jailed_update: "vs_inv (vs\<lparr>Jailed := js\<rparr>) = vs_inv vs"
  by (simp add: vs_inv_def missed_of_def)

lemma vs_inv_Jail: "vs_inv vs \<Longrightarrow> vs_inv (vs_Jail vs i)"
  by (simp add: vs_Jail_def Let_def vs_inv_Jailed_update vs_inv_Remove)

lemma vs_Jail_Missed_irrelevant:
  "vs_Jail (vs\<lparr>Missed := (Missed vs)(i \<mapsto> m)\<rparr>) i = vs_Jail vs i"
  by (simp add: vs_Jail_def vs_Remove_def Let_def)

lemma vs_inv_MarkMissed:
  assumes "vs_inv vs" shows "vs_inv (snd (vs_MarkMissed vs i))"
proof (cases "JailThreshold \<le> missed_of vs i + 1")
  case True
  then have "snd (vs_MarkMissed vs i) = vs_Jail vs i"
    by (simp add: vs_MarkMissed_def Let_def vs_Jail_Missed_irrelevant missed_of_def)
  with assms show ?thesis
    by (simp add: vs_inv_Jail)
next
  case False
  with assms show ?thesis
    by (auto simp: vs_MarkMissed_def Let_def vs_inv_def missed_of_def)
qed

lemma vs_inv_AddMultiple: "vs_inv vs \<Longrightarrow> vs_inv (snd (vs_AddMultiple vs is ss))"
  by (induction vs "is" ss rule: vs_AddMultiple.induct)
    (auto split: sum.splits intro: vs_inv_Add)

lemma vs_inv_SelectProposer: "vs_inv vs \<Longrightarrow> vs_inv (snd (vs_SelectProposer r vs h))"
  by (auto simp: vs_SelectProposer_def Let_def vs_inv_def missed_of_def
      split: list.splits option.splits)

subsection \<open>Reachable validator sets\<close>

inductive vs_step :: "ValidatorSet \<Rightarrow> ValidatorSet \<Rightarrow> bool" where
  step_Add: "vs_Add vs i s = Inr vs' \<Longrightarrow> vs_step vs vs'"
| step_AddMultiple: "vs_step vs (snd (vs_AddMultiple vs is ss))"
| step_Remove: "vs_step vs (vs_Remove vs i)"
| step_Jail: "vs_step vs (vs_Jail vs i)"
| step_MarkMissed: "vs_step vs (snd (vs_MarkMissed vs i))"
| step_SelectProposer: "vs_step vs (snd (vs_SelectProposer r vs h))"

inductive vs_reachable :: "ValidatorSet \<Rightarrow> bool" where
  vs_start: "vs_reachable NewValidatorSet"
| vs_next: "vs_reachable vs \<Longrightarrow> vs_step vs vs' \<Longrightarrow> vs_reachable vs'"

lemma vs_step_inv: "vs_step vs vs' \<Longrightarrow> vs_inv vs \<Longrightarrow> vs_inv vs'"
  by (induction rule: vs_step.induct)
    (auto intro: vs_inv_Add vs_inv_AddMultiple vs_inv_Remove vs_inv_Jail vs_inv_MarkMissed
      vs_inv_SelectProposer)

lemma vs_reachable_inv: "vs_reachable vs \<Longrightarrow> vs_inv vs"
  by (induction rule: vs_reachable.induct) (auto intro: vs_inv_New vs_step_inv)

subsection \<open>The lottery returns a member\<close>

lemma vs_pick_member: "vs_pick vs p c is = Some i \<Longrightarrow> i \<in> set is"
  by (induction "is" arbitrary: c) (auto simp: Let_def split: if_splits)

lemma vs_SelectProposer_member:
  assumes "IDs vs \<noteq> []"
  shows "\<exists>i \<in> set (IDs vs). fst (vs_SelectProposer r vs h) = Ret i"
  using assms vs_pick_member[of "vs\<lparr>seed := _\<rparr>"]
  by (auto simp: vs_SelectProposer_def Let_def split: list.splits option.splits)

subsection \<open>Missed blocks\<close>

fun vs_mark_times :: "nat \<Rightarrow> ValidatorSet \<Rightarrow> ValidatorID \<Rightarrow> ValidatorSet" where
  "vs_mark_times 0 vs i = vs"
| "vs_mark_times (Suc n) vs i = vs_mark_times n (snd (vs_MarkMissed vs i)) i"

lemma vs_MarkMissed_below:
  "missed_of vs i + 1 < JailThreshold \<Longrightarrow>
   vs_MarkMissed vs i = (False, vs\<lparr>Missed := (Missed vs)(i \<mapsto> missed_of vs i + 1)\<rparr>)"
  by (simp add: vs_MarkMissed_def Let_def missed_of_def)

lemma vs_mark_times_below:
  "missed_of vs i + int n < JailThreshold \<Longrightarrow>
   IDs (vs_mark_times n vs i) = IDs vs \<and> missed_of (vs_mark_times n vs i) i = missed_of vs i + int n"
proof (induction n arbitrary: vs)
  case (Suc n)
  let ?vs = "vs\<lparr>Missed := (Missed vs)(i \<mapsto> missed_of vs i + 1)\<rparr>"
  have "vs_MarkMissed vs i = (False, ?vs)"
    using Suc.prems by (intro vs_MarkMissed_below) simp
  moreover have "missed_of ?vs i = missed_of vs i + 1"
    by (simp add: missed_of_def)
  ultimately show ?case
    using Suc.IH[of ?vs] Suc.prems by simp
qed simp

end
