(* ===== verification/Transactions.thy ===== *)
theory Transactions
  imports State Validators
begin

text \<open>
  Transactions, the transaction pool and blocks (\<^verbatim>\<open>chain.go\<close>, first part) and the binary wire
  format of transactions (\<^verbatim>\<open>serialize.go\<close>). The pool keeps one queue per execution lane; that a
  lane delivers its transactions in arrival order is the contract of the locale \<open>fifo_lane\<close>,
  interpreted for each of the three lanes.
\<close>

subsection \<open>Transactions and their hash\<close>

record Transaction =
  tx_Nonce :: u64
  tx_From :: string
  tx_To :: string
  tx_Value :: int
  tx_GasLimit :: u64
  tx_GasPrice :: u64
  tx_GasUsed :: u64
  tx_Data :: bytes
  tx_Hash :: bytes
  tx_Signature :: bytes
  tx_Lane :: LaneType
  tx_EncryptedData :: bytes
  tx_Logs :: "LogEntry list"

text \<open>\<^verbatim>\<open>(*big.Int).String\<close> and \<^verbatim>\<open>%d\<close> of a signed number.\<close>

definition int_string :: "int \<Rightarrow> string" where
  "int_string v = (if v < 0 then ''-'' @ dec_string (nat (- v)) else dec_string (nat v))"

text \<open>
  The format string \<^verbatim>\<open>%d:%s:%s:%s:%d:%d:%d:%x:%x\<close>, written out three times in the sources
  (\<^verbatim>\<open>NewTransaction\<close>, \<^verbatim>\<open>TxHash\<close>, \<^verbatim>\<open>DeserializeTx\<close>).
\<close>

definition tx_hash_input ::
  "u64 \<Rightarrow> string \<Rightarrow> string \<Rightarrow> int \<Rightarrow> u64 \<Rightarrow> LaneType \<Rightarrow> bytes \<Rightarrow> bytes \<Rightarrow> string" where
  "tx_hash_input nonce from to val gasLimit lane data enc =
     dec_string (unat nonce) @ '':'' @ from @ '':'' @ to @ '':'' @ int_string val @ '':'' @
     dec_string (unat gasLimit) @ '':'' @ dec_string (unat lane) @ '':'' @
     dec_string (length data) @ '':'' @ hex_encode data @ '':'' @ hex_encode enc"

definition NewTransaction ::
  "u64 \<Rightarrow> string \<Rightarrow> string \<Rightarrow> int \<Rightarrow> u64 \<Rightarrow> bytes \<Rightarrow> Transaction" where
  "NewTransaction nonce from to val gasLimit data =
     \<lparr>tx_Nonce = nonce, tx_From = from, tx_To = to, tx_Value = val, tx_GasLimit = gasLimit,
      tx_GasPrice = 0, tx_GasUsed = 0, tx_Data = data,
      tx_Hash = sha256 (bytes_of_string
        (tx_hash_input nonce from to val gasLimit ConsensusLane data [])),
      tx_Signature = [], tx_Lane = ConsensusLane, tx_EncryptedData = [], tx_Logs = []\<rparr>"

definition TxHash :: "Transaction \<Rightarrow> bytes" where
  "TxHash tx = sha256 (bytes_of_string
     (tx_hash_input (tx_Nonce tx) (tx_From tx) (tx_To tx) (tx_Value tx) (tx_GasLimit tx)
        (tx_Lane tx) (tx_Data tx) (tx_EncryptedData tx)))"

lemma TxHash_New: "TxHash (NewTransaction n f t v g d) = tx_Hash (NewTransaction n f t v g d)"
  by (simp add: TxHash_def NewTransaction_def)

subsection \<open>The pool\<close>

record TxPool =
  Consensus :: "Transaction list"
  Oracle :: "Transaction list"
  Private :: "Transaction list"

definition NewTxPool :: TxPool where
  "NewTxPool = \<lparr>Consensus = [], Oracle = [], Private = []\<rparr>"

definition pool_Add :: "TxPool \<Rightarrow> Transaction \<Rightarrow> TxPool" where
  "pool_Add p tx =
     (if tx_Lane tx = PrivateLane then p\<lparr>Private := Private p @ [tx]\<rparr>
      else if tx_Lane tx = OracleLane then p\<lparr>Oracle := Oracle p @ [tx]\<rparr>
      else p\<lparr>Consensus := Consensus p @ [tx]\<rparr>)"

definition PopConsensus :: "TxPool \<Rightarrow> nat \<Rightarrow> Transaction list \<times> TxPool" where
  "PopConsensus p cnt =
     (let n = (if length (Consensus p) < cnt then length (Consensus p) else cnt) in
      if n = 0 then ([], p)
      else (take n (Consensus p), p\<lparr>Consensus := drop n (Consensus p)\<rparr>))"

definition PopOracle :: "TxPool \<Rightarrow> nat \<Rightarrow> Transaction list \<times> TxPool" where
  "PopOracle p cnt =
     (let n = (if length (Oracle p) < cnt then length (Oracle p) else cnt) in
      if n = 0 then ([], p)
      else (take n (Oracle p), p\<lparr>Oracle := drop n (Oracle p)\<rparr>))"

definition PopPrivate :: "TxPool \<Rightarrow> nat \<Rightarrow> Transaction list \<times> TxPool" where
  "PopPrivate p cnt =
     (let n = (if length (Private p) < cnt then length (Private p) else cnt) in
      if n = 0 then ([], p)
      else (take n (Private p), p\<lparr>Private := drop n (Private p)\<rparr>))"

definition pool_Len :: "TxPool \<Rightarrow> nat" where
  "pool_Len p = length (Consensus p) + length (Oracle p) + length (Private p)"

subsection \<open>Arrival order per lane\<close>

text \<open>
  One lane of a queue with several lanes: a step delivers a list of elements on the lane and
  at most appends what arrives on it.
\<close>

fun run_steps :: "('op \<Rightarrow> 'p \<Rightarrow> 'a list \<times> 'p) \<Rightarrow> 'op list \<Rightarrow> 'p \<Rightarrow> 'a list \<times> 'p" where
  "run_steps step [] p = ([], p)"
| "run_steps step (x # xs) p =
     (let (out, p') = step x p; (outs, p'') = run_steps step xs p' in (out @ outs, p''))"

locale fifo_lane =
  fixes step :: "'op \<Rightarrow> 'p \<Rightarrow> 'a list \<times> 'p"
    and pending :: "'p \<Rightarrow> 'a list"
    and arrives :: "'op \<Rightarrow> 'a list"
  assumes conserve: "fst (step x p) @ pending (snd (step x p)) = pending p @ arrives x"
begin

lemma run_conserve:
  "fst (run_steps step xs p) @ pending (snd (run_steps step xs p)) =
     pending p @ concat (map arrives xs)"
proof (induction xs arbitrary: p)
  case (Cons x xs)
  obtain out p' where s: "step x p = (out, p')"
    by (cases "step x p")
  have "out @ pending p' = pending p @ arrives x"
    using conserve[of x p] s by simp
  with Cons.IH[of p'] show ?case
    by (simp add: s split_beta)
qed simp

lemma delivered_prefix:
  "\<exists>rest. pending p @ concat (map arrives xs) = fst (run_steps step xs p) @ rest"
  using run_conserve[of xs p] by metis

end

datatype pool_op = AddTx Transaction | PopC nat | PopO nat | PopP nat

fun pool_step :: "pool_op \<Rightarrow> TxPool \<Rightarrow> TxPool" where
  "pool_step (AddTx tx) p = pool_Add p tx"
| "pool_step (PopC n) p = snd (PopConsensus p n)"
| "pool_step (PopO n) p = snd (PopOracle p n)"
| "pool_step (PopP n) p = snd (PopPrivate p n)"

text \<open>What an operation delivers on, and adds to, a given lane.\<close>

fun consensus_step :: "pool_op \<Rightarrow> TxPool \<Rightarrow> Transaction list \<times> TxPool" where
  "consensus_step (PopC n) p = PopConsensus p n"
| "consensus_step x p = ([], pool_step x p)"

fun oracle_step :: "pool_op \<Rightarrow> TxPool \<Rightarrow> Transaction list \<times> TxPool" where
  "oracle_step (PopO n) p = PopOracle p n"
| "oracle_step x p = ([], pool_step x p)"

fun private_step :: "pool_op \<Rightarrow> TxPool \<Rightarrow> Transaction list \<times> TxPool" where
  "private_step (PopP n) p = PopPrivate p n"
| "private_step x p = ([], pool_step x p)"

fun arrivals :: "(LaneType \<Rightarrow> bool) \<Rightarrow> pool_op \<Rightarrow> Transaction list" where
  "arrivals lane (AddTx tx) = (if lane (tx_Lane tx) then [tx] else [])"
| "arrivals lane _ = []"

definition consensus_bound :: "LaneType \<Rightarrow> bool" where
  "consensus_bound l \<longleftrightarrow> l \<noteq> OracleLane \<and> l \<noteq> PrivateLane"

lemmas pool_defs = pool_Add_def PopConsensus_def PopOracle_def PopPrivate_def Let_def

interpretation consensus_lane: fifo_lane consensus_step Consensus "arrivals consensus_bound"
proof
  fix x p
  show "fst (consensus_step x p) @ Consensus (snd (consensus_step x p)) =
      Consensus p @ arrivals consensus_bound x"
    by (cases x) (auto simp: pool_defs consensus_bound_def)
qed

interpretation oracle_lane: fifo_lane oracle_step Oracle "arrivals (\<lambda>l. l = OracleLane)"
proof
  fix x p
  show "fst (oracle_step x p) @ Oracle (snd (oracle_step x p)) =
      Oracle p @ arrivals (\<lambda>l. l = OracleLane) x"
    by (cases x) (auto simp: pool_defs lane_defs)
qed

interpretation private_lane: fifo_lane private_step Private "arrivals (\<lambda>l. l = PrivateLane)"
proof
  fix x p
  show "fst (private_step x p) @ Private (snd (private_step x p)) =
      Private p @ arrivals (\<lambda>l. l = PrivateLane) x"
    by (cases x) (auto simp: pool_defs lane_defs)
qed

subsection \<open>Blocks\<close>

record BlockWithTx =
  blk_Height :: u64
  blk_Proposer :: ValidatorID
  blk_Timestamp :: int
  blk_PrevHash :: bytes
  blk_Transactions :: "Transaction list"
  blk_StateRoot :: bytes
  blk_Hash :: bytes
  blk_Logs :: "LogEntry list"

definition ComputeHash :: "BlockWithTx \<Rightarrow> bytes" where
  "ComputeHash b = sha256 (bytes_of_string
     (dec_string (unat (blk_Height b)) @ '':'' @ ValidatorID_String (blk_Proposer b) @ '':'' @
      int_string (blk_Timestamp b) @ '':'' @ hex_encode (blk_PrevHash b) @ '':'' @
      dec_string (length (blk_Transactions b)) @ '':'' @ hex_encode (blk_StateRoot b)))"

record BlockHeader =
  hdr_Height :: u64
  hdr_Round :: u32
  hdr_Proposer :: ValidatorID
  hdr_Timestamp :: int
  hdr_PrevHash :: bytes
  hdr_TxsRoot :: bytes

definition BlockHeader_Hash :: "BlockHeader \<Rightarrow> bytes" where
  "BlockHeader_Hash bh = sha256 (bytes_of_string
     (dec_string (unat (hdr_Height bh)) @ '':'' @ dec_string (unat (hdr_Round bh)) @ '':'' @
      ValidatorID_String (hdr_Proposer bh) @ '':'' @ int_string (hdr_Timestamp bh) @ '':'' @
      hex_encode (hdr_PrevHash bh) @ '':'' @ hex_encode (hdr_TxsRoot bh)))"

subsection \<open>The wire format\<close>

definition SerializeTx :: "Transaction \<Rightarrow> bytes" where
  "SerializeTx tx =
     (let valBytes = big_bytes (nat \<bar>tx_Value tx\<bar>) in
      u64be (tx_Nonce tx) @
      u16be (of_nat (length (tx_From tx))) @ bytes_of_string (tx_From tx) @
      u16be (of_nat (length (tx_To tx))) @ bytes_of_string (tx_To tx) @
      u16be (of_nat (length valBytes)) @ valBytes @
      u64be (tx_GasLimit tx) @
      u64be (tx_GasPrice tx) @
      [tx_Lane tx] @
      u32be (of_nat (length (tx_EncryptedData tx))) @ tx_EncryptedData tx @
      u32be (of_nat (length (tx_Data tx))) @ tx_Data tx @
      u16be (of_nat (length (tx_Signature tx))) @ tx_Signature tx)"

record reader =
  rd_data :: bytes
  rd_off :: nat
  rd_buf :: bytes

definition reader_read :: "reader \<Rightarrow> nat \<Rightarrow> reader option" where
  "reader_read r n =
     (if length (rd_data r) < rd_off r + n then None
      else Some (r\<lparr>rd_buf := slice (rd_off r) (rd_off r + n) (rd_data r),
                    rd_off := rd_off r + n\<rparr>))"

text \<open>\<^verbatim>\<open>if !r.read(n) { return nil, fmt.Errorf(msg) }\<close>, then the rest of the function.\<close>

definition need :: "reader \<Rightarrow> nat \<Rightarrow> string \<Rightarrow> (reader \<Rightarrow> 'a outcome) \<Rightarrow> 'a outcome" where
  "need r n msg rest =
     (case reader_read r n of None \<Rightarrow> Err (Errorf msg) | Some r' \<Rightarrow> rest r')"

definition DeserializeTx :: "bytes \<Rightarrow> Transaction outcome" where
  "DeserializeTx data =
     (let r = \<lparr>rd_data = data, rd_off = 0, rd_buf = []\<rparr> in
      need r 8 ''tx: short read for nonce'' (\<lambda>r. let nonce = be64 (rd_buf r) in
      need r 2 ''tx: short read for fromLen'' (\<lambda>r. let fromLen = be16 (rd_buf r) in
      need r (unat fromLen) ''tx: short read for from'' (\<lambda>r. let from = string_of_bytes (rd_buf r) in
      need r 2 ''tx: short read for toLen'' (\<lambda>r. let toLen = be16 (rd_buf r) in
      need r (unat toLen) ''tx: short read for to'' (\<lambda>r. let to = string_of_bytes (rd_buf r) in
      need r 2 ''tx: short read for valueLen'' (\<lambda>r. let valLen = be16 (rd_buf r) in
      need r (unat valLen) ''tx: short read for value'' (\<lambda>r. let val = int (be_nat (rd_buf r)) in
      need r 8 ''tx: short read for gasLimit'' (\<lambda>r. let gasLimit = be64 (rd_buf r) in
      need r 8 ''tx: short read for gasPrice'' (\<lambda>r. let gasPrice = be64 (rd_buf r) in
      need r 1 ''tx: short read for lane'' (\<lambda>r. let lane = rd_buf r ! 0 in
      need r 4 ''tx: short read for encDataLen'' (\<lambda>r. let encDataLen = be32 (rd_buf r) in
      need r (unat encDataLen) ''tx: short read for encrypted data'' (\<lambda>r. let enc = rd_buf r in
      need r 4 ''tx: short read for dataLen'' (\<lambda>r. let dataLen = be32 (rd_buf r) in
      need r (unat dataLen) ''tx: short read for data'' (\<lambda>r. let dat = rd_buf r in
      need r 2 ''tx: short read for sigLen'' (\<lambda>r. let sigLen = be16 (rd_buf r) in
      need r (unat sigLen) ''tx: short read for signature'' (\<lambda>r. let sig = rd_buf r in
      Ret \<lparr>tx_Nonce = nonce, tx_From = from, tx_To = to, tx_Value = val, tx_GasLimit = gasLimit,
           tx_GasPrice = gasPrice, tx_GasUsed = 0, tx_Data = dat,
           tx_Hash = sha256 (bytes_of_string (tx_hash_input nonce from to val gasLimit lane dat enc)),
           tx_Signature = sig, tx_Lane = lane, tx_EncryptedData = enc, tx_Logs = []\<rparr>
      )))))))))))))))))"

definition SerializeTxHex :: "Transaction \<Rightarrow> string" where
  "SerializeTxHex tx = hex_encode (SerializeTx tx)"

definition DeserializeTxHex :: "string \<Rightarrow> Transaction outcome" where
  "DeserializeTxHex s =
     (case hex_decode s of
        None \<Rightarrow> Err (Errorf ''tx: hex decode'')
      | Some data \<Rightarrow> DeserializeTx data)"

text \<open>Field sizes the length prefixes can express, and a value that is not negative.\<close>

definition tx_wire_ok :: "Transaction \<Rightarrow> bool" where
  "tx_wire_ok tx \<longleftrightarrow>
     length (tx_From tx) < 2 ^ 16 \<and> length (tx_To tx) < 2 ^ 16 \<and> 0 \<le> tx_Value tx
     \<and> length (big_bytes (nat (tx_Value tx))) < 2 ^ 16
     \<and> length (tx_EncryptedData tx) < 2 ^ 32 \<and> length (tx_Data tx) < 2 ^ 32
     \<and> length (tx_Signature tx) < 2 ^ 16"

text \<open>A reader positioned after a prefix reads the next field of the buffer.\<close>

definition reading :: "bytes \<Rightarrow> bytes \<Rightarrow> reader \<Rightarrow> bool" where
  "reading pre suf r \<longleftrightarrow> rd_data r = pre @ suf \<and> rd_off r = length pre"

lemma need_field:
  assumes "reading pre (fld @ suf) r" "n = length fld"
    and "\<And>r'. reading (pre @ fld) suf r' \<Longrightarrow> rd_buf r' = fld \<Longrightarrow> rest r' = res"
  shows "need r n msg rest = res"
proof -
  let ?r = "r\<lparr>rd_buf := fld, rd_off := length pre + n\<rparr>"
  have "reader_read r n = Some ?r"
    using assms(1,2) by (simp add: reading_def reader_read_def slice_def)
  moreover have "reading (pre @ fld) suf ?r"
    using assms(1,2) by (simp add: reading_def)
  ultimately show ?thesis
    using assms(3)[of ?r] by (simp add: need_def)
qed

lemma unat_len16: "n < 2 ^ 16 \<Longrightarrow> unat (of_nat n :: u16) = n"
  by (simp add: unat_of_nat take_bit_nat_eq_self)

lemma unat_len32: "n < 2 ^ 32 \<Longrightarrow> unat (of_nat n :: u32) = n"
  by (simp add: unat_of_nat take_bit_nat_eq_self)

lemma DeserializeTx_SerializeTx:
  assumes "tx_wire_ok tx"
  shows "DeserializeTx (SerializeTx tx @ trailing) =
           Ret (tx\<lparr>tx_Hash := TxHash tx, tx_GasUsed := 0, tx_Logs := []\<rparr>)"
proof -
  have start: "reading [] xs \<lparr>rd_data = xs, rd_off = 0, rd_buf = []\<rparr>" for xs
    by (simp add: reading_def)
  note len = assms[unfolded tx_wire_ok_def]
  have one: "[tx_Lane tx] @ xs = [tx_Lane tx] @ xs" for xs ..
  show ?thesis
    unfolding DeserializeTx_def Let_def SerializeTx_def append_assoc
    by (rule need_field[OF start], simp,
        (rule need_field, assumption, use len in \<open>simp add: unat_len16 unat_len32\<close>)+,
        use len in \<open>simp add: TxHash_def\<close>)
qed

end
