(* ===== verification/Staking.thy ===== *)
theory Staking
  imports Validators Econo
begin

text \<open>
  Progressive staking (\<^verbatim>\<open>progressive_staking.go\<close>): the marginal reward brackets, the stake
  table, and the per-block emission with its fractional carry and its per-epoch cap. Go
  iterates over a map in an unspecified order; a function that does so takes the order as an
  argument, any enumeration of the map's keys.
\<close>

subsection \<open>Brackets\<close>

record StakingBracket =
  br_MinStake :: u64
  br_MaxStake :: u64
  br_APY :: float64
  br_Description :: string

definition ProgressiveStakingBrackets :: "StakingBracket list" where
  "ProgressiveStakingBrackets =
     [\<lparr>br_MinStake = 1, br_MaxStake = 1001, br_APY = fl (15 / 100),
       br_Description = ''1 - 1,000 tokens: 15% APY''\<rparr>,
      \<lparr>br_MinStake = 1001, br_MaxStake = 10001, br_APY = fl (8 / 100),
       br_Description = ''1,001 - 10,000 tokens: 8% APY''\<rparr>,
      \<lparr>br_MinStake = 10001, br_MaxStake = 100001, br_APY = fl (4 / 100),
       br_Description = ''10,001 - 100,000 tokens: 4% APY''\<rparr>,
      \<lparr>br_MinStake = 100001, br_MaxStake = 1000001, br_APY = fl (2 / 100),
       br_Description = ''100,001 - 1,000,000 tokens: 2% APY''\<rparr>,
      \<lparr>br_MinStake = 1000001, br_MaxStake = 0, br_APY = fl (1 / 100),
       br_Description = ''1,000,001+ tokens: 1% APY''\<rparr>]"

definition MaxFloat64 :: float64 where "MaxFloat64 = (2 ^ 53 - 1) * 2 ^ 971"

text \<open>The loop of \<^verbatim>\<open>CalculateReward\<close>: \<open>i\<close> is the index of the bracket at the head of the list.\<close>

fun reward_loop ::
  "nat \<Rightarrow> StakingBracket list \<Rightarrow> float64 \<Rightarrow> float64 \<Rightarrow> float64 \<Rightarrow> float64" where
  "reward_loop i [] annualReward remaining lowerBound = annualReward"
| "reward_loop i (b # bs) annualReward remaining lowerBound =
     (if remaining \<le> 0 then annualReward
      else
        let upper = (if br_MaxStake b = 0 then MaxFloat64 else float_of_u64 (br_MaxStake b));
            upperBound = (if i = 0 then float_of_u64 (br_MaxStake b) else upper);
            lower = (if i = 0 then fl_sub (float_of_u64 (br_MinStake b)) 1 else lowerBound);
            bracketSize = fl_sub upperBound lower;
            tokensInBracket = min remaining bracketSize in
        if tokensInBracket \<le> 0 then annualReward
        else reward_loop (i + 1) bs
               (fl_add annualReward (fl_mul tokensInBracket (br_APY b)))
               (fl_sub remaining tokensInBracket) upperBound)"

definition CalculateReward :: "u64 \<Rightarrow> u64" where
  "CalculateReward stake =
     (if stake < MinStake then 0
      else u64_of_float (of_int \<lfloor>reward_loop 0 ProgressiveStakingBrackets 0 (float_of_u64 stake) 0\<rfloor>))"

definition EffectiveAPY :: "u64 \<Rightarrow> float64" where
  "EffectiveAPY stake =
     (if stake = 0 then 0
      else fl_mul (fl_div (float_of_u64 (CalculateReward stake)) (float_of_u64 stake)) 100)"

definition PerBlockReward :: "u64 \<Rightarrow> u64" where
  "PerBlockReward stake = CalculateReward stake div 31536000"

subsection \<open>The stake table\<close>

record ValidatorReward =
  vr_ValidatorID :: ValidatorID
  StakedAmount :: u64
  RewardPerBlock :: u64
  Accumulated :: u64
  LastUpdateBlock :: u64

record ProgressiveStaking =
  AnnualInflationPct :: float64
  BlockTimeSec :: float64
  ValidatorRewards :: "ValidatorID \<rightharpoonup> ValidatorReward"
  TotalStaked :: u64
  CurrentBlock :: u64
  accrued :: float64
  epochMinted :: u64
  EpochLength :: u64

definition WAYTotalSupply :: u64 where "WAYTotalSupply = 100000000"
definition QuestTreasurySharePct :: u64 where "QuestTreasurySharePct = 15"
definition DefaultBlockTimeSec :: float64 where "DefaultBlockTimeSec = 3"

definition blocksPerYear :: "float64 \<Rightarrow> float64" where
  "blocksPerYear blockTimeSec = fl_div 31536000 blockTimeSec"

definition NewProgressiveStaking ::
  "World \<Rightarrow> float64 \<Rightarrow> float64 \<Rightarrow> u64 \<Rightarrow> ProgressiveStaking \<times> World" where
  "NewProgressiveStaking w annualInflationPct blockTimeSec epochLength =
     (let pct = (if annualInflationPct \<le> 0 then DefaultAnnualInflationPct else annualInflationPct);
          w' = snd (SetInflationPct w pct);
          bt = (if blockTimeSec \<le> 0 then DefaultBlockTimeSec else blockTimeSec) in
      (\<lparr>AnnualInflationPct = pct, BlockTimeSec = bt, ValidatorRewards = Map.empty,
        TotalStaked = 0, CurrentBlock = 0, accrued = 0, epochMinted = 0,
        EpochLength = epochLength\<rparr>, w'))"

definition AnnualEmission :: "World \<Rightarrow> u64" where
  "AnnualEmission w =
     u64_of_float (fl_div (fl_mul (float_of_u64 WAYTotalSupply) (GetInflationPct w)) 100)"

definition PerBlockEmission :: "World \<Rightarrow> ProgressiveStaking \<Rightarrow> float64" where
  "PerBlockEmission w ps = fl_div (float_of_u64 (AnnualEmission w)) (blocksPerYear (BlockTimeSec ps))"

definition TreasuryShareOf :: "u64 \<Rightarrow> u64" where
  "TreasuryShareOf amount = amount * QuestTreasurySharePct div 100"

definition EpochCap :: "World \<Rightarrow> ProgressiveStaking \<Rightarrow> u64" where
  "EpochCap w ps =
     (if EpochLength ps = 0 then AnnualEmission w
      else let epochsPerYear = fl_div (blocksPerYear (BlockTimeSec ps)) (float_of_u64 (EpochLength ps)) in
           if epochsPerYear \<le> 0 then AnnualEmission w
           else u64_of_float (fl_div (float_of_u64 (AnnualEmission w)) epochsPerYear))"

definition RegisterStake :: "ProgressiveStaking \<Rightarrow> ValidatorID \<Rightarrow> u64 \<Rightarrow> ProgressiveStaking" where
  "RegisterStake ps i amount =
     (let ps' = (case ValidatorRewards ps i of
          Some existing \<Rightarrow>
            ps\<lparr>TotalStaked := TotalStaked ps - StakedAmount existing,
               ValidatorRewards := (ValidatorRewards ps)(i \<mapsto> existing\<lparr>StakedAmount := amount\<rparr>)\<rparr>
        | None \<Rightarrow>
            ps\<lparr>ValidatorRewards := (ValidatorRewards ps)(i \<mapsto>
                 \<lparr>vr_ValidatorID = i, StakedAmount = amount, RewardPerBlock = 0, Accumulated = 0,
                  LastUpdateBlock = CurrentBlock ps\<rparr>)\<rparr>) in
      ps'\<lparr>TotalStaked := TotalStaked ps' + amount\<rparr>)"

definition RemoveStake :: "ProgressiveStaking \<Rightarrow> ValidatorID \<Rightarrow> ProgressiveStaking" where
  "RemoveStake ps i =
     (case ValidatorRewards ps i of
        Some existing \<Rightarrow>
          ps\<lparr>TotalStaked := TotalStaked ps - StakedAmount existing,
             ValidatorRewards := (ValidatorRewards ps)(i := None)\<rparr>
      | None \<Rightarrow> ps)"

definition RolloverEpoch :: "ProgressiveStaking \<Rightarrow> ProgressiveStaking" where
  "RolloverEpoch ps = ps\<lparr>epochMinted := 0\<rparr>"

definition ClaimReward :: "ProgressiveStaking \<Rightarrow> ValidatorID \<Rightarrow> u64 \<times> ProgressiveStaking" where
  "ClaimReward ps i =
     (case ValidatorRewards ps i of
        None \<Rightarrow> (0, ps)
      | Some vr \<Rightarrow>
          (Accumulated vr, ps\<lparr>ValidatorRewards := (ValidatorRewards ps)(i \<mapsto> vr\<lparr>Accumulated := 0\<rparr>)\<rparr>))"

subsection \<open>Block rewards\<close>

definition annual_reward :: "ProgressiveStaking \<Rightarrow> ValidatorID \<Rightarrow> u64" where
  "annual_reward ps i =
     (case ValidatorRewards ps i of None \<Rightarrow> 0 | Some vr \<Rightarrow> CalculateReward (StakedAmount vr))"

definition block_share :: "u64 \<Rightarrow> u64 \<Rightarrow> u64 \<Rightarrow> u64" where
  "block_share available totalAnnual annual = available * annual div totalAnnual"

definition credit :: "u64 \<Rightarrow> ValidatorReward \<Rightarrow> ValidatorReward" where
  "credit r vr = vr\<lparr>Accumulated := Accumulated vr + r\<rparr>"

text \<open>The paying loop over \<^verbatim>\<open>annualRewards\<close>: distribution, stake table and the amount paid.\<close>

fun pay_loop ::
  "u64 \<Rightarrow> u64 \<Rightarrow> (ValidatorID \<Rightarrow> u64) \<Rightarrow> ValidatorID list \<Rightarrow>
   (ValidatorID \<rightharpoonup> u64) \<times> (ValidatorID \<rightharpoonup> ValidatorReward) \<times> u64 \<Rightarrow>
   (ValidatorID \<rightharpoonup> u64) \<times> (ValidatorID \<rightharpoonup> ValidatorReward) \<times> u64" where
  "pay_loop available totalAnnual annual [] st = st"
| "pay_loop available totalAnnual annual (i # is) (distribution, table, paid) =
     (let blockReward = block_share available totalAnnual (annual i) in
      if blockReward = 0 then pay_loop available totalAnnual annual is (distribution, table, paid)
      else pay_loop available totalAnnual annual is
             (distribution(i \<mapsto> blockReward),
              table(i := map_option (credit blockReward) (table i)),
              paid + blockReward))"

definition DistributeBlockReward ::
  "World \<Rightarrow> ValidatorID list \<Rightarrow> ValidatorID list \<Rightarrow> ProgressiveStaking \<Rightarrow> u64 \<Rightarrow>
   (ValidatorID \<rightharpoonup> u64) \<times> ProgressiveStaking" where
  "DistributeBlockReward w order1 order2 ps0 height =
     (let ps = ps0\<lparr>CurrentBlock := height\<rparr>;
          totalAnnual = foldl (\<lambda>t i. t + annual_reward ps i) 0 order1 in
      if totalAnnual = 0 then (Map.empty, ps)
      else
        let ps = ps\<lparr>accrued := fl_add (accrued ps) (PerBlockEmission w ps)\<rparr>;
            cap = EpochCap w ps in
        if 0 < cap \<and> cap \<le> epochMinted ps then (Map.empty, ps)
        else
          let avail0 = u64_of_float (accrued ps) in
          if avail0 = 0 then (Map.empty, ps)
          else
            let available = (if 0 < cap \<and> cap < epochMinted ps + avail0
                             then cap - epochMinted ps else avail0) in
            if available = 0 then (Map.empty, ps)
            else
              let (distribution, table, paid) =
                    pay_loop available totalAnnual (annual_reward ps) order2
                      (Map.empty, ValidatorRewards ps, 0);
                  ps = ps\<lparr>ValidatorRewards := table\<rparr> in
              if paid = 0 then (distribution, ps)
              else (distribution, ps\<lparr>accrued := fl_sub (accrued ps) (float_of_u64 paid),
                             epochMinted := epochMinted ps + paid\<rparr>))"

subsection \<open>Rewards grow with the stake\<close>

definition bracket_upper :: "nat \<Rightarrow> StakingBracket \<Rightarrow> float64" where
  "bracket_upper i b = (if i = 0 then float_of_u64 (br_MaxStake b)
     else if br_MaxStake b = 0 then MaxFloat64 else float_of_u64 (br_MaxStake b))"

definition bracket_size :: "nat \<Rightarrow> StakingBracket \<Rightarrow> float64 \<Rightarrow> float64" where
  "bracket_size i b l =
     fl_sub (bracket_upper i b) (if i = 0 then fl_sub (float_of_u64 (br_MinStake b)) 1 else l)"

lemma reward_loop_Cons:
  "reward_loop i (b # bs) a r l =
     (if r \<le> 0 \<or> bracket_size i b l \<le> 0 then a
      else let t = min r (bracket_size i b l) in
           reward_loop (i + 1) bs (fl_add a (fl_mul t (br_APY b))) (fl_sub r t) (bracket_upper i b))"
  by (auto simp: Let_def bracket_upper_def bracket_size_def min_le_iff_disj)

declare reward_loop.simps(2) [simp del]

text \<open>One turn of the loop stops, or moves a positive amount \<open>t\<close> of the remaining tokens.\<close>

lemma reward_loop_cases:
  obtains (stop) "reward_loop i (b # bs) a r l = a"
  | (move) t u where "0 < t" "t \<le> r" "reward_loop i (b # bs) a r l =
      reward_loop (i + 1) bs (fl_add a (fl_mul t (br_APY b))) (fl_sub r t) u"
proof (cases "r \<le> 0 \<or> bracket_size i b l \<le> 0")
  case True
  then show thesis
    using stop by (auto simp: reward_loop_Cons)
next
  case False
  then show thesis
    by (intro move[of "min r (bracket_size i b l)" "bracket_upper i b"])
      (auto simp: reward_loop_Cons Let_def)
qed

lemma reward_loop_ge:
  assumes "\<forall>b \<in> set bs. 0 \<le> br_APY b" "fl a = a"
  shows "a \<le> reward_loop i bs a r l"
  using assms
proof (induction bs arbitrary: i a r l)
  case (Cons b bs)
  have step: "a \<le> reward_loop (i + 1) bs (fl_add a (fl_mul t (br_APY b))) r' u"
    if "0 < t" for t r' u
  proof -
    have "a \<le> fl_add a (fl_mul t (br_APY b))"
      using Cons.prems that by (intro fl_add_ge) (simp_all add: fl_mul_def fl_nonneg)
    also have "\<dots> \<le> reward_loop (i + 1) bs (fl_add a (fl_mul t (br_APY b))) r' u"
      using Cons.prems by (intro Cons.IH) simp_all
    finally show ?thesis .
  qed
  show ?case
    by (rule reward_loop_cases[where i = i and b = b and bs = bs and a = a and r = r and l = l])
      (use step in simp_all)
qed simp

lemma fl_sub_min_mono: "r \<le> r' \<Longrightarrow> fl_sub r (min r s) \<le> fl_sub r' (min r' s)"
  by (auto simp: fl_sub_def intro!: fl_mono)

lemma reward_loop_mono:
  assumes "\<forall>b \<in> set bs. 0 \<le> br_APY b" "fl a = a" "fl a' = a'" "a \<le> a'" "r \<le> r'"
  shows "reward_loop i bs a r l \<le> reward_loop i bs a' r' l"
  using assms
proof (induction bs arbitrary: i a a' r r' l)
  case (Cons b bs)
  let ?s = "bracket_size i b l"
  show ?case
  proof (cases "r \<le> 0 \<or> ?s \<le> 0")
    case True
    then have "reward_loop i (b # bs) a r l = a"
      by (auto simp: reward_loop_Cons)
    also have "a \<le> a'" by fact
    also have "a' \<le> reward_loop i (b # bs) a' r' l"
      using Cons.prems by (intro reward_loop_ge) simp_all
    finally show ?thesis .
  next
    case False
    have "fl_mul (min r ?s) (br_APY b) \<le> fl_mul (min r' ?s) (br_APY b)"
      using Cons.prems by (auto simp: fl_mul_def intro!: fl_mono mult_right_mono min.mono)
    with False Cons.prems show ?thesis
      by (simp add: reward_loop_Cons Let_def Cons.IH fl_add_mono fl_sub_min_mono)
  qed
qed simp

lemma brackets_nonneg: "\<forall>b \<in> set ProgressiveStakingBrackets. 0 \<le> br_APY b"
  by (simp add: ProgressiveStakingBrackets_def fl_nonneg)

text \<open>
  Five brackets of at most three sixteenths of \<open>2^64\<close> tokens each: the sum stays below \<open>2^64\<close>,
  so the conversion back to an integer never leaves its range.
\<close>

lemma fl_scaled: "k < 2 ^ 53 \<Longrightarrow> fl (of_nat k * 2 ^ 60) = of_nat k * 2 ^ 60"
proof (cases "k = 0")
  case False
  assume k: "k < 2 ^ 53"
  let ?x = "of_nat k * 2 ^ 60 :: rat"
  have "(of_nat k :: rat) < 2 ^ 53"
    using k by (metis of_nat_less_iff of_nat_numeral of_nat_power)
  then have "?x < 2 powi 113"
    by simp
  then have "(2 :: rat) powi (rat_exp ?x) < 2 powi 113"
    using rat_exp_bounds(1)[of ?x] False by simp
  then have "rat_exp ?x < 113"
    by (rule powi_less_imp)
  then have "fl_pos ?x = ?x"
    using False by (intro fl_pos_exact[where m = "int k" and k = 60]) simp_all
  with False show ?thesis
    by (simp add: fl_def)
qed simp

lemma reward_loop_le:
  assumes "\<forall>b \<in> set bs. 0 \<le> br_APY b \<and> br_APY b \<le> 3 / 16" "n + length bs \<le> 5"
    and "a \<le> of_nat (3 * n) * 2 ^ 60" "r \<le> 2 ^ 64"
  shows "reward_loop i bs a r l \<le> of_nat (3 * (n + length bs)) * 2 ^ 60"
  using assms
proof (induction bs arbitrary: i n a r l)
  case (Cons b bs)
  have le: "of_nat (3 * n) * 2 ^ 60 \<le> (of_nat (3 * (n + length (b # bs))) * 2 ^ 60 :: rat)"
    by (intro mult_right_mono of_nat_mono) auto
  have next_a: "fl_add a (fl_mul t (br_APY b)) \<le> of_nat (3 * Suc n) * 2 ^ 60"
    if "0 < t" "t \<le> r" for t
  proof -
    have "t * br_APY b \<le> 2 ^ 64 * (3 / 16)"
      using Cons.prems that by (intro mult_mono) auto
    then have "fl_mul t (br_APY b) \<le> fl (of_nat 3 * 2 ^ 60)"
      unfolding fl_mul_def by (intro fl_mono) simp
    then have "a + fl_mul t (br_APY b) \<le> of_nat (3 * Suc n) * 2 ^ 60"
      using Cons.prems(3) fl_scaled[of 3] by (simp add: algebra_simps)
    then have "fl_add a (fl_mul t (br_APY b)) \<le> fl (of_nat (3 * Suc n) * 2 ^ 60)"
      unfolding fl_add_def by (rule fl_mono)
    also have "\<dots> = of_nat (3 * Suc n) * 2 ^ 60"
      using Cons.prems(2) by (intro fl_scaled) simp
    finally show ?thesis .
  qed
  have next_r: "fl_sub r t \<le> 2 ^ 64" if "0 < t" for t
  proof -
    have "fl_sub r t \<le> fl (of_nat 16 * 2 ^ 60)"
      unfolding fl_sub_def using Cons.prems(4) that by (intro fl_mono) simp
    also have "fl (of_nat 16 * 2 ^ 60) = 2 ^ 64"
      by (subst fl_scaled) simp_all
    finally show ?thesis .
  qed
  have "reward_loop (i + 1) bs (fl_add a (fl_mul t (br_APY b))) (fl_sub r t) u
      \<le> of_nat (3 * (Suc n + length bs)) * 2 ^ 60" if "0 < t" "t \<le> r" for t u
    using Cons.prems that by (intro Cons.IH next_a next_r) simp_all
  then have step: "reward_loop (i + 1) bs (fl_add a (fl_mul t (br_APY b))) (fl_sub r t) u
      \<le> of_nat (3 * (n + length (b # bs))) * 2 ^ 60" if "0 < t" "t \<le> r" for t u
    using that by simp
  show ?case
    by (rule reward_loop_cases[where i = i and b = b and bs = bs and a = a and r = r and l = l])
      (use step Cons.prems(3) le in \<open>simp_all only: order_trans[OF Cons.prems(3) le]\<close>)
qed simp

lemma brackets_low: "\<forall>b \<in> set ProgressiveStakingBrackets. 0 \<le> br_APY b \<and> br_APY b \<le> 3 / 16"
proof -
  have "fl (3 / 16) = 3 / 16"
    by code_simp
  then have "fl x \<le> 3 / 16" if "x \<le> 3 / 16" for x
    using fl_mono[OF that] by simp
  then show ?thesis
    by (simp add: ProgressiveStakingBrackets_def fl_nonneg)
qed

lemma float_of_u64_le: "float_of_u64 v \<le> 2 ^ 64"
proof -
  have "float_of_u64 v \<le> fl (of_nat (2 ^ 64))"
    unfolding float_of_u64_def
    by (intro fl_mono of_nat_mono less_imp_le) (simp add: unsigned_less[of v, where 'a = nat, simplified])
  also have "fl (of_nat (2 ^ 64)) = 2 ^ 64"
    by code_simp
  finally show ?thesis .
qed

lemma reward_loop_bounds:
  "0 \<le> reward_loop 0 ProgressiveStakingBrackets 0 (float_of_u64 v) 0"
  "reward_loop 0 ProgressiveStakingBrackets 0 (float_of_u64 v) 0 < 2 ^ 64"
  using reward_loop_ge[OF brackets_nonneg, of 0 0 "float_of_u64 v" 0]
    reward_loop_le[OF brackets_low, of 0 0 "float_of_u64 v" 0 0] float_of_u64_le[of v]
  by (simp_all add: ProgressiveStakingBrackets_def)

lemma CalculateReward_mono:
  assumes "s \<le> t" shows "CalculateReward s \<le> CalculateReward t"
proof -
  let ?f = "\<lambda>v. reward_loop 0 ProgressiveStakingBrackets 0 (float_of_u64 v) 0"
  have "?f s \<le> ?f t"
    using assms by (intro reward_loop_mono brackets_nonneg) (simp_all add: float_of_u64_mono)
  then have "u64_of_float (of_int \<lfloor>?f s\<rfloor>) \<le> u64_of_float (of_int \<lfloor>?f t\<rfloor>)"
    using reward_loop_bounds[of s] reward_loop_bounds[of t]
    by (intro u64_of_float_mono) (auto simp: floor_mono intro: order_le_less_trans[OF of_int_floor_le])
  then show ?thesis
    using assms by (auto simp: CalculateReward_def)
qed

subsection \<open>The stake table adds up\<close>

definition table_sum :: "(ValidatorID \<rightharpoonup> ValidatorReward) \<Rightarrow> u64" where
  "table_sum m = (\<Sum>i \<in> dom m. StakedAmount (the (m i)))"

definition staking_inv :: "ProgressiveStaking \<Rightarrow> bool" where
  "staking_inv ps \<longleftrightarrow>
     finite (dom (ValidatorRewards ps)) \<and> TotalStaked ps = table_sum (ValidatorRewards ps)
     \<and> 0 \<le> accrued ps \<and> fl (accrued ps) = accrued ps \<and> 0 < BlockTimeSec ps"

lemma table_sum_cong:
  assumes "dom m' = dom m" "\<And>i. i \<in> dom m \<Longrightarrow> StakedAmount (the (m' i)) = StakedAmount (the (m i))"
  shows "table_sum m' = table_sum m"
  using assms by (simp add: table_sum_def)

lemma table_sum_remove:
  assumes "finite (dom m)" "m i = Some v"
  shows "table_sum (m(i := None)) = table_sum m - StakedAmount v"
proof -
  have "table_sum m = StakedAmount v + (\<Sum>j \<in> dom m - {i}. StakedAmount (the (m j)))"
    unfolding table_sum_def using assms by (subst sum.remove[of _ i]) auto
  moreover have "(\<Sum>j \<in> dom m - {i}. StakedAmount (the ((m(i := None)) j))) =
      (\<Sum>j \<in> dom m - {i}. StakedAmount (the (m j)))"
    by (intro sum.cong) auto
  ultimately show ?thesis
    by (simp add: table_sum_def)
qed

lemma table_sum_fresh:
  assumes "finite (dom m)" "m i = None"
  shows "table_sum (m(i \<mapsto> v)) = table_sum m + StakedAmount v"
proof -
  have "i \<notin> dom m" using assms(2) by auto
  then have "(\<Sum>j \<in> dom m. StakedAmount (the ((m(i \<mapsto> v)) j))) = table_sum m"
    unfolding table_sum_def by (intro sum.cong) auto
  with \<open>i \<notin> dom m\<close> assms(1) show ?thesis
    by (simp add: table_sum_def add.commute)
qed

lemma table_sum_replace:
  assumes "finite (dom m)" "m i = Some v"
  shows "table_sum (m(i \<mapsto> v')) = table_sum m - StakedAmount v + StakedAmount v'"
  using table_sum_remove[OF assms] table_sum_fresh[of "m(i := None)" i v'] assms by simp

lemma staking_inv_New: "staking_inv (fst (NewProgressiveStaking w pct bt el))"
  by (simp add: NewProgressiveStaking_def staking_inv_def table_sum_def Let_def
      DefaultBlockTimeSec_def)

lemma staking_inv_Register: "staking_inv ps \<Longrightarrow> staking_inv (RegisterStake ps i amount)"
  by (cases "ValidatorRewards ps i")
    (auto simp: RegisterStake_def staking_inv_def Let_def table_sum_fresh table_sum_replace)

lemma staking_inv_Remove: "staking_inv ps \<Longrightarrow> staking_inv (RemoveStake ps i)"
  by (auto simp: RemoveStake_def staking_inv_def table_sum_remove split: option.splits)

lemma staking_inv_Rollover: "staking_inv ps \<Longrightarrow> staking_inv (RolloverEpoch ps)"
  by (simp add: RolloverEpoch_def staking_inv_def)

lemma staking_inv_Claim: "staking_inv ps \<Longrightarrow> staking_inv (snd (ClaimReward ps i))"
  by (auto simp: ClaimReward_def staking_inv_def table_sum_replace split: option.splits)

subsection \<open>A block never pays more than it has\<close>

lemma sum_div_le: "sum_list (map (\<lambda>x. f x div (n :: nat)) xs) \<le> sum_list (map f xs) div n"
proof (induction xs)
  case (Cons x xs)
  have "f x div n + sum_list (map f xs) div n \<le> (f x + sum_list (map f xs)) div n"
    by (metis div_add1_eq le_add1)
  with Cons show ?case by simp
qed simp

lemma unat_sum_list:
  "sum_list (map (\<lambda>x. unat (f x)) xs) < 2 ^ 64 \<Longrightarrow>
   unat (sum_list (map f xs) :: u64) = sum_list (map (\<lambda>x. unat (f x)) xs)"
  by (induction xs) (simp_all add: unat_add_no_wrap)

lemma unat_block_share:
  "unat (block_share av t a) \<le> unat av * unat a div unat t"
proof -
  have "unat (block_share av t a) = (unat av * unat a) mod 2 ^ 64 div unat t"
    by (simp add: block_share_def unat_div unat_word_ariths)
  also have "\<dots> \<le> unat av * unat a div unat t"
    by (intro div_le_mono) (simp add: mod_less_eq_dividend)
  finally show ?thesis .
qed

text \<open>
  The floors of proportional shares never add up to more than the whole, whether or not a
  numerator wraps around, as long as the total of the annual rewards does not.
\<close>

lemma shares_le:
  assumes total: "unat t = sum_list (map (\<lambda>i. unat (a i)) is)" and "t \<noteq> 0"
  shows "sum_list (map (\<lambda>i. unat (block_share av t (a i))) is) \<le> unat av"
proof -
  have "sum_list (map (\<lambda>i. unat (block_share av t (a i))) is)
      \<le> sum_list (map (\<lambda>i. unat av * unat (a i) div unat t) is)"
    by (intro sum_list_mono) (simp add: unat_block_share)
  also have "\<dots> \<le> sum_list (map (\<lambda>i. unat av * unat (a i)) is) div unat t"
    by (rule sum_div_le)
  also have "\<dots> = unat av * unat t div unat t"
    by (simp only: total sum_list_const_mult)
  also have "\<dots> = unat av"
    using assms(2) by (simp add: unat_eq_0)
  finally show ?thesis .
qed

lemma credit_0 [simp]: "map_option (credit 0) x = x"
  by (cases x) (simp_all add: credit_def)

lemma pay_loop_spec:
  assumes "distinct is"
  shows "pay_loop av t a is (d, tb, p) =
    ((\<lambda>i. if i \<in> set is \<and> block_share av t (a i) \<noteq> 0 then Some (block_share av t (a i)) else d i),
     (\<lambda>i. if i \<in> set is then map_option (credit (block_share av t (a i))) (tb i) else tb i),
     p + sum_list (map (\<lambda>i. block_share av t (a i)) is))"
  using assms
proof (induction "is" arbitrary: d tb p)
  case (Cons i "is")
  then show ?case
    by (auto simp: Let_def fun_eq_iff add.assoc)
qed simp

text \<open>
  The whole distribution without loops or early returns: what a block may spend, and each
  validator's floor of its proportional share of it.
\<close>

definition enumerates :: "ProgressiveStaking \<Rightarrow> ValidatorID list \<Rightarrow> bool" where
  "enumerates ps order \<longleftrightarrow> distinct order \<and> set order = dom (ValidatorRewards ps)"

definition block_carry :: "World \<Rightarrow> ProgressiveStaking \<Rightarrow> float64" where
  "block_carry w ps = fl_add (accrued ps) (PerBlockEmission w ps)"

definition block_available :: "World \<Rightarrow> ProgressiveStaking \<Rightarrow> u64" where
  "block_available w ps =
     (let cap = EpochCap w ps; avail = u64_of_float (block_carry w ps) in
      if 0 < cap \<and> cap \<le> epochMinted ps then 0
      else if 0 < cap \<and> cap < epochMinted ps + avail then cap - epochMinted ps else avail)"

definition total_annual :: "ProgressiveStaking \<Rightarrow> u64" where
  "total_annual ps = (\<Sum>i \<in> dom (ValidatorRewards ps). annual_reward ps i)"

definition share_of :: "World \<Rightarrow> ProgressiveStaking \<Rightarrow> ValidatorID \<Rightarrow> u64" where
  "share_of w ps i = block_share (block_available w ps) (total_annual ps) (annual_reward ps i)"

definition distribute_spec ::
  "World \<Rightarrow> ProgressiveStaking \<Rightarrow> u64 \<Rightarrow> (ValidatorID \<rightharpoonup> u64) \<times> ProgressiveStaking" where
  "distribute_spec w ps height =
     (if total_annual ps = 0 then (Map.empty, ps\<lparr>CurrentBlock := height\<rparr>)
      else
        let paid = (\<Sum>i \<in> dom (ValidatorRewards ps). share_of w ps i) in
        ((\<lambda>i. if share_of w ps i = 0 then None else Some (share_of w ps i)),
         ps\<lparr>CurrentBlock := height,
            ValidatorRewards := (\<lambda>i. map_option (credit (share_of w ps i)) (ValidatorRewards ps i)),
            accrued := (if paid = 0 then block_carry w ps
                        else fl_sub (block_carry w ps) (float_of_u64 paid)),
            epochMinted := epochMinted ps + paid\<rparr>))"

lemma emission_updates [simp]:
  "PerBlockEmission w (ps\<lparr>CurrentBlock := h\<rparr>) = PerBlockEmission w ps"
  "EpochCap w (ps\<lparr>CurrentBlock := h\<rparr>) = EpochCap w ps"
  "EpochCap w (ps\<lparr>accrued := c\<rparr>) = EpochCap w ps"
  "annual_reward (ps\<lparr>CurrentBlock := h\<rparr>) = annual_reward ps"
  "annual_reward (ps\<lparr>accrued := c\<rparr>) = annual_reward ps"
  by (simp_all add: PerBlockEmission_def EpochCap_def annual_reward_def fun_eq_iff)

lemma block_carry_height [simp]: "block_carry w (ps\<lparr>CurrentBlock := h\<rparr>) = block_carry w ps"
  by (simp add: block_carry_def)

lemma sum_list_enumerates:
  "enumerates ps order \<Longrightarrow> sum_list (map f order) = (\<Sum>i \<in> dom (ValidatorRewards ps). f i)"
  unfolding enumerates_def by (metis sum_list_distinct_conv_sum_set)

lemma block_share_0 [simp]: "block_share 0 t a = 0" "block_share av t 0 = 0"
  by (simp_all add: block_share_def)

lemma annual_reward_outside: "i \<notin> dom (ValidatorRewards ps) \<Longrightarrow> annual_reward ps i = 0"
  by (auto simp: annual_reward_def split: option.splits)

lemma pay_loop_enumerates:
  assumes "enumerates ps order"
  shows "pay_loop av t (annual_reward ps) order (Map.empty, ValidatorRewards ps, 0) =
    ((\<lambda>i. let r = block_share av t (annual_reward ps i) in if r = 0 then None else Some r),
     (\<lambda>i. map_option (credit (block_share av t (annual_reward ps i))) (ValidatorRewards ps i)),
     (\<Sum>i \<in> dom (ValidatorRewards ps). block_share av t (annual_reward ps i)))"
proof -
  have d: "distinct order" "set order = dom (ValidatorRewards ps)"
    using assms by (simp_all add: enumerates_def)
  show ?thesis
    unfolding pay_loop_spec[OF d(1)] sum_list_enumerates[OF assms] d(2)
    by (auto simp: fun_eq_iff Let_def annual_reward_outside)
qed

lemma DistributeBlockReward_eq:
  assumes "enumerates ps order1" "enumerates ps order2"
  shows "DistributeBlockReward w order1 order2 ps height = distribute_spec w ps height"
proof -
  have total: "foldl (\<lambda>t i. t + annual_reward ps i) 0 order1 = total_annual ps"
    by (simp add: foldl_add_sum_list total_annual_def sum_list_enumerates[OF assms(1)])
  define av where "av = block_available w ps"
  have pay: "pay_loop a t (annual_reward ps) order2 (Map.empty, ValidatorRewards ps, 0) =
    ((\<lambda>i. let r = block_share a t (annual_reward ps i) in if r = 0 then None else Some r),
     (\<lambda>i. map_option (credit (block_share a t (annual_reward ps i))) (ValidatorRewards ps i)),
     (\<Sum>i \<in> dom (ValidatorRewards ps). block_share a t (annual_reward ps i)))" for a t
    using assms(2) by (rule pay_loop_enumerates)
  have zero: "distribute_spec w ps height =
      (Map.empty, ps\<lparr>CurrentBlock := height, accrued := block_carry w ps\<rparr>)"
    if "av = 0" "total_annual ps \<noteq> 0"
    using that by (simp add: distribute_spec_def share_of_def av_def[symmetric] Let_def)
  show ?thesis
  proof (cases "total_annual ps = 0 \<or> av = 0")
    case True
    then show ?thesis
      using zero total
      by (auto simp: DistributeBlockReward_def distribute_spec_def block_available_def
          block_carry_def[symmetric] av_def Let_def split: if_splits)
  next
    case False
    then have run: "\<not> (0 < EpochCap w ps \<and> EpochCap w ps \<le> epochMinted ps)"
        "u64_of_float (block_carry w ps) \<noteq> 0"
      and limit: "(if 0 < EpochCap w ps \<and>
          EpochCap w ps < epochMinted ps + u64_of_float (block_carry w ps)
          then EpochCap w ps - epochMinted ps else u64_of_float (block_carry w ps)) = av"
      by (auto simp: av_def block_available_def Let_def split: if_splits)
    from False have nz: "total_annual ps \<noteq> 0" "av \<noteq> 0" by simp_all
    note unfolds = DistributeBlockReward_def distribute_spec_def total pay share_of_def
      block_carry_def[symmetric] av_def[symmetric] Let_def
    show ?thesis
    proof (cases "0 < EpochCap w ps \<and> EpochCap w ps < epochMinted ps + u64_of_float (block_carry w ps)")
      case True
      then have "EpochCap w ps - epochMinted ps = av" "EpochCap w ps \<noteq> epochMinted ps"
        using limit nz by auto
      with True run nz show ?thesis
        by (simp add: unfolds cong: if_cong)
    next
      case False
      then have "u64_of_float (block_carry w ps) = av"
        using limit by (simp split: if_splits)
      with False run nz show ?thesis
        by (cases "EpochCap w ps = 0") (simp_all add: unfolds word_gt_0 cong: if_cong)
    qed
  qed
qed

subsection \<open>The carry and the cap of an epoch\<close>

definition paid_total :: "(ValidatorID \<rightharpoonup> u64) \<Rightarrow> ValidatorID set \<Rightarrow> nat" where
  "paid_total d vs = (\<Sum>i \<in> vs. case d i of None \<Rightarrow> 0 | Some r \<Rightarrow> unat r)"

text \<open>No total of the computation leaves the range of a 64-bit integer.\<close>

definition no_wrap :: "World \<Rightarrow> ProgressiveStaking \<Rightarrow> bool" where
  "no_wrap w ps \<longleftrightarrow>
     (\<Sum>i \<in> dom (ValidatorRewards ps). unat (annual_reward ps i)) < 2 ^ 64
     \<and> block_carry w ps < 2 ^ 63 \<and> unat (epochMinted ps) < 2 ^ 63"

lemma block_carry_nonneg: "staking_inv ps \<Longrightarrow> 0 \<le> block_carry w ps"
  by (auto simp: block_carry_def staking_inv_def PerBlockEmission_def blocksPerYear_def
      fl_add_def fl_div_def intro!: fl_nonneg add_nonneg_nonneg divide_nonneg_nonneg)

lemma block_available_le:
  assumes "staking_inv ps" "no_wrap w ps"
  shows "of_nat (unat (block_available w ps)) \<le> block_carry w ps"
    and "0 < EpochCap w ps \<Longrightarrow> epochMinted ps \<le> EpochCap w ps \<Longrightarrow>
         unat (epochMinted ps) + unat (block_available w ps) \<le> unat (EpochCap w ps)"
proof -
  let ?av = "u64_of_float (block_carry w ps)"
  have carry: "0 \<le> block_carry w ps" "block_carry w ps < 2 ^ 63"
    using assms block_carry_nonneg by (auto simp: no_wrap_def)
  then have le: "of_nat (unat ?av) \<le> block_carry w ps"
    by (intro u64_of_float_le) auto
  then have "(of_nat (unat ?av) :: rat) < of_nat (2 ^ 63)"
    using carry(2) by simp
  then have av: "unat ?av < 2 ^ 63"
    using of_nat_less_iff by blast
  have sum: "unat (epochMinted ps + ?av) = unat (epochMinted ps) + unat ?av"
    using av assms(2) by (intro unat_add_no_wrap) (simp add: no_wrap_def)
  have diff: "unat (EpochCap w ps - epochMinted ps) = unat (EpochCap w ps) - unat (epochMinted ps)"
    if "epochMinted ps \<le> EpochCap w ps"
    using that by (rule unat_sub)
  show "of_nat (unat (block_available w ps)) \<le> block_carry w ps"
  proof -
    have "unat (block_available w ps) \<le> unat ?av"
      using diff sum by (auto simp: block_available_def Let_def word_le_nat_alt word_less_nat_alt)
    then have "of_nat (unat (block_available w ps)) \<le> (of_nat (unat ?av) :: rat)"
      by (simp only: of_nat_le_iff)
    with le show ?thesis by linarith
  qed
  show "unat (epochMinted ps) + unat (block_available w ps) \<le> unat (EpochCap w ps)"
    if "0 < EpochCap w ps" "epochMinted ps \<le> EpochCap w ps"
    using that diff sum
    by (auto simp: block_available_def Let_def word_le_nat_alt word_less_nat_alt)
qed

lemma total_annual_no_wrap:
  assumes "staking_inv ps" "no_wrap w ps"
  shows "unat (total_annual ps) = (\<Sum>i \<in> dom (ValidatorRewards ps). unat (annual_reward ps i))"
proof -
  have "finite (dom (ValidatorRewards ps))"
    using assms(1) by (simp add: staking_inv_def)
  then obtain order where o: "set order = dom (ValidatorRewards ps)" "distinct order"
    using finite_distinct_list by metis
  show ?thesis
    using unat_sum_list[of "annual_reward ps" order] assms(2) o
    by (simp add: no_wrap_def total_annual_def sum_list_distinct_conv_sum_set)
qed

lemma shares_within:
  assumes "staking_inv ps" "no_wrap w ps" "total_annual ps \<noteq> 0"
  shows "(\<Sum>i \<in> dom (ValidatorRewards ps). unat (share_of w ps i)) \<le> unat (block_available w ps)"
    and "unat (\<Sum>i \<in> dom (ValidatorRewards ps). share_of w ps i) =
         (\<Sum>i \<in> dom (ValidatorRewards ps). unat (share_of w ps i))"
proof -
  have "finite (dom (ValidatorRewards ps))"
    using assms(1) by (simp add: staking_inv_def)
  then obtain order where o: "set order = dom (ValidatorRewards ps)" "distinct order"
    using finite_distinct_list by metis
  have "unat (total_annual ps) = sum_list (map (\<lambda>i. unat (annual_reward ps i)) order)"
    using total_annual_no_wrap[OF assms(1,2)] o by (simp add: sum_list_distinct_conv_sum_set)
  from shares_le[OF this assms(3), of "block_available w ps"] o
  have le: "sum_list (map (\<lambda>i. unat (share_of w ps i)) order) \<le> unat (block_available w ps)"
    by (simp add: share_of_def)
  then show "(\<Sum>i \<in> dom (ValidatorRewards ps). unat (share_of w ps i)) \<le> unat (block_available w ps)"
    using o by (simp add: sum_list_distinct_conv_sum_set)
  have "sum_list (map (\<lambda>i. unat (share_of w ps i)) order) < 2 ^ 64"
    using order_le_less_trans[OF le unat_u64_bound] by simp
  from unat_sum_list[OF this] o
  show "unat (\<Sum>i \<in> dom (ValidatorRewards ps). share_of w ps i) =
      (\<Sum>i \<in> dom (ValidatorRewards ps). unat (share_of w ps i))"
    by (simp add: sum_list_distinct_conv_sum_set)
qed

lemma distribute_spec_bounds:
  assumes inv: "staking_inv ps" "no_wrap w ps" and res: "distribute_spec w ps h = (d, ps')"
  defines "tot \<equiv> paid_total d (dom (ValidatorRewards ps))"
  shows "of_nat tot \<le> block_carry w ps"
    and "unat (epochMinted ps') = unat (epochMinted ps) + tot"
    and "0 < EpochCap w ps \<Longrightarrow> epochMinted ps \<le> EpochCap w ps \<Longrightarrow> epochMinted ps' \<le> EpochCap w ps"
    and "staking_inv ps'"
proof -
  let ?D = "dom (ValidatorRewards ps)" and ?paid = "\<Sum>i \<in> dom (ValidatorRewards ps). share_of w ps i"
  have d: "tot = (if total_annual ps = 0 then 0 else unat ?paid)"
  proof (cases "total_annual ps = 0")
    case False
    then have "tot = (\<Sum>i \<in> ?D. unat (share_of w ps i))"
      unfolding tot_def paid_total_def
      using res by (intro sum.cong) (auto simp: distribute_spec_def Let_def)
    with False shares_within(2)[OF inv False] show ?thesis by simp
  qed (use res in \<open>auto simp: distribute_spec_def tot_def paid_total_def\<close>)
  have av: "tot \<le> unat (block_available w ps)"
    using d shares_within[OF inv] by (cases "total_annual ps = 0") auto
  then have "(of_nat tot :: rat) \<le> of_nat (unat (block_available w ps))"
    by (simp only: of_nat_le_iff)
  then show carry: "of_nat tot \<le> block_carry w ps"
    using block_available_le(1)[OF inv] by linarith
  have "(of_nat tot :: rat) < of_nat (2 ^ 63)"
    using carry inv(2) by (simp add: no_wrap_def)
  then have "tot < 2 ^ 63"
    using of_nat_less_iff by blast
  then show minted: "unat (epochMinted ps') = unat (epochMinted ps) + tot"
    using res d inv(2)
    by (auto simp: distribute_spec_def Let_def no_wrap_def unat_add_no_wrap split: if_splits)
  show "epochMinted ps' \<le> EpochCap w ps" if "0 < EpochCap w ps" "epochMinted ps \<le> EpochCap w ps"
    using block_available_le(2)[OF inv that] minted av by (simp add: word_le_nat_alt)
  have "0 \<le> accrued ps' \<and> fl (accrued ps') = accrued ps'"
  proof (cases "total_annual ps = 0")
    case True
    with res inv(1) show ?thesis
      by (auto simp: distribute_spec_def staking_inv_def)
  next
    case False
    have "float_of_u64 ?paid \<le> fl (block_carry w ps)"
      unfolding float_of_u64_def using carry d False by (intro fl_mono) simp
    then have "0 \<le> block_carry w ps - float_of_u64 ?paid"
      by (simp add: block_carry_def)
    with False res block_carry_nonneg[OF inv(1), of w] show ?thesis
      by (auto simp: distribute_spec_def Let_def fl_sub_def fl_nonneg block_carry_def split: if_splits)
  qed
  moreover have "table_sum (\<lambda>i. map_option (credit (f i)) (ValidatorRewards ps i)) =
      table_sum (ValidatorRewards ps)" for f
    by (rule table_sum_cong) (auto simp: credit_def dom_def)
  moreover have "dom (\<lambda>i. map_option (credit (f i)) (ValidatorRewards ps i)) = ?D" for f
    by (auto simp: dom_def)
  ultimately show "staking_inv ps'"
    using inv(1) res by (auto simp: distribute_spec_def staking_inv_def Let_def split: if_splits)
qed

end
