(* ===== verification/Chain.thy ===== *)
theory Chain
  imports Evm Transactions Staking "HOL-Library.Sublist"
begin

text \<open>
  The chain (\<^verbatim>\<open>chain.go\<close>): the execution of one transaction, the production of a block, the
  genesis state of the precompiles, and the genesis configuration (\<^verbatim>\<open>genesis.go\<close>).

  What a block depends on besides the chain is collected in \<open>BlockEnv\<close>: the signature check, the
  Keccak digest and the capacity of calldata arrays, the revm library, the clock, the text that \<^verbatim>\<open>fmt\<close> prints for
  the account map (it contains the addresses of heap objects, so it is not a function of the
  accounts' contents), and the orders in which Go iterates over the reward maps. The store
  is added in \<^verbatim>\<open>Persistence\<close>; the callback \<^verbatim>\<open>OnNewBlock\<close> is the broadcast of \<^verbatim>\<open>Subscriptions\<close>.
\<close>

record BlockEnv =
  be_Verify :: sig_verify
  be_host :: Host
  be_revm :: revm
  be_now :: int
  be_accounts_text :: "string"
  be_order1 :: "ValidatorID list"
  be_order2 :: "ValidatorID list"
  be_order3 :: "ValidatorID list"

record Chain =
  ch_State :: World
  Pool :: TxPool
  Blocks :: "BlockWithTx list"
  ch_Height :: u64
  ch_Staking :: ProgressiveStaking

subsection \<open>One transaction\<close>

definition ParsePubKey :: "string \<Rightarrow> bytes outcome" where
  "ParsePubKey hexStr =
     (case hex_decode hexStr of
        None \<Rightarrow> Err (Errorf ''parse pubkey'')
      | Some data \<Rightarrow> if length data \<noteq> 32 then Err (Errorf ''parse pubkey: invalid length'') else Ret data)"

definition PubKeyHex :: "bytes \<Rightarrow> string" where
  "PubKeyHex pub = hex_encode pub"

definition VerifyTransaction :: "sig_verify \<Rightarrow> Transaction \<Rightarrow> bytes \<Rightarrow> bool" where
  "VerifyTransaction V tx pub = V pub (tx_Hash tx) (tx_Signature tx)"

text \<open>The signature is checked only when there is one.\<close>

definition sig_accepted :: "sig_verify \<Rightarrow> Transaction \<Rightarrow> bool" where
  "sig_accepted V tx \<longleftrightarrow>
     (if tx_Signature tx \<noteq> [] then
        (case ParsePubKey (tx_From tx) of
           Ret pub \<Rightarrow> V pub (TxHash tx) (tx_Signature tx)
         | _ \<Rightarrow> False)
      else True)"

definition gas_price :: "Transaction \<Rightarrow> u64" where
  "gas_price tx = (if tx_GasPrice tx = 0 then 1 else tx_GasPrice tx)"

definition tx_context :: "Transaction \<Rightarrow> CallContext" where
  "tx_context tx =
     \<lparr>ctx_Caller = tx_From tx, ctx_Address = tx_To tx, ctx_Value = tx_Value tx,
      ctx_GasLimit = tx_GasLimit tx, ctx_Calldata = tx_Data tx, ctx_ReadOnly = False\<rparr>"

text \<open>
  The body of the loop of \<^verbatim>\<open>ProduceBlock\<close>: \<open>None\<close> is a \<^verbatim>\<open>continue\<close>, \<open>Some\<close> the transaction as it
  goes into the block. Both gas products wrap around at 64 bits.
\<close>

definition exec_tx ::
  "BlockEnv \<Rightarrow> u64 \<Rightarrow> Transaction \<Rightarrow> World \<Rightarrow> (Transaction option \<times> World) outcome" where
  "exec_tx env height tx w0 =
     (let w = touch w0 (tx_From tx); sender = acct w (tx_From tx) in
      if \<not> sig_accepted (be_Verify env) tx then Ret (None, w)
      else if tx_Nonce tx \<noteq> Nonce sender then Ret (None, w)
      else if tx_To tx = [] \<and> CanDeployContract (DoxDevLevel sender) \<noteq> None then Ret (None, w)
      else
        let gasPrice = gas_price tx;
            txCost = int (unat (tx_GasLimit tx * gasPrice)) + tx_Value tx in
        if Balance sender < txCost then Ret (None, w)
        else
          let txEVM = NewEVM (tx_Lane tx) height (of_int (be_now env)) 10008 (tx_GasLimit tx) [] in
          case Execute (be_Verify env) (be_host env) (be_revm env) txEVM (tx_context tx) w of
            (Panic, _) \<Rightarrow> Panic
          | (Err e, _) \<Rightarrow> Err e
          | (Ret result, w1) \<Rightarrow>
              let txLogs = drop (length (Logs w)) (Logs w1);
                  cost = int (unat (GasUsed result * gasPrice)) + tx_Value tx;
                  w2 = upd_acct w1 (tx_From tx)
                         (\<lambda>acc. acc\<lparr>Balance := Balance acc - cost, Nonce := Nonce acc + 1\<rparr>) in
              if er_Error result \<noteq> None then Ret (None, w2)
              else Ret (Some (tx\<lparr>tx_GasUsed := GasUsed result, tx_Logs := txLogs,
                               tx_Data := calldata_after (be_host env) txEVM (tx_context tx) w\<rparr>), w2))"

fun exec_txs ::
  "BlockEnv \<Rightarrow> u64 \<Rightarrow> Transaction list \<Rightarrow> World \<Rightarrow> (Transaction list \<times> World) outcome" where
  "exec_txs env height [] w = Ret ([], w)"
| "exec_txs env height (tx # txs) w =
     (case exec_tx env height tx w of
        Ret (r, w1) \<Rightarrow>
          (case exec_txs env height txs w1 of
             Ret (rs, w2) \<Rightarrow> Ret ((case r of None \<Rightarrow> [] | Some t \<Rightarrow> [t]) @ rs, w2)
           | Err e \<Rightarrow> Err e | Panic \<Rightarrow> Panic)
      | Err e \<Rightarrow> Err e | Panic \<Rightarrow> Panic)"

subsection \<open>One block\<close>

definition run_due_tasks :: "u64 \<Rightarrow> World \<Rightarrow> World outcome" where
  "run_due_tasks height w =
     (case ExecuteDueTasks (NewTimeExecution w) height of
        Ret (due, te) \<Rightarrow>
          Ret (foldl (\<lambda>w i. case GetTask te i of
                 None \<Rightarrow> w
               | Some task \<Rightarrow> AddLog w (PrecompileAddrHex 0x0D) [FeedID task, i]
                                [ucast (ExecutionCount task)] height) (te_State te) due)
      | Err e \<Rightarrow> Err e | Panic \<Rightarrow> Panic)"

definition epoch_step :: "u64 \<Rightarrow> ProgressiveStaking \<Rightarrow> World \<Rightarrow> (ProgressiveStaking \<times> World) outcome" where
  "epoch_step height ps w =
     (if 0 < EpochLength ps \<and> height mod EpochLength ps = 0 then
        (case AccrueEcono w of
           Ret w1 \<Rightarrow> Ret (RolloverEpoch ps, ApplyEconoPolicy w1)
         | Err e \<Rightarrow> Err e | Panic \<Rightarrow> Panic)
      else Ret (ps, w))"

definition credit_reward ::
  "(ValidatorID \<rightharpoonup> u64) \<Rightarrow> World \<times> u64 \<Rightarrow> ValidatorID \<Rightarrow> World \<times> u64" where
  "credit_reward rewards st i =
     (let (w, minted) = st in
      case rewards i of
        None \<Rightarrow> (w, minted)
      | Some amount \<Rightarrow>
          if 0 < amount
          then (add_balance (touch w (ValidatorID_String i)) (ValidatorID_String i) (int (unat amount)),
                minted + amount)
          else (w, minted))"

definition reward_step ::
  "BlockEnv \<Rightarrow> u64 \<Rightarrow> ProgressiveStaking \<Rightarrow> World \<Rightarrow> (ProgressiveStaking \<times> World) outcome" where
  "reward_step env height ps w =
     (let (rewards, ps') = DistributeBlockReward w (be_order1 env) (be_order2 env) ps height;
          (w1, minted) = foldl (credit_reward rewards) (w, 0) (be_order3 env) in
      if 0 < minted then
        let share = TreasuryShareOf minted;
            w2 = (if 0 < share then add_balance (touch w1 treasury_addr) treasury_addr (int (unat share))
                  else w1) in
        (case QuestAddSupply w2 (int (unat minted)) of
           Ret w3 \<Rightarrow> Ret (ps', w3)
         | Err e \<Rightarrow> Err e | Panic \<Rightarrow> Panic)
      else Ret (ps', w1))"

definition assemble_block ::
  "BlockEnv \<Rightarrow> u64 \<Rightarrow> ValidatorID \<Rightarrow> BlockWithTx list \<Rightarrow> Transaction list \<Rightarrow> LogEntry list \<Rightarrow> BlockWithTx" where
  "assemble_block env height proposer blocks executed logs =
     (let b = \<lparr>blk_Height = height, blk_Proposer = proposer, blk_Timestamp = be_now env,
               blk_PrevHash = (if blocks = [] then replicate 32 0 else blk_Hash (last blocks)),
               blk_Transactions = executed,
               blk_StateRoot = sha256 (bytes_of_string (be_accounts_text env)),
               blk_Hash = replicate 32 0, blk_Logs = logs\<rparr> in
      b\<lparr>blk_Hash := ComputeHash b\<rparr>)"

definition ProduceBlock :: "BlockEnv \<Rightarrow> ValidatorID \<Rightarrow> Chain \<Rightarrow> (BlockWithTx \<times> Chain) outcome" where
  "ProduceBlock env proposer c =
     (let height = ch_Height c + 1; (popped, pool') = PopConsensus (Pool c) 10 in
      case exec_txs env height popped (ch_State c) of
        Ret (executed, w1) \<Rightarrow>
          (case run_due_tasks height w1 of
             Ret w2 \<Rightarrow>
               let block = assemble_block env height proposer (Blocks c) executed (Logs w2) in
               (case epoch_step height (ch_Staking c) w2 of
                  Ret (ps1, w3) \<Rightarrow>
                    (case reward_step env height ps1 w3 of
                       Ret (ps2, w4) \<Rightarrow>
                         Ret (block, c\<lparr>ch_State := w4, Pool := pool', Blocks := Blocks c @ [block],
                                       ch_Height := height, ch_Staking := ps2\<rparr>)
                     | Err e \<Rightarrow> Err e | Panic \<Rightarrow> Panic)
                | Err e \<Rightarrow> Err e | Panic \<Rightarrow> Panic)
           | Err e \<Rightarrow> Err e | Panic \<Rightarrow> Panic)
      | Err e \<Rightarrow> Err e | Panic \<Rightarrow> Panic)"

subsection \<open>Genesis\<close>

definition pad20 :: "string \<Rightarrow> bytes" where
  "pad20 name = copy_at 0 (bytes_of_string name) (replicate 20 0)"

definition registerCurator :: "World \<Rightarrow> string \<Rightarrow> World" where
  "registerCurator w developer =
     sstore w dox_addr (sha256 (0x30 # pad20 developer)) (zero_slot[31 := 1])"

definition issueGenesisBadge :: "World \<Rightarrow> u64 \<Rightarrow> string \<Rightarrow> u8 \<Rightarrow> u64 \<Rightarrow> World" where
  "issueGenesisBadge w height developer level validityPeriod =
     (let total = big_Uint64 (be_nat (sload w dox_addr zero_slot)) + 1;
          w1 = sstore w dox_addr zero_slot (fill_be 32 (unat total));
          d0 = zero_slot[0 := level];
          d1 = (if 0 < validityPeriod then copy_at 1 (u64be (height + validityPeriod)) d0 else d0);
          d2 = copy_at 17 (u64be height) (d1[9 := 0]) in
      sstore w1 dox_addr (sha256 (0x10 # pad20 developer)) d2)"

definition InitPrecompiles :: "World \<Rightarrow> u64 \<Rightarrow> World" where
  "InitPrecompiles w height =
     (let w1 = sstore (touch w dox_addr) dox_addr (zero_slot[31 := 1]) (fill_be 32 3);
          w2 = registerCurator (registerCurator (registerCurator w1 ''alice'') ''bob'') ''treasury'';
          w3 = issueGenesisBadge w2 height ''alice'' 3 0;
          w4 = issueGenesisBadge w3 height ''bob'' 2 0;
          w5 = issueGenesisBadge w4 height ''treasury'' 3 0;
          w6 = sstore (touch w5 bijo_addr) bijo_addr zero_slot (fill_be 32 BijoSupply);
          w7 = sstore w6 bijo_addr (zero_slot[31 := 2]) zero_slot;
          w8 = sstore w7 bijo_addr (sha256 (0x10 # pad20 ''alice'')) (fill_be 32 (BijoSupply div 100));
          w9 = touch (touch (touch w8 dms_addr) btc_addr) se_addr;
          w10 = sstore w9 se_addr (zero_slot[31 := 2]) (fill_be 32 (unat height));
          w11 = touch w10 (PrecompileAddrHex 0x21) in
      SwayInit w11)"

definition SeedQuestSupply :: "World \<Rightarrow> World outcome" where
  "SeedQuestSupply w = QuestAddSupply w (int (unat WAYStartingSupply))"

definition initial_world :: World where
  "initial_world =
     \<lparr>Accounts = Map.empty, Logs = [], Refunds = 0, econoSnap = fresh_window 0,
      econoPolicy = \<lparr>policy_Phase = 0, BurnBps = 0, GrantBps = 0\<rparr>,
      activeInflationPct = DefaultAnnualInflationPct\<rparr>"

definition NewChain :: Chain where
  "NewChain =
     (let w1 = set_balance initial_world ''funder'' 1000000000;
          (ps, w2) = NewProgressiveStaking w1 DefaultAnnualInflationPct DefaultBlockTimeSec 10000 in
      \<lparr>ch_State = InitPrecompiles w2 0, Pool = NewTxPool, Blocks = [], ch_Height = 0, ch_Staking = ps\<rparr>)"

text \<open>\<^verbatim>\<open>sha256Hash\<close> of \<^verbatim>\<open>genesis.go\<close> folds the input into 32 bytes with exclusive or.\<close>

fun xor_fold :: "nat \<Rightarrow> bytes \<Rightarrow> bytes \<Rightarrow> bytes" where
  "xor_fold i [] result = result"
| "xor_fold i (b # bs) result =
     xor_fold (i + 1) bs (result[i mod 32 := xor (result ! (i mod 32)) b])"

definition sha256Hash :: "bytes \<Rightarrow> bytes" where
  "sha256Hash data = xor_fold 0 data (replicate 32 0)"

record GenesisValidator =
  gv_ID :: string
  gv_Stake :: u64

definition DefaultGenesis_Validators :: "GenesisValidator list" where
  "DefaultGenesis_Validators =
     [\<lparr>gv_ID = ''genesis-val-1'', gv_Stake = 10000\<rparr>, \<lparr>gv_ID = ''genesis-val-2'', gv_Stake = 10000\<rparr>,
      \<lparr>gv_ID = ''genesis-val-3'', gv_Stake = 10000\<rparr>, \<lparr>gv_ID = ''genesis-val-4'', gv_Stake = 10000\<rparr>,
      \<lparr>gv_ID = ''genesis-val-5'', gv_Stake = 10000\<rparr>]"

definition genesis_id :: "GenesisValidator \<Rightarrow> ValidatorID" where
  "genesis_id v = take 20 (sha256Hash (bytes_of_string (gv_ID v)))"

definition genesis_validators :: "GenesisValidator list \<Rightarrow> ValidatorSet" where
  "genesis_validators vals =
     foldl (\<lambda>vs v. case vs_Add vs (genesis_id v) (gv_Stake v) of Inl _ \<Rightarrow> vs | Inr vs' \<Rightarrow> vs')
       NewValidatorSet vals"

definition SetAutopilot :: "World \<Rightarrow> string \<Rightarrow> go_error option \<times> World" where
  "SetAutopilot w addr =
     (case hex_decode (trim0x (ToLower addr)) of
        Some b \<Rightarrow>
          if length b = 20
          then (None, sstore w (PrecompileAddrHex 0x23) (storageKey [autopilotSlot]) (copy_at 12 b zero_slot))
          else (Some (Errorf ''SetAutopilot: invalid 20-byte address''), w)
      | None \<Rightarrow> (Some (Errorf ''SetAutopilot: invalid 20-byte address''), w))"

definition InitGenesis :: "GenesisValidator list \<Rightarrow> ValidatorSet \<times> Chain" where
  "InitGenesis vals =
     (let c = NewChain;
          w1 = SeedAllGenesis (ch_State c);
          w2 = upd_acct w1 FounderAddress (\<lambda>acc. acc\<lparr>DoxDevLevel := 3\<rparr>);
          w3 = snd (SetAutopilot w2 FounderAddress) in
      (genesis_validators vals, c\<lparr>ch_State := w3\<rparr>))"

subsection \<open>Links between blocks\<close>

definition linked :: "BlockWithTx list \<Rightarrow> bool" where
  "linked bs \<longleftrightarrow>
     (\<forall>i < length bs. blk_Height (bs ! i) = of_nat (i + 1) \<and> blk_Hash (bs ! i) = ComputeHash (bs ! i)
        \<and> blk_PrevHash (bs ! i) = (if i = 0 then replicate 32 0 else blk_Hash (bs ! (i - 1))))"

definition chain_inv :: "Chain \<Rightarrow> bool" where
  "chain_inv c \<longleftrightarrow> ch_Height c = of_nat (length (Blocks c)) \<and> linked (Blocks c)"

lemma ComputeHash_own_hash [simp]: "ComputeHash (b\<lparr>blk_Hash := h\<rparr>) = ComputeHash b"
  by (simp add: ComputeHash_def)

lemma assemble_block_fields [simp]:
  "blk_Height (assemble_block env h p bs ex lg) = h"
  "blk_Hash (assemble_block env h p bs ex lg) = ComputeHash (assemble_block env h p bs ex lg)"
  "blk_PrevHash (assemble_block env h p bs ex lg) =
     (if bs = [] then replicate 32 0 else blk_Hash (last bs))"
  "blk_Transactions (assemble_block env h p bs ex lg) = ex"
  "blk_Proposer (assemble_block env h p bs ex lg) = p"
  "blk_Logs (assemble_block env h p bs ex lg) = lg"
  by (simp_all add: assemble_block_def Let_def ComputeHash_def)

lemma linked_snoc:
  assumes "linked bs" "blk_Height b = of_nat (length bs + 1)" "blk_Hash b = ComputeHash b"
    and "blk_PrevHash b = (if bs = [] then replicate 32 0 else blk_Hash (last bs))"
  shows "linked (bs @ [b])"
  unfolding linked_def
proof (intro allI impI)
  fix i assume i: "i < length (bs @ [b])"
  show "blk_Height ((bs @ [b]) ! i) = of_nat (i + 1) \<and> blk_Hash ((bs @ [b]) ! i) = ComputeHash ((bs @ [b]) ! i)
      \<and> blk_PrevHash ((bs @ [b]) ! i) = (if i = 0 then replicate 32 0 else blk_Hash ((bs @ [b]) ! (i - 1)))"
  proof (cases "i < length bs")
    case True
    then show ?thesis
      using assms(1) by (auto simp: linked_def nth_append)
  next
    case False
    with i have "i = length bs" by simp
    with assms(2-4) show ?thesis
      by (auto simp: nth_append last_conv_nth)
  qed
qed

lemma ProduceBlock_shape:
  assumes "ProduceBlock env p c = Ret (b, c')"
  obtains executed w1 logs ps1 w2 w3 where
    "exec_txs env (ch_Height c + 1) (fst (PopConsensus (Pool c) 10)) (ch_State c) = Ret (executed, w1)"
    "run_due_tasks (ch_Height c + 1) w1 = Ret w2"
    "b = assemble_block env (ch_Height c + 1) p (Blocks c) executed (Logs w2)"
    "epoch_step (ch_Height c + 1) (ch_Staking c) w2 = Ret (ps1, w3)"
    "reward_step env (ch_Height c + 1) ps1 w3 = Ret (ch_Staking c', ch_State c')"
    "Blocks c' = Blocks c @ [b]" "ch_Height c' = ch_Height c + 1"
    "Pool c' = snd (PopConsensus (Pool c) 10)"
  using assms that
  by (auto simp: ProduceBlock_def Let_def split: prod.splits outcome.splits)

lemma ProduceBlock_inv:
  assumes "chain_inv c" "ProduceBlock env p c = Ret (b, c')"
  shows "chain_inv c'"
  using assms(2)
proof (rule ProduceBlock_shape)
  fix executed w1 logs ps1 w2 w3
  assume b: "b = assemble_block env (ch_Height c + 1) p (Blocks c) executed (Logs w2)"
    and c': "Blocks c' = Blocks c @ [b]" "ch_Height c' = ch_Height c + 1"
  have "linked (Blocks c @ [b])"
    using assms(1) by (intro linked_snoc) (auto simp: b chain_inv_def)
  with assms(1) c' show ?thesis
    by (simp add: chain_inv_def)
qed

lemma NewChain_inv: "chain_inv NewChain"
  by (simp add: chain_inv_def NewChain_def linked_def Let_def split: prod.splits)

subsection \<open>What enters a block\<close>

text \<open>
  How a transaction goes into a block: as it was submitted, with the gas and the logs filled in. The
  calldata is the submitted one unless the call was to the privacy contract or to governance.
\<close>

definition included_as :: "Transaction \<Rightarrow> Transaction \<Rightarrow> bool" where
  "included_as tx tx' \<longleftrightarrow>
     tx' = tx\<lparr>tx_GasUsed := tx_GasUsed tx', tx_Logs := tx_Logs tx', tx_Data := tx_Data tx'\<rparr>
     \<and> (precompile_form (tx_To tx) \<notin> {Some 0x1C, Some 0x1D} \<longrightarrow> tx_Data tx' = tx_Data tx)"

lemma exec_tx_included:
  assumes "exec_tx env h tx w = Ret (Some tx', w')"
  shows "included_as tx tx'" "sig_accepted (be_Verify env) tx"
    and "tx_Nonce tx = Nonce (acct w (tx_From tx))"
  using assms
  by (auto simp: exec_tx_def Let_def included_as_def calldata_after_def tx_context_def
      split: if_splits outcome.splits prod.splits)

lemma exec_txs_included:
  "exec_txs env h txs w = Ret (ex, w') \<Longrightarrow>
     \<exists>ts. subseq ts txs \<and> list_all2 included_as ts ex \<and> (\<forall>t \<in> set ts. sig_accepted (be_Verify env) t)"
proof (induction txs arbitrary: w ex w')
  case (Cons tx txs)
  then obtain r w1 rs where 1: "exec_tx env h tx w = Ret (r, w1)"
    and 2: "exec_txs env h txs w1 = Ret (rs, w')"
    and ex: "ex = (case r of None \<Rightarrow> [] | Some t \<Rightarrow> [t]) @ rs"
    by (auto split: outcome.splits prod.splits)
  from Cons.IH[OF 2] obtain ts where ts: "subseq ts txs" "list_all2 included_as ts rs"
    "\<forall>t \<in> set ts. sig_accepted (be_Verify env) t"
    by blast
  show ?case
  proof (cases r)
    case None
    then show ?thesis
      using ts ex by (intro exI[of _ ts]) auto
  next
    case (Some t)
    then show ?thesis
      using ts ex exec_tx_included[of env h tx w t w1] 1 by (intro exI[of _ "tx # ts"]) auto
  qed
qed auto

subsection \<open>Plain transfers\<close>

text \<open>
  The transactions the dispatcher treats as transfers of value and the block builder includes:
  the sender's tests pass, and the recipient is named, is no precompile and has no code.
\<close>

definition plain_transfer :: "BlockEnv \<Rightarrow> Transaction \<Rightarrow> World \<Rightarrow> bool" where
  "plain_transfer env tx w \<longleftrightarrow>
     sig_accepted (be_Verify env) tx \<and> tx_Nonce tx = Nonce (acct w (tx_From tx))
     \<and> int (unat (tx_GasLimit tx * gas_price tx)) + tx_Value tx \<le> balance_of w (tx_From tx)
     \<and> tx_To tx \<noteq> []
     \<and> (case precompile_form (tx_To tx) of None \<Rightarrow> True | Some a \<Rightarrow> \<not> IsPrecompile a)
     \<and> Code (acct w (tx_To tx)) = [] \<and> tx_Data tx = []"

lemma exec_transfer:
  assumes "plain_transfer env tx w"
  shows "exec_tx env h tx w =
    Ret (Some (tx\<lparr>tx_GasUsed := 21000, tx_Logs := []\<rparr>),
      upd_acct
        (if tx_From tx \<noteq> tx_To tx \<and> 0 < tx_Value tx
         then add_balance (touch (touch w (tx_From tx)) (tx_To tx)) (tx_To tx) (tx_Value tx)
         else touch (touch w (tx_From tx)) (tx_To tx))
        (tx_From tx)
        (\<lambda>acc. acc\<lparr>Balance := Balance acc - (int (unat (21000 * gas_price tx)) + tx_Value tx),
                   Nonce := Nonce acc + 1\<rparr>))"
  using assms
  by (auto simp: plain_transfer_def exec_tx_def Execute_def tx_context_def result_ok_def Let_def
      calldata_after_def IsPrecompile_def balance_of_def add_balance_def set_balance_def split: option.splits)

lemma exec_transfer_effect:
  assumes "plain_transfer env tx w"
  shows "\<exists>w'. exec_tx env h tx w = Ret (Some (tx\<lparr>tx_GasUsed := 21000, tx_Logs := []\<rparr>), w')
    \<and> (\<forall>x. balance_of w' x = balance_of w x
         - (if x = tx_From tx then int (unat (21000 * gas_price tx)) + tx_Value tx else 0)
         + (if x = tx_To tx \<and> tx_To tx \<noteq> tx_From tx then max 0 (tx_Value tx) else 0))
    \<and> Nonce (acct w' (tx_From tx)) = Nonce (acct w (tx_From tx)) + 1"
  using assms unfolding exec_transfer[OF assms]
  by (auto simp: plain_transfer_def balance_of_def acct_upd_acct add_balance_def set_balance_def)

lemma exec_tx_wrong_nonce:
  assumes "tx_Nonce tx \<noteq> Nonce (acct w (tx_From tx))"
  shows "exec_tx env h tx w = Ret (None, touch w (tx_From tx))"
  using assms by (simp add: exec_tx_def Let_def)

subsection \<open>Rewards and the supply tracker\<close>

definition reward_amount :: "(ValidatorID \<rightharpoonup> u64) \<Rightarrow> ValidatorID \<Rightarrow> u64" where
  "reward_amount rewards i = (case rewards i of None \<Rightarrow> 0 | Some r \<Rightarrow> r)"

lemma credit_rewards:
  "foldl (credit_reward rewards) (w, m) is = (w', m') \<Longrightarrow>
     m' = m + sum_list (map (reward_amount rewards) is)
     \<and> balance_of w' x = balance_of w x
         + sum_list (map (\<lambda>i. if ValidatorID_String i = x then int (unat (reward_amount rewards i)) else 0) is)
     \<and> sload w' a k = sload w a k"
proof (induction "is" arbitrary: w m)
  case (Cons i "is")
  define w1 where "w1 = fst (credit_reward rewards (w, m) i)"
  define m1 where "m1 = snd (credit_reward rewards (w, m) i)"
  have step: "m1 = m + reward_amount rewards i"
      "balance_of w1 x = balance_of w x
        + (if ValidatorID_String i = x then int (unat (reward_amount rewards i)) else 0)"
      "sload w1 a k = sload w a k"
    by (auto simp: m1_def w1_def credit_reward_def reward_amount_def balance_of_add_balance word_gt_0
        split: option.splits)
  have "foldl (credit_reward rewards) (w1, m1) is = (w', m')"
    using Cons.prems by (simp add: w1_def m1_def)
  from Cons.IH[OF this] step show ?case
    by (simp add: add.assoc)
qed simp

lemma QuestAddSupply_total:
  assumes "QuestAddSupply w v = Ret w'"
  shows "QuestTotalSupply w' = QuestTotalSupply w + nat v"
    and "balance_of w' x = balance_of w x"
  using assms
  by (auto simp: QuestAddSupply_def QuestTotalSupply_def Let_def sload_sstore readBigInt_fill
      split: if_splits)

lemma QuestTotalSupply_balances [simp]:
  "QuestTotalSupply (add_balance w a d) = QuestTotalSupply w"
  "QuestTotalSupply (touch w a) = QuestTotalSupply w"
  by (simp_all add: QuestTotalSupply_def)

text \<open>
  A block's rewards: the tracker grows by the minted amount, each validator's account by its
  reward, and the treasury by its share on top of that.
\<close>

lemma reward_step_effect:
  assumes res: "reward_step env h ps w = Ret (ps', w')"
    and dist: "DistributeBlockReward w (be_order1 env) (be_order2 env) ps h = (rewards, ps'')"
  defines "minted \<equiv> sum_list (map (reward_amount rewards) (be_order3 env))"
  shows "ps' = ps''"
    and "QuestTotalSupply w' = QuestTotalSupply w + unat minted"
    and "balance_of w' x = balance_of w x
      + sum_list (map (\<lambda>i. if ValidatorID_String i = x then int (unat (reward_amount rewards i)) else 0)
          (be_order3 env))
      + (if x = treasury_addr then int (unat (TreasuryShareOf minted)) else 0)"
proof -
  obtain w1 m1 where f: "foldl (credit_reward rewards) (w, 0) (be_order3 env) = (w1, m1)"
    by (cases "foldl (credit_reward rewards) (w, 0) (be_order3 env)")
  note c = credit_rewards[OF f]
  have m1: "m1 = minted"
    using c by (simp add: minted_def)
  have tot: "QuestTotalSupply w1 = QuestTotalSupply w"
    using c by (simp add: QuestTotalSupply_def)
  note u = res[unfolded reward_step_def dist Let_def split_beta fst_conv snd_conv f m1]
  show "ps' = ps''"
    using u by (auto split: if_splits outcome.splits)
  show "QuestTotalSupply w' = QuestTotalSupply w + unat minted"
    using u tot by (auto split: if_splits outcome.splits dest!: QuestAddSupply_total(1) simp: word_gt_0)
  show "balance_of w' x = balance_of w x
      + sum_list (map (\<lambda>i. if ValidatorID_String i = x then int (unat (reward_amount rewards i)) else 0)
          (be_order3 env))
      + (if x = treasury_addr then int (unat (TreasuryShareOf minted)) else 0)"
    using u c
    by (auto split: if_splits outcome.splits dest!: QuestAddSupply_total(2)[where x = x]
        simp: word_gt_0 balance_of_add_balance TreasuryShareOf_def)
qed

end
