(* ===== verification/Consensus.thy ===== *)
theory Consensus
  imports Transactions "HOL-Library.AList"
begin

text \<open>
  The consensus engine (\<^verbatim>\<open>consensus.go\<close>): the active set of an epoch, the deterministic
  choice of a proposer, and the record of finalized blocks. The table of finalized blocks is an
  association list, so that the loop over its keys is a recursion on it.
\<close>

datatype ConsensusPhase = PhasePropose | PhasePrevote | PhasePrecommit | PhaseCommit | PhaseTimeout

fun ConsensusPhase_String :: "ConsensusPhase \<Rightarrow> string" where
  "ConsensusPhase_String PhasePropose = ''PROPOSE''"
| "ConsensusPhase_String PhasePrevote = ''PREVOTE''"
| "ConsensusPhase_String PhasePrecommit = ''PRECOMMIT''"
| "ConsensusPhase_String PhaseCommit = ''COMMIT''"
| "ConsensusPhase_String PhaseTimeout = ''TIMEOUT''"

definition EpochBlocks :: u64 where "EpochBlocks = 10000"

definition InstantFinalityThreshold :: float64 where
  "InstantFinalityThreshold = fl (2 / 3)"

record ConsensusEngine =
  CurrentHeight :: u64
  ce_CurrentRound :: u8
  ce_Validators :: ValidatorSet
  ActiveSet :: "ValidatorID list"
  VotingPower :: "string \<rightharpoonup> u64"
  TotalPower :: u64
  ce_Blocks :: "(u64 \<times> BlockWithTx) list"
  RandomSeed :: bytes

text \<open>Ten Newton steps from \<open>x\<close> itself.\<close>

fun newton :: "nat \<Rightarrow> float64 \<Rightarrow> float64 \<Rightarrow> float64" where
  "newton n x z =
     (case n of 0 \<Rightarrow> z | Suc m \<Rightarrow> newton m x (fl_div (fl_add z (fl_div x z)) 2))"

declare newton.simps [simp del]

definition sqrtWeighted :: "float64 \<Rightarrow> float64" where
  "sqrtWeighted x = (if x \<le> 0 then 0 else newton 10 x x)"

text \<open>
  \<^verbatim>\<open>sort.Slice\<close> promises a permutation sorted by the given order and no more (it is not stable):
  it is a parameter \<open>sort_Slice\<close>, constrained by \<open>sorts_desc\<close>.
\<close>

definition sorts_desc ::
  "((ValidatorID \<times> float64) list \<Rightarrow> (ValidatorID \<times> float64) list) \<Rightarrow> bool" where
  "sorts_desc sort_Slice \<longleftrightarrow>
     (\<forall>xs. mset (sort_Slice xs) = mset xs \<and> sorted_wrt (\<lambda>a b. snd b \<le> snd a) (sort_Slice xs))"

definition weighted_vals :: "ValidatorSet \<Rightarrow> (ValidatorID \<times> float64) list" where
  "weighted_vals vs = map (\<lambda>v. (v, sqrtWeighted (float_of_u64 (stake_of vs v)))) (IDs vs)"

definition selectNewEpoch ::
  "((ValidatorID \<times> float64) list \<Rightarrow> (ValidatorID \<times> float64) list) \<Rightarrow>
   ConsensusEngine \<Rightarrow> ConsensusEngine" where
  "selectNewEpoch sort_Slice ce =
     (let registered = IDs (ce_Validators ce) in
      if registered = [] then ce\<lparr>ActiveSet := [], TotalPower := 0\<rparr>
      else
        let weighted = sort_Slice (weighted_vals (ce_Validators ce));
            n = (if length weighted < MaxValidators then length weighted else MaxValidators);
            chosen = map fst (take n weighted) in
        ce\<lparr>ActiveSet := chosen,
           VotingPower := foldl (\<lambda>vp i. vp(ValidatorID_String i \<mapsto> 1)) Map.empty chosen,
           TotalPower := foldl (\<lambda>p _. p + 1) 0 chosen,
           RandomSeed := sha256 (bytes_of_string (''epoch:'' @ dec_string (unat (CurrentHeight ce))))\<rparr>)"

definition NewConsensusEngine ::
  "((ValidatorID \<times> float64) list \<Rightarrow> (ValidatorID \<times> float64) list) \<Rightarrow>
   ValidatorSet \<Rightarrow> ConsensusEngine" where
  "NewConsensusEngine sort_Slice validators =
     selectNewEpoch sort_Slice
       \<lparr>CurrentHeight = 0, ce_CurrentRound = 0, ce_Validators = validators, ActiveSet = [],
        VotingPower = Map.empty, TotalPower = 0, ce_Blocks = [], RandomSeed = replicate 32 0\<rparr>"

definition NewConsensusState ::
  "((ValidatorID \<times> float64) list \<Rightarrow> (ValidatorID \<times> float64) list) \<Rightarrow>
   ValidatorSet \<Rightarrow> ConsensusEngine" where
  "NewConsensusState = NewConsensusEngine"

definition proposer_index :: "ConsensusEngine \<Rightarrow> u64 \<Rightarrow> u64" where
  "proposer_index ce height =
     big_Uint64 (be_nat (sha256 (RandomSeed ce @ bytes_of_string ('':'' @ dec_string (unat height)))))
       mod of_nat (length (ActiveSet ce))"

definition SelectProposer :: "ConsensusEngine \<Rightarrow> u64 \<Rightarrow> ValidatorID option" where
  "SelectProposer ce height =
     (if ActiveSet ce = [] then None else Some (ActiveSet ce ! unat (proposer_index ce height)))"

definition GetQuorumHeight :: "ConsensusEngine \<Rightarrow> u64" where
  "GetQuorumHeight ce = foldl (\<lambda>m h. if m < h then h else m) 0 (map fst (ce_Blocks ce))"

definition IsValidatorActive :: "ConsensusEngine \<Rightarrow> ValidatorID \<Rightarrow> bool" where
  "IsValidatorActive ce i \<longleftrightarrow> i \<in> set (ActiveSet ce)"

definition FinalizeBlock :: "ConsensusEngine \<Rightarrow> BlockWithTx \<Rightarrow> ConsensusEngine" where
  "FinalizeBlock ce block =
     (let ce' = ce\<lparr>ce_Blocks := AList.update (blk_Height block) block (ce_Blocks ce)\<rparr> in
      if CurrentHeight ce' < blk_Height block then ce'\<lparr>CurrentHeight := blk_Height block\<rparr> else ce')"

subsection \<open>The active set\<close>

lemma foldl_count: "foldl (\<lambda>p _. p + 1) (a :: u64) xs = a + of_nat (length xs)"
  by (induction xs arbitrary: a) simp_all

lemma map_fst_weighted: "map fst (weighted_vals vs) = IDs vs"
  by (simp add: weighted_vals_def comp_def)

lemma mset_map_sort:
  "sorts_desc srt \<Longrightarrow> mset (map f (srt xs)) = mset (map f xs)"
  by (simp add: sorts_desc_def)

lemma selectNewEpoch_ActiveSet:
  assumes "sorts_desc srt" "length (IDs (ce_Validators ce)) \<le> MaxValidators"
  shows "mset (ActiveSet (selectNewEpoch srt ce)) = mset (IDs (ce_Validators ce))"
proof -
  let ?w = "srt (weighted_vals (ce_Validators ce))"
  have m: "mset (map fst ?w) = mset (IDs (ce_Validators ce))"
    using mset_map_sort[OF assms(1), of fst] by (simp only: map_fst_weighted)
  then have "length ?w = length (IDs (ce_Validators ce))"
    by (metis length_map size_mset)
  with assms(2) m show ?thesis
    by (simp add: selectNewEpoch_def Let_def)
qed

lemma selectNewEpoch_TotalPower:
  "TotalPower (selectNewEpoch srt ce) = of_nat (length (ActiveSet (selectNewEpoch srt ce)))"
  by (simp add: selectNewEpoch_def Let_def foldl_count)

lemma selectNewEpoch_frame [simp]:
  "CurrentHeight (selectNewEpoch srt ce) = CurrentHeight ce"
  "ce_Blocks (selectNewEpoch srt ce) = ce_Blocks ce"
  "ce_Validators (selectNewEpoch srt ce) = ce_Validators ce"
  by (simp_all add: selectNewEpoch_def Let_def)

lemma SelectProposer_active:
  assumes "ActiveSet ce \<noteq> []" "length (ActiveSet ce) < 2 ^ 64"
  shows "\<exists>i. SelectProposer ce h = Some i \<and> IsValidatorActive ce i"
proof -
  have "unat (proposer_index ce h) < length (ActiveSet ce)"
    using assms by (simp add: proposer_index_def unat_mod unat_of_nat_u64)
  with assms(1) show ?thesis
    by (auto simp: SelectProposer_def IsValidatorActive_def)
qed

subsection \<open>Finalized blocks\<close>

lemma foldl_max: "foldl (\<lambda>m h. if m < h then h else m) (a :: u64) xs = foldl max a xs"
  by (induction xs arbitrary: a) (auto simp: max_def)

lemma foldl_max_Max: "foldl max (a :: u64) xs = Max (insert a (set xs))"
proof (induction xs arbitrary: a)
  case (Cons x xs)
  have "foldl max (max a x) xs = Max (insert (max a x) (set xs))"
    by (rule Cons.IH)
  also have "\<dots> = Max (insert a (insert x (set xs)))"
    by (cases "set xs = {}") (simp_all add: max.assoc)
  finally show ?case by simp
qed simp

lemma GetQuorumHeight_Max: "GetQuorumHeight ce = Max (insert 0 (fst ` set (ce_Blocks ce)))"
  by (simp add: GetQuorumHeight_def foldl_max foldl_max_Max)

lemma ce_Blocks_Finalize [simp]:
  "ce_Blocks (FinalizeBlock ce b) = AList.update (blk_Height b) b (ce_Blocks ce)"
  by (simp add: FinalizeBlock_def Let_def)

lemma CurrentHeight_Finalize [simp]:
  "CurrentHeight (FinalizeBlock ce b) = max (CurrentHeight ce) (blk_Height b)"
  by (auto simp: FinalizeBlock_def Let_def max_def)

lemma FinalizeBlock_frame [simp]:
  "ActiveSet (FinalizeBlock ce b) = ActiveSet ce"
  "TotalPower (FinalizeBlock ce b) = TotalPower ce"
  "ce_Validators (FinalizeBlock ce b) = ce_Validators ce"
  "VotingPower (FinalizeBlock ce b) = VotingPower ce"
  by (simp_all add: FinalizeBlock_def Let_def)

text \<open>The engine's height is the greatest height it finalized.\<close>

definition ce_inv :: "ConsensusEngine \<Rightarrow> bool" where
  "ce_inv ce \<longleftrightarrow>
     CurrentHeight ce = Max (insert 0 (fst ` set (ce_Blocks ce)))
     \<and> (\<forall>(h, b) \<in> set (ce_Blocks ce). blk_Height b = h)"

lemma ce_inv_New: "ce_inv (NewConsensusEngine srt vs)"
  by (simp add: ce_inv_def NewConsensusEngine_def)

lemma set_update_subset: "set (AList.update k v al) \<subseteq> insert (k, v) (set al)"
  by (induction al) auto

lemma ce_inv_Finalize:
  assumes "ce_inv ce" shows "ce_inv (FinalizeBlock ce b)"
proof -
  let ?B = "ce_Blocks ce"
  have keys: "fst ` set (AList.update (blk_Height b) b ?B) = insert (blk_Height b) (fst ` set ?B)"
    using dom_update[of "blk_Height b" b ?B] by simp
  have "max (CurrentHeight ce) (blk_Height b) = Max (insert 0 (insert (blk_Height b) (fst ` set ?B)))"
    using assms by (simp add: ce_inv_def insert_commute[of 0] max.commute)
  moreover have "set (AList.update (blk_Height b) b ?B) \<subseteq> insert (blk_Height b, b) (set ?B)"
    by (rule set_update_subset)
  ultimately show ?thesis
    using assms keys by (auto simp: ce_inv_def)
qed

lemma GetQuorumHeight_inv: "ce_inv ce \<Longrightarrow> GetQuorumHeight ce = CurrentHeight ce"
  by (simp add: ce_inv_def GetQuorumHeight_Max)

end
