(* ===== verification/Consensus_Round.thy ===== *)
theory Consensus_Round
  imports Chain Consensus
begin

text \<open>
  The round manager (\<^verbatim>\<open>consensus_round.go\<close>): proposing, counting prevotes and precommits,
  committing and timing out. The network is the list of messages handed to \<^verbatim>\<open>Broadcast\<close>; the
  timer of a round is a flag that says whether it is still armed. Each handler holds the mutex
  for its whole body, so a run is a sequence of handler calls (\<open>cm_step\<close>).
\<close>

record Vote =
  v_Height :: u64
  v_Round :: u32
  v_BlockHash :: bytes
  v_Validator :: ValidatorID
  v_VoteType :: u8

record RoundState =
  rnd_Height :: u64
  rnd_Round :: u8
  rnd_Phase :: ConsensusPhase
  rnd_Proposer :: "ValidatorID option"
  rnd_Proposal :: "BlockWithTx option"
  Prevotes :: "string \<rightharpoonup> Vote"
  Precommits :: "string \<rightharpoonup> Vote"
  PrevotePower :: u64
  PrecommitPower :: u64
  rnd_StartedAt :: int
  rnd_Timeout :: bool

record P2PMessage =
  msg_Type :: u8
  msg_Payload :: string
  msg_From :: string
  msg_Seq :: u64

record P2PNode =
  p2p_ID :: string
  p2p_seq :: u64
  p2p_sent :: "P2PMessage list"

record ConsensusManager =
  Engine :: ConsensusEngine
  cm_P2P :: "P2PNode option"
  cm_Chain :: Chain
  CurrentRound :: "RoundState option"

definition NewConsensusManager ::
  "ConsensusEngine \<Rightarrow> P2PNode option \<Rightarrow> Chain \<Rightarrow> ConsensusManager" where
  "NewConsensusManager engine p2pNode chain =
     \<lparr>Engine = engine, cm_P2P = p2pNode, cm_Chain = chain, CurrentRound = None\<rparr>"

subsection \<open>Messages\<close>

definition MsgBlock :: u8 where "MsgBlock = 2"
definition MsgVote :: u8 where "MsgVote = 3"

definition serializeBlock :: "BlockWithTx option \<Rightarrow> string" where
  "serializeBlock block =
     (case block of
        None \<Rightarrow> ''nil''
      | Some b \<Rightarrow> ''block:'' @ dec_string (unat (blk_Height b)) @ '':'' @ hex_encode (take 4 (blk_Hash b)) @
                  '':'' @ dec_string (length (blk_Transactions b)))"

definition serializeVote :: "Vote \<Rightarrow> string" where
  "serializeVote v =
     ''vote:'' @ dec_string (unat (v_Height v)) @ '':'' @ dec_string (unat (v_Round v)) @ '':'' @
     hex_encode (take 4 (v_BlockHash v)) @ '':'' @ hex_encode (take 4 (v_Validator v))"

definition broadcast :: "u8 \<Rightarrow> string \<Rightarrow> ConsensusManager \<Rightarrow> ConsensusManager" where
  "broadcast ty payload cm =
     (case cm_P2P cm of
        None \<Rightarrow> cm
      | Some n \<Rightarrow>
          let s = p2p_seq n + 1 in
          cm\<lparr>cm_P2P := Some (n\<lparr>p2p_seq := s, p2p_sent := p2p_sent n @
               [\<lparr>msg_Type = ty, msg_Payload = payload, msg_From = p2p_ID n, msg_Seq = s\<rparr>]\<rparr>)\<rparr>)"

definition broadcastProposal :: "RoundState \<Rightarrow> ConsensusManager \<Rightarrow> ConsensusManager" where
  "broadcastProposal rnd cm =
     (if rnd_Proposal rnd = None then cm else broadcast MsgBlock (serializeBlock (rnd_Proposal rnd)) cm)"

definition broadcastVote :: "Vote \<Rightarrow> ConsensusManager \<Rightarrow> ConsensusManager" where
  "broadcastVote v cm = broadcast MsgVote (serializeVote v) cm"

definition isLocalValidator :: "ValidatorID \<Rightarrow> bool" where
  "isLocalValidator i \<longleftrightarrow> i = NewValidatorID 0x01"

subsection \<open>Votes and commits\<close>

definition commit_threshold :: "u64 \<Rightarrow> u64" where
  "commit_threshold totalPower = u64_of_float (fl_mul (float_of_u64 totalPower) InstantFinalityThreshold)"

definition checkCommitLocked :: "ConsensusManager \<Rightarrow> ConsensusManager" where
  "checkCommitLocked cm =
     (case CurrentRound cm of
        None \<Rightarrow> cm
      | Some rnd \<Rightarrow>
          if commit_threshold (TotalPower (Engine cm)) \<le> PrecommitPower rnd then
            let cm' = cm\<lparr>CurrentRound := Some (rnd\<lparr>rnd_Phase := PhaseCommit, rnd_Timeout := False\<rparr>)\<rparr> in
            (case rnd_Proposal rnd of
               None \<Rightarrow> cm'
             | Some b \<Rightarrow> cm'\<lparr>Engine := FinalizeBlock (Engine cm') b\<rparr>)
          else cm)"

definition prevote ::
  "u64 \<Rightarrow> u8 \<Rightarrow> bytes \<Rightarrow> ValidatorID \<Rightarrow> ConsensusManager \<Rightarrow> ConsensusManager" where
  "prevote height rn blockHash voter cm =
     (let vote = \<lparr>v_Height = height, v_Round = ucast rn, v_BlockHash = blockHash,
                   v_Validator = voter, v_VoteType = 1\<rparr>;
          cm1 = (case CurrentRound cm of
                   None \<Rightarrow> cm
                 | Some rnd \<Rightarrow>
                     if rnd_Height rnd = height \<and> rnd_Round rnd = rn then
                       cm\<lparr>CurrentRound := Some (rnd\<lparr>
                          Prevotes := (Prevotes rnd)(ValidatorID_String voter \<mapsto> vote),
                          PrevotePower := PrevotePower rnd + 1\<rparr>)\<rparr>
                     else cm) in
      broadcastVote vote cm1)"

definition precommit ::
  "u64 \<Rightarrow> u8 \<Rightarrow> bytes \<Rightarrow> ValidatorID \<Rightarrow> ConsensusManager \<Rightarrow> ConsensusManager" where
  "precommit height rn blockHash voter cm =
     (let vote = \<lparr>v_Height = height, v_Round = ucast rn, v_BlockHash = blockHash,
                   v_Validator = voter, v_VoteType = 2\<rparr>;
          cm1 = (case CurrentRound cm of
                   None \<Rightarrow> cm
                 | Some rnd \<Rightarrow>
                     if rnd_Height rnd = height \<and> rnd_Round rnd = rn then
                       cm\<lparr>CurrentRound := Some (rnd\<lparr>
                          Precommits := (Precommits rnd)(ValidatorID_String voter \<mapsto> vote),
                          PrecommitPower := PrecommitPower rnd + 1\<rparr>)\<rparr>
                     else cm) in
      checkCommitLocked (broadcastVote vote cm1))"

text \<open>The argument has a dynamic type; \<open>None\<close> is a value that is not a \<^verbatim>\<open>Vote\<close>.\<close>

definition handleVote :: "Vote option \<Rightarrow> string \<Rightarrow> ConsensusManager \<Rightarrow> ConsensusManager" where
  "handleVote vote frm cm =
     (case vote of
        None \<Rightarrow> cm
      | Some v \<Rightarrow>
          (case CurrentRound cm of
             None \<Rightarrow> cm
           | Some rnd \<Rightarrow>
               if rnd_Height rnd \<noteq> v_Height v then cm
               else if v_VoteType v = 1 then
                 cm\<lparr>CurrentRound := Some (rnd\<lparr>Prevotes := (Prevotes rnd)(frm \<mapsto> v),
                                                PrevotePower := PrevotePower rnd + 1\<rparr>)\<rparr>
               else if v_VoteType v = 2 then
                 checkCommitLocked (cm\<lparr>CurrentRound := Some (rnd\<lparr>
                    Precommits := (Precommits rnd)(ValidatorID_String (v_Validator v) \<mapsto> v),
                    PrecommitPower := PrecommitPower rnd + 1\<rparr>)\<rparr>)
               else cm))"

definition handleTimeout :: "u64 \<Rightarrow> ConsensusManager \<Rightarrow> ConsensusManager" where
  "handleTimeout height cm =
     (case CurrentRound cm of
        None \<Rightarrow> cm
      | Some rnd \<Rightarrow>
          if rnd_Height rnd \<noteq> height then cm
          else cm\<lparr>CurrentRound := Some (rnd\<lparr>rnd_Phase := PhaseTimeout\<rparr>)\<rparr>)"

subsection \<open>Proposing\<close>

definition fresh_round :: "u64 \<Rightarrow> ValidatorID \<Rightarrow> BlockWithTx \<Rightarrow> int \<Rightarrow> RoundState" where
  "fresh_round height proposer block now =
     \<lparr>rnd_Height = height, rnd_Round = 0, rnd_Phase = PhasePropose, rnd_Proposer = Some proposer,
      rnd_Proposal = Some block, Prevotes = Map.empty, Precommits = Map.empty, PrevotePower = 0,
      PrecommitPower = 0, rnd_StartedAt = now, rnd_Timeout = False\<rparr>"

definition proposeBlock ::
  "BlockEnv \<Rightarrow> u64 \<Rightarrow> ValidatorID \<Rightarrow> ConsensusManager \<Rightarrow> ConsensusManager outcome" where
  "proposeBlock env height proposer cm =
     (case ProduceBlock env proposer (cm_Chain cm) of
        Err e \<Rightarrow> Err e
      | Panic \<Rightarrow> Panic
      | Ret (block, chain') \<Rightarrow>
          let rnd = fresh_round height proposer block (be_now env);
              cm1 = cm\<lparr>cm_Chain := chain', CurrentRound := Some rnd\<rparr>;
              cm2 = broadcastProposal rnd cm1;
              cm3 = cm2\<lparr>CurrentRound := Some (rnd\<lparr>rnd_Timeout := True\<rparr>)\<rparr> in
          Ret (if isLocalValidator proposer then prevote height 0 (blk_Hash block) proposer cm3 else cm3))"

definition runBlockRound :: "BlockEnv \<Rightarrow> ConsensusManager \<Rightarrow> ConsensusManager outcome" where
  "runBlockRound env cm =
     (let height = CurrentHeight (Engine cm) + 1 in
      case SelectProposer (Engine cm) height of
        None \<Rightarrow> Ret cm
      | Some proposer \<Rightarrow>
          if isLocalValidator proposer then proposeBlock env height proposer cm else Ret cm)"

subsection \<open>Runs\<close>

inductive cm_step :: "ConsensusManager \<Rightarrow> ConsensusManager \<Rightarrow> bool" where
  run_round: "runBlockRound env cm = Ret cm' \<Longrightarrow> cm_step cm cm'"
| vote_in: "cm_step cm (handleVote v frm cm)"
| own_prevote: "cm_step cm (prevote h r hash voter cm)"
| own_precommit: "cm_step cm (precommit h r hash voter cm)"
| timeout: "cm_step cm (handleTimeout h cm)"

inductive_cases cm_stepE: "cm_step cm cm'"

inductive cm_reachable :: "ConsensusManager \<Rightarrow> bool" where
  cm_start: "chain_inv chain \<Longrightarrow>
     cm_reachable (NewConsensusManager (NewConsensusEngine srt vs) p2p chain)"
| cm_next: "cm_reachable cm \<Longrightarrow> cm_step cm cm' \<Longrightarrow> cm_reachable cm'"

lemma broadcast_frame [simp]:
  "Engine (broadcast ty p cm) = Engine cm"
  "cm_Chain (broadcast ty p cm) = cm_Chain cm"
  "CurrentRound (broadcast ty p cm) = CurrentRound cm"
  by (simp_all add: broadcast_def Let_def split: option.splits)

lemma broadcastVote_frame [simp]:
  "Engine (broadcastVote v cm) = Engine cm"
  "cm_Chain (broadcastVote v cm) = cm_Chain cm"
  "CurrentRound (broadcastVote v cm) = CurrentRound cm"
  by (simp_all add: broadcastVote_def)

lemma broadcastProposal_frame [simp]:
  "Engine (broadcastProposal r cm) = Engine cm"
  "cm_Chain (broadcastProposal r cm) = cm_Chain cm"
  "CurrentRound (broadcastProposal r cm) = CurrentRound cm"
  by (simp_all add: broadcastProposal_def)

lemma checkCommitLocked_Engine:
  "Engine (checkCommitLocked cm) = Engine cm
   \<or> (\<exists>rnd b. CurrentRound cm = Some rnd \<and> rnd_Proposal rnd = Some b
        \<and> commit_threshold (TotalPower (Engine cm)) \<le> PrecommitPower rnd
        \<and> Engine (checkCommitLocked cm) = FinalizeBlock (Engine cm) b)"
  by (auto simp: checkCommitLocked_def Let_def split: option.splits)

lemma checkCommitLocked_frame [simp]:
  "cm_Chain (checkCommitLocked cm) = cm_Chain cm"
  by (auto simp: checkCommitLocked_def Let_def split: option.splits)

lemma prevote_frame [simp]:
  "Engine (prevote h r hash voter cm) = Engine cm"
  "cm_Chain (prevote h r hash voter cm) = cm_Chain cm"
  by (simp_all add: prevote_def Let_def split: option.splits)

lemma handleTimeout_frame [simp]:
  "Engine (handleTimeout h cm) = Engine cm"
  "cm_Chain (handleTimeout h cm) = cm_Chain cm"
  by (simp_all add: handleTimeout_def split: option.splits)

text \<open>Every step leaves the engine alone or finalizes one block.\<close>

lemma cm_step_Engine:
  assumes "cm_step cm cm'"
  shows "Engine cm' = Engine cm \<or> (\<exists>b. Engine cm' = FinalizeBlock (Engine cm) b)"
  using assms
proof (cases rule: cm_step.cases)
  case (run_round env)
  then show ?thesis
    by (auto simp: runBlockRound_def proposeBlock_def Let_def split: option.splits outcome.splits if_splits)
next
  case (vote_in v frm)
  have "Engine (checkCommitLocked (cm\<lparr>CurrentRound := r\<rparr>)) = Engine cm
      \<or> (\<exists>b. Engine (checkCommitLocked (cm\<lparr>CurrentRound := r\<rparr>)) = FinalizeBlock (Engine cm) b)" for r
    using checkCommitLocked_Engine[of "cm\<lparr>CurrentRound := r\<rparr>"] by auto
  with vote_in show ?thesis
    by (auto simp: handleVote_def split: option.splits)
next
  case (own_precommit h r hash voter)
  then obtain cm1 where "cm' = checkCommitLocked cm1" "Engine cm1 = Engine cm"
    by (auto simp: precommit_def Let_def split: option.splits if_splits)
  with checkCommitLocked_Engine[of cm1] show ?thesis
    by auto
qed auto

lemma cm_step_chain:
  assumes "cm_step cm cm'" "chain_inv (cm_Chain cm)"
  shows "chain_inv (cm_Chain cm')"
  using assms(1)
proof (cases rule: cm_step.cases)
  case (run_round env)
  then show ?thesis
    using assms(2) ProduceBlock_inv
    by (auto simp: runBlockRound_def proposeBlock_def Let_def split: option.splits outcome.splits if_splits)
next
  case (vote_in v frm)
  then show ?thesis
    using assms(2) by (auto simp: handleVote_def split: option.splits)
next
  case (own_precommit h r hash voter)
  then show ?thesis
    using assms(2) by (auto simp: precommit_def Let_def split: option.splits)
qed (use assms(2) in auto)

lemma cm_reachable_inv: "cm_reachable cm \<Longrightarrow> ce_inv (Engine cm) \<and> chain_inv (cm_Chain cm)"
proof (induction rule: cm_reachable.induct)
  case (cm_next cm cm')
  then show ?case
    using cm_step_Engine[of cm cm'] cm_step_chain[of cm cm'] ce_inv_Finalize by auto
qed (simp add: NewConsensusManager_def ce_inv_New)

lemma cm_step_height:
  "cm_step cm cm' \<Longrightarrow> CurrentHeight (Engine cm) \<le> CurrentHeight (Engine cm')"
  using cm_step_Engine[of cm cm'] by auto

subsection \<open>The threshold\<close>

lemma commit_threshold_two_thirds:
  assumes "unat t < 2 ^ 50"
  shows "unat (commit_threshold t) = 2 * unat t div 3"
proof -
  let ?x = "fl_mul (of_nat (unat t)) (fl (2 / 3))"
  have exact: "float_of_u64 t = of_nat (unat t)"
    using assms by (intro float_of_u64_exact) simp
  have fl: "\<lfloor>?x\<rfloor> = int (2 * unat t div 3)"
    using assms by (rule float_two_thirds)
  have "0 \<le> ?x"
    unfolding fl_mul_def by (intro fl_nonneg mult_nonneg_nonneg of_nat_0_le_iff) simp_all
  moreover have "?x < 2 ^ 64"
  proof -
    have "\<lfloor>?x\<rfloor> < 2 ^ 64"
      using fl assms by simp
    then show ?thesis
      by (simp add: floor_less_iff)
  qed
  ultimately have "unat (u64_of_float ?x) = nat \<lfloor>?x\<rfloor>"
    by (rule unat_u64_of_float)
  then show ?thesis
    unfolding commit_threshold_def InstantFinalityThreshold_def exact fl by simp
qed

text \<open>Precommits for the current height, delivered one after the other.\<close>

definition deliver :: "(Vote \<times> string) list \<Rightarrow> ConsensusManager \<Rightarrow> ConsensusManager" where
  "deliver vs cm = foldl (\<lambda>cm (v, frm). handleVote (Some v) frm cm) cm vs"

lemma handle_precommit:
  assumes "CurrentRound cm = Some rnd" "v_Height v = rnd_Height rnd" "v_VoteType v = 2"
    and "unat (TotalPower (Engine cm)) < 2 ^ 50"
  defines "met \<equiv> 2 * unat (TotalPower (Engine cm)) div 3 \<le> unat (PrecommitPower rnd + 1)"
  shows "\<exists>rnd'. CurrentRound (handleVote (Some v) frm cm) = Some rnd'
    \<and> rnd_Height rnd' = rnd_Height rnd \<and> PrecommitPower rnd' = PrecommitPower rnd + 1
    \<and> rnd_Proposal rnd' = rnd_Proposal rnd
    \<and> rnd_Phase rnd' = (if met then PhaseCommit else rnd_Phase rnd)"
    and "TotalPower (Engine (handleVote (Some v) frm cm)) = TotalPower (Engine cm)"
    and "Engine (handleVote (Some v) frm cm) =
      (case rnd_Proposal rnd of
         None \<Rightarrow> Engine cm
       | Some b \<Rightarrow> (if met then FinalizeBlock (Engine cm) b else Engine cm))"
proof -
  have met: "commit_threshold (TotalPower (Engine cm)) \<le> PrecommitPower rnd + 1 \<longleftrightarrow> met"
    by (simp only: word_le_nat_alt commit_threshold_two_thirds[OF assms(4)] met_def)
  show "\<exists>rnd'. CurrentRound (handleVote (Some v) frm cm) = Some rnd'
    \<and> rnd_Height rnd' = rnd_Height rnd \<and> PrecommitPower rnd' = PrecommitPower rnd + 1
    \<and> rnd_Proposal rnd' = rnd_Proposal rnd
    \<and> rnd_Phase rnd' = (if met then PhaseCommit else rnd_Phase rnd)"
    using assms(1-3) met
    by (auto simp: handleVote_def checkCommitLocked_def Let_def split: option.splits)
  show "TotalPower (Engine (handleVote (Some v) frm cm)) = TotalPower (Engine cm)"
    using assms(1-3) by (auto simp: handleVote_def checkCommitLocked_def Let_def split: option.splits)
  show "Engine (handleVote (Some v) frm cm) =
      (case rnd_Proposal rnd of
         None \<Rightarrow> Engine cm
       | Some b \<Rightarrow> (if met then FinalizeBlock (Engine cm) b else Engine cm))"
    using assms(1-3) met
    by (auto simp: handleVote_def checkCommitLocked_def Let_def split: option.splits)
qed

text \<open>
  A round commits exactly when as many precommit messages have arrived as the threshold says;
  who sent them plays no role.
\<close>

lemma deliver_commit:
  assumes "CurrentRound cm = Some rnd" "unat (TotalPower (Engine cm)) < 2 ^ 50"
    and "\<forall>(v, frm) \<in> set vs. v_Height v = rnd_Height rnd \<and> v_VoteType v = 2"
    and "rnd_Phase rnd = PhaseCommit \<longleftrightarrow>
         0 < PrecommitPower rnd \<and> 2 * unat (TotalPower (Engine cm)) div 3 \<le> unat (PrecommitPower rnd)"
    and "unat (PrecommitPower rnd) + length vs < 2 ^ 64"
  shows "\<exists>rnd'. CurrentRound (deliver vs cm) = Some rnd'
    \<and> unat (PrecommitPower rnd') = unat (PrecommitPower rnd) + length vs
    \<and> (rnd_Phase rnd' = PhaseCommit \<longleftrightarrow>
         0 < unat (PrecommitPower rnd) + length vs
         \<and> 2 * unat (TotalPower (Engine cm)) div 3 \<le> unat (PrecommitPower rnd) + length vs)"
  using assms
proof (induction vs arbitrary: cm rnd)
  case (Cons vf vs)
  obtain v frm where vf: "vf = (v, frm)" by (cases vf)
  let ?cm = "handleVote (Some v) frm cm" and ?q = "2 * unat (TotalPower (Engine cm)) div 3"
  have v: "v_Height v = rnd_Height rnd" "v_VoteType v = 2"
    using Cons.prems(3) by (simp_all add: vf)
  have inc: "unat (PrecommitPower rnd + 1) = unat (PrecommitPower rnd) + 1"
    using Cons.prems(5) by (subst unat_add_no_wrap) simp_all
  obtain rnd1 where r1: "CurrentRound ?cm = Some rnd1" "rnd_Height rnd1 = rnd_Height rnd"
      "PrecommitPower rnd1 = PrecommitPower rnd + 1"
      "rnd_Phase rnd1 = (if ?q \<le> unat (PrecommitPower rnd + 1) then PhaseCommit else rnd_Phase rnd)"
    using handle_precommit(1)[OF Cons.prems(1) v Cons.prems(2), of frm] by auto
  have tp: "TotalPower (Engine ?cm) = TotalPower (Engine cm)"
    by (rule handle_precommit(2)[OF Cons.prems(1) v Cons.prems(2)])
  have "0 < PrecommitPower rnd + 1"
    using inc by (simp add: word_less_nat_alt)
  then have "rnd_Phase rnd1 = PhaseCommit \<longleftrightarrow>
      0 < PrecommitPower rnd1 \<and> ?q \<le> unat (PrecommitPower rnd1)"
    using r1(3,4) Cons.prems(4) inc by auto
  then have "\<exists>rnd'. CurrentRound (deliver vs ?cm) = Some rnd'
    \<and> unat (PrecommitPower rnd') = unat (PrecommitPower rnd1) + length vs
    \<and> (rnd_Phase rnd' = PhaseCommit \<longleftrightarrow>
         0 < unat (PrecommitPower rnd1) + length vs \<and> ?q \<le> unat (PrecommitPower rnd1) + length vs)"
    using Cons.IH[OF r1(1)] Cons.prems(2,3,5) r1(2,3) inc tp by simp
  then show ?case
    using inc r1(3) by (simp add: deliver_def vf)
qed (auto simp: deliver_def word_less_nat_alt)

end
