(* ===== verification/Consensus_Claims.thy ===== *)
theory Consensus_Claims
  imports Consensus_Round
begin

text \<open>
  The properties of validator selection and consensus: when a round commits, what a commit
  records, what every reachable manager satisfies, and the life of the validator set.
\<close>

subsection \<open>Sample values for the instances\<close>

definition sample_block :: BlockWithTx where
  "sample_block =
     \<lparr>blk_Height = 1, blk_Proposer = NewValidatorID 1, blk_Timestamp = 0, blk_PrevHash = replicate 32 0,
      blk_Transactions = [], blk_StateRoot = replicate 32 0, blk_Hash = replicate 32 0, blk_Logs = []\<rparr>"

definition sample_engine :: "u64 \<Rightarrow> ConsensusEngine" where
  "sample_engine pw =
     \<lparr>CurrentHeight = 0, ce_CurrentRound = 0, ce_Validators = NewValidatorSet, ActiveSet = [],
      VotingPower = Map.empty, TotalPower = pw, ce_Blocks = [], RandomSeed = replicate 32 0\<rparr>"

definition sample_manager :: "u64 \<Rightarrow> ConsensusManager" where
  "sample_manager pw =
     (NewConsensusManager (sample_engine pw) None NewChain)
       \<lparr>CurrentRound := Some (fresh_round 1 (NewValidatorID 1) sample_block 0)\<rparr>"

definition sample_precommit :: "u8 \<Rightarrow> Vote" where
  "sample_precommit n =
     \<lparr>v_Height = 1, v_Round = 0, v_BlockHash = replicate 32 0, v_Validator = NewValidatorID n,
      v_VoteType = 2\<rparr>"

lemmas sample_defs =
  sample_block_def sample_engine_def sample_manager_def sample_precommit_def
  NewConsensusManager_def fresh_round_def

subsection \<open>Commits\<close>

text \<open>
  C1. From a fresh round, precommit messages for its height commit it exactly when at least one
  has arrived and their number has reached two thirds of the total power, rounded down: the
  floating-point product of the code is that integer for every total below \<open>2^50\<close>. The number
  counts messages, not voters: the instance commits four units of power with the same
  validator's vote delivered twice.
\<close>

theorem commit_iff_threshold:
  assumes "CurrentRound cm = Some (fresh_round h p b now)"
    and "unat (TotalPower (Engine cm)) < 2 ^ 50"
    and "\<forall>(v, frm) \<in> set vs. v_Height v = h \<and> v_VoteType v = 2"
    and "length vs < 2 ^ 64"
  shows "\<exists>rnd. CurrentRound (deliver vs cm) = Some rnd
           \<and> (rnd_Phase rnd = PhaseCommit \<longleftrightarrow>
                vs \<noteq> [] \<and> 2 * unat (TotalPower (Engine cm)) div 3 \<le> length vs)"
  using deliver_commit[OF assms(1,2), of vs] assms(3,4) by (auto simp: fresh_round_def)

theorem commit_iff_threshold_witness:
  "\<exists>rnd. CurrentRound (deliver [(sample_precommit 7, ''p''), (sample_precommit 7, ''p'')] (sample_manager 4))
           = Some rnd \<and> rnd_Phase rnd = PhaseCommit"
  using commit_iff_threshold[of "sample_manager 4" 1 "NewValidatorID 1" sample_block 0
      "[(sample_precommit 7, ''p''), (sample_precommit 7, ''p'')]"]
  by (auto simp: sample_manager_def sample_precommit_def sample_engine_def NewConsensusManager_def)

text \<open>
  C2. The precommit that reaches the threshold records the round's proposal as the finalized
  block of its height, raises the engine's height to at least that height and changes no other
  finalized block; a precommit below the threshold leaves the engine as it was.
\<close>

theorem committing_vote_finalizes:
  fixes frm :: string
  assumes "CurrentRound cm = Some rnd" "rnd_Proposal rnd = Some b"
    and "v_Height v = rnd_Height rnd" "v_VoteType v = 2"
    and "unat (TotalPower (Engine cm)) < 2 ^ 50"
  defines "e \<equiv> Engine (handleVote (Some v) frm cm)"
  shows "if 2 * unat (TotalPower (Engine cm)) div 3 \<le> unat (PrecommitPower rnd + 1)
         then map_of (ce_Blocks e) = (map_of (ce_Blocks (Engine cm)))(blk_Height b \<mapsto> b)
              \<and> CurrentHeight e = max (CurrentHeight (Engine cm)) (blk_Height b)
         else e = Engine cm"
proof -
  have upd: "map_of (AList.update k x xs) = (map_of xs)(k \<mapsto> x)" for k :: u64 and x :: BlockWithTx and xs
    by (rule update_conv')
  show ?thesis
    using handle_precommit(3)[OF assms(1,3,4,5), of frm] assms(2) by (simp add: e_def upd)
qed

theorem committing_vote_finalizes_witness:
  "map_of (ce_Blocks (Engine (handleVote (Some (sample_precommit 1)) ''p'' (sample_manager 2)))) 1
     = Some sample_block"
  using committing_vote_finalizes[of "sample_manager 2" "fresh_round 1 (NewValidatorID 1) sample_block 0"
      sample_block "sample_precommit 1" "''p''"]
  by (simp add: sample_defs)

text \<open>
  C3. In every reachable state of the manager (any interleaving of block rounds, incoming votes,
  own votes and timeouts) the quorum height the engine reports is its current height, every
  finalized block is filed under its own height, and the local chain is linked: consecutive
  heights, each block carrying its own hash and the hash of its predecessor.
\<close>

theorem reachable_manager:
  assumes "cm_reachable cm"
  shows "GetQuorumHeight (Engine cm) = CurrentHeight (Engine cm)
         \<and> (\<forall>(h, b) \<in> set (ce_Blocks (Engine cm)). blk_Height b = h)
         \<and> ch_Height (cm_Chain cm) = of_nat (length (Blocks (cm_Chain cm)))
         \<and> linked (Blocks (cm_Chain cm))"
  using cm_reachable_inv[OF assms] GetQuorumHeight_inv by (simp add: ce_inv_def chain_inv_def)

theorem reachable_manager_witness:
  "linked (Blocks (cm_Chain (handleTimeout 1
     (NewConsensusManager (NewConsensusEngine id NewValidatorSet) None NewChain))))"
  using reachable_manager[OF cm_next[OF cm_start[OF NewChain_inv, of id NewValidatorSet None] timeout[of _ 1]]]
  by simp

text \<open>
  C4. Along every run the engine's height never decreases and a height that has been finalized
  stays finalized.
\<close>

theorem finalized_heights_stay:
  assumes "cm_step\<^sup>*\<^sup>* cm cm'"
  shows "CurrentHeight (Engine cm) \<le> CurrentHeight (Engine cm')
         \<and> fst ` set (ce_Blocks (Engine cm)) \<subseteq> fst ` set (ce_Blocks (Engine cm'))"
  using assms
proof (induction rule: rtranclp_induct)
  case (step cm1 cm2)
  have "fst ` set (ce_Blocks (Engine cm1)) \<subseteq> fst ` set (ce_Blocks (Engine cm2))"
    using cm_step_Engine[OF step.hyps(2)]
  proof
    assume "\<exists>b. Engine cm2 = FinalizeBlock (Engine cm1) b"
    then obtain b where "Engine cm2 = FinalizeBlock (Engine cm1) b" ..
    then have "fst ` set (ce_Blocks (Engine cm2)) = insert (blk_Height b) (fst ` set (ce_Blocks (Engine cm1)))"
      by (simp only: ce_Blocks_Finalize dom_update Un_insert_left Un_empty_left)
    then show ?thesis by (simp only: subset_insertI)
  qed simp
  with step.IH cm_step_height[OF step.hyps(2)] show ?case
    by (meson order_trans)
qed simp

theorem finalized_heights_stay_witness:
  "CurrentHeight (Engine (sample_manager 2))
     \<le> CurrentHeight (Engine (handleVote (Some (sample_precommit 1)) ''p'' (sample_manager 2)))"
  using finalized_heights_stay[OF r_into_rtranclp[of cm_step "sample_manager 2", OF vote_in]] by blast

subsection \<open>The validator set\<close>

text \<open>
  C5. Whatever sequence of additions, removals, jailings, missed blocks and proposer lotteries
  leads to a validator set: its identifiers are sorted and pairwise different, they are exactly
  the keys of the stake table, there are at most 200, every stake is at least the minimum, and
  no registered validator has reached the jail threshold.
\<close>

theorem reachable_validator_set:
  assumes "vs_reachable vs"
  shows "sorted (IDs vs) \<and> distinct (IDs vs) \<and> set (IDs vs) = dom (Stakes vs)
         \<and> length (IDs vs) \<le> 200
         \<and> (\<forall>i \<in> set (IDs vs). 100 \<le> stake_of vs i \<and> missed_of vs i < 50)"
  using vs_reachable_inv[OF assms]
  by (auto simp: vs_inv_def MaxValidators_def MinStake_def JailThreshold_def stake_of_def)

theorem reachable_validator_set_witness:
  "distinct (IDs (snd (vs_AddMultiple NewValidatorSet [NewValidatorID 2, NewValidatorID 1] [500, 100])))"
  using reachable_validator_set[OF vs_next[OF vs_start step_AddMultiple]] by blast

text \<open>
  Whatever number the random source returns, the lottery on a non-empty set returns one of
  its validators; it never panics.
\<close>

theorem lottery_returns_member:
  assumes "IDs vs \<noteq> []"
  shows "\<exists>i \<in> set (IDs vs). fst (vs_SelectProposer rand_Float64 vs height) = Ret i"
  using assms by (rule vs_SelectProposer_member)

theorem lottery_returns_member_witness:
  "\<exists>i \<in> {NewValidatorID 9}. fst (vs_SelectProposer (\<lambda>_. 1 / 2)
     (NewValidatorSet\<lparr>IDs := [NewValidatorID 9], Stakes := [NewValidatorID 9 \<mapsto> 400]\<rparr>) 7) = Ret i"
  using lottery_returns_member[of "NewValidatorSet\<lparr>IDs := [NewValidatorID 9],
      Stakes := [NewValidatorID 9 \<mapsto> 400]\<rparr>" "\<lambda>_. 1 / 2" 7]
  by simp

text \<open>
  A validator with no missed block is still registered after 49 misses, and the 50th
  removes it from the set and puts it on the jail list.
\<close>

theorem jailed_at_fiftieth_miss:
  assumes "vs_inv vs" "i \<in> set (IDs vs)" "missed_of vs i = 0"
  shows "(\<forall>n < 50. IDs (vs_mark_times n vs i) = IDs vs)
         \<and> i \<notin> set (IDs (vs_mark_times 50 vs i)) \<and> i \<in> set (Jailed (vs_mark_times 50 vs i))"
proof -
  have below: "IDs (vs_mark_times n vs i) = IDs vs \<and> missed_of (vs_mark_times n vs i) i = int n"
    if "n < 50" for n
    using vs_mark_times_below[of vs i n] that assms(3) by (simp add: JailThreshold_def)
  have split: "vs_mark_times (Suc n) v i = snd (vs_MarkMissed (vs_mark_times n v i) i)" for n v
    by (induction n arbitrary: v) simp_all
  let ?v = "vs_mark_times 49 vs i"
  have "vs_mark_times 50 vs i = snd (vs_MarkMissed ?v i)"
    using split[of 49 vs] by simp
  also have "\<dots> = vs_Jail ?v i"
    using below[of 49] by (simp add: vs_MarkMissed_def Let_def vs_Jail_Missed_irrelevant missed_of_def
        JailThreshold_def)
  finally have "vs_mark_times 50 vs i = vs_Jail ?v i" .
  moreover have "distinct (IDs ?v)"
    using below[of 49] assms(1) by (simp add: vs_inv_def)
  ultimately show ?thesis
    using below by (simp add: vs_Jail_def vs_Remove_def Let_def)
qed

theorem jailed_at_fiftieth_miss_witness:
  "NewValidatorID 3 \<in> set (Jailed (vs_mark_times 50
     (NewValidatorSet\<lparr>IDs := [NewValidatorID 3], Stakes := [NewValidatorID 3 \<mapsto> 100]\<rparr>) (NewValidatorID 3)))"
  using jailed_at_fiftieth_miss[of "NewValidatorSet\<lparr>IDs := [NewValidatorID 3],
      Stakes := [NewValidatorID 3 \<mapsto> 100]\<rparr>" "NewValidatorID 3"]
  by (simp add: vs_inv_def NewValidatorSet_def missed_of_def MaxValidators_def MinStake_def JailThreshold_def)

text \<open>
  A new engine over a reachable validator set: whatever permutation \<^verbatim>\<open>sort.Slice\<close> produces
  among equal weights, the active set is a permutation of the registered validators, the total
  power is their number, and if there is a validator the proposer of every height is an active
  one.
\<close>

theorem new_engine_active_set:
  assumes "sorts_desc sort_Slice" "vs_reachable vs"
  defines "ce \<equiv> NewConsensusEngine sort_Slice vs"
  shows "mset (ActiveSet ce) = mset (IDs vs) \<and> distinct (ActiveSet ce)
         \<and> unat (TotalPower ce) = length (IDs vs)
         \<and> (IDs vs \<noteq> [] \<longrightarrow> (\<exists>i. SelectProposer ce h = Some i \<and> i \<in> set (IDs vs)))"
proof -
  have inv: "vs_inv vs"
    using assms(2) by (rule vs_reachable_inv)
  have m: "mset (ActiveSet ce) = mset (IDs vs)"
    unfolding ce_def NewConsensusEngine_def
    by (subst selectNewEpoch_ActiveSet[OF assms(1)]) (use inv in \<open>simp_all add: vs_inv_def\<close>)
  then have len: "length (ActiveSet ce) = length (IDs vs)" and s: "set (ActiveSet ce) = set (IDs vs)"
    by (metis size_mset, metis set_mset_mset)
  have small: "length (IDs vs) < 2 ^ 64"
    using inv by (simp add: vs_inv_def MaxValidators_def)
  have "TotalPower ce = of_nat (length (ActiveSet ce))"
    by (simp add: ce_def NewConsensusEngine_def selectNewEpoch_TotalPower)
  then have "unat (TotalPower ce) = length (IDs vs)"
    using small by (simp add: len unat_of_nat_u64)
  moreover have "distinct (ActiveSet ce)"
    using m inv by (metis vs_inv_def mset_eq_imp_distinct_iff)
  moreover have "\<exists>i. SelectProposer ce h = Some i \<and> i \<in> set (IDs vs)" if "IDs vs \<noteq> []"
  proof -
    have "ActiveSet ce \<noteq> []"
      using len that by auto
    then show ?thesis
      using SelectProposer_active[of ce h] len small s by (auto simp: IsValidatorActive_def)
  qed
  ultimately show ?thesis
    using m by simp
qed

lemma sort_key_sorts_desc: "sorts_desc (sort_key (\<lambda>x. - snd x))"
proof -
  have "sorted_wrt (\<lambda>a b. snd b \<le> snd a) (sort_key (\<lambda>x. - snd x) xs)" for xs :: "(ValidatorID \<times> float64) list"
    using sorted_sort_key[of "\<lambda>x. - snd x" xs] by (simp add: sorted_wrt_map)
  then show ?thesis
    by (simp add: sorts_desc_def)
qed

lemma two_added:
  "length (IDs (snd (vs_AddMultiple NewValidatorSet [NewValidatorID 2, NewValidatorID 1] [500, 100]))) = 2"
  by code_simp

theorem new_engine_active_set_witness:
  "unat (TotalPower (NewConsensusEngine (sort_key (\<lambda>x. - snd x))
     (snd (vs_AddMultiple NewValidatorSet [NewValidatorID 2, NewValidatorID 1] [500, 100])))) = 2"
  using new_engine_active_set[OF sort_key_sorts_desc
      vs_next[OF vs_start step_AddMultiple[of _ "[NewValidatorID 2, NewValidatorID 1]" "[500, 100]"]], of 1]
  by (simp only: two_added)

end
