(* ===== verification/Rate_Limit.thy ===== *)
theory Rate_Limit
  imports Prelude
begin

text \<open>
  The per-address rate limiter of the RPC server (\<^verbatim>\<open>rate_limit.go\<close>). Times and durations are
  nanoseconds. \<^verbatim>\<open>Allow\<close> reads the clock twice, once for the elapsed time and once for the new
  \<^verbatim>\<open>lastCheck\<close>; both readings are arguments.
\<close>

record tokenBucket =
  tokens :: int
  lastCheck :: int

record RateLimiter =
  buckets :: "string \<rightharpoonup> tokenBucket"
  rate :: int
  window :: int

definition NewRateLimiter :: "int \<Rightarrow> int \<Rightarrow> RateLimiter" where
  "NewRateLimiter r win = \<lparr>buckets = Map.empty, rate = r, window = win\<rparr>"

text \<open>
  The refill interval \<^verbatim>\<open>window / rate\<close>. Go divides towards zero; with the positive arguments the
  server uses this is \<open>div\<close>. A zero divisor panics.
\<close>

definition refill_interval :: "RateLimiter \<Rightarrow> int" where
  "refill_interval rl = window rl div rate rl"

definition Allow :: "RateLimiter \<Rightarrow> string \<Rightarrow> int \<Rightarrow> int \<Rightarrow> bool outcome \<times> RateLimiter" where
  "Allow rl ip t1 t2 =
     (case buckets rl ip of
        None \<Rightarrow>
          (Ret True, rl\<lparr>buckets := (buckets rl)(ip \<mapsto> \<lparr>tokens = rate rl - 1, lastCheck = t2\<rparr>)\<rparr>)
      | Some b \<Rightarrow>
          if rate rl = 0 \<or> refill_interval rl = 0 then (Panic, rl)
          else
            let elapsed = t1 - lastCheck b;
                n0 = tokens b + elapsed div refill_interval rl;
                n = (if rate rl < n0 then rate rl else n0) in
            if 0 < n
            then (Ret True, rl\<lparr>buckets := (buckets rl)(ip \<mapsto> \<lparr>tokens = n - 1, lastCheck = t2\<rparr>)\<rparr>)
            else (Ret False, rl\<lparr>buckets := (buckets rl)(ip \<mapsto> \<lparr>tokens = n, lastCheck = t2\<rparr>)\<rparr>))"

text \<open>One sweep of \<^verbatim>\<open>cleanupLoop\<close>.\<close>

definition cleanup_sweep :: "RateLimiter \<Rightarrow> int \<Rightarrow> RateLimiter" where
  "cleanup_sweep rl now =
     rl\<lparr>buckets := (\<lambda>ip. case buckets rl ip of
          None \<Rightarrow> None
        | Some b \<Rightarrow> if 10 * window rl < now - lastCheck b then None else Some b)\<rparr>"

text \<open>The forwarded-for header when there is one, else the remote address up to its last colon.\<close>

definition extractIP :: "string \<Rightarrow> string \<Rightarrow> string" where
  "extractIP fwd remote =
     (if fwd \<noteq> [] then fwd
      else if CHR '':'' \<in> set remote
      then rev (tl (dropWhile (\<lambda>c. c \<noteq> CHR '':'') (rev remote)))
      else remote)"

subsection \<open>How many requests pass\<close>

text \<open>Requests of one address at the given clock readings, and how many of them pass.\<close>

fun passed :: "RateLimiter \<Rightarrow> string \<Rightarrow> (int \<times> int) list \<Rightarrow> nat" where
  "passed rl ip [] = 0"
| "passed rl ip ((t1, t2) # ts) =
     (case Allow rl ip t1 t2 of
        (Ret ok, rl') \<Rightarrow> (if ok then 1 else 0) + passed rl' ip ts
      | _ \<Rightarrow> 0)"

text \<open>The clock does not run backwards.\<close>

fun clock_ok :: "int \<Rightarrow> (int \<times> int) list \<Rightarrow> bool" where
  "clock_ok t [] \<longleftrightarrow> True"
| "clock_ok t ((t1, t2) # ts) \<longleftrightarrow> t \<le> t1 \<and> t1 \<le> t2 \<and> clock_ok t2 ts"

fun end_time :: "int \<Rightarrow> (int \<times> int) list \<Rightarrow> int" where
  "end_time t [] = t"
| "end_time t ((t1, t2) # ts) = end_time t2 ts"

lemma clock_ok_end: "clock_ok t ts \<Longrightarrow> t \<le> end_time t ts"
  by (induction t ts rule: clock_ok.induct) auto

lemma div_add_le:
  fixes a b c :: int
  assumes "0 < c" shows "a div c + b div c \<le> (a + b) div c"
proof -
  have "(a + b) div c = a div c + b div c + (a mod c + b mod c) div c"
    by (rule div_add1_eq)
  moreover have "0 \<le> (a mod c + b mod c) div c"
    using assms by (simp add: pos_imp_zdiv_nonneg_iff)
  ultimately show ?thesis by simp
qed

lemma passed_bucket:
  assumes "buckets rl ip = Some b" "0 \<le> tokens b" "0 < rate rl" "0 < refill_interval rl"
    and "clock_ok (lastCheck b) ts"
  shows "int (passed rl ip ts) \<le>
           tokens b + (end_time (lastCheck b) ts - lastCheck b) div refill_interval rl"
  using assms
proof (induction ts arbitrary: rl b)
  case (Cons tt ts)
  obtain t1 t2 where tt: "tt = (t1, t2)" by (cases tt)
  let ?I = "refill_interval rl"
  define n where "n = min (rate rl) (tokens b + (t1 - lastCheck b) div ?I)"
  define b' where "b' = \<lparr>tokens = (if 0 < n then n - 1 else n), lastCheck = t2\<rparr>"
  define rl' where "rl' = rl\<lparr>buckets := (buckets rl)(ip \<mapsto> b')\<rparr>"
  have t: "lastCheck b \<le> t1" "t1 \<le> t2" "clock_ok t2 ts"
    using Cons.prems(5) by (auto simp: tt)
  have nn: "0 \<le> n"
    using Cons.prems t(1) by (simp add: n_def pos_imp_zdiv_nonneg_iff)
  have allow: "Allow rl ip t1 t2 = (Ret (0 < n), rl')"
    using Cons.prems by (auto simp: Allow_def Let_def n_def b'_def rl'_def min_def)
  have I: "refill_interval rl' = ?I" "rate rl' = rate rl"
    by (simp_all add: rl'_def refill_interval_def)
  have "int (passed rl' ip ts) \<le> tokens b' + (end_time t2 ts - t2) div ?I"
    using Cons.IH[of rl' b'] Cons.prems t nn I by (simp add: rl'_def b'_def refill_interval_def)
  then have "int (passed rl ip (tt # ts)) \<le> n + (end_time t2 ts - t2) div ?I"
    by (simp add: tt allow b'_def split: if_splits)
  also have "n \<le> tokens b + (t1 - lastCheck b) div ?I"
    by (simp add: n_def)
  also have "(t1 - lastCheck b) div ?I \<le> (t2 - lastCheck b) div ?I"
    using t Cons.prems(4) by (intro zdiv_mono1) auto
  also have "tokens b + (t2 - lastCheck b) div ?I + (end_time t2 ts - t2) div ?I
      \<le> tokens b + (end_time t2 ts - lastCheck b) div ?I"
    using div_add_le[OF Cons.prems(4), of "t2 - lastCheck b" "end_time t2 ts - t2"] by simp
  finally show ?case
    by (simp add: tt)
qed simp

lemma passed_fresh:
  assumes "buckets rl ip = None" "0 < rate rl" "0 < refill_interval rl"
    and "t1 \<le> t2" "clock_ok t2 ts"
  shows "int (passed rl ip ((t1, t2) # ts)) \<le>
           rate rl + (end_time t2 ts - t2) div refill_interval rl"
proof -
  define b where "b = \<lparr>tokens = rate rl - 1, lastCheck = t2\<rparr>"
  define rl' where "rl' = rl\<lparr>buckets := (buckets rl)(ip \<mapsto> b)\<rparr>"
  have "Allow rl ip t1 t2 = (Ret True, rl')"
    using assms(1) by (simp add: Allow_def b_def rl'_def)
  moreover have "int (passed rl' ip ts) \<le>
      tokens b + (end_time (lastCheck b) ts - lastCheck b) div refill_interval rl'"
    using assms by (intro passed_bucket) (simp_all add: rl'_def b_def refill_interval_def)
  ultimately show ?thesis
    by (simp add: b_def rl'_def refill_interval_def)
qed

subsection \<open>Starvation\<close>

text \<open>
  A client that retries faster than the refill interval: every call discards the elapsed
  fraction and restarts the interval.
\<close>

fun retries :: "int \<Rightarrow> int \<Rightarrow> (int \<times> int) list \<Rightarrow> bool" where
  "retries I t [] \<longleftrightarrow> True"
| "retries I t ((t1, t2) # ts) \<longleftrightarrow> t \<le> t1 \<and> t1 < t + I \<and> t1 \<le> t2 \<and> retries I t2 ts"

lemma starved:
  assumes "buckets rl ip = Some b" "tokens b = 0" "0 < rate rl" "0 < refill_interval rl"
    and "retries (refill_interval rl) (lastCheck b) ts"
  shows "passed rl ip ts = 0"
  using assms
proof (induction ts arbitrary: rl b)
  case (Cons tt ts)
  obtain t1 t2 where tt: "tt = (t1, t2)" by (cases tt)
  define rl' where "rl' = rl\<lparr>buckets := (buckets rl)(ip \<mapsto> \<lparr>tokens = 0, lastCheck = t2\<rparr>)\<rparr>"
  have "(t1 - lastCheck b) div refill_interval rl = 0"
    using Cons.prems(5) by (simp add: tt div_pos_pos_trivial)
  then have "Allow rl ip t1 t2 = (Ret False, rl')"
    using Cons.prems by (simp add: Allow_def Let_def rl'_def)
  moreover have "passed rl' ip ts = 0"
    using Cons.IH[of rl' "\<lparr>tokens = 0, lastCheck = t2\<rparr>"] Cons.prems
    by (simp add: rl'_def tt refill_interval_def)
  ultimately show ?case
    by (simp add: tt)
qed simp

end
