(* ===== verification/Ledger_Claims.thy ===== *)
theory Ledger_Claims
  imports Chain Rate_Limit
begin

text \<open>
  The properties of transactions, staking, block production and the execution layer.
\<close>

subsection \<open>Sample values for the instances\<close>

definition sample_env :: BlockEnv where
  "sample_env =
     \<lparr>be_Verify = (\<lambda>_ _ _. False), be_host = \<lparr>keccakBytes = (\<lambda>_. []), spare_of = (\<lambda>_. [])\<rparr>, be_revm = (\<lambda>_. None),
      be_now = 0, be_accounts_text = [], be_order1 = [], be_order2 = [], be_order3 = []\<rparr>"

definition sample_tx :: Transaction where
  "sample_tx = NewTransaction 0 ''aa'' ''bb'' 5 21000 []"

subsection \<open>Transactions\<close>

text \<open>
  C6. Decoding the binary form of a transaction gives the transaction back, with its hash
  recomputed and the execution results empty, whenever its fields fit their length prefixes
  and its value is not negative. Bytes after the signature are ignored.
\<close>

theorem wire_round_trip:
  assumes "tx_wire_ok tx"
  shows "DeserializeTx (SerializeTx tx @ trailing) =
           Ret (tx\<lparr>tx_Hash := TxHash tx, tx_GasUsed := 0, tx_Logs := []\<rparr>)
         \<and> DeserializeTxHex (SerializeTxHex tx) =
           Ret (tx\<lparr>tx_Hash := TxHash tx, tx_GasUsed := 0, tx_Logs := []\<rparr>)"
  using DeserializeTx_SerializeTx[OF assms, of trailing] DeserializeTx_SerializeTx[OF assms, of "[]"]
  by (simp add: DeserializeTxHex_def SerializeTxHex_def)

theorem wire_round_trip_witness:
  "DeserializeTx (SerializeTx sample_tx @ [1, 2, 3]) = Ret sample_tx"
proof -
  have "tx_wire_ok sample_tx"
    by code_simp
  from wire_round_trip[OF this, of "[1, 2, 3]"] show ?thesis
    using TxHash_New[of 0 "''aa''" "''bb''" 5 21000 "[]"]
    by (simp add: sample_tx_def NewTransaction_def)
qed

text \<open>
  C7. For every interleaving of submissions and pops, on each of the three lanes the
  transactions delivered so far followed by those still pending are those pending at the start
  followed by the submitted ones of that lane, in order: none is lost, duplicated, reordered or
  moved to another lane. An unknown lane number goes to the consensus lane.
\<close>

theorem pool_lanes_fifo:
  "fst (run_steps consensus_step xs p) @ Consensus (snd (run_steps consensus_step xs p))
     = Consensus p @ concat (map (arrivals consensus_bound) xs)
   \<and> fst (run_steps oracle_step xs p) @ Oracle (snd (run_steps oracle_step xs p))
     = Oracle p @ concat (map (arrivals (\<lambda>l. l = OracleLane)) xs)
   \<and> fst (run_steps private_step xs p) @ Private (snd (run_steps private_step xs p))
     = Private p @ concat (map (arrivals (\<lambda>l. l = PrivateLane)) xs)"
  by (intro conjI consensus_lane.run_conserve oracle_lane.run_conserve private_lane.run_conserve)

subsection \<open>Staking\<close>

text \<open>
  The annual reward never decreases when the stake grows, in the floating-point arithmetic
  of the code and over the whole range of 64-bit stakes.
\<close>

theorem reward_monotone:
  assumes "s \<le> t" shows "CalculateReward s \<le> CalculateReward t"
  using assms by (rule CalculateReward_mono)

theorem reward_monotone_witness: "CalculateReward 99 \<le> CalculateReward 5000"
  by (rule reward_monotone) simp

text \<open>
  C8. The block distribution does not depend on the order in which Go iterates over the stake
  table: any two enumerations of it give the proportional shares of \<open>distribute_spec\<close>.
\<close>

theorem distribution_order_independent:
  assumes "enumerates ps order1" "enumerates ps order2"
  shows "DistributeBlockReward w order1 order2 ps height = distribute_spec w ps height"
  using assms by (rule DistributeBlockReward_eq)

definition sample_id :: ValidatorID where "sample_id = NewValidatorID 1"

definition sample_staking :: ProgressiveStaking where
  "sample_staking =
     (RegisterStake (fst (NewProgressiveStaking initial_world 7 3 10000)) sample_id 100)\<lparr>accrued := 5\<rparr>"

lemma sample_staking_enumerates: "enumerates sample_staking [sample_id]"
  by (simp add: enumerates_def sample_staking_def RegisterStake_def NewProgressiveStaking_def Let_def)

theorem distribution_order_independent_witness:
  "DistributeBlockReward initial_world [sample_id] [sample_id] sample_staking 1
     = distribute_spec initial_world sample_staking 1"
  by (rule distribution_order_independent[OF sample_staking_enumerates sample_staking_enumerates])

text \<open>
  C9. One block's rewards. While no 64-bit total wraps: the rewards paid are covered by the
  accrued emission, the epoch counter grows by exactly what was paid and stays within the epoch
  cap, the carry stays non-negative and the table still adds up to the recorded total stake.
\<close>

theorem distribution_bounds:
  assumes "staking_inv ps" "no_wrap w ps" "enumerates ps order1" "enumerates ps order2"
    and "DistributeBlockReward w order1 order2 ps h = (rewards, ps')"
  shows "of_nat (paid_total rewards (dom (ValidatorRewards ps))) \<le> block_carry w ps
         \<and> unat (epochMinted ps') = unat (epochMinted ps) + paid_total rewards (dom (ValidatorRewards ps))
         \<and> (0 < EpochCap w ps \<longrightarrow> epochMinted ps \<le> EpochCap w ps \<longrightarrow> epochMinted ps' \<le> EpochCap w ps)
         \<and> staking_inv ps'"
  using distribute_spec_bounds[OF assms(1,2)] assms(5) DistributeBlockReward_eq[OF assms(3,4)] by simp

lemma sample_staking_ok: "staking_inv sample_staking" "no_wrap initial_world sample_staking"
    "0 < EpochCap initial_world sample_staking" "epochMinted sample_staking \<le> EpochCap initial_world sample_staking"
proof -
  have dom: "dom (ValidatorRewards sample_staking) = {sample_id}"
    using sample_staking_enumerates by (auto simp: enumerates_def)
  have "fl 5 = 5" by code_simp
  then show "staking_inv sample_staking"
    using staking_inv_Register[OF staking_inv_New[of initial_world 7 3 10000], of sample_id 100]
    by (simp add: staking_inv_def sample_staking_def)
  have "block_carry initial_world sample_staking < 2 ^ 63"
    by code_simp
  then show "no_wrap initial_world sample_staking"
    using unat_u64_bound[of "annual_reward sample_staking sample_id"]
    by (simp add: no_wrap_def dom)
      (simp add: sample_staking_def RegisterStake_def NewProgressiveStaking_def Let_def)
  show "0 < EpochCap initial_world sample_staking" by code_simp
  show "epochMinted sample_staking \<le> EpochCap initial_world sample_staking"
    by (simp add: sample_staking_def RegisterStake_def NewProgressiveStaking_def Let_def)
qed

theorem distribution_bounds_witness:
  "epochMinted (snd (DistributeBlockReward initial_world [sample_id] [sample_id] sample_staking 1))
     \<le> EpochCap initial_world sample_staking"
  using distribution_bounds[OF sample_staking_ok(1,2) sample_staking_enumerates sample_staking_enumerates
      prod.collapse[symmetric], of 1] sample_staking_ok(3,4) by blast

text \<open>Operations on the stake table other than the distribution.\<close>

datatype stake_op = Stake ValidatorID u64 | Unstake ValidatorID | Claim ValidatorID | Rollover

fun stake_step :: "stake_op \<Rightarrow> ProgressiveStaking \<Rightarrow> ProgressiveStaking" where
  "stake_step (Stake i a) ps = RegisterStake ps i a"
| "stake_step (Unstake i) ps = RemoveStake ps i"
| "stake_step (Claim i) ps = snd (ClaimReward ps i)"
| "stake_step Rollover ps = RolloverEpoch ps"

lemma stake_step_inv: "staking_inv ps \<Longrightarrow> staking_inv (stake_step x ps)"
  by (cases x) (simp_all add: staking_inv_Register staking_inv_Remove staking_inv_Claim staking_inv_Rollover)

lemma stake_steps_inv: "staking_inv ps \<Longrightarrow> staking_inv (foldl (\<lambda>ps x. stake_step x ps) ps xs)"
  by (induction xs arbitrary: ps) (simp_all add: stake_step_inv)

text \<open>
  C10. After any sequence of registrations (new or repeated), removals, claims and epoch
  rollovers on a new staking manager, the recorded total stake is the sum of the stakes in the
  table, modulo \<open>2^64\<close> as the code adds.
\<close>

theorem total_staked_is_sum:
  "TotalStaked (foldl (\<lambda>ps x. stake_step x ps) (fst (NewProgressiveStaking w pct bt el)) xs)
     = table_sum (ValidatorRewards (foldl (\<lambda>ps x. stake_step x ps) (fst (NewProgressiveStaking w pct bt el)) xs))"
  using stake_steps_inv[OF staking_inv_New[of w pct bt el], of xs] by (simp add: staking_inv_def)

subsection \<open>Blocks\<close>

text \<open>
  C11. A produced block has the next height; it holds at most ten transactions, each of them one
  of the first ten of the consensus queue, in their order, which passed the signature check as it
  was submitted. A transaction goes into the block with its gas and logs filled in and with the same
  calldata, except that calls to the privacy contract and to governance may leave it rewritten.
  The queue heads are gone from the pool and the other two lanes are untouched.
\<close>

theorem block_contents:
  assumes "ProduceBlock env p c = Ret (b, c')"
  shows "blk_Height b = ch_Height c + 1 \<and> blk_Proposer b = p
         \<and> length (blk_Transactions b) \<le> 10
         \<and> (\<exists>ts. subseq ts (take 10 (Consensus (Pool c))) \<and> list_all2 included_as ts (blk_Transactions b)
              \<and> (\<forall>t \<in> set ts. sig_accepted (be_Verify env) t))
         \<and> Consensus (Pool c') = drop 10 (Consensus (Pool c))
         \<and> Oracle (Pool c') = Oracle (Pool c) \<and> Private (Pool c') = Private (Pool c)"
  using assms
proof (rule ProduceBlock_shape)
  fix executed w1 logs ps1 w2 w3
  let ?popped = "fst (PopConsensus (Pool c) 10)"
  assume ex: "exec_txs env (ch_Height c + 1) ?popped (ch_State c) = Ret (executed, w1)"
    and b: "b = assemble_block env (ch_Height c + 1) p (Blocks c) executed (Logs w2)"
    and pool: "Pool c' = snd (PopConsensus (Pool c) 10)"
  have popped: "?popped = take 10 (Consensus (Pool c))"
    by (auto simp: PopConsensus_def Let_def)
  from exec_txs_included[OF ex] obtain ts where inc: "subseq ts ?popped" "list_all2 included_as ts executed"
    "\<forall>t \<in> set ts. sig_accepted (be_Verify env) t"
    by blast
  have "length executed \<le> length ?popped"
    using list_emb_length[OF inc(1)] list_all2_lengthD[OF inc(2)] by simp
  then have "length executed \<le> 10"
    by (simp add: popped)
  moreover have "Consensus (Pool c') = drop 10 (Consensus (Pool c))"
    by (auto simp: pool PopConsensus_def Let_def)
  moreover have "Oracle (Pool c') = Oracle (Pool c)" "Private (Pool c') = Private (Pool c)"
    by (auto simp: pool PopConsensus_def Let_def)
  ultimately show ?thesis
    using inc by (auto simp: b popped)
qed

definition empty_chain :: Chain where
  "empty_chain =
     \<lparr>ch_State = initial_world, Pool = NewTxPool, Blocks = [], ch_Height = 0,
      ch_Staking = fst (NewProgressiveStaking initial_world 7 3 0)\<rparr>"

lemma empty_chain_block:
  "\<exists>b c'. ProduceBlock sample_env (NewValidatorID 1) empty_chain = Ret (b, c')"
  by (simp add: ProduceBlock_def empty_chain_def NewTxPool_def PopConsensus_def run_due_tasks_def
      NewTimeExecution_idle epoch_step_def reward_step_def NewProgressiveStaking_def Let_def
      DistributeBlockReward_def sample_env_def SetInflationPct_def split_beta)

theorem block_contents_witness:
  "\<exists>b c'. ProduceBlock sample_env (NewValidatorID 1) empty_chain = Ret (b, c') \<and> blk_Height b = 1"
proof -
  obtain b c' where r: "ProduceBlock sample_env (NewValidatorID 1) empty_chain = Ret (b, c')"
    using empty_chain_block by blast
  with block_contents[OF r] show ?thesis
    by (auto simp: empty_chain_def)
qed

text \<open>
  C12. A plain transfer is a transaction that is unsigned or carries a valid signature, has the
  sender's nonce, names a recipient that is neither empty nor a precompile and has no code,
  carries no calldata, and whose sender owns at least the gas limit times the price (modulo
  \<open>2^64\<close>) plus the value. Every such transaction is included with 21000 units of gas used. The
  sender pays the value and the gas used times the price (modulo \<open>2^64\<close>), a recipient other
  than the sender receives a positive value, every other balance stays the same, and the
  sender's nonce goes up by one. A transfer to oneself is charged the value and credits nobody,
  so its value is destroyed; a negative value, which the wire format cannot carry, would be
  credited to the sender and taken from nobody.
\<close>

theorem transfer_moves_value:
  assumes "plain_transfer env tx w"
  shows "\<exists>w'. exec_tx env h tx w = Ret (Some (tx\<lparr>tx_GasUsed := 21000, tx_Logs := []\<rparr>), w')
    \<and> (\<forall>x. balance_of w' x = balance_of w x
         - (if x = tx_From tx then int (unat (21000 * gas_price tx)) + tx_Value tx else 0)
         + (if x = tx_To tx \<and> tx_To tx \<noteq> tx_From tx then max 0 (tx_Value tx) else 0))
    \<and> Nonce (acct w' (tx_From tx)) = Nonce (acct w (tx_From tx)) + 1"
  using assms by (rule exec_transfer_effect)

definition funded_world :: World where
  "funded_world = set_balance initial_world ''aa'' 1000000"

lemma acct_samples:
  "acct initial_world x = NewAccount"
  "acct funded_world x = (if x = ''aa'' then NewAccount\<lparr>Balance := 1000000\<rparr> else NewAccount)"
  by (simp_all add: acct_def initial_world_def funded_world_def set_balance_def upd_acct_def)

lemma balance_samples:
  "balance_of initial_world x = 0" "balance_of funded_world x = (if x = ''aa'' then 1000000 else 0)"
  by (simp_all add: balance_of_def acct_samples NewAccount_def)

lemma sample_transfer: "plain_transfer sample_env sample_tx funded_world"
proof -
  have form: "precompile_form ''bb'' = Some 0xBB"
    by code_simp
  show ?thesis
    by (simp add: plain_transfer_def sample_tx_def NewTransaction_def sig_accepted_def
        balance_samples acct_samples NewAccount_def gas_price_def form IsPrecompile_def)
qed

theorem transfer_moves_value_witness:
  "\<exists>w'. exec_tx sample_env 1 sample_tx funded_world
       = Ret (Some (sample_tx\<lparr>tx_GasUsed := 21000, tx_Logs := []\<rparr>), w')
     \<and> balance_of w' ''bb'' = 5 \<and> balance_of w' ''aa'' = 978995"
  using transfer_moves_value[OF sample_transfer, of 1]
  by (auto simp: sample_tx_def NewTransaction_def gas_price_def balance_samples)

text \<open>A transfer of 5 to oneself: 21005 leave the account, although nobody receives the 5.\<close>

lemma self_transfer_burns:
  "\<exists>tx' w'. exec_tx sample_env 1 (sample_tx\<lparr>tx_To := ''aa''\<rparr>) funded_world = Ret (Some tx', w')
     \<and> balance_of w' ''aa'' = 978995 \<and> (\<forall>x. x \<noteq> ''aa'' \<longrightarrow> balance_of w' x = 0)"
proof -
  have form: "precompile_form ''aa'' = Some 0xAA"
    by code_simp
  have "plain_transfer sample_env (sample_tx\<lparr>tx_To := ''aa''\<rparr>) funded_world"
    by (simp add: plain_transfer_def sample_tx_def NewTransaction_def sig_accepted_def
        balance_samples acct_samples NewAccount_def gas_price_def form IsPrecompile_def)
  from exec_transfer_effect[OF this, of 1] show ?thesis
    by (auto simp: sample_tx_def NewTransaction_def gas_price_def balance_samples)
qed

text \<open>
  C13. No replay: a transfer that was included is rejected when it is submitted again on the
  resulting state, and the rejection changes no account.
\<close>

theorem transfer_not_replayed:
  assumes "plain_transfer env tx w" "exec_tx env h tx w = Ret (Some tx', w')"
  shows "\<exists>w''. exec_tx env' h' tx w' = Ret (None, w'') \<and> (\<forall>a. acct w'' a = acct w' a)"
proof -
  have "Nonce (acct w' (tx_From tx)) = tx_Nonce tx + 1"
    using exec_transfer_effect[OF assms(1), of h] assms(2) assms(1) by (auto simp: plain_transfer_def)
  then have "tx_Nonce tx \<noteq> Nonce (acct w' (tx_From tx))"
    by simp
  from exec_tx_wrong_nonce[OF this] show ?thesis
    by simp
qed

theorem transfer_not_replayed_witness:
  "\<exists>w' w''. exec_tx sample_env 1 sample_tx funded_world
       = Ret (Some (sample_tx\<lparr>tx_GasUsed := 21000, tx_Logs := []\<rparr>), w')
     \<and> exec_tx sample_env 2 sample_tx w' = Ret (None, w'')"
proof -
  obtain w' where "exec_tx sample_env 1 sample_tx funded_world
      = Ret (Some (sample_tx\<lparr>tx_GasUsed := 21000, tx_Logs := []\<rparr>), w')"
    using exec_transfer_effect[OF sample_transfer] by blast
  with transfer_not_replayed[OF sample_transfer this, of sample_env 2] show ?thesis
    by blast
qed




text \<open>
  The reward step of a block: the live-supply tracker grows by exactly the amount minted to
  validators, each account is credited the rewards of the validators whose short name it is,
  and the treasury receives its share in addition to the minted amount.
\<close>

theorem supply_tracks_rewards:
  assumes "reward_step env h ps w = Ret (ps', w')"
    and "DistributeBlockReward w (be_order1 env) (be_order2 env) ps h = (rewards, ps'')"
  shows "QuestTotalSupply w' =
           QuestTotalSupply w + unat (sum_list (map (reward_amount rewards) (be_order3 env)))
         \<and> balance_of w' x = balance_of w x
           + sum_list (map (\<lambda>i. if ValidatorID_String i = x then int (unat (reward_amount rewards i)) else 0)
               (be_order3 env))
           + (if x = treasury_addr
              then int (unat (TreasuryShareOf (sum_list (map (reward_amount rewards) (be_order3 env))))) else 0)"
  using reward_step_effect(2,3)[OF assms] by simp

theorem supply_tracks_rewards_witness:
  "\<exists>ps' w'. reward_step sample_env 1 (ch_Staking empty_chain) initial_world = Ret (ps', w')
     \<and> QuestTotalSupply w' = QuestTotalSupply initial_world"
proof -
  have r: "reward_step sample_env 1 (ch_Staking empty_chain) initial_world
      = Ret ((ch_Staking empty_chain)\<lparr>CurrentBlock := 1\<rparr>, initial_world)"
    by (simp add: reward_step_def empty_chain_def NewProgressiveStaking_def Let_def DistributeBlockReward_def
        sample_env_def split_beta)
  have d: "DistributeBlockReward initial_world (be_order1 sample_env) (be_order2 sample_env)
      (ch_Staking empty_chain) 1 = (Map.empty, (ch_Staking empty_chain)\<lparr>CurrentBlock := 1\<rparr>)"
    by (simp add: DistributeBlockReward_def sample_env_def Let_def)
  from supply_tracks_rewards[OF r d] r show ?thesis
    by (simp add: sample_env_def)
qed

end
