(* ===== verification/Execution_Claims.thy ===== *)
theory Execution_Claims
  imports Ledger_Claims
begin

text \<open>
  The properties of the execution layer (dispatch, the revm bridge, deployment), of the gas
  faucet and of the rate limiter.
\<close>

subsection \<open>Dispatch\<close>

text \<open>
  C14. A call to the canonical 40-digit address of a byte in the range 0x0C to 0x27 always finds a
  table entry and runs that entry point: its result with the entry's gas price, its error with
  no gas, or its panic. No address in the range is unassigned.
\<close>

theorem precompile_dispatch:
  assumes "IsPrecompile a" "ctx_Address ctx = PrecompileAddrHex a"
  shows "\<exists>pc. map_of (PrecompilesTable V H) a = Some pc \<and>
    Execute V H revm_execute evm ctx w =
      (case pc_Fn pc (ctx_Calldata ctx) (ctx_Caller ctx) w (BlockNum evm) of
         (Ret d, w') \<Rightarrow> (Ret (result_ok d (pc_Gas pc)), w')
       | (Err e, w') \<Rightarrow> (Ret (result_err [] 0 e), w')
       | (Panic, w') \<Rightarrow> (Panic, w'))"
proof -
  obtain pc where pc: "map_of (PrecompilesTable V H) a = Some pc"
    using assms(1) PrecompilesTable_total[of V H a] by auto
  have "PrecompileAddrHex a \<noteq> []"
    by (simp add: PrecompileAddrHex_def)
  with pc assms show ?thesis
    by (auto simp: Execute_def precompile_form_PrecompileAddrHex ExecutePrecompile_def PrecompileGas_def
        Let_def split: prod.splits outcome.splits)
qed

definition call_to :: "string \<Rightarrow> CallContext" where
  "call_to a = \<lparr>ctx_Caller = ''aa'', ctx_Address = a, ctx_Value = 0, ctx_GasLimit = 0,
     ctx_Calldata = [], ctx_ReadOnly = False\<rparr>"

theorem precompile_dispatch_witness:
  "\<exists>pc. map_of (PrecompilesTable (\<lambda>_ _ _. False) \<lparr>keccakBytes = (\<lambda>_. []), spare_of = (\<lambda>_. [])\<rparr>) 0x13 = Some pc"
  using precompile_dispatch[where a = "0x13" and ctx = "call_to (PrecompileAddrHex 0x13)"
      and V = "\<lambda>_ _ _. False" and H = "\<lparr>keccakBytes = (\<lambda>_. []), spare_of = (\<lambda>_. [])\<rparr>"
      and revm_execute = "\<lambda>_. None" and evm = "NewEVM 0 1 0 10008 0 []" and w = initial_world]
  by (auto simp: IsPrecompile_def call_to_def)

subsection \<open>The revm bridge\<close>

text \<open>
  C15. A call through revm that fails, whatever the library answers, leaves every account as it was.
\<close>

theorem failed_revm_changes_nothing:
  assumes "er_Error (fst (executeWithRevm revm_execute ctx code w)) \<noteq> None"
  shows "acct (snd (executeWithRevm revm_execute ctx code w)) a = acct w a"
  using assms
  by (auto simp: executeWithRevm_def result_ok_def Let_def split: option.splits if_splits)

theorem failed_revm_changes_nothing_witness:
  "acct (snd (executeWithRevm (\<lambda>_. None) (call_to ''bb'') [1] funded_world)) ''aa'' = acct funded_world ''aa''"
  by (rule failed_revm_changes_nothing) (simp add: executeWithRevm_def result_err_def Let_def)

lemma length_strip_zeros: "length (strip_zeros s) \<le> length s"
  by (induction s rule: strip_zeros.induct) auto

lemma strip_zeros_zero:
  assumes "1 < length s" "hd s = CHR ''0''" shows "strip_zeros s \<noteq> s"
proof -
  obtain d cs where "s = CHR ''0'' # d # cs"
    using assms by (cases s rule: strip_zeros.cases) auto
  then show ?thesis
    using length_strip_zeros[of "d # cs"] by auto
qed

lemma acct_foldl_sstore:
  "x \<noteq> addr \<Longrightarrow> acct (foldl (\<lambda>w (k, v). sstore w addr (f k) (g v)) w kvs) x = acct w x"
  by (induction kvs arbitrary: w) (auto simp: sstore_def acct_upd_acct)

lemma apply_out_frame:
  "x \<noteq> unpadHex addrStr \<Longrightarrow> acct (apply_out caller w (addrStr, out)) x = acct w x"
  by (simp add: apply_out_def Let_def acct_foldl_sstore acct_upd_acct set_balance_def)

text \<open>
  State that revm returns for an address whose 40-digit form begins with a zero is written to
  a different account: the leading zeros are stripped from the key, so the account at the
  canonical address, with its balance, nonce, code and storage, stays as it was.
\<close>

theorem leading_zero_state_lost:
  assumes "length s = 40" "hd s = CHR ''0''" "take 2 s \<noteq> ''0x''"
  shows "acct (apply_out caller w (''0x'' @ s, out)) s = acct w s"
proof -
  have "unpadHex (''0x'' @ s) = strip_zeros s"
    by (simp add: unpadHex_def trim0x_def)
  then have "unpadHex (''0x'' @ s) \<noteq> s"
    using strip_zeros_zero[of s] assms(1,2) by simp
  then show ?thesis
    by (intro apply_out_frame) simp
qed

theorem leading_zero_state_lost_witness:
  "acct (apply_out ''aa'' initial_world (''0x00000000000000000000000000000000000000ec'',
      \<lparr>ro_Nonce = 1, ro_Balance = ''0x5'', ro_Code = [], ro_Storage = []\<rparr>))
    ''00000000000000000000000000000000000000ec''
   = acct initial_world ''00000000000000000000000000000000000000ec''"
  using leading_zero_state_lost[of "''00000000000000000000000000000000000000ec''" "''aa''" initial_world]
  by simp

subsection \<open>Deployment from templates\<close>

text \<open>
  A template deployment succeeds only for a deployer whose badge level admits the contract
  class, and never for class D; the new account holds exactly the code, the class and the
  deployer's level.
\<close>

theorem deploy_gate:
  assumes "DeployContractFromCode caller code class w = (Ret addr, w')"
  shows "class \<noteq> ClassD
         \<and> (class = ClassB \<longrightarrow> 2 \<le> DoxDevLevel (acct w caller))
         \<and> (class = ClassC \<longrightarrow> 3 \<le> DoxDevLevel (acct w caller))
         \<and> Code (acct w' addr) = code \<and> ContractClass (acct w' addr) = class
         \<and> DoxDevLevel (acct w' addr) = DoxDevLevel (acct w caller)"
proof -
  have none: "EnforceContractClass (DoxDevLevel (acct w caller)) class = None"
    and w': "w' = upd_acct (CreateAccount (upd_acct (touch w caller) caller (\<lambda>acc. acc\<lparr>Nonce := Nonce acc + 1\<rparr>))
               addr code) addr
              (\<lambda>acc. acc\<lparr>DoxDevLevel := DoxDevLevel (acct w caller), ContractClass := class\<rparr>)"
    using assms by (auto simp: DeployContractFromCode_def Let_def split: option.splits)
  have "acct (CreateAccount s addr code) addr = NewAccount\<lparr>CodeHash := sha256 code, Code := code\<rparr>" for s :: World
    by (simp add: CreateAccount_def acct_def)
  then have "Code (acct w' addr) = code" "ContractClass (acct w' addr) = class"
      "DoxDevLevel (acct w' addr) = DoxDevLevel (acct w caller)"
    by (simp_all add: w' acct_upd_acct)
  moreover from none have "class \<noteq> ClassD \<and> (class = ClassB \<longrightarrow> 2 \<le> DoxDevLevel (acct w caller))
      \<and> (class = ClassC \<longrightarrow> 3 \<le> DoxDevLevel (acct w caller))"
    by (auto simp: EnforceContractClass_def class_defs not_less split: if_splits)
  ultimately show ?thesis by simp
qed

theorem deploy_gate_witness:
  "\<exists>addr w'. DeployContractFromCode ''aa'' [0x60] ClassA initial_world = (Ret addr, w')
     \<and> Code (acct w' addr) = [0x60]"
proof -
  obtain addr w' where r: "DeployContractFromCode ''aa'' [0x60] ClassA initial_world = (Ret addr, w')"
    by (simp add: DeployContractFromCode_def EnforceContractClass_def Let_def)
  from r deploy_gate[OF r] show ?thesis by blast
qed

subsection \<open>The gas faucet\<close>

text \<open>
  A drip that reports success moves exactly the drip amount from the faucet's reserve, which
  held at least that much, to the caller; every other balance stays (for callers other than
  the founder, whose drip also runs the genesis seeding).
\<close>

theorem drip_moves_amount:
  assumes "fst (faucet_drip input caller w b) = Ret [1]" "callerAccountKey caller \<noteq> FounderAddress"
  shows "int (faucet_amount w) \<le> balance_of w faucet_addr
         \<and> balance_of (snd (faucet_drip input caller w b)) x =
             balance_of w x - (if x = faucet_addr then int (faucet_amount w) else 0)
                            + (if x = caller then int (faucet_amount w) else 0)"
  using faucet_drip_success[OF assms] by simp

definition faucet_world :: World where
  "faucet_world = set_balance initial_world faucet_addr (2 * 10 ^ 18)"

definition dripper :: string where
  "dripper = ''1111111111111111111111111111111111111111''"

lemma faucet_world_slots [simp]: "sload faucet_world a k = zero_slot"
proof -
  have "sload initial_world a k = zero_slot"
    by (simp add: sload_def acct_samples NewAccount_def)
  then show ?thesis
    by (simp add: faucet_world_def)
qed

lemma faucet_world_balance: "balance_of faucet_world x = (if x = faucet_addr then 2 * 10 ^ 18 else 0)"
  by (simp add: faucet_world_def balance_of_set_balance balance_samples)

lemma dripper_key: "callerAccountKey dripper = dripper" "dripper \<noteq> FounderAddress" "dripper \<noteq> faucet_addr"
  by code_simp+

lemma sample_drip: "fst (faucet_drip [] dripper faucet_world 1) = Ret [1]"
proof -
  have one: "readBigInt (fill_be 32 (Suc 0)) = 1"
    by (subst readBigInt_fill) simp_all
  show ?thesis
    by (auto simp: faucet_drip_def dripper_key Let_def faucet_world_balance faucet_amount_def
        FaucetDefaultDripAmount_def store_big_cases sload_sstore one split: option.splits)
qed

theorem drip_moves_amount_witness:
  "balance_of (snd (faucet_drip [] dripper faucet_world 1)) dripper = 10 ^ 18"
  using drip_moves_amount[OF sample_drip, of dripper] dripper_key
  by (simp add: faucet_world_balance faucet_amount_def FaucetDefaultDripAmount_def)

text \<open>
  C16. One drip per cooldown: let a caller have a successful drip in a block \<open>b\<close> other than 0,
  and let any faucet calls of anyone follow it, except changes of the cooldown, in blocks before
  \<open>b\<close> plus the cooldown (the code's 64-bit sum). Then every further drip by that caller before
  that block is refused. The refusal changes nothing, except that a drip by the founder, refused
  or not, runs the genesis seeding again. The record keys of the callers involved are assumed to
  differ from the faucet's three configuration keys, which holds unless SHA-256 collides on them.
\<close>

theorem drip_cooldown:
  assumes "fst (faucet_drip input caller w b) = Ret [1]" "b \<noteq> 0" "drip_key_apart caller"
    and "w' = run_calls faucetPrecompile cs (snd (faucet_drip input caller w b))"
    and "\<forall>(inp, caller', b1) \<in> set cs. b1 < b + faucet_cooldown w \<and> drip_key_apart caller'
           \<and> selectorBytes inp \<noteq> selFaucetSetCooldown"
    and "b' < b + faucet_cooldown w"
  shows "faucet_drip input' caller w' b'
           = (Ret [0], if callerAccountKey caller = FounderAddress then SeedAllGenesis w' else w')"
proof -
  have "dripped caller b (faucet_cooldown w) w'"
    unfolding assms(4) using faucet_drip_slots[OF assms(1,3)] assms(2,3,5)
    by (rule faucet_run_keeps_record)
  from faucet_drip_limited[OF this assms(2,6)] show ?thesis .
qed

lemma dripper_keys_apart: "drip_key_apart dripper" "drip_key_apart FounderAddress"
  by code_simp+

theorem drip_cooldown_witness:
  "fst (faucet_drip [] dripper
     (run_calls faucetPrecompile [([0x2A, 0x7A, 0xB5, 0xDA], FounderAddress, 500)]
       (snd (faucet_drip [] dripper faucet_world 1))) 1000) = Ret [0]"
proof -
  have "selectorBytes ([0x2A, 0x7A, 0xB5, 0xDA]) \<noteq> selFaucetSetCooldown"
    by code_simp
  then show ?thesis
    using drip_cooldown[OF sample_drip _ dripper_keys_apart(1) refl,
        of "[([0x2A, 0x7A, 0xB5, 0xDA], FounderAddress, 500)]" 1000 "[]"] dripper_keys_apart(2)
    by (simp add: faucet_cooldown_def FaucetDefaultCooldown_def)
qed

subsection \<open>The rate limiter\<close>

text \<open>
  C26. Of the requests of one address between its first one and a later time, at most the
  configured rate plus one per elapsed refill interval are let through, however they are spaced.
\<close>

theorem rate_limit_bound:
  assumes "buckets rl ip = None" "0 < rate rl" "0 < refill_interval rl"
    and "t1 \<le> t2" "clock_ok t2 ts"
  shows "int (passed rl ip ((t1, t2) # ts)) \<le> rate rl + (end_time t2 ts - t2) div refill_interval rl"
  using assms by (rule passed_fresh)

theorem rate_limit_bound_witness:
  "int (passed (NewRateLimiter 2 1000) ''ip'' [(0, 0), (1, 1), (2, 2), (3, 3)]) \<le> 2"
  using rate_limit_bound[of "NewRateLimiter 2 1000" "''ip''" 0 0 "[(1, 1), (2, 2), (3, 3)]"]
  by (simp add: NewRateLimiter_def refill_interval_def)

text \<open>
  C27. A client without tokens that keeps retrying faster than the refill interval is never let
  through again: every refused call discards the elapsed fraction and restarts the interval.
\<close>

theorem retrying_client_starves:
  assumes "buckets rl ip = Some bk" "tokens bk = 0" "0 < rate rl" "0 < refill_interval rl"
    and "retries (refill_interval rl) (lastCheck bk) ts"
  shows "passed rl ip ts = 0"
  using assms by (rule starved)

theorem retrying_client_starves_witness:
  "passed ((NewRateLimiter 2 1000)\<lparr>buckets := [''ip'' \<mapsto> \<lparr>tokens = 0, lastCheck = 0\<rparr>]\<rparr>) ''ip''
     [(499, 499), (998, 998), (1497, 1497)] = 0"
  by (rule retrying_client_starves[where bk = "\<lparr>tokens = 0, lastCheck = 0\<rparr>"])
    (simp_all add: NewRateLimiter_def refill_interval_def)

end
