(* ===== verification/Slot_Typing.thy ===== *)
theory Slot_Typing
  imports Evm
begin

text \<open>
  Typing of the storage. Go gives every storage key and value the type \<^verbatim>\<open>[32]byte\<close> and a map has
  no repeated keys; the model has byte lists and an association list. A world is typed when all
  of its accounts keep to that. The locale \<open>typed_contract\<close> is the promise of an entry point to
  keep the world typed; every precompile interprets it, and the last section collects them over
  the precompile table.
\<close>

subsection \<open>Typed worlds\<close>

definition account_typed :: "Account \<Rightarrow> bool" where
  "account_typed acc \<longleftrightarrow>
     storage_wf acc \<and> list_all (\<lambda>(k, v). length k = 32 \<and> length v = 32) (Storage acc)"

definition world_typed :: "World \<Rightarrow> bool" where
  "world_typed w \<longleftrightarrow> (\<forall>a. account_typed (acct w a))"

lemma list_all_update:
  "list_all P m \<Longrightarrow> P (k, v) \<Longrightarrow> list_all P (AList.update k v m)"
  by (induction m) auto

lemma account_typed_update:
  "account_typed acc \<Longrightarrow> length k = 32 \<Longrightarrow> length v = 32 \<Longrightarrow>
   account_typed (acc\<lparr>Storage := AList.update k v (Storage acc)\<rparr>)"
  by (simp add: account_typed_def storage_wf_def distinct_update_iff list_all_update)

lemma typed_sstore [simp, intro]:
  "world_typed w \<Longrightarrow> length k = 32 \<Longrightarrow> length v = 32 \<Longrightarrow> world_typed (sstore w a k v)"
  by (simp add: world_typed_def acct_sstore account_typed_update)

lemma typed_upd:
  "world_typed w \<Longrightarrow> (\<And>acc. Storage (f acc) = Storage acc) \<Longrightarrow> world_typed (upd_acct w a f)"
  by (simp add: world_typed_def acct_upd_acct account_typed_def storage_wf_def)

lemma length_sload [simp]: "world_typed w \<Longrightarrow> length (sload w a k) = 32"
  by (auto simp: world_typed_def account_typed_def sload_def list_all_iff split: option.split
      dest!: map_of_SomeD spec[of _ a])

lemma acct_econo: "acct (EconoAccrueStorage w n b) a = acct w a"
  by (simp add: EconoAccrueStorage_def acct_def Let_def)

lemma typed_frame [simp]:
  "world_typed (touch w x) = world_typed w" "world_typed (AddLog w x t d b) = world_typed w"
  "world_typed (EconoAccrueStorage w n b) = world_typed w"
  "world_typed (EconoAccrueRent w n b) = world_typed w" "world_typed (EconoAccrueMRT w n b) = world_typed w"
  "world_typed (EconoAccruePayout w n p b) = world_typed w"
  "world_typed (w\<lparr>activeInflationPct := f\<rparr>) = world_typed w"
  by (simp_all add: world_typed_def acct_econo)

lemma typed_balance [simp]: "world_typed w \<Longrightarrow> world_typed (set_balance w a v)"
   "world_typed w \<Longrightarrow> world_typed (add_balance w a d)"
  by (simp_all add: add_balance_def set_balance_def typed_upd)

lemma typed_putSlot:
  assumes "world_typed w" "length k = 32" "\<And>w'. world_typed w' \<Longrightarrow> world_typed (snd (rest w'))"
  shows "world_typed (snd (putSlot w a k v rest))"
  using assms by (simp add: putSlot_cases typed_sstore)

lemma typed_switch:
  assumes "\<And>s f. (s, f) \<in> set table \<Longrightarrow> world_typed (snd (f input caller w b))" "world_typed w"
  shows "world_typed (snd (switch table (unknown_selector msg) sel input caller w b))"
  by (rule switch_cases[where P = "\<lambda>f. world_typed (snd (f input caller w b))"])
    (use assms in \<open>auto simp: unknown_selector_def\<close>)

locale typed_contract =
  fixes entry :: call
  assumes entry_typed: "world_typed w \<Longrightarrow> world_typed (snd (entry input caller w b))"
begin

lemma run_typed: "world_typed w \<Longrightarrow> world_typed (run_calls entry cs w)"
proof (induction cs arbitrary: w)
  case (Cons c cs)
  then show ?case
    by (cases c) (simp add: entry_typed)
qed simp

end

subsection \<open>Keys\<close>

text \<open>Every key of the contracts has 32 bytes.\<close>

lemmas slot_keys =
  collateralKey_def debtKey_def paramKey_def priceKey_def totalDebtKey_def stabilityDepositKey_def
  stabilityRewardKey_def lpFeeKey_def stabilityMintedDebtKey_def wayRewardsKey_def swayRewardsKey_def
  totalRewardsKey_def totalDepositsKey_def twoWayBalanceKey_def trustlessLockKey_def
  trustlessVestingDataKey_def lockCountKey_def accountStageKey_def accountKeyKey_def accountSessionKey_def
  accountGuardianKey_def accountGuardianCountKey_def privacyCommitKey_def privacyProofKey_def
  govProposalKey_def govDescriptionKey_def govTargetKey_def govCalldataKey_def govVotesKey_def
  govNoVotesKey_def govMarketKey_def govCreditsKey_def govVoteRecordKey_def govTradeKey_def
  proposalCountKey_def proposalIndexKey_def rentStateKey_def rentDistributionKey_def ccAttestationKey_def
  cc_event_def mrt_slot_def mrtVerifierKey_def mrtBalanceKey_def verifier_count_key_def claim_count_key_def
  way_btc_key_def way_debt_key_def way_user_key_def way_creator_key_def way_price_key_def
      way_committed_key_def
  autopilot_key_def paid_key_def claim_key_def giveaway_key_def bounty_key_def fix_key_def delegated_key_def
  community_key_def escrow_key_def pair_key_def pair_count_key_def liquidity_key_def template_key_def
  swayKeyTotalSupply_def swayKeyInit_def swayKeyBucket_def sway_bal_key_def last_drip_key_def
  badge_key_def curator_key_def switch_key_def btc_bal_key_def btc_utxo_key_def operator_key_def
  op_list_key_def proof_key_def task_count_key_def

lemma key_lengths [simp]:
  "length (collateralKey v nm) = 32" "length (debtKey v) = 32" "length totalDebtKey = 32"
  "length (stabilityDepositKey u) = 32" "length (stabilityRewardKey u) = 32" "length (lpFeeKey u) = 32"
  "length (stabilityMintedDebtKey u) = 32" "length wayRewardsKey = 32" "length swayRewardsKey = 32"
  "length totalRewardsKey = 32" "length totalDepositsKey = 32" "length twoWayBalanceKey = 32"
  "length (trustlessLockKey i) = 32" "length (trustlessVestingDataKey i) = 32" "length lockCountKey = 32"
  "length (accountStageKey x) = 32" "length (accountKeyKey x) = 32" "length (accountSessionKey x y) = 32"
  "length (accountGuardianKey x g) = 32" "length (accountGuardianCountKey x) = 32"
  "length (privacyCommitKey i) = 32" "length (privacyProofKey i) = 32"
  "length (govProposalKey i) = 32" "length (govDescriptionKey i) = 32" "length (govTargetKey i) = 32"
  "length (govCalldataKey i) = 32" "length (govVotesKey i) = 32" "length (govNoVotesKey i) = 32"
  "length (govMarketKey i) = 32" "length (govCreditsKey x) = 32" "length (govVoteRecordKey i x) = 32"
  "length (govTradeKey i x) = 32" "length proposalCountKey = 32" "length (proposalIndexKey n) = 32"
  "length (rentStateKey x) = 32" "length (rentDistributionKey x) = 32" "length (cc_event i) = 32"
  "length (mrt_slot s i) = 32" "length (mrtVerifierKey i u) = 32" "length (mrtBalanceKey i u) = 32"
  "length (verifier_count_key i) = 32" "length claim_count_key = 32"
  "length (way_btc_key i) = 32" "length (way_debt_key i) = 32" "length (way_user_key i) = 32"
  "length (way_creator_key i) = 32" "length way_price_key = 32" "length way_committed_key = 32"
  "length autopilot_key = 32" "length paid_key = 32" "length (claim_key u) = 32" "length (giveaway_key u) = 32"
  "length (bounty_key m) = 32" "length (fix_key m) = 32" "length (delegated_key i) = 32"
  "length (community_key i) = 32" "length (escrow_key i) = 32" "length (pair_key i) = 32"
  "length pair_count_key = 32" "length liquidity_key = 32" "length (template_key i) = 32"
  "length swayKeyTotalSupply = 32" "length swayKeyInit = 32" "length (swayKeyBucket u) = 32"
  "length (sway_bal_key x) = 32" "length (last_drip_key u) = 32" "length (badge_key x) = 32"
  "length (curator_key x) = 32" "length (switch_key n) = 32" "length (btc_bal_key x) = 32"
  "length (btc_utxo_key x) = 32" "length (operator_key x) = 32" "length (op_list_key n) = 32"
  "length (proof_key u i) = 32" "length task_count_key = 32"
  by (simp_all add: slot_keys)

subsection \<open>The contracts\<close>

lemma badge_data_length [simp]: "world_typed w \<Longrightarrow> length (badge_data w x) = 32"
  by (simp add: badge_data_def)

interpretation dox: typed_contract doxDevBadgePrecompile
  unfolding doxDevBadgePrecompile_def
  by unfold_locales (rule typed_switch, auto simp: dox_table_def dox_mutators dox_queries dox_apply_def
      Let_def intro!: typed_sstore)

interpretation bijo: typed_contract bijoPrecompile
  unfolding bijoPrecompile_def
  by unfold_locales (rule typed_switch, auto simp: bijo_table_def bijo_cases intro!: typed_sstore)

interpretation dms: typed_contract "deadManSwitchPrecompile spare" for spare
  unfolding deadManSwitchPrecompile_def
  by unfold_locales (rule typed_switch, auto simp: dms_table_def dms_create_def dms_heartbeat_def
      dms_claim_def dms_cancel_def
   dms_canClaim_def dms_timeUntilClaimable_def dms_getSwitchInfo_def dms_totalSwitches_def switch_key_def
       switch_record_def switch_data_def Let_def intro!: typed_sstore)

interpretation btc: typed_contract bitcoinRegistryPrecompile
  unfolding bitcoinRegistryPrecompile_def
  by unfold_locales (rule typed_switch, auto simp: btc_table_def btc_queries btc_attest_def
        btc_requestWithdrawal_def Let_def btc_bal_key_def btc_utxo_key_def writeBigInt_cases intro!:
        typed_sstore split: if_splits)

interpretation se: typed_contract storageEndowmentPrecompile
  unfolding storageEndowmentPrecompile_def
  by unfold_locales (rule typed_switch, auto simp: se_table_def se_cases Let_def operator_key_def
      op_list_key_def operator_record_def proof_key_def intro!: typed_sstore)

interpretation vault: typed_contract twoWayVaultPrecompile
proof unfold_locales
  fix w input caller b assume t: "world_typed w"
  show "world_typed (snd (twoWayVaultPrecompile input caller w b))"
    unfolding twoWayVaultPrecompile_def using t
    by (auto intro!: typed_switch typed_putSlot simp: two_way_table_def twoWayDeposit_def
        twoWayWithdraw_def twoWayBurn_def twoWayLiquidate_def
      slot_ops Let_def twoWayMint_def route_fee_def totalDebtKey_def stabilityMintedDebtKey_def
      wayRewardsKey_def swayRewardsKey_def
      totalRewardsKey_def lpFeeKey_def twoWayGetVault_def twoWayVaultCount_def
      twoWayGetStablecoinPrice_def split: option.splits)
qed

interpretation pool: typed_contract stabilityPoolPrecompile
  unfolding stabilityPoolPrecompile_def
  by unfold_locales (auto intro!: typed_switch typed_putSlot simp: pool_table_def pool_ops pool_slot_ops
      Let_def)

lemma lock_header_length [simp]: "length p = 20 \<Longrightarrow> length (encodeLockHeader p t r u c) = 32"
  "length (encodeVestingData e c2) = 32"
  by (simp_all add: header_fields) (simp add: encodeVestingData_def)

interpretation locks: typed_contract trustlessLockPrecompile
  unfolding trustlessLockPrecompile_def
  by unfold_locales (auto intro!: typed_switch typed_putSlot simp: lock_table_def trustlessCreateTimeLock_def
      trustlessCreateVestingLock_def trustlessCreateMultiSigLock_def bump_lock_count_def addSlot_def
      trustlessGetLock_def trustlessReleasableAmount_def trustlessRelease_def trustlessExtend_def Let_def
      split: outcome.splits)

interpretation am: typed_contract accountManagerPrecompile
  unfolding accountManagerPrecompile_def
  by unfold_locales (auto intro!: typed_switch simp: am_table_def am_ops encodeBlockNumber_def Let_def)

interpretation privacy: typed_contract privacyPrecompile
  unfolding privacyPrecompile_def
  by unfold_locales (auto intro!: typed_switch simp: privacy_table_def privacy_ops commitment_record_def
      proof_slot_def Let_def
    split: list.splits)

interpretation rent: typed_contract stateRentPrecompile
  unfolding stateRentPrecompile_def
  by unfold_locales (auto intro!: typed_switch simp: rent_table_def rentPay_def rentGetStatus_def
      rentGetDue_def rent_slot_paid_def
     distribution_record_def Let_def)

lemma typed_dox_level: "world_typed w \<Longrightarrow> world_typed (upd_acct w a (\<lambda>acc. acc\<lparr>DoxDevLevel := l\<rparr>))"
  by (simp add: typed_upd)

interpretation cross_chain: typed_contract crossChainAttestationPrecompile
  unfolding crossChainAttestationPrecompile_def
  by unfold_locales (auto intro!: typed_switch simp: cc_table_def cc_ops att_slot_fields typed_dox_level
      Let_def)

interpretation templates: typed_contract templateRegistryPrecompile
  unfolding templateRegistryPrecompile_def
  by unfold_locales (auto intro!: typed_switch simp: tr_table_def tr_ops template_record_def Let_def
      split: option.splits)

lemma typed_require: "requireCallerIsCreatorOrDeadMan w0 vid caller = (r, w) \<Longrightarrow> world_typed w = world_typed w0"
  by (auto simp: requireCallerIsCreatorOrDeadMan_def Let_def split: if_splits)

interpretation way: typed_contract wayStablecoinPrecompile
  unfolding wayStablecoinPrecompile_def
  by unfold_locales (auto intro!: typed_switch typed_putSlot dest!: typed_require simp: way_table_def
      wayCreateVault_def wayDepositBTC_def wayMint1Way_def wayBurn1Way_def
    wayUpdateBTCPrice_def wayGetUserVault_def wayGetVault_def wayGetPrice_def wayGetTotalSupply_def
        addSlot_def Let_def
    split: prod.splits option.splits outcome.splits)

lemma typed_sway_mint: "world_typed w \<Longrightarrow> world_typed (snd (swayMintInternal w to amount bucket))"
  by (auto simp: swayMintInternal_def store_big_cases Let_def)

lemma typed_sway_burn: "world_typed w \<Longrightarrow> world_typed (snd (swayBurnInternal w from amount))"
  by (auto simp: swayBurnInternal_def store_big_cases Let_def)

lemma snd_ret_one [simp]: "snd (ret_one r) = snd r"
  by (auto simp: ret_one_def split: prod.splits outcome.splits)

interpretation sway: typed_contract swayPrecompile
  unfolding swayPrecompile_def
  by unfold_locales (auto intro!: typed_switch typed_sway_mint typed_sway_burn simp: sway_table_def
      sway_init_def sway_mint_def
     sway_mintToCaller_def sway_burn_def sway_getBalance_def sway_getTotalSupply_def sway_getEmission_def
         sway_swapFee_def
     SwayInit_def sway_alloc_def Let_def split: option.splits)

lemma typed_try_mint:
  "world_typed w \<Longrightarrow> (\<And>w'. world_typed w' \<Longrightarrow> world_typed (snd (rest w'))) \<Longrightarrow> world_typed (snd (try_mint w c n rest))"
  using typed_sway_mint[of w c n "''dexLP''"] by (auto simp: try_mint_def split: prod.splits outcome.splits)

lemma typed_locks: "trustlessLockPrecompile i c w b = (r, w') \<Longrightarrow> world_typed w \<Longrightarrow> world_typed w'"
  using locks.entry_typed[of w i c b] by simp

interpretation swap: typed_contract swapRoutePrecompile
  unfolding swapRoutePrecompile_def
  by unfold_locales (auto intro!: typed_switch typed_putSlot typed_try_mint simp: swap_table_def
      srCreatePair_def srGetPair_def
     srSwap_def srAddLiquidity_def srRemoveLiquidity_def srGetReserves_def pair_data_def Let_def split:
         outcome.splits prod.splits, (erule typed_locks, assumption)+)

lemma typed_seed: "world_typed w \<Longrightarrow> world_typed (seedAccountIfEmpty w a n l)"
  by (simp add: seedAccountIfEmpty_def Let_def typed_dox_level)

lemma typed_foldl: "(\<And>w x. world_typed w \<Longrightarrow> world_typed (f w x)) \<Longrightarrow> world_typed w \<Longrightarrow> world_typed (foldl f w xs)"
  by (induction xs arbitrary: w) auto

lemma typed_seed_all [simp]: "world_typed w \<Longrightarrow> world_typed (SeedAllGenesis w)"
  by (auto simp: SeedAllGenesis_def Let_def typed_seed typed_foldl split: option.splits)

lemma typed_admin: "isFaucetAdmin c w = (r, w') \<Longrightarrow> world_typed w' = world_typed w"
  by (auto simp: isFaucetAdmin_def Let_def split: if_splits)

interpretation faucet: typed_contract faucetPrecompile
  unfolding faucetPrecompile_def Let_def
  by unfold_locales (auto intro!: typed_switch typed_seed_all dest!: typed_admin simp: store_big_cases
      faucet_table_def faucet_drip_def faucet_getDripAmount_def
     faucet_getLastDrip_def faucet_getBalance_def faucet_setDripAmount_def faucet_setCooldown_def Let_def
         split: option.splits prod.splits bool.splits)

lemma typed_verify: "world_typed w \<Longrightarrow> world_typed (snd (verifyAndPay w t c))"
  by (auto simp: verifyAndPay_def claim_slot_def Let_def intro!: typed_putSlot)

lemma typed_with_slice:
  "world_typed w \<Longrightarrow> (\<And>x. length x = hi - lo \<Longrightarrow> world_typed (snd (rest x))) \<Longrightarrow>
   world_typed (snd (with_slice spare input lo hi w rest))"
  by (simp add: with_slice_def)

lemma typed_with_byte:
  "world_typed w \<Longrightarrow> (\<And>x. world_typed (snd (rest x))) \<Longrightarrow> world_typed (snd (with_byte input i w rest))"
  by (simp add: with_byte_def)

interpretation tasks: typed_contract "taskRegistryPrecompile spare" for spare
  unfolding taskRegistryPrecompile_def
  by unfold_locales
    (auto intro!: typed_switch typed_putSlot typed_with_slice typed_with_byte typed_verify
      simp: task_table_def taskClaim_def taskVerify_def taskAutoVerify_def
      questSetAutopilot_def questGetAutopilot_def taskStatus_def taskStatusOf_def getTaskReward_def
      questPoolRemaining_def questFund_def giveawayClaim_def registerBounty_def claimFix_def verifyFix_def
      delegateMicroTask_def createTask_def escrowTask_def verifyCommunity_def getTask_def claim_slot_def
      bounty_slot_def
      community_record_def Let_def split: option.splits)

lemma claim_slots [simp]: "length (status_slot c) = 32" "length (string_slot s) = 32"
  by (simp_all add: status_slot_def string_slot_def)

lemma typed_set_claim: "world_typed w \<Longrightarrow> length (DeedHash c) = 32 \<Longrightarrow> world_typed (mrtSetClaimStorage w i c)"
  by (simp add: mrtSetClaimStorage_def Let_def)

lemma deed_length [simp]: "world_typed w \<Longrightarrow> length (DeedHash (mrtGetClaimStorage w i)) = 32"
  by (simp add: mrtGetClaimStorage_def no_claim_def Let_def)

interpretation mrt: typed_contract mineralRightsPrecompile
  unfolding mineralRightsPrecompile_def
  by unfold_locales
    (auto intro!: typed_switch typed_putSlot typed_set_claim
      simp: mrt_table_def mrt_ops mrtIncrementClaimCount_def mrtIncrementVerifierCount_def addSlot_def
      Let_def split: option.splits)

lemma typed_inflation: "world_typed w \<Longrightarrow> world_typed (execute_inflation i b w)"
  by (simp add: world_typed_def)

lemma length_copied: "length (copy_at off src dst) = length dst"
  by (auto simp: copy_at_def)

lemma proposal_calldata_length: "length (snd (generateProposalID spare input c b)) = length input"
  "length (snd (generateMarketID spare input b)) = length input"
  by (simp_all add: generateProposalID_def generateMarketID_def append_shared_def length_copied)

lemma typed_proposal: "world_typed w \<Longrightarrow> world_typed (snd (govCreateProposal spare input c w b))"
proof -
  assume "world_typed w"
  obtain i input' where g: "generateProposalID spare input c b = (i, input')"
    by fastforce
  then have "length i = 32" "length input' = length input"
    using proposal_calldata_length(1)[of spare input c b] by (auto simp: generateProposalID_def Let_def
        split: prod.splits)
  then show ?thesis
    using \<open>world_typed w\<close>
    by (auto simp: govCreateProposal_def g proposal_record_def length_copied Let_def intro!: typed_putSlot)
qed

lemma typed_vote: "world_typed w \<Longrightarrow> world_typed (snd (govVote input c w b))"
  by (auto simp: govVote_def count_vote_def charge_credits_def Let_def)

lemma typed_market: "world_typed w \<Longrightarrow> world_typed (snd (govCreateMarket spare input c w b))"
  by (auto simp: govCreateMarket_def generateMarketID_def append_shared_def length_copied Let_def)

interpretation governance: typed_contract "governancePrecompile spare" for spare
  unfolding governancePrecompile_def
  by unfold_locales
    (auto intro!: typed_switch typed_proposal typed_vote typed_market
      simp: gov_table_def gov_reads govFinalize_def govTradeMarket_def typed_inflation Let_def)

interpretation scheduler: typed_contract oracleScheduler
  by unfold_locales (simp add: oracleScheduler_def ScheduleTask_def NewTimeExecution_def
      incrementTaskCount_def Let_def)

lemma oracles_read_only:
  "snd (oracleAggregator V input c w b) = w" "snd (oracleVerifier V input c w b) = w"
  "snd (tlsVerifier V input c w b) = w" "snd (blsVerify V input c w b) = w"
  "snd (stateRentCalc input c w b) = w"
  "snd (keccak256Precompile h input c w b) = w"
  by (simp_all add: oracleAggregator_def oracleVerifier_def tlsVerifier_def blsVerify_def stateRentCalc_def
      keccak256Precompile_def Let_def split: sum.split)

interpretation recovery: typed_contract "accountRecovery V" for V
  by unfold_locales (auto simp: accountRecovery_def owner_slot_key_def Let_def)

subsection \<open>The table\<close>

text \<open>All of them, as the table of the execution layer lists them.\<close>

fun run_precompiles :: "sig_verify \<Rightarrow> Host \<Rightarrow> (u8 \<times> bytes \<times> string \<times> u64) list \<Rightarrow> World \<Rightarrow> World" where
  "run_precompiles V H [] w = w"
| "run_precompiles V H ((a, input, caller, b) # cs) w =
     run_precompiles V H cs (snd (ExecutePrecompile V H a input caller w b))"

lemma typed_precompile:
  assumes "map_of (PrecompilesTable V H) a = Some pc" "world_typed w"
  shows "world_typed (snd (pc_Fn pc input caller w b))"
  using assms(2) map_of_SomeD[OF assms(1)]
  by (auto simp: PrecompilesTable_def precompile_def oracles_read_only recovery.entry_typed
      scheduler.entry_typed dox.entry_typed bijo.entry_typed
     dms.entry_typed btc.entry_typed se.entry_typed vault.entry_typed pool.entry_typed locks.entry_typed
         am.entry_typed
     privacy.entry_typed governance.entry_typed rent.entry_typed cross_chain.entry_typed mrt.entry_typed
         way.entry_typed
     tasks.entry_typed sway.entry_typed swap.entry_typed templates.entry_typed faucet.entry_typed)

lemma typed_execute: "world_typed w \<Longrightarrow> world_typed (snd (ExecutePrecompile V H a input caller w b))"
  using typed_precompile[of V H a _ w input caller b]
  by (auto simp: ExecutePrecompile_def Let_def split: option.splits prod.splits)

lemma typed_run: "world_typed w \<Longrightarrow> world_typed (run_precompiles V H cs w)"
  by (induction V H cs w rule: run_precompiles.induct) (simp_all add: typed_execute)

end
