(* ===== verification/Contract_Claims.thy ===== *)
theory Contract_Claims
  imports Slot_Typing
begin

text \<open>
  The properties of the protocol contracts (precompiles 0x0C to 0x17 and 0x24). Storage keys are
  SHA-256 digests; where a property needs two keys to differ it assumes so, and its instance
  computes the digests.
\<close>

subsection \<open>Sample world\<close>

definition blank_world :: World where
  "blank_world =
     \<lparr>Accounts = Map.empty, Logs = [], Refunds = 0, econoSnap = fresh_window 0,
      econoPolicy = \<lparr>policy_Phase = 0, BurnBps = 0, GrantBps = 0\<rparr>,
      activeInflationPct = DefaultAnnualInflationPct\<rparr>"

lemma blank_world_slots [simp]: "sload blank_world a k = zero_slot"
  by (simp add: sload_def acct_def blank_world_def NewAccount_def)

lemma blank_world_balance [simp]: "balance_of blank_world a = 0"
  by (simp add: balance_of_def acct_def blank_world_def NewAccount_def)

subsection \<open>Isolation\<close>

text \<open>
  The accounts whose storage a precompile may write, and the four precompiles outside the claim:
  account recovery writes the account it recovers, the task registry, the SWAY token and the
  faucet write the accounts they pay.
\<close>

definition footprint :: "u8 \<Rightarrow> string \<Rightarrow> string set" where
  "footprint a caller =
     (if a = 0x18 then two_way_accounts else if a = 0x1F then cc_accounts
      else if a = 0x25 then swap_accounts caller else {PrecompileAddrHex a})"

definition moves_money :: "u8 \<Rightarrow> bool" where
  "moves_money a \<longleftrightarrow> a \<in> {0x11, 0x23, 0x24, 0x27}"

lemma scheduler_confined: "confined {PrecompileAddrHex 0x0D} w (snd (oracleScheduler input caller w b))"
  by (auto simp: oracleScheduler_def ScheduleTask_def NewTimeExecution_def incrementTaskCount_def
      sched_addr_def Let_def
      intro!: confined_sstore)

lemmas contract_accounts = pool_addr_def dox_addr_def bijo_addr_def dms_addr_def btc_addr_def se_addr_def lock_addr_def
    am_addr_def
  privacy_addr_def gov_addr_def rent_addr_def mrt_addr_def way_addr_def tr_addr_def

lemmas contracts_confined = dox.registry_confined[unfolded contract_accounts]
  bijo.registry_confined[unfolded contract_accounts] dms.registry_confined[unfolded contract_accounts]
  btc.registry_confined[unfolded contract_accounts] se.registry_confined[unfolded contract_accounts]
  vault.entry_confined pool.entry_confined[unfolded contract_accounts] locks.entry_confined[unfolded contract_accounts]
  am.entry_confined[unfolded contract_accounts] privacy.registry_confined[unfolded contract_accounts]
  governance.entry_confined[unfolded contract_accounts] rent.entry_confined[unfolded contract_accounts]
  cross_chain.entry_confined mrt.entry_confined[unfolded contract_accounts]
  way.entry_confined[unfolded contract_accounts] templates.registry_confined[unfolded contract_accounts]
  swap.entry_caller scheduler_confined

lemma precompile_confined:
  assumes "map_of (PrecompilesTable V H) a = Some pc" "\<not> moves_money a"
  shows "confined (footprint a caller) w (snd (pc_Fn pc input caller w b))"
  using assms(2) map_of_SomeD[OF assms(1)]
  by (auto simp: PrecompilesTable_def precompile_def oracles_read_only moves_money_def footprint_def
      contracts_confined)

lemma execute_confined:
  "\<not> moves_money a \<Longrightarrow> confined (footprint a caller) w (snd (ExecutePrecompile V H a input caller w b))"
  using precompile_confined[of V H a _ caller w input b]
  by (auto simp: ExecutePrecompile_def Let_def split: option.splits prod.splits)

text \<open>
  C28. Whatever sequence of calls, by whatever callers and with whatever calldata, goes to the
  precompiles other than account recovery (0x11), tasks (0x23), SWAY (0x24) and faucet (0x27): no
  account balance changes, and no storage slot changes of an account outside the footprints of the
  contracts that were called.
\<close>

theorem registries_isolated:
  assumes "list_all (\<lambda>(a, input, caller, b). \<not> moves_money a \<and> x \<notin> footprint a caller) cs"
  shows "balance_of (run_precompiles V H cs w) y = balance_of w y
    \<and> sload (run_precompiles V H cs w) x k = sload w x k"
  using assms
proof (induction cs arbitrary: w)
  case (Cons c cs)
  obtain a input caller b where c: "c = (a, input, caller, b)"
    by (cases c)
  then have "confined (footprint a caller) w (snd (ExecutePrecompile V H a input caller w b))" "x \<notin> footprint a caller"
    using Cons.prems execute_confined by auto
  then show ?case
    using Cons.IH[of "snd (ExecutePrecompile V H a input caller w b)"] Cons.prems
    by (simp add: c confined_def sload_def)
qed simp

definition sample_host :: Host where
  "sample_host = \<lparr>keccakBytes = (\<lambda>_. replicate 32 0), spare_of = (\<lambda>_. [])\<rparr>"

lemma sample_footprints: "dox_addr \<notin> footprint 0x14 ''bob''" "dox_addr \<notin> footprint 0x18 ''bob''"
  by code_simp+

theorem registries_isolated_witness:
  "sload (run_precompiles (\<lambda>_ _ _. True) sample_host
      [(0x14, [0xAD, 0x47, 0x8C, 0xDA], ''bob'', 3), (0x18, [0xFB, 0xB3, 0x50, 0x30], ''bob'', 4)]
      (sstore blank_world dox_addr (writeUint64 0) (writeUint64 9))) dox_addr (writeUint64 0) = writeUint64 9"
  using registries_isolated[of dox_addr "[(0x14, [0xAD, 0x47, 0x8C, 0xDA], ''bob'', 3), (0x18, [0xFB, 0xB3, 0x50, 0x30], ''bob'', 4)]"
      "\<lambda>_ _ _. True" sample_host "sstore blank_world dox_addr (writeUint64 0) (writeUint64 9)" dox_addr "writeUint64 0"]
    sample_footprints
  by (simp add: moves_money_def sload_sstore)

subsection \<open>Badges\<close>

text \<open>
  C29. Only curators act: a call by anyone else to any selector of the badge registry except the
  application leaves every storage slot as it was, and so does a call with an unknown selector.
\<close>

theorem only_curators_write:
  assumes "\<not> is_curator w caller" "selectorBytes input \<noteq> selDoxApply"
  shows "sload (snd (doxDevBadgePrecompile input caller w b)) a k = sload w a k"
proof -
  have cases: "snd (f input caller (touch w dox_addr) b) = touch w dox_addr"
    if "(s, f) \<in> set dox_table" "s \<noteq> selDoxApply" for s f
    using that assms(1) not_curator_unchanged[of "touch w dox_addr" caller input b]
    by (auto simp: dox_table_def queries_frame)
  have "snd (doxDevBadgePrecompile input caller w b) = touch w dox_addr"
    unfolding doxDevBadgePrecompile_def switch_def
    using cases assms(2)
    by (auto simp: unknown_selector_def split: option.splits dest!: map_of_SomeD)
  then show ?thesis by simp
qed

theorem only_curators_write_witness:
  "sload (snd (doxDevBadgePrecompile [0x02, 0x10, 0x18, 0x6D] ''mallory'' blank_world 5)) dox_addr (writeUint64 0)
     = zero_slot"
  using only_curators_write[of blank_world "''mallory''" "[0x02, 0x10, 0x18, 0x6D]" 5 dox_addr "writeUint64 0"]
  by (simp add: is_curator_def selectorBytes_def selDoxApply_def be_nat_def)

text \<open>
  A badge that was issued reads back: its level is the one requested, between one and three,
  and it counts as verified exactly until its expiry block (for ever if it has none).
\<close>

theorem issued_badge_reads_back:
  assumes "fst (dox_issueBadge input caller w b) = Ret [1]"
    and "distinct [writeUint64 0, badge_key (readAddress input 4),
           storageKey (0x20 # big_bytes (unat (readUint64 (sload w dox_addr (writeUint64 0)) + 1)))]"
    and "readAddress q 4 = readAddress input 4"
  defines "w' \<equiv> snd (dox_issueBadge input caller w b)"
    and "expiry \<equiv> (if readUint64FromInput input 25 > 0 then b + readUint64FromInput input 25 else 0)"
  shows "is_curator w caller \<and> 1 \<le> readByte input 24 \<and> readByte input 24 \<le> 3
         \<and> fst (dox_getLevel q c w' b') = Ret [readByte input 24]
         \<and> fst (dox_isVerified q c w' b') = Ret [if expiry \<noteq> 0 \<and> expiry < b' then 0 else 1]"
proof -
  note data = issueBadge_badge_data[OF assms(1,2), folded w'_def expiry_def]
  have "badge_record (readByte input 24) expiry b \<noteq> zero_slot"
    using data(2) by (rule badge_record_nonzero)
  moreover have "1 \<le> readByte input 24"
    using data(2) by (simp add: word_le_nat_alt unat_gt_0 Suc_le_eq)
  ultimately show ?thesis
    using data by (auto simp: dox_getLevel_def dox_isVerified_def Let_def assms(3) word_gt_0
        badge_record_fields badge_record_fields(4)[simplified])
qed

definition alice :: bytes where "alice = bytes_of_string ''alice'' @ replicate 15 0"

definition issue_input :: bytes where
  "issue_input = [0x02, 0x10, 0x18, 0x6D] @ alice @ [2] @ u64be 100"

definition curated_world :: World where
  "curated_world = sstore blank_world dox_addr (curator_key (bytes_of_string ''carol'')) (writeUint64 1)"

lemma badge_keys_apart:
  "distinct [writeUint64 0, badge_key alice, storageKey [0x20, 1], curator_key (bytes_of_string ''carol'')]"
  by code_simp

lemma big_bytes_one: "big_bytes (Suc 0) = [1]"
  by code_simp

lemma issue_input_fields:
  "readAddress issue_input 4 = alice" "readByte issue_input 24 = 2" "readUint64FromInput issue_input 25 = 100"
  by code_simp+

lemma curated_slots:
  "sload curated_world dox_addr (writeUint64 0) = zero_slot" "badge_data curated_world alice = zero_slot"
  "is_curator curated_world ''carol''"
  using badge_keys_apart by (auto simp: curated_world_def badge_data_def is_curator_def sload_sstore)

lemma sample_issue: "fst (dox_issueBadge issue_input ''carol'' curated_world 7) = Ret [1]"
  by (simp add: dox_issueBadge_def issue_input_fields curated_slots Let_def)

theorem issued_badge_reads_back_witness:
  "fst (dox_isVerified issue_input ''bob'' (snd (dox_issueBadge issue_input ''carol'' curated_world 7)) 107) = Ret [1]
   \<and> fst (dox_isVerified issue_input ''bob'' (snd (dox_issueBadge issue_input ''carol'' curated_world 7)) 108) = Ret [0]"
  using issued_badge_reads_back[OF sample_issue, of issue_input "''bob''" 107]
    issued_badge_reads_back[OF sample_issue, of issue_input "''bob''" 108] badge_keys_apart
  by (simp add: issue_input_fields curated_slots big_bytes_one)

subsection \<open>Dead man's switch\<close>

text \<open>
  C30. A switch created in block \<open>b\<close> with interval \<open>n\<close> (between one day and one year of blocks)
  can be claimed exactly after block \<open>b + n\<close>, the code's 64-bit sum, in the state its creation
  left; a claim succeeds exactly when \<^verbatim>\<open>canClaim\<close> says so. The key of the switch is assumed to
  differ from that of the counter, which holds unless SHA-256 hits it.
\<close>

theorem switch_claim_window:
  assumes "fst (dms_create spare input caller w b) = Ret out"
    and "writeUint64 0 \<noteq> switch_key (readUint64 (sload w dms_addr (writeUint64 0)) + 1)"
    and "readUint64FromInput q 4 = readUint64 (sload w dms_addr (writeUint64 0)) + 1"
  defines "n \<equiv> readUint64FromInput input 25"
  shows "86400 \<le> n \<and> n \<le> 31536000
         \<and> (fst (dms_canClaim q c (snd (dms_create spare input caller w b)) b') = Ret [1]
         \<longleftrightarrow> b + n < b')
         \<and> (fst (dms_claim q c (snd (dms_create spare input caller w b)) b') = Ret [1] \<longleftrightarrow> b + n < b')"
proof -
  note data = dms_create_data[OF assms(1,2)]
  have "fst (dms_canClaim q c (snd (dms_create spare input caller w b)) b') = Ret [1] \<longleftrightarrow> b + n < b'"
    using data(1) by (simp add: dms_canClaim_def Let_def assms(3) n_def)
  then show ?thesis
    using data(2,3) dms_claim_iff_canClaim by (simp add: n_def)
qed

definition switch_input :: bytes where
  "switch_input = [0, 0, 0, 0, 1] @ replicate 20 7 @ u64be 86400 @ replicate 32 9"

lemma switch_input_fields:
  "length switch_input = 65" "readByte switch_input 4 = 1" "readUint64FromInput switch_input 25 = 86400"
  by code_simp+

lemma first_switch_key: "writeUint64 0 \<noteq> switch_key 1"
  by code_simp

lemma query_one: "readUint64FromInput ([0, 0, 0, 0] @ u64be 1) 4 = 1"
  by code_simp

lemma sample_switch: "fst (dms_create 0 switch_input ''x'' blank_world 10) = Ret (u64be 1)"
  by (simp add: dms_create_def switch_input_fields Let_def)

theorem switch_claim_window_witness:
  "fst (dms_claim ([0, 0, 0, 0] @ u64be 1) ''y'' (snd (dms_create 0 switch_input ''x'' blank_world 10)) 86411) = Ret [1]"
  using switch_claim_window[OF sample_switch, of "[0, 0, 0, 0] @ u64be 1" "''y''" 86411] first_switch_key query_one
  by (simp add: switch_input_fields)

text \<open>
  A switch that was claimed or cancelled is final: heartbeat, claim, cancel and the claim
  query all answer no and change nothing.
\<close>

theorem switch_final:
  assumes "sw_state (switch_data w (readUint64FromInput input 4)) \<noteq> 0"
  shows "dms_heartbeat input caller w b = (Ret [0], w) \<and> dms_claim input caller w b = (Ret [0], w)
         \<and> dms_cancel input caller w b = (Ret [0], w) \<and> dms_canClaim input caller w b = (Ret [0], w)"
  using dms_terminal[OF assms] by simp

theorem switch_final_witness:
  "dms_heartbeat ([0, 0, 0, 0] @ u64be 1) ''x''
     (sstore blank_world dms_addr (switch_key 1) (zero_slot[17 := 3])) 4
   = (Ret [0], sstore blank_world dms_addr (switch_key 1) (zero_slot[17 := 3]))"
  using switch_final[of "sstore blank_world dms_addr (switch_key 1) (zero_slot[17 := 3])"
      "[0, 0, 0, 0] @ u64be 1" "''x''" 4] query_one
  by (simp add: switch_data_def sload_sstore sw_state_def)

end
