(* ===== verification/Protocol_Claims.thy ===== *)
theory Protocol_Claims
  imports Contract_Claims
begin

text \<open>
  The properties of the economic contracts (precompiles 0x18 to 0x25). As in \<^verbatim>\<open>Contract_Claims\<close>, that storage keys differ is
  a hypothesis where a property needs it, and the instances compute the digests.
\<close>

subsection \<open>An empty state\<close>

lemma blank_typed: "world_typed blank_world"
  by (simp add: world_typed_def acct_def blank_world_def NewAccount_def account_typed_def storage_wf_def)

subsection \<open>Two-way vaults and stability pool\<close>

lemma typed_both: "world_typed w \<Longrightarrow> world_typed (snd (two_way_call v input c w b))"
  by (cases v) (simp_all add: vault.entry_typed pool.entry_typed)

lemma typed_storage_wf: "world_typed w \<Longrightarrow> storage_wf (acct w a)"
  by (simp add: world_typed_def account_typed_def)

text \<open>
  C32. A vault stays backed: let the debt of a vault be at most 10/13 of its collateral, and let
  calls to the vault contract (all naming that vault, none of them a deposit, which overwrites the
  collateral) and to the pool contract follow in any order and by any callers, accepted or refused.
  Unless one panics, the debt is still at most 10/13 of the collateral.
\<close>

theorem vault_stays_backed:
  assumes "world_typed w" "well_backed w vid" "run_both cs w = Ret w'"
    and "list_all (\<lambda>(v, input, c, b).
          v \<longrightarrow> slice 4 36 input = vid \<and> selectorBytes input \<noteq> twoWayDepositSelector) cs"
  shows "13 * getVaultDebt w' vid \<le> 10 * vault_collateral w' vid"
proof -
  have "well_backed w' vid"
    using assms
  proof (induction cs arbitrary: w)
    case (Cons x cs)
    obtain v input c b where x: "x = (v, input, c, b)"
      by (cases x)
    let ?w1 = "snd (two_way_call v input c w b)"
    have "fst (two_way_call v input c w b) \<noteq> Panic" "run_both cs ?w1 = Ret w'"
      using Cons.prems(3) x by (auto split: prod.splits outcome.splits)
    moreover from this have "well_backed ?w1 vid"
      using Cons.prems x typed_storage_wf by (intro both_call_backed) auto
    ultimately show ?case
      using Cons.IH[of ?w1] Cons.prems typed_both by (simp add: x)
  qed simp
  then show ?thesis
    by (simp add: well_backed_def)
qed

definition sample_vault :: bytes where "sample_vault = replicate 32 7"

definition backed_world :: World where
  "backed_world =
     sstore (sstore blank_world vault_addr (collateralKey sample_vault (bytes_of_string ''usdc''))
         (fill_be 32 1300))
       vault_addr (debtKey sample_vault) (fill_be 32 1000)"

definition burn_input :: bytes where
  "burn_input = [0x0E, 0x0C, 0x59, 0xBE] @ sample_vault @ fill_be 32 400"

lemma burn_input_fields:
  "length burn_input = 68" "slice 4 36 burn_input = sample_vault" "selectorBytes burn_input = twoWayBurnSelector"
  "readBigInt (readSlot burn_input 36) = 400" "length sample_vault = 32"
  by code_simp+

lemma sample_collateral_key:
  "is_collateral_key sample_vault (collateralKey sample_vault (bytes_of_string ''usdc''))"
  by code_simp

lemma backed_typed: "world_typed backed_world"
  by (simp add: backed_world_def blank_typed typed_sstore)

lemma blank_collaterals: "getVaultCollaterals blank_world vid = []"
  by (simp add: getVaultCollaterals_def acct_def blank_world_def NewAccount_def)

lemma backed_collateral: "vault_collateral backed_world sample_vault = 1300"
  using getVaultCollaterals_put[OF typed_storage_wf[OF blank_typed] burn_input_fields(5)
      sample_collateral_key]
  by (simp add: backed_world_def vault_collateral_def sum_collateral_def readBigInt_fill blank_collaterals)

lemma backed_sample: "well_backed backed_world sample_vault"
  by (simp add: well_backed_def backed_collateral) (simp add: backed_world_def readBigInt_fill)

lemma burn_selector: "switch two_way_table dflt twoWayBurnSelector = twoWayBurn"
  by (simp add: switch_def two_way_table_def twoWayBurnSelector_def twoWayDepositSelector_def
      twoWayMintSelector_def twoWayWithdrawSelector_def)

lemma burn_runs: "\<exists>w'. run_both [(True, burn_input, ''ann'', 1), (False, [], ''bea'', 2)] backed_world = Ret w'"
  by (simp add: twoWayVaultPrecompile_def burn_input_fields burn_selector twoWayBurn_def slot_ops
      putSlot_cases
      stabilityPoolPrecompile_def Let_def backed_world_def sload_sstore readBigInt_fill)

theorem vault_stays_backed_witness:
  "\<exists>w'. run_both [(True, burn_input, ''ann'', 1), (False, [], ''bea'', 2)] backed_world = Ret w'
     \<and> 13 * getVaultDebt w' sample_vault \<le> 10 * vault_collateral w' sample_vault"
  using burn_runs vault_stays_backed[OF backed_typed backed_sample]
  by (fastforce simp: burn_input_fields twoWayBurnSelector_def twoWayDepositSelector_def)

text \<open>
  C33. Pool accounting and the exclusion of the two roles survive every interleaving of calls of both
  contracts by callers from a set \<open>U\<close>, accepted or refused, unless a call panics: the deposits of
  the callers add up to the total, and nobody has both minted debt and a deposit. The hypothesis
  excludes collisions of the digests of the callers' keys.
\<close>

theorem pool_deposits_add_up:
  assumes "no_collisions U" "finite U" "pool_inv U w"
    and "list_all (\<lambda>(v, input, c, b). c \<in> U) cs" "run_both cs w = Ret w'"
  shows "(\<Sum>u\<in>U. pool_deposit w' u) = total_deposits w'
    \<and> (\<forall>u\<in>U. stabilityMintedDebt w' u = 0 \<or> pool_deposit w' u = 0)"
proof -
  have "c \<in> U" if "(v, i, c, b) \<in> set cs" for v i c b
    using assms(4) that by (auto simp: list_all_iff)
  from run_both_inv[OF assms(1-3) this assms(5)] show ?thesis
    by (auto simp: pool_inv_def deposits_add_up_def exclusive_def)
qed

lemma sample_no_collisions: "no_collisions {''ann''}"
proof -
  have "distinct (map storageKey (map bytes_of_string
      [''wayRewards'', ''swayRewards'', ''totalRewards'', ''totalDeposits'', ''twoWayBalance'']
      @ map (\<lambda>p. p # bytes_of_string ''ann'') [2, 3, 4, 5]))"
    by code_simp
  then have "inj_on storageKey (set (map bytes_of_string
      [''wayRewards'', ''swayRewards'', ''totalRewards'', ''totalDeposits'', ''twoWayBalance'']
      @ map (\<lambda>p. p # bytes_of_string ''ann'') [2, 3, 4, 5]))"
    by (simp only: distinct_map)
  then show ?thesis
    unfolding no_collisions_def by (rule inj_on_subset) (auto simp: pool_inputs_def pool_slots)
qed

definition pool_deposit_input :: bytes where
  "pool_deposit_input = u32be stabilityDepositSelector @ fill_be 32 5"

lemma pool_deposit_fields:
  "length pool_deposit_input = 36" "selectorBytes pool_deposit_input = stabilityDepositSelector"
  "readBigInt (readSlot pool_deposit_input 4) = 5"
  by code_simp+

lemma pool_deposit_selector: "switch pool_table dflt stabilityDepositSelector = stabilityDeposit"
  by (simp add: switch_def pool_table_def)

lemma pool_deposit_runs: "\<exists>w'. run_both [(False, pool_deposit_input, ''ann'', 1)] blank_world = Ret w'"
  by (simp add: stabilityPoolPrecompile_def pool_deposit_fields pool_deposit_selector stabilityDeposit_def
      stabilityMintedDebt_def addSlot_def putSlot_cases Let_def sload_sstore readBigInt_fill)

lemma blank_pool_inv: "pool_inv U blank_world"
  by (simp add: pool_inv_def exclusive_def deposits_add_up_def total_deposits_def pool_deposit_def
      stabilityMintedDebt_def)

theorem pool_deposits_add_up_witness:
  "\<exists>w'. run_both [(False, pool_deposit_input, ''ann'', 1)] blank_world = Ret w'
     \<and> pool_deposit w' ''ann'' = total_deposits w'"
  using pool_deposit_runs
    pool_deposits_add_up[OF sample_no_collisions _ blank_pool_inv, of "[(False, pool_deposit_input, ''ann'', 1)]"]
  by auto

subsection \<open>Mineral rights\<close>

text \<open>
  C34. The life of a mineral claim: however calls that name a claim follow each other, the stored
  claim moves along the specified steps only (pending, verified, reserved, issued, active, with a
  transfer of the rights at any point), so its status never goes back, a reserve is approved only
  with the verifiers its tier asks for, tokens are issued once, as many as there are ounces, and
  their number never changes afterwards.
\<close>

theorem claim_lifecycle:
  fixes w :: World and cid :: bytes
  assumes "world_typed w" "claim_inv (mrtGetClaimStorage w cid)"
    and "list_all (names_claim cid (ClaimOwner (mrtGetClaimStorage w cid))) cs"
  defines "c \<equiv> mrtGetClaimStorage w cid"
    and "c' \<equiv> mrtGetClaimStorage (run_calls mineralRightsPrecompile cs w) cid"
  shows "claim_step\<^sup>*\<^sup>* c c' \<and> claim_inv c' \<and> claim_Status c \<le> claim_Status c'
    \<and> (ClaimStatusIssued \<le> claim_Status c \<longrightarrow> TokenSupply c' = TokenSupply c)"
proof -
  have steps: "claim_step\<^sup>*\<^sup>* c c'"
    unfolding c_def c'_def using assms(1,3) by (intro run_claim_steps) (simp_all add: slots_sized_def)
  moreover have "claim_Status c \<le> claim_Status c'"
    using steps
  proof (induction rule: rtranclp_induct)
    case (step y z)
    then show ?case
      using claim_step_status claim_steps_inv[OF step.hyps(1)] assms(2) c_def order_trans by blast
  qed simp
  ultimately show ?thesis
    using claim_steps_inv[OF steps] issued_once[OF steps] assms(2) c_def by simp
qed

definition claimed_world :: World where
  "claimed_world = mrtSetClaimStorage blank_world sample_vault
     (no_claim\<lparr>DeedHash := replicate 32 1, ClaimOwner := ''ann'', claim_Status := ClaimStatusPending\<rparr>)"

text \<open>The first bytes of the digests of the sample claim.\<close>

lemma claim_digests_low:
  "hd (mrt_slot 1 sample_vault) = 211" "hd (mrt_slot 2 sample_vault) = 129" "hd (mrt_slot 3 sample_vault) = 151"
  "hd (mrt_slot 4 sample_vault) = 42"
  by code_simp+

lemma claim_digests_mid:
  "hd (mrt_slot 5 sample_vault) = 33" "hd (mrt_slot 6 sample_vault) = 149" "hd (mrt_slot 7 sample_vault) = 9"
  "hd (mrt_slot 8 sample_vault) = 237"
  by code_simp+

lemma claim_digests_high:
  "hd (mrt_slot 9 sample_vault) = 47" "hd (mrt_slot 10 sample_vault) = 127" "hd (mrt_slot 0x0D sample_vault) = 29"
  "hd (mrtVerifierKey sample_vault ''ann'') = 65" "hd (mrtBalanceKey sample_vault ''ann'') = 6"
  by code_simp+

lemmas claim_digests = claim_digests_low claim_digests_mid claim_digests_high

lemma sample_claim_keys: "mrt_keys_apart sample_vault ''ann'' ''ann''"
proof -
  have "distinct (map hd (claim_keys sample_vault @ [verifier_count_key sample_vault,
      mrtVerifierKey sample_vault ''ann'', mrtBalanceKey sample_vault ''ann'']))"
    using claim_digests by (simp add: claim_keys_def verifier_count_key_def)
  then have "distinct (claim_keys sample_vault @ [verifier_count_key sample_vault,
      mrtVerifierKey sample_vault ''ann'', mrtBalanceKey sample_vault ''ann''])"
    by (simp only: distinct_map)
  then show ?thesis
    by (auto simp: mrt_keys_apart_def)
qed

lemma claimed_typed: "world_typed claimed_world"
  by (simp add: claimed_world_def typed_set_claim blank_typed)

lemma claimed_claim:
  "mrtGetClaimStorage claimed_world sample_vault =
     no_claim\<lparr>DeedHash := replicate 32 1, ClaimOwner := ''ann'', claim_Status := ClaimStatusPending\<rparr>"
proof -
  have "slot_string (string_slot ''ann'') = ''ann''" "slot_string zero_slot = []" "replicate 32 1 \<noteq> zero_slot"
    by code_simp+
  moreover have "distinct (claim_keys sample_vault)"
    using sample_claim_keys by (simp add: mrt_keys_apart_def)
  ultimately show ?thesis
    by (simp add: claimed_world_def get_set_claim) (simp add: no_claim_def)
qed

definition transfer_input :: bytes where
  "transfer_input = u32be mrtTransferRightsSelector @ sample_vault @ bytes_of_string ''bea'' @ replicate 29 0"

lemma transfer_named: "names_claim sample_vault ''ann'' (transfer_input, ''ann'', 4)"
proof -
  have "slice 4 36 transfer_input = sample_vault" "selectorBytes transfer_input \<noteq> mrtRegisterClaimSelector"
    by code_simp+
  then show ?thesis
    using sample_claim_keys by (simp add: names_claim_def)
qed

theorem claim_lifecycle_witness:
  "claim_inv (mrtGetClaimStorage (run_calls mineralRightsPrecompile [(transfer_input, ''ann'', 4)] claimed_world) sample_vault)"
proof -
  have "claim_inv (mrtGetClaimStorage claimed_world sample_vault)"
    by (simp add: claimed_claim claim_inv_def no_claim_def claim_consts word_le_nat_alt)
  then show ?thesis
    using claim_lifecycle[OF claimed_typed, of sample_vault "[(transfer_input, ''ann'', 4)]"] transfer_named
    by (simp add: claimed_claim)
qed

subsection \<open>Quests\<close>

text \<open>
  C35. Verifying and paying a quest, for every claimant and whether or not the task was claimed,
  verified or paid to that claimant before: if the amount paid in all with the reward added
  exceeds the cap, which is five percent of the recorded supply, the payment is refused and
  nothing changes; otherwise the amount paid rises by the reward and stays within the cap, which
  does not move, the claim is recorded as verified, and the reward moves from the treasury to the
  claimant if the treasury has it, while no balance changes if it has not. The code panics only
  when the amount paid does not fit its slot.
\<close>

theorem quest_payment:
  fixes taskId :: bytes and w :: World
  defines "reward \<equiv> taskRewardAmount taskId"
  shows "case verifyAndPay w taskId claimant of
      (Err e, w') \<Rightarrow> QuestCap w < quest_paid w + reward \<and> w' = touch w task_addr
    | (Panic, w') \<Rightarrow> 256 ^ 32 \<le> quest_paid w + reward
    | (Ret _, w') \<Rightarrow> quest_paid w' = quest_paid w + reward \<and> quest_paid w' \<le> QuestCap w
        \<and> QuestCap w' = QuestCap w
        \<and> sload w' claimant (claim_key claimant) = claim_slot taskId 2
        \<and> (\<forall>a. balance_of w' a = balance_of w a
             + (if int reward \<le> balance_of w treasury_addr
                then (if a = claimant then int reward else 0) - (if a = treasury_addr then int reward else 0)
                else 0))"
proof -
  have "QuestCap w < quest_paid w + reward \<and> w' = touch w task_addr"
    if "verifyAndPay w taskId claimant = (Err e, w')" for e w'
    using that by (auto simp: verifyAndPay_def Let_def reward_def quest_paid_def QuestCap_def
        QuestTotalSupply_def
        putSlot_cases split: if_splits)
  moreover have "256 ^ 32 \<le> quest_paid w + reward"
    if "verifyAndPay w taskId claimant = (Panic, w')" for w'
    using that by (auto simp: verifyAndPay_def Let_def reward_def quest_paid_def putSlot_cases
        simp flip: of_nat_add split: if_splits)
  ultimately show ?thesis
    using verifyAndPay_Ret[of w taskId claimant, folded reward_def]
    by (auto split: prod.splits outcome.splits simp del: of_nat_add)
qed

definition quest_world :: World where
  "quest_world = set_balance (sstore blank_world task_addr (storageKey [waySupplySlot]) (fill_be 32 100000)) treasury_addr 1000"

lemma quest_world_facts:
  "QuestTotalSupply quest_world = 100000" "quest_paid quest_world = 0" "balance_of quest_world treasury_addr = 1000"
  "balance_of quest_world ''ann'' = 0"
  using paid_key_apart
  by (auto simp: quest_world_def QuestTotalSupply_def quest_paid_def sload_sstore task_addr_def
      readBigInt_fill
      balance_of_set_balance treasury_addr_def PrecompileAddrHex_def)

theorem quest_payment_witness:
  "\<exists>w'. verifyAndPay quest_world (bytes_of_string ''first-swap'') ''ann'' = (Ret (), w')
     \<and> quest_paid w' = 10 \<and> balance_of w' ''ann'' = 10 \<and> balance_of w' treasury_addr = 990"
proof -
  have ann: "treasury_addr \<noteq> ''ann''" and reward: "taskRewardAmount (bytes_of_string ''first-swap'') = 10"
    by code_simp+
  show ?thesis
    using quest_payment[of quest_world "bytes_of_string ''first-swap''" "''ann''"] ann
    by (cases "verifyAndPay quest_world (bytes_of_string ''first-swap'') ''ann''")
      (auto simp: reward quest_world_facts QuestCap_def QUEST_SUPPLY_PCT_def split: outcome.splits)
qed

text \<open>
  C36. No call of the task registry creates or destroys money, except funding the treasury and paying
  a community task: over any finite set of accounts that contains the treasury, the giveaway and
  the registry accounts, the caller and the claimant, the sum of the balances is the same before and
  after the call, accepted, refused or panicking.
\<close>

theorem task_registry_conserves:
  assumes "finite S" "pays input caller \<subseteq> S" "selectorBytes input \<notin> {0xCEA1B2C3, 0x93E4F5A6}"
  shows "(\<Sum>a\<in>S. balance_of (snd (taskRegistryPrecompile spare input caller w b)) a) = (\<Sum>a\<in>S. balance_of w a)"
  using registry_conserves[OF assms(1,2)] assms(3) by (simp add: minting_selectors_def holdings_def)

theorem task_registry_conserves_witness:
  "(\<Sum>a\<in>pays [0xE5, 0xF6, 0xA7, 0xB8] ''ann''.
      balance_of (snd (taskRegistryPrecompile [] [0xE5, 0xF6, 0xA7, 0xB8] ''ann'' blank_world 1)) a) = 0"
  using task_registry_conserves[of "pays [0xE5, 0xF6, 0xA7, 0xB8] ''ann''" "[0xE5, 0xF6, 0xA7, 0xB8]" "''ann''" "[]"
      blank_world 1]
  by (simp add: pays_def selectorBytes_def be_nat_def)

subsection \<open>Attestations\<close>

text \<open>
  C37. From a state without a record of an event on, after any calls of the contract: the callers
  whose attestations of the event were accepted are different oracles, each verified already in
  the first state; there is a record exactly when there is at least one of them; and the record
  holds their number, or 20 if there are more (a further oracle is accepted and only the stored
  count stops), with the confidence of that count (25, 50, 75 or 100 from 1, 3, 5 and 10 oracles
  on), or 0 while the event is challenged.
\<close>

theorem attestation_invariant:
  fixes cs :: "(bytes \<times> string \<times> u64) list"
  assumes "sload w cc_addr k = zero_slot"
  defines "ws \<equiv> witnesses k cs w"
    and "sl \<equiv> sload (run_calls crossChainAttestationPrecompile cs w) cc_addr k"
  shows "distinct ws \<and> (\<forall>c \<in> set ws. isVerifiedOracle c w)
    \<and> (if ws = [] then sl = zero_slot
       else sl \<noteq> zero_slot \<and> att_count sl = of_nat (min 20 (length ws))
         \<and> sl ! 10 = (if sl ! 11 = 1 then 0 else att_confidence (att_count sl)))"
proof -
  have "event_inv k [] w"
    using assms(1) by (simp add: event_inv_def att_by_def)
  from event_inv_run[OF this, of cs]
  have inv: "event_inv k ws (run_calls crossChainAttestationPrecompile cs w)"
    by (simp add: ws_def)
  then have att: "att_by (length ws) sl" "distinct ws" "\<forall>c \<in> set ws. isVerifiedOracle c w"
    by (simp_all add: event_inv_def sl_def run_oracles)
  show ?thesis
    using att att_by_zero[OF att(1)] by (auto simp: att_by_def)
qed

definition event_input :: bytes where
  "event_input = u32be attestSelector @ replicate 32 1 @ fill_be 32 77 @ replicate 32 2"

definition oracle_world :: World where
  "oracle_world = upd_acct blank_world ''ora'' (\<lambda>acc. acc\<lparr>DoxDevLevel := 2\<rparr>)"

lemma event_input_fields: "length event_input = 100" "selectorBytes event_input = attestSelector"
  by code_simp+

lemma oracle_slots: "sload oracle_world a k = zero_slot"
  by (simp add: oracle_world_def)

lemma sample_witnessed: "\<exists>out w'. ccWitnessEvent event_input ''ora'' oracle_world 5 = (Ret out, w')"
proof -
  have "isVerifiedOracle ''ora'' oracle_world"
    by (simp add: isVerifiedOracle_def oracle_world_def GetAccount_def upd_acct_def)
  moreover have "GetAccount (touch oracle_world cc_addr) (ccAttesterKey k ''ora'') = None" for k
    using attester_not_addr[of k "''ora''"]
    by (auto simp: GetAccount_def touch_def oracle_world_def upd_acct_def blank_world_def Exist_def
        ccAttesterKey_def)
  ultimately show ?thesis
    by (simp add: ccWitnessEvent_def event_input_fields oracle_slots Let_def)
qed

theorem attestation_invariant_witness:
  "witnesses (cc_event event_input) [(event_input, ''ora'', 5), (event_input, ''ora'', 6)] oracle_world = [''ora'']
   \<and> att_count (sload (run_calls crossChainAttestationPrecompile
       [(event_input, ''ora'', 5), (event_input, ''ora'', 6)] oracle_world) cc_addr (cc_event event_input)) = 1"
proof -
  let ?cs = "[(event_input, ''ora'', 5), (event_input, ''ora'', 6)]"
  let ?ws = "witnesses (cc_event event_input) ?cs oracle_world"
  have c: "crossChainAttestationPrecompile event_input = ccWitnessEvent event_input"
    by (intro ext) (simp add: crossChainAttestationPrecompile_def event_input_fields switch_def cc_table_def)
  have first: "witnessed (cc_event event_input) event_input ''ora'' oracle_world 5"
    using sample_witnessed by (auto simp: witnessed_def c event_input_fields)
  note inv = attestation_invariant[OF oracle_slots, of "cc_event event_input" ?cs]
  then have "?ws = [''ora'']"
    using first by (auto split: if_splits)
  then show ?thesis
    using inv by simp
qed

text \<open>
  An oracle that witnessed an event is refused when it witnesses the event again, whatever calls
  of the contract, also challenges, lie in between.
\<close>

theorem oracle_witnesses_once:
  assumes "ccWitnessEvent input caller w b = (Ret out, w')" "cc_event input' = cc_event input"
  shows "\<exists>e. fst (ccWitnessEvent input' caller (run_calls crossChainAttestationPrecompile cs w') b') = Err e"
  using witness_once[OF assms] .

theorem oracle_witnesses_once_witness:
  "\<exists>out w' e. ccWitnessEvent event_input ''ora'' oracle_world 5 = (Ret out, w')
     \<and> fst (ccWitnessEvent event_input ''ora'' w' 6) = Err e"
  using sample_witnessed oracle_witnesses_once[of event_input "''ora''" oracle_world 5 _ _ event_input "[]" 6]
  by fastforce

subsection \<open>Locks\<close>

text \<open>
  C38. A time lock created in block \<open>b\<close> for \<open>p\<close> blocks opens at block \<open>b + p\<close> (both modulo
  \<open>2^64\<close>, the way the code computes the sum): in the state its creation left, a release succeeds
  exactly from that block on, whoever asks. There is one exception: if the sum wraps to 0, the
  pool address and the last byte of the recipient are zero and \<open>b\<close> is a multiple of 65536, the
  packed header is the empty slot and every release is refused. The lock's storage key is assumed
  to differ from the key of the lock counter, which holds unless SHA-256 collides on them.
\<close>

theorem time_lock_window:
  assumes "trustlessCreateTimeLock input c w b = (Ret i, w')" "trustlessLockKey i \<noteq> lockCountKey"
    and "36 \<le> length req" "slice 4 36 req = i"
  defines "unlock \<equiv> b + big_Uint64 (readBigInt (readSlot input 96))"
  shows "(\<exists>out. fst (trustlessRelease req c' w' b') = Ret out) \<longleftrightarrow>
    unlock \<le> b' \<and> \<not> (unlock = 0 \<and> slice 4 24 input = replicate 20 0 \<and> input ! 147 = 0 \<and> unat b mod 65536 = 0)"
proof -
  have len: "148 \<le> length input"
    using time_lock_created(2)[OF assms(1,2)] .
  then have pool: "length (slice 4 24 input) = 20" and last: "slice 128 148 input ! 19 = input ! 147"
    by (simp_all add: slice_def)
  note header = time_lock_created(1)[OF assms(1,2), folded unlock_def]
  have zero: "lock_header w' i = zero_slot \<longleftrightarrow>
      unlock = 0 \<and> slice 4 24 input = replicate 20 0 \<and> input ! 147 = 0 \<and> unat b mod 65536 = 0"
    unfolding header header_zero_iff[OF pool] last by (simp add: LockTypeTime_def)
  have "releasable_at (touch w' lock_addr) i (lock_header w' i) b' = (if unlock \<le> b' then 1 else 0)"
    unfolding header by (simp add: releasable_at_def header_fields[OF pool])
  then have "lock_header w' i \<noteq> zero_slot \<Longrightarrow> (\<exists>out. fst (trustlessRelease req c' w' b') = Ret out) \<longleftrightarrow> unlock \<le> b'"
    using release_iff(1)[OF assms(3), of w' b' c'] assms(4) by simp
  then show ?thesis
    using release_zero[OF assms(3), of w' c' b'] assms(4) unfolding zero[symmetric]
    by (cases "lock_header w' i = zero_slot") auto
qed

definition lock_request :: bytes where
  "lock_request = u32be trustlessCreateTimeLockSelector @ replicate 60 9 @ fill_be 32 500 @ fill_be 32 2592000 @ replicate 20 5"

lemma lock_request_fields:
  "length lock_request = 148" "readBigInt (readSlot lock_request 96) = 2592000"
  by code_simp+

definition sample_lock :: bytes where
  "sample_lock = generateLockID (slice 4 24 lock_request) (slice 24 44 lock_request) (slice 44 64 lock_request)
     (readBigInt (readSlot lock_request 64)) 1"

lemma sample_lock_length: "length sample_lock = 32"
  by (simp add: sample_lock_def generateLockID_def)

lemma sample_lock_key: "trustlessLockKey sample_lock \<noteq> lockCountKey"
  by code_simp

lemma sample_lock_created: "\<exists>w'. trustlessCreateTimeLock lock_request ''ann'' blank_world 1 = (Ret sample_lock, w')"
  using sample_lock_key
  by (simp add: trustlessCreateTimeLock_def lock_request_fields getTrustlessParam_def bump_lock_count_def
      addSlot_def
      putSlot_cases sload_sstore sample_lock_def Let_def)

theorem time_lock_window_witness:
  "\<exists>w'. trustlessCreateTimeLock lock_request ''ann'' blank_world 1 = (Ret sample_lock, w')
     \<and> (\<exists>out. fst (trustlessRelease ([0, 0, 0, 0] @ sample_lock) ''bea'' w' 2592001) = Ret out)
     \<and> \<not> (\<exists>out. fst (trustlessRelease ([0, 0, 0, 0] @ sample_lock) ''bea'' w' 2592000) = Ret out)"
proof -
  obtain w' where w': "trustlessCreateTimeLock lock_request ''ann'' blank_world 1 = (Ret sample_lock, w')"
    using sample_lock_created by blast
  have req: "36 \<le> length ([0, 0, 0, 0] @ sample_lock)" "slice 4 36 ([0, 0, 0, 0] @ sample_lock) = sample_lock"
    by (simp_all add: sample_lock_length slice_def)
  have "big_Uint64 2592000 = 2592000"
    by (simp add: big_Uint64_def)
  then have open_at: "(\<exists>out. fst (trustlessRelease ([0, 0, 0, 0] @ sample_lock) ''bea'' w' b') = Ret out) \<longleftrightarrow> 2592001 \<le> b'" for b'
    using time_lock_window[OF w' sample_lock_key req, of "''bea''" b'] by (simp add: lock_request_fields)
  show ?thesis
    using w' open_at[of 2592001] open_at[of 2592000] by (intro exI[of _ w']) simp
qed

subsection \<open>Governance\<close>

lemma boolResult_eq: "boolResult x = boolResult y \<longleftrightarrow> x = y"
proof -
  have "replicate 32 0 \<noteq> (replicate 32 0)[31 := 1 :: u8]"
    by code_simp
  then show ?thesis
    by (auto simp: boolResult_def)
qed

lemma accepted_typed: "accepted_votes i vs w = Some w' \<Longrightarrow> world_typed w \<Longrightarrow> world_typed w'"
proof (induction vs arbitrary: w)
  case (Cons v vs)
  obtain input c where v: "v = (input, c)"
    by (cases v)
  have "world_typed (snd (govVote input c w 0))"
    using Cons.prems(2) by (rule typed_vote)
  then show ?case
    using Cons by (auto simp: v split: prod.splits outcome.splits if_splits)
qed simp

text \<open>
  C39. The tally decides: when accepted votes have been cast on a proposal without votes and it is
  finalized, it passes exactly if there were votes and the share of yes votes in percent, rounded
  down, exceeds the threshold of its type. It is closed then: after any further calls of the
  contract none of which creates a proposal with the same identifier, every vote on it and every
  finalization is refused. (The same caller creating a proposal with the same title in the same
  block obtains the same identifier and opens the proposal again.) The storage keys involved are
  assumed to be different, which holds unless SHA-256 collides on them, and stored values to have
  32 bytes, as Go's arrays do.
\<close>

theorem tally_decides:
  fixes vs :: "(bytes \<times> string) list"
  assumes "accepted_votes i vs w = Some w1" "govFinalize input c w1 b = (Ret out, w2)" "slice 4 36 input = i"
    and "list_all (\<lambda>(input, voter). vote_keys_apart i voter) vs" "world_typed w"
    and "yes_votes w i = 0" "no_votes w i = 0"
    and "calls_apart spare i cs w2"
  defines "yes \<equiv> length (filter (\<lambda>(input, voter). input ! 36 = 1) vs)"
    and "w3 \<equiv> run_calls (governancePrecompile spare) cs w2"
  shows "(out = boolResult True \<longleftrightarrow>
           vs \<noteq> [] \<and> vote_threshold (proposal w i ! 0) < yes * 100 div length vs)
    \<and> (slice 4 36 input' = i \<longrightarrow> (\<exists>e. fst (govVote input' c' w3 b') = Err e) \<and> (\<exists>e. fst (govFinalize input' c' w3 b') = Err e))"
proof -
  have keys: "vote_keys_apart i voter" if "(input, voter) \<in> set vs" for input voter
    using assms(4) that by (auto simp: list_all_iff)
  note tally = accepted_votes_tally[OF assms(1) keys]
  have len: "length (proposal w1 (slice 4 36 input)) = 32"
    using accepted_typed[OF assms(1,5)] by (simp add: proposal_def)
  have fin: "out = boolResult (vote_passed (proposal w1 i ! 0) (yes_votes w1 i) (no_votes w1 i))"
    "proposal w2 i ! 1 \<noteq> ProposalStatusActive"
    using govFinalize_Ret[OF assms(2) len] assms(3) len
    by (auto simp: ProposalStatusActive_def ProposalStatusPassed_def ProposalStatusFailed_def)
  have closed: "proposal w3 i ! 1 \<noteq> ProposalStatusActive"
    using fin(2) closed_run[OF assms(8) fin(2)] by (simp add: w3_def)
  have "length vs = yes + length (filter (\<lambda>(input, voter). input ! 36 \<noteq> 1) vs)"
    unfolding yes_def by (induction vs) auto
  then have "out = boolResult True \<longleftrightarrow> vs \<noteq> [] \<and> vote_threshold (proposal w i ! 0) < yes * 100 div length vs"
    using tally assms(6,7) by (auto simp: fin(1) vote_passed_def boolResult_eq yes_def)
  then show ?thesis
    using closed closed_proposal[of w3 input' c' b'] by auto
qed

definition gov_id :: bytes where "gov_id = replicate 32 7"

definition sample_record :: slot where "sample_record = proposal_record VoteTypeDirect (replicate 32 3)"

definition gov_world :: World where
  "gov_world = sstore blank_world gov_addr (govProposalKey gov_id) sample_record"

definition vote_input :: bytes where
  "vote_input = u32be govVoteSelector @ gov_id @ [1] @ fill_be 32 0"

lemma vote_input_fields:
  "length vote_input = 69" "slice 4 36 vote_input = gov_id" "vote_input ! 36 = 1" "readBigInt (readSlot vote_input 37) = 0"
  by code_simp+

lemma sample_vote_keys: "vote_keys_apart gov_id ''ann''"
  unfolding vote_keys_apart_def by code_simp

lemma sample_proposal: "sample_record ! 0 = 0"
  "sample_record ! Suc 0 = ProposalStatusActive"
  "sample_record \<noteq> zero_slot" "length sample_record = 32"
  by code_simp+

lemma gov_typed: "world_typed gov_world"
  using sample_proposal(4)
  by (simp add: gov_world_def world_typed_def acct_sstore account_typed_update)
    (simp add: acct_def blank_world_def NewAccount_def account_typed_def storage_wf_def)

lemma sample_accepted: "\<exists>w1. accepted_votes gov_id [(vote_input, ''ann'')] gov_world = Some w1"
  using sample_vote_keys
  by (auto simp: vote_keys_apart_def govVote_def vote_input_fields gov_world_def sload_sstore
      sample_proposal count_vote_def
      charge_credits_def VoteTypeDirect_def VoteTypeQuadratic_def Let_def)

lemma sample_call_apart: "call_apart 0 gov_id vote_input ''cyd'' w 10"
proof -
  have "selectorBytes vote_input = govVoteSelector" "govVoteSelector \<noteq> govCreateProposalSelector"
    "govProposalKey gov_id \<notin> set [govVoteRecordKey (slice 4 36 vote_input) (bytes_of_string ''cyd''),
       govVotesKey (slice 4 36 vote_input), govNoVotesKey (slice 4 36 vote_input), govCreditsKey (bytes_of_string ''cyd'')]"
    by code_simp+
  then show ?thesis
    by (simp add: call_apart_def)
qed

theorem tally_decides_witness:
  "\<exists>w1 w2 e. accepted_votes gov_id [(vote_input, ''ann'')] gov_world = Some w1
     \<and> govFinalize vote_input ''bea'' w1 9 = (Ret (boolResult True), w2)
     \<and> fst (govVote vote_input ''dan'' (run_calls (governancePrecompile 0) [(vote_input, ''cyd'', 10)] w2) 11) = Err e"
proof -
  obtain w1 where w1: "accepted_votes gov_id [(vote_input, ''ann'')] gov_world = Some w1"
    using sample_accepted by blast
  have p: "proposal w1 gov_id = sample_record"
    using accepted_votes_tally[OF w1] sample_vote_keys by (simp add: proposal_def gov_world_def sload_sstore)
  then obtain out w2 where w2: "govFinalize vote_input ''bea'' w1 9 = (Ret out, w2)"
    by (simp add: govFinalize_def vote_input_fields proposal_def sample_proposal Let_def)
  have "yes_votes gov_world gov_id = 0" "no_votes gov_world gov_id = 0"
    using sample_vote_keys by (auto simp: yes_votes_def no_votes_def gov_world_def sload_sstore
        vote_keys_apart_def)
  note decided = tally_decides[OF w1 w2 vote_input_fields(2) _ gov_typed this, of 0 "[(vote_input, ''cyd'', 10)]"
      vote_input "''dan''" 11]
  have "out = boolResult True"
    using decided sample_vote_keys sample_call_apart
    by (simp add: vote_input_fields proposal_def gov_world_def sload_sstore sample_proposal vote_threshold_def
        VoteTypeDirect_def DirectThreshold_def)
  moreover obtain e where
    "fst (govVote vote_input ''dan'' (run_calls (governancePrecompile 0) [(vote_input, ''cyd'', 10)] w2) 11) = Err e"
    using decided sample_vote_keys sample_call_apart vote_input_fields(2) by auto
  ultimately show ?thesis
    using w1 w2 by blast
qed

subsection \<open>Swaps\<close>

text \<open>
  C40. A swap is quoted below the constant product: the amount returned is at least the minimum the
  caller asked for and less than the reserve, and adding the input to one reserve and taking the
  output from the other never lowers the product of the reserves.
\<close>

theorem swap_constant_product:
  fixes w :: World
  assumes "srSwap input caller w b = (Ret out, w')"
  defines "r0 \<equiv> reserve w reserve0_key" and "r1 \<equiv> reserve w reserve1_key"
    and "a \<equiv> readBigInt (readSlot input 4)" and "q \<equiv> be_nat out"
  shows "readBigInt (readSlot input 36) \<le> q \<and> q < r1 \<and> r0 * r1 \<le> (r0 + a) * (r1 - q)"
proof -
  have "0 < r0" "0 < r1"
    by (simp_all add: r0_def r1_def reserve_def Let_def)
  moreover have "q = amount_out r0 r1 a" "readBigInt (readSlot input 36) \<le> q"
    using swap_quote[OF assms(1)] readBigInt_fill[of "amount_out r0 r1 a"]
    by (simp_all add: q_def r0_def r1_def a_def readBigInt_def)
  ultimately show ?thesis
    using amount_out_less constant_product by simp
qed

definition swap_input :: bytes where
  "swap_input = u32be srSwapExactTokens0 @ fill_be 32 1000 @ fill_be 32 0"

lemma swap_input_fields:
  "length swap_input = 68" "readBigInt (readSlot swap_input 4) = 1000" "readBigInt (readSlot swap_input 36) = 0"
  by code_simp+

lemma sample_swap: "\<exists>out w'. srSwap swap_input ''ann'' blank_world 3 = (Ret out, w')"
  by (simp add: srSwap_def swap_input_fields try_mint_def swayMintInternal_def sway_bucket_def
      reserve_def amount_out_def
      writeBigInt_cases Let_def)

theorem swap_constant_product_witness:
  "\<exists>out w'. srSwap swap_input ''ann'' blank_world 3 = (Ret out, w') \<and> be_nat out < 1000000"
  using sample_swap swap_constant_product[of swap_input "''ann''" blank_world 3]
  by (fastforce simp: reserve_def)

end
