(* ===== verification/Subscriptions.thy ===== *)
theory Subscriptions
  imports Go_Bytes
begin

text \<open>
  The subscriptions of websocket clients (\<^verbatim>\<open>rpc_ws.go\<close>). The manager keeps the open
  subscriptions by their id and, for every connection, the set of its ids. A \<^verbatim>\<open>*Subscription\<close>
  outlives its entry in the map while a broadcast holds it, so the state of its \<^verbatim>\<open>done\<close> channel
  is kept beside the map, as the list of the ids whose channel was closed. Closing a channel
  twice panics.

  A connection is a value of an arbitrary type. The order in which Go iterates over the map and
  whether a write to a connection succeeds are arguments of a broadcast.
\<close>

subsection \<open>Hexadecimal numbers\<close>

text \<open>\<^verbatim>\<open>%x\<close> of a number.\<close>

fun hex_string :: "nat \<Rightarrow> string" where
  "hex_string n =
     (if n < 16 then [hex_digit n] else hex_string (n div 16) @ [hex_digit (n mod 16)])"

declare hex_string.simps [simp del]

definition hex_val :: "string \<Rightarrow> nat" where
  "hex_val s = foldl (\<lambda>n c. 16 * n + the (hex_value c)) 0 s"

lemma hex_val_hex_string [simp]: "hex_val (hex_string n) = n"
proof (induction n rule: hex_string.induct)
  case (1 n)
  show ?case
  proof (cases "n < 16")
    case True
    then show ?thesis
      by (simp add: hex_string.simps[of n] hex_val_def hex_value_digit)
  next
    case False
    then have "hex_val (hex_string n) = 16 * hex_val (hex_string (n div 16)) + n mod 16"
      by (simp add: hex_string.simps[of n] hex_val_def hex_value_digit)
    with 1 False show ?thesis
      by simp
  qed
qed

lemma hex_string_inject [simp]: "hex_string m = hex_string n \<longleftrightarrow> m = n"
  by (metis hex_val_hex_string)

subsection \<open>The manager\<close>

definition SubNewHeads :: string where "SubNewHeads = ''newHeads''"
definition SubNewPendingTransactions :: string where
  "SubNewPendingTransactions = ''newPendingTransactions''"
definition SubLogs :: string where "SubLogs = ''logs''"

record ('c, 'p) Subscription =
  sub_ID :: string
  sub_Type :: string
  sub_params :: 'p
  sub_conn :: 'c

record ('c, 'p) SubscriptionManager =
  subs :: "string \<rightharpoonup> ('c, 'p) Subscription"
  nextID :: u64
  connSubs :: "'c \<rightharpoonup> string list"
  closed :: "string list"

definition NewSubscriptionManager :: "('c, 'p) SubscriptionManager" where
  "NewSubscriptionManager = \<lparr>subs = Map.empty, nextID = 0, connSubs = Map.empty, closed = []\<rparr>"

definition sub_id :: "u64 \<Rightarrow> string" where
  "sub_id n = ''0x'' @ hex_string (unat n)"

definition Subscribe ::
  "string \<Rightarrow> 'p \<Rightarrow> 'c \<Rightarrow> ('c, 'p) SubscriptionManager \<Rightarrow> string \<times> ('c, 'p) SubscriptionManager" where
  "Subscribe subType params conn sm =
     (let n = nextID sm + 1; i = sub_id n;
          sub = \<lparr>sub_ID = i, sub_Type = subType, sub_params = params, sub_conn = conn\<rparr>;
          ids = (case connSubs sm conn of None \<Rightarrow> [] | Some ids \<Rightarrow> ids) in
      (i, sm\<lparr>subs := (subs sm)(i \<mapsto> sub), nextID := n,
             connSubs := (connSubs sm)(conn \<mapsto> List.insert i ids)\<rparr>))"

definition close_done ::
  "string \<Rightarrow> ('c, 'p) SubscriptionManager \<Rightarrow> ('c, 'p) SubscriptionManager outcome" where
  "close_done i sm = (if i \<in> set (closed sm) then Panic else Ret (sm\<lparr>closed := i # closed sm\<rparr>))"

definition drop_conn_sub ::
  "'c \<Rightarrow> string \<Rightarrow> ('c, 'p) SubscriptionManager \<Rightarrow> ('c, 'p) SubscriptionManager" where
  "drop_conn_sub conn i sm =
     (case connSubs sm conn of
        None \<Rightarrow> sm
      | Some ids \<Rightarrow>
          let ids' = removeAll i ids in
          sm\<lparr>connSubs := (if ids' = [] then (connSubs sm)(conn := None) else (connSubs sm)(conn \<mapsto> ids'))\<rparr>)"

definition Unsubscribe ::
  "string \<Rightarrow> ('c, 'p) SubscriptionManager \<Rightarrow> (bool \<times> ('c, 'p) SubscriptionManager) outcome" where
  "Unsubscribe subID sm =
     (case subs sm subID of
        None \<Rightarrow> Ret (False, sm)
      | Some sub \<Rightarrow>
          (case close_done subID (drop_conn_sub (sub_conn sub) subID sm) of
             Ret sm2 \<Rightarrow> Ret (True, sm2\<lparr>subs := (subs sm2)(subID := None)\<rparr>)
           | Err e \<Rightarrow> Err e | Panic \<Rightarrow> Panic))"

fun close_all ::
  "string list \<Rightarrow> ('c, 'p) SubscriptionManager \<Rightarrow> ('c, 'p) SubscriptionManager outcome" where
  "close_all [] sm = Ret sm"
| "close_all (i # is) sm =
     (case (if subs sm i \<noteq> None then close_done i sm else Ret sm) of
        Ret sm1 \<Rightarrow> close_all is (sm1\<lparr>subs := (subs sm1)(i := None)\<rparr>)
      | Err e \<Rightarrow> Err e | Panic \<Rightarrow> Panic)"

definition CleanupConn ::
  "'c \<Rightarrow> ('c, 'p) SubscriptionManager \<Rightarrow> ('c, 'p) SubscriptionManager outcome" where
  "CleanupConn conn sm =
     (case connSubs sm conn of
        None \<Rightarrow> Ret sm
      | Some ids \<Rightarrow>
          (case close_all ids sm of
             Ret sm1 \<Rightarrow> Ret (sm1\<lparr>connSubs := (connSubs sm1)(conn := None)\<rparr>)
           | Err e \<Rightarrow> Err e | Panic \<Rightarrow> Panic))"

subsection \<open>Broadcasts\<close>

text \<open>
  \<^verbatim>\<open>sendNotification\<close>: a write that fails ends the connection's subscriptions. A delivered
  notification is the connection, the subscription's id and the data.
\<close>

definition sendNotification ::
  "('c \<Rightarrow> string \<Rightarrow> bool) \<Rightarrow> 'c \<Rightarrow> string \<Rightarrow> 'n \<Rightarrow> ('c, 'p) SubscriptionManager
   \<Rightarrow> (('c \<times> string \<times> 'n) list \<times> ('c, 'p) SubscriptionManager) outcome" where
  "sendNotification write_ok conn subID data sm =
     (if write_ok conn subID then Ret ([(conn, subID, data)], sm)
      else case CleanupConn conn sm of
             Ret sm1 \<Rightarrow> Ret ([], sm1)
           | Err e \<Rightarrow> Err e | Panic \<Rightarrow> Panic)"

fun notify_all ::
  "('c \<Rightarrow> string \<Rightarrow> bool) \<Rightarrow> 'n \<Rightarrow> ('c, 'p) Subscription list \<Rightarrow> ('c, 'p) SubscriptionManager
   \<Rightarrow> (('c \<times> string \<times> 'n) list \<times> ('c, 'p) SubscriptionManager) outcome" where
  "notify_all write_ok data [] sm = Ret ([], sm)"
| "notify_all write_ok data (sub # rest) sm =
     (if sub_ID sub \<in> set (closed sm) then notify_all write_ok data rest sm
      else
        case sendNotification write_ok (sub_conn sub) (sub_ID sub) data sm of
          Ret (out1, sm1) \<Rightarrow>
            (case notify_all write_ok data rest sm1 of
               Ret (out2, sm2) \<Rightarrow> Ret (out1 @ out2, sm2)
             | Err e \<Rightarrow> Err e | Panic \<Rightarrow> Panic)
        | Err e \<Rightarrow> Err e | Panic \<Rightarrow> Panic)"

text \<open>The subscriptions of one type, in the iteration order \<open>order\<close> of the map.\<close>

definition select_subs ::
  "string \<Rightarrow> string list \<Rightarrow> ('c, 'p) SubscriptionManager \<Rightarrow> ('c, 'p) Subscription list" where
  "select_subs ty order sm =
     concat (map (\<lambda>i. case subs sm i of
               None \<Rightarrow> []
             | Some sub \<Rightarrow> if sub_Type sub = ty then [sub] else []) order)"

definition BroadcastNewHead ::
  "('c \<Rightarrow> string \<Rightarrow> bool) \<Rightarrow> string list \<Rightarrow> 'n \<Rightarrow> ('c, 'p) SubscriptionManager
   \<Rightarrow> (('c \<times> string \<times> 'n) list \<times> ('c, 'p) SubscriptionManager) outcome" where
  "BroadcastNewHead write_ok order head sm =
     notify_all write_ok head (select_subs SubNewHeads order sm) sm"

definition BroadcastPendingTx ::
  "('c \<Rightarrow> string \<Rightarrow> bool) \<Rightarrow> string list \<Rightarrow> 'n \<Rightarrow> ('c, 'p) SubscriptionManager
   \<Rightarrow> (('c \<times> string \<times> 'n) list \<times> ('c, 'p) SubscriptionManager) outcome" where
  "BroadcastPendingTx write_ok order txHash sm =
     notify_all write_ok txHash (select_subs SubNewPendingTransactions order sm) sm"

subsection \<open>The invariant\<close>

text \<open>
  The second table caches, for every connection, the ids of its open subscriptions; an open
  subscription's channel is open, and every id in use was given out by the counter.
\<close>

definition of_conn :: "'c \<Rightarrow> ('c, 'p) SubscriptionManager \<Rightarrow> string set" where
  "of_conn c sm = {i. \<exists>sub. subs sm i = Some sub \<and> sub_conn sub = c}"

fun entry_ok :: "string list option \<Rightarrow> string set \<Rightarrow> bool" where
  "entry_ok None S \<longleftrightarrow> S = {}"
| "entry_ok (Some ids) S \<longleftrightarrow> ids \<noteq> [] \<and> distinct ids \<and> set ids = S"

definition conn_table_ok :: "('c, 'p) SubscriptionManager \<Rightarrow> bool" where
  "conn_table_ok sm \<longleftrightarrow> (\<forall>c. entry_ok (connSubs sm c) (of_conn c sm))"

definition given_out :: "('c, 'p) SubscriptionManager \<Rightarrow> string \<Rightarrow> bool" where
  "given_out sm i \<longleftrightarrow> (\<exists>n. 0 < n \<and> n \<le> nextID sm \<and> i = sub_id n)"

definition sub_inv :: "('c, 'p) SubscriptionManager \<Rightarrow> bool" where
  "sub_inv sm \<longleftrightarrow>
     conn_table_ok sm \<and>
     (\<forall>i sub. subs sm i = Some sub \<longrightarrow> sub_ID sub = i \<and> i \<notin> set (closed
         sm) \<and> given_out sm i) \<and>
     (\<forall>i\<in>set (closed sm). given_out sm i)"

lemma conn_tableD: "conn_table_ok sm \<Longrightarrow> entry_ok (connSubs sm c) (of_conn c sm)"
  by (simp add: conn_table_ok_def)

lemma conn_table_upd:
  assumes "conn_table_ok sm"
    and "\<And>x. x \<noteq> c \<Longrightarrow> connSubs sm' x = connSubs sm x \<and> of_conn x sm' = of_conn x sm"
    and "entry_ok (connSubs sm' c) (of_conn c sm')"
  shows "conn_table_ok sm'"
  unfolding conn_table_ok_def using assms by (metis conn_tableD)

lemma new_manager_inv: "sub_inv NewSubscriptionManager"
  by (simp add: sub_inv_def NewSubscriptionManager_def conn_table_ok_def of_conn_def)

lemma sub_id_inject [simp]: "sub_id m = sub_id n \<longleftrightarrow> m = n"
  unfolding sub_id_def same_append_eq hex_string_inject by (rule word_unat_eq_iff[symmetric])

subsection \<open>The operations keep the invariant\<close>

lemma u64_less_succ:
  fixes x :: u64 assumes "x \<noteq> -1" shows "x < x + 1"
proof -
  have "unat x \<noteq> unat (-1 :: u64)"
    using assms unfolding word_unat_eq_iff .
  moreover have "unat (-1 :: u64) = 18446744073709551615"
    by code_simp
  ultimately have "unat x \<noteq> 18446744073709551615"
    by simp
  moreover have "unat x < 18446744073709551616"
    by (rule unat_u64_bound)
  ultimately have "unat x + 1 < 18446744073709551616"
    by linarith
  then have "unat x + 1 < 2 ^ 64"
    by simp
  then have "unat (x + 1) = unat x + 1"
    using unat_add_no_wrap[of x 1] by simp
  then show ?thesis
    by (simp add: word_less_nat_alt)
qed

lemma fresh_sub_id:
  assumes "sub_inv sm" "nextID sm \<noteq> -1"
  shows "subs sm (sub_id (nextID sm + 1)) = None" "sub_id (nextID sm + 1) \<notin> set (closed sm)"
    and "0 < nextID sm + 1" "nextID sm < nextID sm + 1"
proof -
  have lt: "nextID sm < nextID sm + 1"
    using assms(2) by (rule u64_less_succ)
  then show "nextID sm < nextID sm + 1" .
  then show "0 < nextID sm + 1"
    using word_gt_0 by fastforce
  have "\<not> given_out sm (sub_id (nextID sm + 1))"
    using lt by (auto simp: given_out_def not_le)
  then show "subs sm (sub_id (nextID sm + 1)) = None" "sub_id (nextID sm + 1) \<notin> set (closed sm)"
    using assms(1) unfolding sub_inv_def by (meson not_None_eq)+
qed

lemma given_out_mono:
  "given_out sm i \<Longrightarrow> nextID sm \<le> nextID sm' \<Longrightarrow> given_out sm' i"
  by (auto simp: given_out_def)

lemma insert_not_Nil: "List.insert x xs \<noteq> []"
  by (auto simp: List.insert_def)

lemma Subscribe_inv:
  assumes inv: "sub_inv sm" "nextID sm \<noteq> -1" and s: "Subscribe ty params conn sm = (i, sm')"
  shows "sub_inv sm'" "nextID sm' = nextID sm + 1" "subs sm i = None"
    and "subs sm' = (subs sm)(i \<mapsto> \<lparr>sub_ID = i, sub_Type = ty, sub_params = params, sub_conn = conn\<rparr>)"
proof -
  let ?n = "nextID sm + 1"
  define ids where "ids = (case connSubs sm conn of None \<Rightarrow> [] | Some ids \<Rightarrow> ids)"
  have i: "i = sub_id ?n" and sm': "sm' = sm\<lparr>subs := (subs sm)(i \<mapsto> \<lparr>sub_ID = i, sub_Type = ty,
      sub_params = params, sub_conn = conn\<rparr>), nextID := ?n, connSubs := (connSubs sm)(conn \<mapsto> List.insert i ids)\<rparr>"
    using s by (auto simp: Subscribe_def Let_def ids_def)
  note fresh = fresh_sub_id[OF inv]
  show next': "nextID sm' = ?n" and new: "subs sm i = None"
    and subs': "subs sm' = (subs sm)(i \<mapsto> \<lparr>sub_ID = i, sub_Type = ty, sub_params = params, sub_conn = conn\<rparr>)"
    using fresh by (simp_all add: sm' i)
  have table: "conn_table_ok sm"
    using inv(1) by (simp add: sub_inv_def)
  have conns': "connSubs sm' = (connSubs sm)(conn \<mapsto> List.insert i ids)"
    by (simp add: sm')
  have of': "of_conn c sm' = (if c = conn then insert i (of_conn c sm) else of_conn c sm)" for c
    using new by (auto simp: of_conn_def subs')
  have "distinct ids" "set ids = of_conn conn sm"
    using conn_tableD[OF table, of conn] by (cases "connSubs sm conn"; simp add: ids_def)+
  then have "conn_table_ok sm'"
    by (intro conn_table_upd[OF table, of conn]) (simp_all add: of' conns' insert_not_Nil)
  moreover have "given_out sm' j" if "given_out sm j" for j
    using that less_imp_le[OF fresh(4)] by (rule given_out_mono[where sm' = sm', unfolded next'])
  moreover have "given_out sm' i"
    using fresh(3) by (auto simp: given_out_def next' i)
  ultimately show "sub_inv sm'"
    using inv(1) fresh(2) by (auto simp: sub_inv_def subs' sm' i split: if_splits)
qed

lemma Unsubscribe_unknown: "subs sm i = None \<Longrightarrow> Unsubscribe i sm = Ret (False, sm)"
  by (simp add: Unsubscribe_def)

lemma Unsubscribe_inv:
  assumes inv: "sub_inv sm" and sub: "subs sm i = Some sub"
  obtains sm' where "Unsubscribe i sm = Ret (True, sm')" "sub_inv sm'" "subs sm' = (subs sm)(i := None)"
    "nextID sm' = nextID sm" "closed sm' = i # closed sm"
proof -
  let ?c = "sub_conn sub"
  have table: "conn_table_ok sm" and open_i: "i \<notin> set (closed sm)" and given: "given_out sm i"
    using inv sub by (auto simp: sub_inv_def)
  have "i \<in> of_conn ?c sm"
    using sub by (auto simp: of_conn_def)
  then obtain ids where ids: "connSubs sm ?c = Some ids" "distinct ids" "set ids = of_conn ?c sm"
    using conn_tableD[OF table, of ?c] by (cases "connSubs sm ?c") auto
  define sm' where "sm' = (drop_conn_sub ?c i sm)\<lparr>closed := i # closed sm, subs := (subs sm)(i := None)\<rparr>"
  have eq: "Unsubscribe i sm = Ret (True, sm')"
    using sub ids(1) open_i
    by (simp add: Unsubscribe_def close_done_def drop_conn_sub_def sm'_def Let_def)
  have fields: "subs sm' = (subs sm)(i := None)" "closed sm' = i # closed sm" "nextID sm' = nextID sm"
    "connSubs sm' = (if removeAll i ids = [] then (connSubs sm)(?c := None)
                     else (connSubs sm)(?c \<mapsto> removeAll i ids))"
    by (simp_all add: sm'_def drop_conn_sub_def ids(1) Let_def)
  have of': "of_conn c sm' = of_conn c sm - (if c = ?c then {i} else {})" for c
    using sub by (auto simp: of_conn_def fields(1))
  have rem: "set (removeAll i ids) = of_conn ?c sm'" "distinct (removeAll i ids)"
    using ids(2,3) by (simp_all add: of' distinct_removeAll)
  have "entry_ok (connSubs sm' ?c) (of_conn ?c sm')"
    unfolding rem(1)[symmetric] using rem(2) by (simp add: fields(4) del: set_removeAll)
  then have "conn_table_ok sm'"
    by (rule conn_table_upd[OF table, rotated]) (simp add: fields(4) of')
  moreover have "given_out sm' = given_out sm"
    by (simp add: given_out_def fun_eq_iff fields(3))
  ultimately have "sub_inv sm'"
    using inv given by (auto simp: sub_inv_def fields(1,2) split: if_splits)
  with eq fields show thesis
    by (intro that[of sm'])
qed

lemma close_all_effect:
  assumes "distinct is" "\<forall>i\<in>set is. subs sm i \<noteq> None \<and> i \<notin> set (closed sm)"
  shows "close_all is sm =
    Ret (sm\<lparr>closed := rev is @ closed sm, subs := (\<lambda>i. if i \<in> set is then None else subs sm i)\<rparr>)"
  using assms
proof (induction "is" arbitrary: sm)
  case (Cons i "is")
  let ?sm = "sm\<lparr>closed := i # closed sm, subs := (subs sm)(i := None)\<rparr>"
  have "close_all is ?sm =
      Ret (?sm\<lparr>closed := rev is @ closed ?sm, subs := (\<lambda>j. if j \<in> set is then None else subs ?sm j)\<rparr>)"
    using Cons.prems by (intro Cons.IH) auto
  moreover have "(\<lambda>j. if j \<in> set is then None else subs ?sm j) = (\<lambda>j. if j \<in> set (i # is) then None else subs sm j)"
    by (auto simp: fun_eq_iff)
  moreover have "close_all (i # is) sm = close_all is ?sm"
    using Cons.prems by (simp add: close_done_def)
  ultimately show ?case
    by simp
qed simp

lemma CleanupConn_inv:
  assumes inv: "sub_inv sm"
  obtains sm' where "CleanupConn c sm = Ret sm'" "sub_inv sm'" "nextID sm' = nextID sm"
    "\<And>i. subs sm' i = (if i \<in> of_conn c sm then None else subs sm i)"
    "\<And>i. i \<in> set (closed sm') \<longleftrightarrow> i \<in> set (closed sm) \<or> i \<in> of_conn c sm"
proof (cases "connSubs sm c")
  case None
  then have "of_conn c sm = {}"
    using inv conn_tableD[of sm c] by (simp add: sub_inv_def)
  moreover have "CleanupConn c sm = Ret sm"
    using None by (simp add: CleanupConn_def)
  ultimately show thesis
    using inv that[of sm] by simp
next
  case (Some ids)
  have table: "conn_table_ok sm"
    using inv by (simp add: sub_inv_def)
  have ids: "distinct ids" "set ids = of_conn c sm"
    using conn_tableD[OF table, of c] Some by simp_all
  have known: "\<forall>i\<in>set ids. subs sm i \<noteq> None \<and> i \<notin> set (closed sm)"
    using inv by (auto simp: ids(2) of_conn_def sub_inv_def)
  define sm' where "sm' = sm\<lparr>closed := rev ids @ closed sm,
      subs := (\<lambda>i. if i \<in> of_conn c sm then None else subs sm i), connSubs := (connSubs sm)(c := None)\<rparr>"
  have eq: "CleanupConn c sm = Ret sm'"
    using close_all_effect[OF ids(1) known] by (simp add: CleanupConn_def Some sm'_def ids(2))
  have conns': "connSubs sm' = (connSubs sm)(c := None)"
    by (simp add: sm'_def)
  have of': "of_conn x sm' = (if x = c then {} else of_conn x sm)" for x
    by (auto simp: of_conn_def sm'_def)
  have "conn_table_ok sm'"
    by (intro conn_table_upd[OF table, of c]) (simp_all add: of' conns')
  moreover have "given_out sm' = given_out sm"
    by (simp add: given_out_def fun_eq_iff sm'_def)
  moreover have "given_out sm i" if "i \<in> of_conn c sm" for i
    using that inv by (auto simp: of_conn_def sub_inv_def)
  ultimately have "sub_inv sm'"
    using inv by (auto simp: sub_inv_def sm'_def ids(2) split: if_splits)
  with eq show thesis
    by (intro that[of sm']) (auto simp: sm'_def ids(2))
qed

subsection \<open>What a broadcast does\<close>

text \<open>
  \<open>notified\<close> relates the manager before and after the loop over the collected subscriptions.
\<close>

definition notified ::
  "('c \<Rightarrow> string \<Rightarrow> bool) \<Rightarrow> 'n \<Rightarrow> ('c, 'p) Subscription list \<Rightarrow> ('c, 'p) SubscriptionManager
   \<Rightarrow> ('c \<times> string \<times> 'n) list \<Rightarrow> ('c, 'p) SubscriptionManager \<Rightarrow> bool" where
  "notified write_ok data ss sm out sm' \<longleftrightarrow>
     sub_inv sm' \<and> nextID sm' = nextID sm \<and> distinct out \<and>
     (\<forall>i. subs sm' i = subs sm i \<or> subs sm' i = None) \<and> set (closed sm) \<subseteq> set
         (closed sm') \<and>
     (\<forall>i. subs sm i \<noteq> None \<and> subs sm' i = None \<longrightarrow> i \<in> set (closed
         sm')) \<and>
     (\<forall>n\<in>set out. \<exists>sub\<in>set ss. n = (sub_conn sub, sub_ID sub, data) \<and>
        write_ok (sub_conn sub) (sub_ID sub) \<and> sub_ID sub \<notin> set (closed sm)) \<and>
     (\<forall>sub\<in>set ss. sub_ID sub \<notin> set (closed sm') \<longrightarrow> (sub_conn sub,
         sub_ID sub, data) \<in> set out) \<and>
     (\<forall>i sub. subs sm i = Some sub \<and> subs sm' i = None \<longrightarrow>
        of_conn (sub_conn sub) sm' = {} \<and>
        (\<exists>s\<in>set ss. sub_conn s = sub_conn sub \<and> \<not> write_ok (sub_conn s) (sub_ID s)))"

lemma notified_after_cleanup:
  assumes n: "notified write_ok data ss sm1 out sm'"
    and sm1: "nextID sm1 = nextID sm"
      "\<And>i. subs sm1 i = (if i \<in> of_conn (sub_conn s) sm then None else subs sm i)"
      "\<And>i. i \<in> set (closed sm1) \<longleftrightarrow> i \<in> set (closed sm) \<or> i \<in> of_conn (sub_conn s) sm"
    and s: "subs sm (sub_ID s) = Some s" "\<not> write_ok (sub_conn s) (sub_ID s)"
  shows "notified write_ok data (s # ss) sm out sm'"
proof -
  let ?c = "sub_conn s"
  have keep: "\<forall>i. subs sm' i = subs sm1 i \<or> subs sm' i = None" "set (closed sm1) \<subseteq> set (closed sm')"
    using n by (simp_all add: notified_def)
  have now_closed: "i \<in> set (closed sm')" if "subs sm i \<noteq> None" "subs sm' i = None" for i
  proof (cases "i \<in> of_conn ?c sm")
    case False
    with that n sm1(2)[of i] show ?thesis
      unfolding notified_def by metis
  qed (use keep(2) sm1(3) in blast)
  have dropped: "of_conn (sub_conn sub) sm' = {} \<and>
      (\<exists>t\<in>set (s # ss). sub_conn t = sub_conn sub \<and> \<not> write_ok (sub_conn t) (sub_ID t))"
    if sub: "subs sm i = Some sub" "subs sm' i = None" for i sub
  proof (cases "i \<in> of_conn ?c sm")
    case True
    then have "sub_conn sub = ?c"
      using sub(1) by (simp add: of_conn_def)
    moreover have "of_conn ?c sm1 = {}"
      using sm1(2) by (auto simp: of_conn_def split: if_splits)
    moreover have "of_conn ?c sm' \<subseteq> of_conn ?c sm1"
    proof
      fix j assume "j \<in> of_conn ?c sm'"
      then show "j \<in> of_conn ?c sm1"
        using spec[OF keep(1), of j] by (auto simp: of_conn_def)
    qed
    ultimately show ?thesis
      using s(2) by simp
  next
    case False
    then have "subs sm1 i = Some sub"
      using sub(1) sm1(2) by simp
    with sub(2) n show ?thesis
      unfolding notified_def by (metis list.set_intros(2))
  qed
  have "sub_ID s \<in> set (closed sm')"
    using s(1) keep(2) sm1(3) by (auto simp: of_conn_def)
  moreover have "\<forall>i. subs sm' i = subs sm i \<or> subs sm' i = None"
    using keep(1) sm1(2) by metis
  moreover have "set (closed sm) \<subseteq> set (closed sm')"
    using keep(2) sm1(3) by blast
  moreover have "\<forall>i. subs sm i \<noteq> None \<and> subs sm' i = None \<longrightarrow> i \<in> set (closed sm')"
    using now_closed by blast
  moreover have "\<forall>m\<in>set out. \<exists>sub\<in>set (s # ss). m = (sub_conn sub, sub_ID sub, data) \<and>
      write_ok (sub_conn sub) (sub_ID sub) \<and> sub_ID sub \<notin> set (closed sm)"
    using n sm1(3) unfolding notified_def by (metis list.set_intros(2))
  moreover have "\<forall>i sub. subs sm i = Some sub \<and> subs sm' i = None \<longrightarrow>
      of_conn (sub_conn sub) sm' = {} \<and>
      (\<exists>t\<in>set (s # ss). sub_conn t = sub_conn sub \<and> \<not> write_ok (sub_conn t) (sub_ID t))"
    using dropped by blast
  ultimately show ?thesis
    using n sm1(1) unfolding notified_def by simp
qed

lemma notify_all_effect:
  assumes "sub_inv sm" "distinct (map sub_ID ss)"
    and "\<forall>sub\<in>set ss. sub_ID sub \<in> set (closed sm) \<or> subs sm (sub_ID sub) = Some sub"
  shows "\<exists>out sm'. notify_all write_ok data ss sm = Ret (out, sm') \<and> notified write_ok data ss sm out sm'"
  using assms
proof (induction ss arbitrary: sm)
  case Nil
  then show ?case
    by (auto simp: notified_def)
next
  case (Cons s ss)
  let ?c = "sub_conn s" and ?i = "sub_ID s"
  show ?case
  proof (cases "?i \<in> set (closed sm)")
    case True
    then show ?thesis
      using Cons.IH[of sm] Cons.prems by (fastforce simp: notified_def)
  next
    case False
    then have s: "subs sm ?i = Some s"
      using Cons.prems by simp
    show ?thesis
    proof (cases "write_ok ?c ?i")
      case True
      obtain out sm' where o: "notify_all write_ok data ss sm = Ret (out, sm')"
        and n: "notified write_ok data ss sm out sm'"
        using Cons.IH[of sm] Cons.prems by auto
      have "(?c, ?i, data) \<notin> set out"
        using n Cons.prems(2) by (fastforce simp: notified_def)
      moreover have "notify_all write_ok data (s # ss) sm = Ret ((?c, ?i, data) # out, sm')"
        using False True o by (simp add: sendNotification_def)
      ultimately show ?thesis
        using n True False by (intro exI[of _ "(?c, ?i, data) # out"] exI[of _ sm'])
          (force simp: notified_def)
    next
      case fail: False
      obtain sm1 where sm1: "CleanupConn ?c sm = Ret sm1" "sub_inv sm1" "nextID sm1 = nextID sm"
        "\<And>i. subs sm1 i = (if i \<in> of_conn ?c sm then None else subs sm i)"
        "\<And>i. i \<in> set (closed sm1) \<longleftrightarrow> i \<in> set (closed sm) \<or> i \<in> of_conn ?c sm"
        by (rule CleanupConn_inv[OF Cons.prems(1)]) (rule that)
      have i: "?i \<in> of_conn ?c sm"
        using s by (auto simp: of_conn_def)
      have "\<forall>sub\<in>set ss. sub_ID sub \<in> set (closed sm1) \<or> subs sm1 (sub_ID sub) = Some sub"
        using Cons.prems(3) by (auto simp: sm1(4,5))
      then obtain out sm' where o: "notify_all write_ok data ss sm1 = Ret (out, sm')"
        and n: "notified write_ok data ss sm1 out sm'"
        using Cons.IH[OF sm1(2)] Cons.prems(2) by auto
      have "notify_all write_ok data (s # ss) sm = Ret (out, sm')"
        using False fail sm1(1) o by (simp add: sendNotification_def)
      moreover have "notified write_ok data (s # ss) sm out sm'"
        by (rule notified_after_cleanup[OF n sm1(3-5) s fail])
      ultimately show ?thesis
        by blast
    qed
  qed
qed

subsection \<open>Runs\<close>

text \<open>The subscriptions collected for a broadcast.\<close>

lemma select_subs_mem:
  "sub \<in> set (select_subs ty order sm) \<longleftrightarrow> (\<exists>i\<in>set order. subs sm i = Some sub \<and> sub_Type sub = ty)"
  by (force simp: select_subs_def split: option.splits if_splits)

lemma select_subs_distinct:
  assumes "sub_inv sm" "distinct order"
  shows "distinct (map sub_ID (select_subs ty order sm))"
  using assms(2)
proof (induction order)
  case (Cons i order)
  have id: "sub_ID sub = j" if "subs sm j = Some sub" for j sub
    using assms(1) that by (simp add: sub_inv_def)
  have "select_subs ty (i # order) sm = select_subs ty [i] sm @ select_subs ty order sm"
    by (simp add: select_subs_def)
  moreover have "distinct (map sub_ID (select_subs ty [i] sm))" "sub_ID ` set (select_subs ty [i] sm) \<subseteq> {i}"
    by (auto simp: select_subs_def id split: option.splits if_splits)
  moreover have "i \<notin> sub_ID ` set (select_subs ty order sm)"
    using Cons.prems by (auto simp: select_subs_mem dest!: id)
  ultimately show ?case
    using Cons by auto
qed (simp add: select_subs_def)

lemma broadcast_effect:
  assumes "sub_inv sm" "distinct order"
  shows "\<exists>out sm'. notify_all write_ok data (select_subs ty order sm) sm = Ret (out, sm') \<and>
           notified write_ok data (select_subs ty order sm) sm out sm'"
proof (rule notify_all_effect[OF assms(1) select_subs_distinct[OF assms]])
  show "\<forall>sub\<in>set (select_subs ty order sm). sub_ID sub \<in> set (closed sm) \<or> subs sm (sub_ID sub) = Some sub"
    using assms(1) by (auto simp: select_subs_mem sub_inv_def)
qed

text \<open>What a broadcast delivers, in terms of the table.\<close>

lemma selected_iff:
  assumes "set order = dom (subs sm)"
  shows "sub \<in> set (select_subs ty order sm) \<longleftrightarrow> (\<exists>i. subs sm i = Some sub \<and> sub_Type sub = ty)"
  using assms by (auto simp: select_subs_mem)

lemma sub_inv_id: "sub_inv sm \<Longrightarrow> subs sm i = Some sub \<Longrightarrow> sub_ID sub = i"
  by (simp add: sub_inv_def)

lemma delivered_to_open:
  assumes n: "notified write_ok data (select_subs ty order sm) sm out sm'"
    and inv: "sub_inv sm" and order: "set order = dom (subs sm)" and m: "m \<in> set out"
  shows "\<exists>i sub. subs sm i = Some sub \<and> sub_Type sub = ty \<and> m = (sub_conn sub, i, data) \<and> write_ok (sub_conn sub) i"
proof -
  obtain sub where "sub \<in> set (select_subs ty order sm)" "m = (sub_conn sub, sub_ID sub, data)"
    "write_ok (sub_conn sub) (sub_ID sub)"
    using n m unfolding notified_def by blast
  then show ?thesis
    using sub_inv_id[OF inv] by (auto simp: selected_iff[OF order])
qed

lemma open_got_it:
  assumes n: "notified write_ok data (select_subs ty order sm) sm out sm'"
    and inv: "sub_inv sm" and order: "set order = dom (subs sm)"
    and s: "subs sm' i = Some sub" "sub_Type sub = ty"
  shows "(sub_conn sub, i, data) \<in> set out"
proof -
  have "subs sm' i = subs sm i \<or> subs sm' i = None" "sub_inv sm'"
    using n by (simp_all add: notified_def)
  then have "subs sm i = Some sub" "sub_ID sub = i \<and> i \<notin> set (closed sm')"
    using s(1) unfolding sub_inv_def by (simp, blast)
  moreover have "sub \<in> set (select_subs ty order sm)"
    using calculation(1) s(2) by (auto simp: selected_iff[OF order])
  ultimately show ?thesis
    using n unfolding notified_def by blast
qed

lemma dropped_by_failure:
  assumes n: "notified write_ok data (select_subs ty order sm) sm out sm'"
    and inv: "sub_inv sm" and order: "set order = dom (subs sm)"
    and open_i: "subs sm i = Some sub" and gone: "subs sm' i \<noteq> Some sub"
  shows "of_conn (sub_conn sub) sm' = {} \<and>
         (\<exists>j s. subs sm j = Some s \<and> sub_conn s = sub_conn sub \<and> \<not> write_ok (sub_conn s) j)"
proof -
  have "subs sm' i = subs sm i \<or> subs sm' i = None"
    using n by (simp add: notified_def)
  then have "subs sm' i = None"
    using open_i gone by auto
  then obtain s where s: "s \<in> set (select_subs ty order sm)" "sub_conn s = sub_conn sub"
    "\<not> write_ok (sub_conn s) (sub_ID s)" "of_conn (sub_conn sub) sm' = {}"
    using n open_i unfolding notified_def by blast
  then obtain j where j: "subs sm j = Some s"
    by (auto simp: selected_iff[OF order])
  with s(3) sub_inv_id[OF inv j] have "\<not> write_ok (sub_conn s) j"
    by simp
  with s(2,4) j show ?thesis
    by blast
qed

datatype ('c, 'p, 'n) sub_op =
    OpSubscribe string 'p 'c
  | OpUnsubscribe string
  | OpCleanup 'c
  | OpHead "'c \<Rightarrow> string \<Rightarrow> bool" "string list" 'n
  | OpPending "'c \<Rightarrow> string \<Rightarrow> bool" "string list" 'n

fun sub_step :: "('c, 'p, 'n) sub_op \<Rightarrow> ('c, 'p) SubscriptionManager \<Rightarrow> ('c, 'p) SubscriptionManager outcome" where
  "sub_step (OpSubscribe ty params conn) sm = Ret (snd (Subscribe ty params conn sm))"
| "sub_step (OpUnsubscribe i) sm =
     (case Unsubscribe i sm of Ret (_, sm') \<Rightarrow> Ret sm' | Err e \<Rightarrow> Err e | Panic \<Rightarrow> Panic)"
| "sub_step (OpCleanup conn) sm = CleanupConn conn sm"
| "sub_step (OpHead write_ok order head) sm =
     (case BroadcastNewHead write_ok order head sm of Ret (_, sm') \<Rightarrow> Ret sm' | Err e \<Rightarrow> Err e | Panic \<Rightarrow> Panic)"
| "sub_step (OpPending write_ok order txHash) sm =
     (case BroadcastPendingTx write_ok order txHash sm of Ret (_, sm') \<Rightarrow> Ret sm' | Err e \<Rightarrow> Err e | Panic \<Rightarrow> Panic)"

fun sub_run :: "('c, 'p, 'n) sub_op list \<Rightarrow> ('c, 'p) SubscriptionManager \<Rightarrow> ('c, 'p) SubscriptionManager outcome" where
  "sub_run [] sm = Ret sm"
| "sub_run (op # ops) sm =
     (case sub_step op sm of Ret sm' \<Rightarrow> sub_run ops sm' | Err e \<Rightarrow> Err e | Panic \<Rightarrow> Panic)"

text \<open>A Go map is iterated over without repetitions.\<close>

fun op_ok :: "('c, 'p, 'n) sub_op \<Rightarrow> bool" where
  "op_ok (OpHead _ order _) \<longleftrightarrow> distinct order"
| "op_ok (OpPending _ order _) \<longleftrightarrow> distinct order"
| "op_ok _ \<longleftrightarrow> True"

fun is_subscribe :: "('c, 'p, 'n) sub_op \<Rightarrow> bool" where
  "is_subscribe (OpSubscribe _ _ _) = True"
| "is_subscribe _ = False"

lemma sub_step_inv:
  assumes "sub_inv sm" "op_ok op" "nextID sm \<noteq> -1"
  shows "\<exists>sm'. sub_step op sm = Ret sm' \<and> sub_inv sm' \<and>
           nextID sm' = nextID sm + (if is_subscribe op then 1 else 0)"
proof (cases op)
  case (OpSubscribe ty params conn)
  then show ?thesis
    using Subscribe_inv(1,2)[OF assms(1,3), of ty params conn "fst (Subscribe ty params conn sm)"
        "snd (Subscribe ty params conn sm)"] by simp
next
  case (OpUnsubscribe i)
  show ?thesis
  proof (cases "subs sm i")
    case None
    then show ?thesis
      using OpUnsubscribe assms(1) by (simp add: Unsubscribe_unknown)
  next
    case (Some sub)
    obtain sm' where "Unsubscribe i sm = Ret (True, sm')" "sub_inv sm'" "nextID sm' = nextID sm"
      by (rule Unsubscribe_inv[OF assms(1) Some])
    then show ?thesis
      using OpUnsubscribe by simp
  qed
next
  case (OpCleanup conn)
  obtain sm' where "CleanupConn conn sm = Ret sm'" "sub_inv sm'" "nextID sm' = nextID sm"
    by (rule CleanupConn_inv[OF assms(1)])
  then show ?thesis
    using OpCleanup by simp
next
  case (OpHead write_ok order head)
  then show ?thesis
    using broadcast_effect[OF assms(1), of order write_ok head SubNewHeads] assms(2)
    by (auto simp: BroadcastNewHead_def notified_def)
next
  case (OpPending write_ok order txHash)
  then show ?thesis
    using broadcast_effect[OF assms(1), of order write_ok txHash SubNewPendingTransactions] assms(2)
    by (auto simp: BroadcastPendingTx_def notified_def)
qed

lemma sub_run_inv:
  assumes "sub_inv sm" "list_all op_ok ops"
    and "unat (nextID sm) + length (filter is_subscribe ops) < 2 ^ 64 - 1"
  shows "\<exists>sm'. sub_run ops sm = Ret sm' \<and> sub_inv sm'"
  using assms
proof (induction ops arbitrary: sm)
  case (Cons op ops)
  have "unat (nextID sm) < 18446744073709551615"
    using Cons.prems(3) by simp
  moreover have "unat (-1 :: u64) = 18446744073709551615"
    by code_simp
  ultimately have no_wrap: "nextID sm \<noteq> -1"
    by force
  obtain sm1 where sm1: "sub_step op sm = Ret sm1" "sub_inv sm1"
    "nextID sm1 = nextID sm + (if is_subscribe op then 1 else 0)"
    using sub_step_inv[OF Cons.prems(1) _ no_wrap, of op] Cons.prems(2) by auto
  have "unat (nextID sm + 1) = unat (nextID sm) + 1"
    using unat_add_no_wrap[of "nextID sm" 1] \<open>unat (nextID sm) < 18446744073709551615\<close> by simp
  then have "unat (nextID sm1) + length (filter is_subscribe ops) < 2 ^ 64 - 1"
    using Cons.prems(3) sm1(3) by (auto split: if_splits)
  then show ?case
    using Cons.IH[OF sm1(2)] Cons.prems(2) sm1(1) by simp
qed simp

end
