(* ===== verification/Queries.thy ===== *)
theory Queries
  imports Evm Subscriptions
begin

text \<open>
  Reads of the state that the RPC server offers: the statistics of \<^verbatim>\<open>evm/stats_read.go\<close> and the
  economic indicators of \<^verbatim>\<open>evm/econo_loop.go\<close>; and \<^verbatim>\<open>deployContract\<close> of \<^verbatim>\<open>evm/deploy.go\<close>, which
  derives the address of a new contract from a hand-written RLP encoding (nothing calls it).
  JSON values are the datatype \<open>json\<close>; an object lists its members in the order of their keys, a
  number is the text that \<^verbatim>\<open>fmt\<close> prints for it.
\<close>

datatype json =
    JNull
  | JBool bool
  | JNum string
  | JStr string
  | JArr "json list"
  | JObj "(string \<times> json) list"

definition JNat :: "nat \<Rightarrow> json" where "JNat n = JNum (dec_string n)"

definition hex0x :: "nat \<Rightarrow> string" where "hex0x n = ''0x'' @ hex_string n"

subsection \<open>Statistics\<close>

definition GetTwoWayStats :: "World \<Rightarrow> (nat \<times> nat) \<times> World" where
  "GetTwoWayStats w0 =
     (let w = touch w0 vault_addr in
      ((readBigInt (sload w vault_addr (storageKey (bytes_of_string ''vaultCount''))),
        readBigInt (sload w vault_addr totalDebtKey)), w))"

definition GetBridgeStats :: "World \<Rightarrow> (nat \<times> nat) \<times> World" where
  "GetBridgeStats w0 =
     (let w = touch w0 btc_addr in
      ((readBigInt (sload w btc_addr (writeUint64 0)), readBigInt (sload w btc_addr (writeUint64 1))), w))"

definition Get1WayTotalSupply :: "World \<Rightarrow> nat \<times> World" where
  "Get1WayTotalSupply w0 =
     (let w = touch w0 way_addr in
      (foldl (\<lambda>total (k, v). if length k = 32 \<and> k ! 0 = WaySlotVault1Way then total +
      readBigInt v else total)
         0 (Storage (acct w way_addr)), w))"

text \<open>
  The loop runs to \<^verbatim>\<open>count.Int64()\<close>, the low 64 bits of the stored count read as a signed
  number. An index without an id and an id without a record are skipped.
\<close>

definition list_proposal :: "World \<Rightarrow> nat \<Rightarrow> json list" where
  "list_proposal w i =
     (let idSlot = sload w gov_addr (storageKey (bytes_of_string ''pid_'' @ bytes_of_string (dec_string
         i))) in
      if idSlot = zero_slot then []
      else
        let propSlot = sload w gov_addr (govProposalKey idSlot) in
        if propSlot = zero_slot then []
        else [JObj [(''id'', JStr (''0x'' @ hex_encode idSlot)),
                    (''status'', JNat (unat (propSlot ! 1))),
                    (''titleHash'', JStr (''0x'' @ hex_encode (slice 2 32 propSlot))),
                    (''voteType'', JNat (unat (propSlot ! 0)))]])"

definition GovernanceListProposals :: "World \<Rightarrow> json \<times> World" where
  "GovernanceListProposals w0 =
     (let w = touch w0 gov_addr;
          count = readBigInt (sload w gov_addr proposalCountKey);
          n = nat (sint (of_nat count :: 64 word)) in
      (JArr (concat (map (list_proposal w) [0..<n])), w))"

subsection \<open>Economic indicators\<close>

text \<open>
  The loop over the accounts, in the order \<open>order\<close>. The slot that marks a verified task is
  looked up in the storage of the account itself.
\<close>

definition holds_value :: "Account \<Rightarrow> bool" where
  "holds_value acc \<longleftrightarrow> 0 < Balance acc \<or> Code acc \<noteq> []"

definition takes_tasks :: "string \<Rightarrow> Account \<Rightarrow> bool" where
  "takes_tasks addr acc \<longleftrightarrow>
     (case map_of (Storage acc) (storageKey (0x10 # bytes_of_string addr)) of
        None \<Rightarrow> False
      | Some v \<Rightarrow> v ! 31 = 2)"

definition EconoEmploymentBps :: "string list \<Rightarrow> World \<Rightarrow> u64" where
  "EconoEmploymentBps order w =
     (let accs = List.map_filter (\<lambda>a. map_option (\<lambda>acc. (a, acc)) (Accounts w a)) order;
          total = length (filter (holds_value \<circ> snd) accs);
          active = length (filter (\<lambda>(a, acc). takes_tasks a acc) accs) in
      if total = 0 then 0 else of_nat active * 10000 div of_nat total)"

definition GetEconoIndicators :: "string list \<Rightarrow> World \<Rightarrow> json outcome" where
  "GetEconoIndicators order w =
     (case EconoVelocityBps w of
        Ret velocity \<Rightarrow>
          let snap = econoSnap w; num = JNat \<circ> (unat :: u64 \<Rightarrow> nat) in
          Ret (JObj [(''employmentBps'', num (EconoEmploymentBps order w)),
                     (''gdpEquivalent'', num (EconoGBPEquiv w)),
                     (''grossBlockchainProduct'', num (GBP snap)),
                     (''mrtClaimsVerified'', num (MRTClaims snap)),
                     (''mrtPaidWeighted'', num (MRTPaid snap)),
                     (''phase'', JNat (unat (snap_Phase snap))),
                     (''phaseLabel'', JStr (phaseName (snap_Phase snap))),
                     (''rentPaid'', num (RentPaid snap)),
                     (''storageStaked'', num (StorageStaked snap)),
                     (''velocityBps'', num velocity),
                     (''windowBlocks'', num EconoWindowBlocks),
                     (''windowStart'', num (WindowStart snap)),
                     (''yieldSpreadBps'', num (EconoYieldSpreadBps w))])
      | Err e \<Rightarrow> Err e
      | Panic \<Rightarrow> Panic)"

definition GetEconoPolicy :: "World \<Rightarrow> EconoPolicy" where
  "GetEconoPolicy w = econoPolicy w"

subsection \<open>Contract creation\<close>

definition create_rlp :: "bytes \<Rightarrow> u64 \<Rightarrow> bytes" where
  "create_rlp deployerAddr nonce =
     (if nonce < 56 then [0xc0 + 22, 0x80 + 20] @ deployerAddr @ [ucast nonce]
      else
        let nonceBytes = big_bytes (unat nonce); itemLen = 1 + 20 + 1 + length nonceBytes in
        [0xc0 + of_nat itemLen, 0x80 + 20] @ deployerAddr @ [0x80 + of_nat (length nonceBytes)] @ nonceBytes)"

definition deployContract ::
  "sig_verify \<Rightarrow> Host \<Rightarrow> revm \<Rightarrow> EVM \<Rightarrow> CallContext \<Rightarrow> World \<Rightarrow> ExecutionResult outcome \<times> World" where
  "deployContract V H revm_execute evm ctx w0 =
     (let w = touch w0 (ctx_Caller ctx);
          nonce = Nonce (acct w (ctx_Caller ctx));
          deployerAddr = take 20 (sha256 (bytes_of_string (ctx_Caller ctx)));
          addrHash = keccakBytes H (create_rlp deployerAddr nonce);
          contractAddr = hex_encode (drop 12 addrHash);
          initCtx = \<lparr>ctx_Caller = ctx_Caller ctx, ctx_Address = contractAddr, ctx_Value =
          ctx_Value ctx,
                     ctx_GasLimit = ctx_GasLimit ctx, ctx_Calldata = ctx_Calldata ctx, ctx_ReadOnly =
                     False\<rparr> in
      case Execute V H revm_execute evm initCtx w of
        (Ret result, w1) \<Rightarrow>
          if er_Error result = None \<and> ReturnData result \<noteq> []
          then (Ret result, upd_acct w1 contractAddr
                  (\<lambda>acc. acc\<lparr>Code := ReturnData result, CodeHash := sha256 (ReturnData
                  result)\<rparr>))
          else (Ret result, w1)
      | (r, w1) \<Rightarrow> (r, w1))"

subsection \<open>Facts\<close>

text \<open>The query for the stablecoin's supply agrees with the contract's own answer.\<close>

lemma Get1WayTotalSupply_way_supply:
  "fst (Get1WayTotalSupply w) = way_supply (acct w way_addr)"
proof -
  have "foldl (\<lambda>total (k, v). if length k = 32 \<and> k ! 0 = WaySlotVault1Way then total + readBigInt v else total) n st
      = n + sum_list (map (readBigInt \<circ> snd) (filter (\<lambda>(k, v). length k = 32 \<and> k ! 0 = WaySlotVault1Way) st))"
    for n st
  proof (induction st arbitrary: n)
    case (Cons kv st)
    then show ?case
      by (cases kv) simp
  qed simp
  then show ?thesis
    by (simp add: Get1WayTotalSupply_def way_supply_def Let_def)
qed

text \<open>
  The RLP encoding of the list of a 20-byte string and a number, for lists of fewer than 56 bytes:
  the number is the string of its big-endian bytes, and a one-byte string below \<open>0x80\<close> stands for
  itself.
\<close>

fun rlp_string :: "bytes \<Rightarrow> bytes" where
  "rlp_string [b] = (if b < 0x80 then [b] else [0x81, b])"
| "rlp_string bs = (0x80 + of_nat (length bs)) # bs"

definition rlp_list :: "bytes list \<Rightarrow> bytes" where
  "rlp_list items = (let payload = concat (map rlp_string items) in (0xc0 + of_nat (length payload)) # payload)"

definition rlp_create_spec :: "bytes \<Rightarrow> u64 \<Rightarrow> bytes" where
  "rlp_create_spec addr nonce = rlp_list [addr, big_bytes (unat nonce)]"

lemma big_bytes_single: "0 < n \<Longrightarrow> n < 256 \<Longrightarrow> big_bytes n = [of_nat n]"
  by (simp add: big_bytes.simps[of n] big_bytes.simps[of 0])

lemma rlp_string_long: "length bs \<noteq> 1 \<Longrightarrow> rlp_string bs = (0x80 + of_nat (length bs)) # bs"
  by (cases bs rule: rlp_string.cases) simp_all

definition nonce_item :: "u64 \<Rightarrow> bytes" where
  "nonce_item nonce =
     (if nonce < 56 then [ucast nonce]
      else (0x80 + of_nat (length (big_bytes (unat nonce)))) # big_bytes (unat nonce))"

lemma nonce_item_spec:
  "nonce_item nonce = rlp_string (big_bytes (unat nonce)) \<longleftrightarrow> nonce \<noteq> 0 \<and> (nonce < 56 \<or> 128 \<le> nonce)"
proof -
  let ?n = "unat nonce"
  have less: "(nonce < 56) = (?n < 56)" "(128 \<le> nonce) = (128 \<le> ?n)" "(nonce = 0) = (?n = 0)"
    by (simp_all add: word_less_nat_alt word_le_nat_alt unat_eq_0)
  have byte: "(ucast nonce :: u8) = of_nat ?n" "(of_nat ?n :: u8) < 0x80 \<longleftrightarrow> ?n < 128" if "?n < 256"
    using that by (simp_all add: word_less_nat_alt unsigned_ucast_eq take_bit_nat_eq_self)
  consider "?n = 0" | "0 < ?n" "?n < 56" | "56 \<le> ?n" "?n < 128" | "128 \<le> ?n" "?n < 256" | "256 \<le> ?n"
    by linarith
  then show ?thesis
  proof cases
    case 1
    then have "nonce = 0"
      by (simp add: unat_eq_0)
    then show ?thesis
      by (simp add: nonce_item_def big_bytes.simps[of 0])
  next
    case 5
    then have "1 < length (big_bytes ?n)"
      using le_length_big_bytes[of 1 ?n] by simp
    with 5 show ?thesis
      unfolding less by (simp add: nonce_item_def less rlp_string_long)
  next
    case 2
    then have "rlp_string (big_bytes ?n) = [of_nat ?n]"
      using byte(2) by (simp add: big_bytes_single del: of_nat_unat)
    with 2 show ?thesis
      unfolding less by (simp only: nonce_item_def less byte(1)) simp
  next
    case 3
    then have "rlp_string (big_bytes ?n) = [of_nat ?n]" "length (big_bytes ?n) = 1"
      using byte(2) by (simp_all add: big_bytes_single del: of_nat_unat)
    with 3 show ?thesis
      unfolding less by (auto simp: nonce_item_def less)
  next
    case 4
    then have "rlp_string (big_bytes ?n) = [0x81, of_nat ?n]" "big_bytes ?n = [of_nat ?n]"
      using byte(2) by (simp_all add: big_bytes_single del: of_nat_unat)
    with 4 show ?thesis
      unfolding less by (simp add: nonce_item_def less)
  qed
qed

text \<open>
  The encoder agrees with RLP except for nonce 0, which it writes as a zero byte, and for the
  nonces from 56 to 127, to which it gives a length prefix.
\<close>

lemma create_rlp_spec:
  assumes "length addr = 20"
  shows "create_rlp addr nonce = rlp_create_spec addr nonce \<longleftrightarrow> nonce \<noteq> 0 \<and> (nonce < 56 \<or> 128 \<le> nonce)"
proof -
  have "rlp_string addr = 0x94 # addr"
    using assms by (simp add: rlp_string_long)
  then have "rlp_create_spec addr nonce =
      (0xc0 + of_nat (21 + length (rlp_string (big_bytes (unat nonce))))) # 0x94 # addr @ rlp_string (big_bytes (unat nonce))"
    using assms by (simp add: rlp_create_spec_def rlp_list_def Let_def)
  moreover have "create_rlp addr nonce = (0xc0 + of_nat (21 + length (nonce_item nonce))) # 0x94 # addr @ nonce_item nonce"
    by (simp add: create_rlp_def nonce_item_def Let_def)
  ultimately have "create_rlp addr nonce = rlp_create_spec addr nonce \<longleftrightarrow>
      nonce_item nonce = rlp_string (big_bytes (unat nonce))"
    by auto
  then show ?thesis
    by (simp only: nonce_item_spec)
qed

end
