(* ===== verification/Store.thy ===== *)
theory Store
  imports Chain "HOL-Library.List_Lexorder"
begin

text \<open>
  The persistent store (\<^verbatim>\<open>store/store.go\<close>) and the part of \<^verbatim>\<open>chain.go\<close> that uses it: saving the
  accounts, the block records, the transactions and their index after every block, and loading
  them at the start of a process.

  The database library and the value encoding are not part of the sources; they are the
  arguments \<open>B\<close> and \<open>G\<close> of the definitions. \<open>bolt\<close> collects the operations of \<^verbatim>\<open>bbolt\<close> that the
  code calls, \<open>bolt_laws\<close> what their documentation promises: a bucket is a map from non-empty
  keys to values, enumerated in byte order, and writing fails for an empty key. \<open>gob_laws\<close> says
  that \<^verbatim>\<open>encoding/gob\<close> decodes what it encoded; the size at which it refuses a message (eight
  gigabytes on a 64-bit machine) lies above what the database accepts as a value. Committing a
  transaction may fail; nothing is promised about that.
\<close>

subsection \<open>The database library\<close>

record 'd bolt =
  b_has :: "'d \<Rightarrow> string \<Rightarrow> bool"
  b_get :: "'d \<Rightarrow> string \<Rightarrow> bytes \<Rightarrow> bytes option"
  b_put :: "'d \<Rightarrow> string \<Rightarrow> bytes \<Rightarrow> bytes \<Rightarrow> 'd outcome"
  b_create :: "'d \<Rightarrow> string \<Rightarrow> 'd outcome"
  b_items :: "'d \<Rightarrow> string \<Rightarrow> (bytes \<times> bytes) list"
  b_commit :: "'d \<Rightarrow> go_error option"

definition put_law :: "'d bolt \<Rightarrow> bool" where
  "put_law B \<longleftrightarrow>
     (\<forall>d n k v. b_put B d n k v \<noteq> Panic) \<and>
     (\<forall>d n k v d'. b_put B d n k v = Ret d' \<longrightarrow>
        b_has B d' = b_has B d \<and>
        (\<forall>m j. b_get B d' m j = (if m = n \<and> j = k then Some v else b_get B d m j)))"

definition put_succeeds_law :: "'d bolt \<Rightarrow> bool" where
  "put_succeeds_law B \<longleftrightarrow>
     (\<forall>d n k v. b_has B d n \<and> k \<noteq> [] \<and> length k \<le> 32768 \<and> length v
         \<le> 2147483646 \<longrightarrow>
        (\<exists>d'. b_put B d n k v = Ret d'))"

definition put_empty_law :: "'d bolt \<Rightarrow> bool" where
  "put_empty_law B \<longleftrightarrow> (\<forall>d n v. b_put B d n [] v = Err (Errorf ''key required''))"

definition create_law :: "'d bolt \<Rightarrow> bool" where
  "create_law B \<longleftrightarrow>
     (\<forall>d n. n \<noteq> [] \<longrightarrow>
        (\<exists>d'. b_create B d n = Ret d' \<and> b_get B d' = b_get B d \<and>
              b_has B d' = (b_has B d)(n := True)))"

definition items_law :: "'d bolt \<Rightarrow> bool" where
  "items_law B \<longleftrightarrow>
     (\<forall>d n. sorted_wrt (<) (map fst (b_items B d n)) \<and> map_of (b_items B d n) = b_get B d n)"

definition bolt_laws :: "'d bolt \<Rightarrow> bool" where
  "bolt_laws B \<longleftrightarrow>
     put_law B \<and> put_succeeds_law B \<and> put_empty_law B \<and> create_law B \<and> items_law B"

text \<open>
  \<^verbatim>\<open>db.Update(f)\<close>: the writes of \<open>f\<close> become visible together, when \<open>f\<close> returns no error and the
  commit succeeds; otherwise the database is as before.
\<close>

definition Update :: "'d bolt \<Rightarrow> 'd \<Rightarrow> ('d \<Rightarrow> 'd outcome) \<Rightarrow> unit outcome \<times> 'd" where
  "Update B d f =
     (case f d of
        Ret d' \<Rightarrow> (case b_commit B d' of None \<Rightarrow> (Ret (), d') | Some e
        \<Rightarrow> (Err e, d))
      | Err e \<Rightarrow> (Err e, d)
      | Panic \<Rightarrow> (Panic, d))"

text \<open>\<^verbatim>\<open>tx.Bucket(name)\<close> is nil when there is no such bucket; a call on it panics.\<close>

definition bucket_put :: "'d bolt \<Rightarrow> string \<Rightarrow> bytes \<Rightarrow> bytes \<Rightarrow> 'd \<Rightarrow> 'd outcome" where
  "bucket_put B n k v d = (if b_has B d n then b_put B d n k v else Panic)"

definition and_then :: "'a outcome \<Rightarrow> ('a \<Rightarrow> 'b outcome) \<Rightarrow> 'b outcome" where
  "and_then r f = (case r of Ret x \<Rightarrow> f x | Err e \<Rightarrow> Err e | Panic \<Rightarrow> Panic)"

lemma and_then_simps [simp]:
  "and_then (Ret x) f = f x" "and_then (Err e) f = Err e" "and_then Panic f = Panic"
  by (simp_all add: and_then_def)

lemma and_then_Ret_iff: "and_then r f = Ret y \<longleftrightarrow> (\<exists>x. r = Ret x \<and> f x = Ret y)"
  by (cases r) simp_all

subsection \<open>Records on disk\<close>

record serializedAccount =
  sa_Nonce :: u64
  sa_Balance :: bytes
  sa_CodeHash :: slot
  sa_Code :: bytes
  sa_StorageKeys :: "slot list"
  sa_StorageVals :: "slot list"
  sa_ContractClass :: u8
  sa_DoxDevLevel :: u8
  sa_StateRentPaid :: bytes
  sa_LastRentPayment :: u64

record BlockData =
  bd_Height :: u64
  bd_Proposer :: string
  bd_TxCount :: int
  bd_Hash :: bytes
  bd_PrevHash :: bytes
  bd_StateRef :: string

record NodeInfo =
  ni_ID :: string
  ni_ListenAddr :: string
  ni_RPCAddr :: string
  ni_NodeKey :: bytes

record TxData =
  td_Nonce :: u64
  td_From :: string
  td_To :: string
  td_Value :: bytes
  td_GasLimit :: u64
  td_GasPrice :: u64
  td_GasUsed :: u64
  td_Data :: bytes
  td_Hash :: bytes
  td_Signature :: bytes

record gob =
  enc_account :: "serializedAccount \<Rightarrow> bytes outcome"
  dec_account :: "bytes \<Rightarrow> serializedAccount outcome"
  enc_block :: "BlockData \<Rightarrow> bytes outcome"
  dec_block :: "bytes \<Rightarrow> BlockData outcome"
  enc_node :: "NodeInfo \<Rightarrow> bytes outcome"
  dec_node :: "bytes \<Rightarrow> NodeInfo outcome"
  enc_txs :: "TxData list \<Rightarrow> bytes outcome"
  dec_txs :: "bytes \<Rightarrow> TxData list outcome"

definition codec_law :: "('a \<Rightarrow> bytes outcome) \<Rightarrow> (bytes \<Rightarrow> 'a outcome) \<Rightarrow> bool" where
  "codec_law enc dec \<longleftrightarrow> (\<forall>x. \<exists>bs. enc x = Ret bs \<and> dec bs = Ret x)"

definition gob_laws :: "gob \<Rightarrow> bool" where
  "gob_laws G \<longleftrightarrow>
     codec_law (enc_account G) (dec_account G) \<and> codec_law (enc_block G) (dec_block G) \<and>
     codec_law (enc_node G) (dec_node G) \<and> codec_law (enc_txs G) (dec_txs G)"

text \<open>\<^verbatim>\<open>Bytes()\<close> drops the sign of a number; the range over the storage map is in list order.\<close>

definition account_data :: "Account \<Rightarrow> serializedAccount" where
  "account_data acc =
     \<lparr>sa_Nonce = Nonce acc, sa_Balance = big_bytes (nat \<bar>Balance acc\<bar>), sa_CodeHash =
         CodeHash acc,
      sa_Code = Code acc, sa_StorageKeys = map fst (Storage acc),
      sa_StorageVals = map snd (Storage acc), sa_ContractClass = ContractClass acc,
      sa_DoxDevLevel = DoxDevLevel acc, sa_StateRentPaid = big_bytes (nat \<bar>StateRentPaid acc\<bar>),
      sa_LastRentPayment = LastRentPayment acc\<rparr>"

definition serializeAccount :: "gob \<Rightarrow> Account \<Rightarrow> bytes outcome" where
  "serializeAccount G acc = enc_account G (account_data acc)"

definition data_account :: "serializedAccount \<Rightarrow> Account" where
  "data_account sa =
     NewAccount\<lparr>Nonce := sa_Nonce sa, Balance := int (be_nat (sa_Balance sa)),
       CodeHash := sa_CodeHash sa, Code := sa_Code sa, ContractClass := sa_ContractClass sa,
       DoxDevLevel := sa_DoxDevLevel sa, StateRentPaid := int (be_nat (sa_StateRentPaid sa)),
       LastRentPayment := sa_LastRentPayment sa,
       Storage := foldl (\<lambda>m (k, v). AList.update k v m) []
         (zip (sa_StorageKeys sa) (sa_StorageVals sa))\<rparr>"

definition deserializeAccount :: "gob \<Rightarrow> bytes \<Rightarrow> Account outcome" where
  "deserializeAccount G data = and_then (dec_account G data) (\<lambda>sa. Ret (data_account sa))"

subsection \<open>Opening\<close>

record 'd Store =
  s_db :: 'd
  s_path :: string
  s_height :: u64

fun create_buckets :: "'d bolt \<Rightarrow> string list \<Rightarrow> 'd \<Rightarrow> 'd outcome" where
  "create_buckets B [] d = Ret d"
| "create_buckets B (n # ns) d = and_then (b_create B d n) (create_buckets B ns)"

definition read_height :: "'d bolt \<Rightarrow> 'd \<Rightarrow> u64" where
  "read_height B d =
     (case b_get B d ''meta'' (bytes_of_string ''height'') of
        Some v \<Rightarrow> if length v = 8 then be64 v else 0
      | None \<Rightarrow> 0)"

text \<open>
  \<open>mkdir\<close> is the result of \<^verbatim>\<open>os.MkdirAll\<close> and \<open>opened\<close> that of \<^verbatim>\<open>bbolt.Open\<close>: the database in
  the file, or an error.
\<close>

definition Open :: "'d bolt \<Rightarrow> go_error option \<Rightarrow> 'd outcome \<Rightarrow> string \<Rightarrow> 'd Store outcome" where
  "Open B mkdir opened path =
     (case mkdir of
        Some _ \<Rightarrow> Err (Errorf ''store: mkdir'')
      | None \<Rightarrow>
          (case opened of
             Ret d \<Rightarrow>
               (case Update B d (create_buckets B [''accounts'', ''blocks'', ''meta'', ''node'']) of
                  (Ret _, d') \<Rightarrow> Ret \<lparr>s_db = d', s_path = path, s_height = read_height
                  B d'\<rparr>
                | (Err _, _) \<Rightarrow> Err (Errorf ''store: init buckets'')
                | (Panic, _) \<Rightarrow> Panic)
           | Err _ \<Rightarrow> Err (Errorf ''store: open'')
           | Panic \<Rightarrow> Panic))"

definition Store_Path :: "'d Store \<Rightarrow> string" where "Store_Path s = s_path s"

definition Store_Height :: "'d Store \<Rightarrow> u64" where "Store_Height s = s_height s"

definition store_update ::
  "'d bolt \<Rightarrow> 'd Store \<Rightarrow> ('d \<Rightarrow> 'd outcome) \<Rightarrow> unit outcome \<times> 'd Store" where
  "store_update B s f = (let (r, d) = Update B (s_db s) f in (r, s\<lparr>s_db := d\<rparr>))"

subsection \<open>Accounts\<close>

definition SaveAccount ::
  "'d bolt \<Rightarrow> gob \<Rightarrow> string \<Rightarrow> Account \<Rightarrow> 'd Store \<Rightarrow> unit outcome \<times> 'd Store" where
  "SaveAccount B G addr acc s =
     store_update B s (\<lambda>d. and_then (serializeAccount G acc)
       (\<lambda>data. bucket_put B ''accounts'' (bytes_of_string addr) data d))"

definition LoadAccount :: "'d bolt \<Rightarrow> gob \<Rightarrow> string \<Rightarrow> 'd Store \<Rightarrow> Account option outcome" where
  "LoadAccount B G addr s =
     (if \<not> b_has B (s_db s) ''accounts'' then Panic
      else
        case b_get B (s_db s) ''accounts'' (bytes_of_string addr) of
          None \<Rightarrow> Ret None
        | Some data \<Rightarrow> and_then (deserializeAccount G data) (\<lambda>acc. Ret (Some acc)))"

text \<open>The loop over \<^verbatim>\<open>state.Accounts\<close>, in the order given by the list of addresses.\<close>

fun put_accounts ::
  "'d bolt \<Rightarrow> gob \<Rightarrow> (string \<rightharpoonup> Account) \<Rightarrow> string list \<Rightarrow> 'd \<Rightarrow> 'd outcome" where
  "put_accounts B G accs [] d = Ret d"
| "put_accounts B G accs (addr # rest) d =
     (case accs addr of
        None \<Rightarrow> put_accounts B G accs rest d
      | Some acc \<Rightarrow>
          (case serializeAccount G acc of
             Ret data \<Rightarrow>
               and_then (bucket_put B ''accounts'' (bytes_of_string addr) data d)
                 (put_accounts B G accs rest)
           | Err _ \<Rightarrow> Err (Errorf ''store: serialize'')
           | Panic \<Rightarrow> Panic))"

definition SaveAllAccounts ::
  "'d bolt \<Rightarrow> gob \<Rightarrow> string list \<Rightarrow> (string \<rightharpoonup> Account) \<Rightarrow> 'd Store \<Rightarrow> unit outcome \<times> 'd Store" where
  "SaveAllAccounts B G order accs s = store_update B s (put_accounts B G accs order)"

fun read_accounts ::
  "gob \<Rightarrow> (bytes \<times> bytes) list \<Rightarrow> (string \<rightharpoonup> Account) \<Rightarrow> (string \<rightharpoonup> Account) outcome" where
  "read_accounts G [] accs = Ret accs"
| "read_accounts G ((k, v) # kvs) accs =
     and_then (deserializeAccount G v)
       (\<lambda>acc. read_accounts G kvs (accs(string_of_bytes k \<mapsto> acc)))"

definition LoadAllAccounts :: "'d bolt \<Rightarrow> gob \<Rightarrow> 'd Store \<Rightarrow> StateDB outcome" where
  "LoadAllAccounts B G s =
     (if \<not> b_has B (s_db s) ''accounts'' then Panic
      else and_then (read_accounts G (b_items B (s_db s) ''accounts'') (Accounts NewStateDB))
             (\<lambda>accs. Ret (NewStateDB\<lparr>Accounts := accs\<rparr>)))"

subsection \<open>Blocks\<close>

text \<open>
  The error of writing the height is not looked at. The cached height is set inside the
  transaction function, before the commit.
\<close>

definition put_block :: "'d bolt \<Rightarrow> gob \<Rightarrow> BlockData \<Rightarrow> 'd \<Rightarrow> 'd outcome" where
  "put_block B G bd d =
     and_then (enc_block G bd)
       (\<lambda>data. and_then (bucket_put B ''blocks'' (u64be (bd_Height bd)) data d)
         (\<lambda>d1. case bucket_put B ''meta'' (bytes_of_string ''height'') (u64be (bd_Height bd)) d1 of
                 Ret d2 \<Rightarrow> Ret d2
               | Err _ \<Rightarrow> Ret d1
               | Panic \<Rightarrow> Panic))"

definition SaveBlock ::
  "'d bolt \<Rightarrow> gob \<Rightarrow> u64 \<Rightarrow> string \<Rightarrow> int \<Rightarrow> bytes \<Rightarrow> bytes \<Rightarrow> string \<Rightarrow> 'd Store
   \<Rightarrow> unit outcome \<times> 'd Store" where
  "SaveBlock B G height proposer txCount hash prevHash stateRef s =
     (let bd = \<lparr>bd_Height = height, bd_Proposer = proposer, bd_TxCount = txCount, bd_Hash = hash,
                bd_PrevHash = prevHash, bd_StateRef = stateRef\<rparr>;
          (r, s') = store_update B s (put_block B G bd) in
      case put_block B G bd (s_db s) of
        Ret _ \<Rightarrow> (r, s'\<lparr>s_height := height\<rparr>)
      | _ \<Rightarrow> (r, s'))"

definition LoadBlock :: "'d bolt \<Rightarrow> gob \<Rightarrow> u64 \<Rightarrow> 'd Store \<Rightarrow> BlockData option outcome" where
  "LoadBlock B G height s =
     (if \<not> b_has B (s_db s) ''blocks'' then Panic
      else
        case b_get B (s_db s) ''blocks'' (u64be height) of
          None \<Rightarrow> Ret None
        | Some data \<Rightarrow> and_then (dec_block G data) (\<lambda>bd. Ret (Some bd)))"

text \<open>
  The cursor runs from the last key backwards; the blocks read before an error are returned with
  it.
\<close>

fun read_blocks :: "gob \<Rightarrow> bytes list \<Rightarrow> BlockData list \<Rightarrow> BlockData list \<times> unit outcome" where
  "read_blocks G [] blocks = (blocks, Ret ())"
| "read_blocks G (v # vs) blocks =
     (case dec_block G v of
        Ret bd \<Rightarrow> read_blocks G vs (blocks @ [bd])
      | Err e \<Rightarrow> (blocks, Err e)
      | Panic \<Rightarrow> (blocks, Panic))"

definition LatestBlocks ::
  "'d bolt \<Rightarrow> gob \<Rightarrow> int \<Rightarrow> 'd Store \<Rightarrow> BlockData list \<times> unit outcome" where
  "LatestBlocks B G n s =
     (if \<not> b_has B (s_db s) ''blocks'' then ([], Panic)
      else
        let (blocks, err) =
          read_blocks G (take (nat n) (rev (map snd (b_items B (s_db s) ''blocks'')))) [] in
        (rev blocks, err))"

subsection \<open>Node identity\<close>

definition SaveNodeInfo ::
  "'d bolt \<Rightarrow> gob \<Rightarrow> NodeInfo \<Rightarrow> 'd Store \<Rightarrow> unit outcome \<times> 'd Store" where
  "SaveNodeInfo B G info s =
     store_update B s (\<lambda>d. and_then (enc_node G info)
       (\<lambda>data. bucket_put B ''node'' (bytes_of_string ''info'') data d))"

definition LoadNodeInfo :: "'d bolt \<Rightarrow> gob \<Rightarrow> 'd Store \<Rightarrow> NodeInfo option outcome" where
  "LoadNodeInfo B G s =
     (if \<not> b_has B (s_db s) ''node'' then Panic
      else
        case b_get B (s_db s) ''node'' (bytes_of_string ''info'') of
          None \<Rightarrow> Ret None
        | Some data \<Rightarrow> and_then (dec_node G data) (\<lambda>info. Ret (Some info)))"

subsection \<open>Transactions\<close>

definition SaveTxIndex ::
  "'d bolt \<Rightarrow> bytes \<Rightarrow> u64 \<Rightarrow> u16 \<Rightarrow> 'd Store \<Rightarrow> unit outcome \<times> 'd Store" where
  "SaveTxIndex B txHash height txIndex s =
     store_update B s (\<lambda>d. and_then (b_create B d ''tx_index'')
       (bucket_put B ''tx_index'' txHash (u64be height @ u16be txIndex)))"

definition LoadTxIndex :: "'d bolt \<Rightarrow> bytes \<Rightarrow> 'd Store \<Rightarrow> (u64 \<times> u16) option" where
  "LoadTxIndex B txHash s =
     (if \<not> b_has B (s_db s) ''tx_index'' then None
      else
        case b_get B (s_db s) ''tx_index'' txHash of
          None \<Rightarrow> None
        | Some val \<Rightarrow>
            if length val < 10 then None
            else Some (be64 (take 8 val), be16 (slice 8 10 val)))"

definition SaveBlockTxs ::
  "'d bolt \<Rightarrow> gob \<Rightarrow> u64 \<Rightarrow> TxData list \<Rightarrow> 'd Store \<Rightarrow> unit outcome \<times> 'd Store" where
  "SaveBlockTxs B G height txs s =
     (if txs = [] then (Ret (), s)
      else store_update B s (\<lambda>d. and_then (b_create B d ''txs'')
             (\<lambda>d1. and_then (enc_txs G txs) (\<lambda>data. bucket_put B ''txs'' (u64be height) data d1))))"

definition LoadBlockTxs :: "'d bolt \<Rightarrow> gob \<Rightarrow> u64 \<Rightarrow> 'd Store \<Rightarrow> TxData list outcome" where
  "LoadBlockTxs B G height s =
     (if \<not> b_has B (s_db s) ''txs'' then Ret []
      else
        case b_get B (s_db s) ''txs'' (u64be height) of
          None \<Rightarrow> Ret []
        | Some data \<Rightarrow> dec_txs G data)"

subsection \<open>Round trips\<close>

lemma data_account_data:
  assumes "storage_wf acc"
  shows "data_account (account_data acc) =
           acc\<lparr>Balance := \<bar>Balance acc\<bar>, StateRentPaid := \<bar>StateRentPaid acc\<bar>\<rparr>"
  using foldl_update_fresh[of "[]" "Storage acc"] assms
  by (simp add: data_account_def account_data_def storage_wf_def NewAccount_def zip_map_fst_snd)

definition acc_bytes :: "gob \<Rightarrow> Account \<Rightarrow> bytes" where
  "acc_bytes G acc = (case serializeAccount G acc of Ret bs \<Rightarrow> bs | _ \<Rightarrow> [])"

lemma serializeAccount_ok:
  assumes "gob_laws G" shows "serializeAccount G acc = Ret (acc_bytes G acc)"
  using assms by (auto simp: acc_bytes_def serializeAccount_def gob_laws_def codec_law_def
      split: outcome.splits dest: spec[of _ "account_data acc"])

lemma deserialize_acc_bytes:
  assumes "gob_laws G" "storage_wf acc" "0 \<le> Balance acc" "0 \<le> StateRentPaid acc"
  shows "deserializeAccount G (acc_bytes G acc) = Ret acc"
proof -
  obtain bs where "enc_account G (account_data acc) = Ret bs" "dec_account G bs = Ret (account_data acc)"
    using assms(1) unfolding gob_laws_def codec_law_def by metis
  then show ?thesis
    using assms(2-) by (simp add: deserializeAccount_def acc_bytes_def serializeAccount_def
        data_account_data)
qed

text \<open>What the database promises, in the form the proofs use.\<close>

lemma bucket_put_Ret:
  assumes "bolt_laws B" "bucket_put B n k v d = Ret d'"
  shows "b_has B d' = b_has B d"
    and "b_get B d' m j = (if m = n \<and> j = k then Some v else b_get B d m j)"
proof -
  have put: "put_law B" and "b_put B d n k v = Ret d'"
    using assms by (simp_all add: bolt_laws_def bucket_put_def split: if_splits)
  then have "b_has B d' = b_has B d \<and>
      (\<forall>m j. b_get B d' m j = (if m = n \<and> j = k then Some v else b_get B d m j))"
    unfolding put_law_def by blast
  then show "b_has B d' = b_has B d"
    and "b_get B d' m j = (if m = n \<and> j = k then Some v else b_get B d m j)"
    by blast+
qed

lemma bucket_put_ok:
  assumes "bolt_laws B" "b_has B d n" "k \<noteq> []" "length k \<le> 32768" "length v \<le> 2147483646"
  obtains d' where "bucket_put B n k v d = Ret d'"
proof -
  have "put_succeeds_law B"
    using assms(1) by (simp add: bolt_laws_def)
  then obtain d' where "b_put B d n k v = Ret d'"
    using assms(2-) unfolding put_succeeds_law_def by blast
  with assms(2) that show thesis
    by (simp add: bucket_put_def)
qed

lemma put_accounts_effect:
  assumes "bolt_laws B" "gob_laws G" "put_accounts B G accs order d = Ret d'"
  shows "b_has B d' = b_has B d"
    and "b_get B d' m j =
           (case if m = ''accounts'' \<and> string_of_bytes j \<in> set order then accs (string_of_bytes
           j) else None of
              Some acc \<Rightarrow> Some (acc_bytes G acc)
            | None \<Rightarrow> b_get B d m j)"
proof -
  have "b_has B d' = b_has B d \<and>
        b_get B d' m j =
           (case if m = ''accounts'' \<and> string_of_bytes j \<in> set order then accs (string_of_bytes
           j) else None of
              Some acc \<Rightarrow> Some (acc_bytes G acc)
            | None \<Rightarrow> b_get B d m j)"
    using assms(3)
  proof (induction order arbitrary: d)
    case (Cons a order)
    show ?case
    proof (cases "accs a")
      case None
      then show ?thesis
        using Cons by (auto split: option.splits)
    next
      case (Some acc)
      then obtain d1 where d1: "bucket_put B ''accounts'' (bytes_of_string a) (acc_bytes G acc) d = Ret d1"
        and rest: "put_accounts B G accs order d1 = Ret d'"
        using Cons.prems by (auto simp: serializeAccount_ok[OF assms(2)] and_then_Ret_iff)
      have "j = bytes_of_string a \<longleftrightarrow> string_of_bytes j = a"
        by auto
      then show ?thesis
        using Cons.IH[OF rest] bucket_put_Ret[OF assms(1) d1] Some
        by (auto split: option.splits)
    qed
  qed simp
  then show "b_has B d' = b_has B d"
    and "b_get B d' m j =
           (case if m = ''accounts'' \<and> string_of_bytes j \<in> set order then accs (string_of_bytes
           j) else None of
              Some acc \<Rightarrow> Some (acc_bytes G acc)
            | None \<Rightarrow> b_get B d m j)"
    by auto
qed

text \<open>Accounts that the database accepts and that come back as they were.\<close>

definition storable :: "gob \<Rightarrow> string \<Rightarrow> Account \<Rightarrow> bool" where
  "storable G a acc \<longleftrightarrow>
     a \<noteq> [] \<and> length a \<le> 32768 \<and> length (acc_bytes G acc) \<le> 2147483646 \<and>
     storage_wf acc \<and> 0 \<le> Balance acc \<and> 0 \<le> StateRentPaid acc"

definition storable_map :: "gob \<Rightarrow> (string \<rightharpoonup> Account) \<Rightarrow> bool" where
  "storable_map G accs \<longleftrightarrow> (\<forall>a acc. accs a = Some acc \<longrightarrow> storable G a acc)"

lemma storable_mapD: "storable_map G accs \<Longrightarrow> accs a = Some acc \<Longrightarrow> storable G a acc"
  by (simp add: storable_map_def)

lemma put_accounts_ok:
  assumes "bolt_laws B" "gob_laws G" "b_has B d ''accounts''"
    and "storable_map G accs"
  shows "\<exists>d'. put_accounts B G accs order d = Ret d'"
  using assms(3)
proof (induction order arbitrary: d)
  case (Cons a order)
  show ?case
  proof (cases "accs a")
    case (Some acc)
    with assms(4) have st: "storable G a acc"
      by (rule storable_mapD)
    have "bytes_of_string a \<noteq> []"
      using st by (cases a) (simp_all add: storable_def bytes_of_string_def)
    then obtain d1 where d1: "bucket_put B ''accounts'' (bytes_of_string a) (acc_bytes G acc) d = Ret d1"
      using st by (rule_tac bucket_put_ok[OF assms(1) Cons.prems, of "bytes_of_string a" "acc_bytes G acc"])
          (simp_all add: storable_def)
    then have "b_has B d1 ''accounts''"
      using bucket_put_Ret(1)[OF assms(1) d1] Cons.prems by simp
    from Cons.IH[OF this] d1 Some show ?thesis
      by (simp add: serializeAccount_ok[OF assms(2)])
  qed (use Cons in simp)
qed simp

lemma read_accounts_effect:
  assumes "distinct (map fst kvs)"
    and "\<forall>v\<in>snd ` set kvs. \<exists>acc. deserializeAccount G v = Ret acc"
  shows "\<exists>accs'. read_accounts G kvs accs = Ret accs' \<and>
           (\<forall>a. accs' a = (case map_of kvs (bytes_of_string a) of
                             None \<Rightarrow> accs a
                           | Some v \<Rightarrow> (case deserializeAccount G v of Ret acc \<Rightarrow> Some acc | _ \<Rightarrow> None)))"
  using assms
proof (induction kvs arbitrary: accs)
  case (Cons kv kvs)
  obtain k v where kv: "kv = (k, v)"
    by (cases kv)
  obtain acc where acc: "deserializeAccount G v = Ret acc"
    using Cons.prems(2) kv by auto
  have tail: "distinct (map fst kvs)"
      "\<forall>v\<in>snd ` set kvs. \<exists>acc. deserializeAccount G v = Ret acc"
    using Cons.prems by auto
  obtain accs' where r: "read_accounts G kvs (accs(string_of_bytes k \<mapsto> acc)) = Ret accs'"
    and eq: "\<forall>a. accs' a = (case map_of kvs (bytes_of_string a) of
               None \<Rightarrow> (accs(string_of_bytes k \<mapsto> acc)) a
             | Some v \<Rightarrow> (case deserializeAccount G v of Ret acc \<Rightarrow> Some acc | _ \<Rightarrow> None))"
    using Cons.IH[OF tail] by blast
  have "map_of kvs k = None"
    using Cons.prems(1) kv by (simp add: map_of_eq_None_iff)
  moreover have "string_of_bytes k = a \<longleftrightarrow> k = bytes_of_string a" for a
    by auto
  ultimately show ?case
    using r eq acc kv by (auto split: option.splits)
qed simp

subsection \<open>Saving and opening succeed\<close>

definition ready :: "'d bolt \<Rightarrow> 'd \<Rightarrow> bool" where
  "ready B d \<longleftrightarrow>
     b_has B d ''accounts'' \<and> b_has B d ''blocks'' \<and> b_has B d ''meta'' \<and> b_has B d ''node''"

lemma create_buckets_ok:
  assumes "create_law B" "[] \<notin> set ns"
  shows "\<exists>d'. create_buckets B ns d = Ret d' \<and> b_get B d' = b_get B d \<and>
           (\<forall>m. b_has B d' m \<longleftrightarrow> m \<in> set ns \<or> b_has B d m)"
  using assms(2)
proof (induction ns arbitrary: d)
  case (Cons n ns)
  obtain d1 where d1: "b_create B d n = Ret d1" "b_get B d1 = b_get B d"
      "b_has B d1 = (b_has B d)(n := True)"
    using assms(1) Cons.prems unfolding create_law_def by (metis list.set_intros(1))
  then show ?case
    using Cons.IH[of d1] Cons.prems by auto
qed simp

lemma Open_ok:
  assumes "bolt_laws B" "\<forall>d. b_commit B d = None"
  obtains s where "Open B None (Ret d) path = Ret s" "b_get B (s_db s) = b_get B d"
    "s_height s = read_height B d" "ready B (s_db s)"
proof -
  have "create_law B"
    using assms(1) by (simp add: bolt_laws_def)
  then obtain d' where d': "create_buckets B [''accounts'', ''blocks'', ''meta'', ''node''] d = Ret d'"
      "b_get B d' = b_get B d"
      "\<forall>m. b_has B d' m \<longleftrightarrow> m \<in> set [''accounts'', ''blocks'', ''meta'', ''node''] \<or> b_has B d m"
    using create_buckets_ok[of B "[''accounts'', ''blocks'', ''meta'', ''node'']" d] by auto
  have "Open B None (Ret d) path = Ret \<lparr>s_db = d', s_path = path, s_height = read_height B d'\<rparr>"
    using assms(2) d'(1) by (simp add: Open_def Update_def del: create_buckets.simps)
  moreover have "read_height B d' = read_height B d"
    by (simp add: read_height_def d'(2))
  ultimately have "Open B None (Ret d) path = Ret \<lparr>s_db = d', s_path = path, s_height = read_height B d\<rparr>"
    by simp
  then show thesis
    by (rule that) (use d'(2,3) in \<open>simp_all add: ready_def\<close>)
qed

definition block_bytes :: "gob \<Rightarrow> BlockData \<Rightarrow> bytes" where
  "block_bytes G bd = (case enc_block G bd of Ret bs \<Rightarrow> bs | _ \<Rightarrow> [])"

lemma enc_block_ok:
  assumes "gob_laws G"
  shows "enc_block G bd = Ret (block_bytes G bd)" "dec_block G (block_bytes G bd) = Ret bd"
proof -
  obtain bs where "enc_block G bd = Ret bs" "dec_block G bs = Ret bd"
    using assms unfolding gob_laws_def codec_law_def by metis
  then show "enc_block G bd = Ret (block_bytes G bd)" "dec_block G (block_bytes G bd) = Ret bd"
    by (simp_all add: block_bytes_def)
qed

lemma put_block_ok:
  assumes "bolt_laws B" "gob_laws G" "ready B d" "length (block_bytes G bd) \<le> 2147483646"
  obtains d' where "put_block B G bd d = Ret d'" "b_has B d' = b_has B d"
    "\<And>m j. b_get B d' m j =
       (if m = ''meta'' \<and> j = bytes_of_string ''height'' then Some (u64be (bd_Height bd))
        else if m = ''blocks'' \<and> j = u64be (bd_Height bd) then Some (block_bytes G bd)
        else b_get B d m j)"
proof -
  have "u64be (bd_Height bd) \<noteq> []"
    using length_ube(1)[of "bd_Height bd"] by fastforce
  moreover have "b_has B d ''blocks''"
    using assms(3) by (simp add: ready_def)
  ultimately obtain d1 where d1: "bucket_put B ''blocks'' (u64be (bd_Height bd)) (block_bytes G bd) d = Ret d1"
    using assms(4)
    by (rule_tac bucket_put_ok[OF assms(1), of d "''blocks''" "u64be (bd_Height bd)" "block_bytes G bd"])
       simp_all
  note e1 = bucket_put_Ret[OF assms(1) d1]
  have "bytes_of_string ''height'' \<noteq> []"
    by (simp add: bytes_of_string_def)
  moreover have "b_has B d1 ''meta''"
    using assms(3) e1(1) by (simp add: ready_def)
  ultimately obtain d2 where d2: "bucket_put B ''meta'' (bytes_of_string ''height'') (u64be (bd_Height bd)) d1 = Ret d2"
    by (rule_tac bucket_put_ok[OF assms(1), of d1 "''meta''" "bytes_of_string ''height''" "u64be (bd_Height bd)"])
       simp_all
  note e2 = bucket_put_Ret[OF assms(1) d2]
  have "put_block B G bd d = Ret d2"
    using d1 d2 by (simp add: put_block_def enc_block_ok(1)[OF assms(2)])
  then show thesis
    by (rule that) (simp_all add: e1 e2)
qed

definition block_record ::
  "u64 \<Rightarrow> string \<Rightarrow> int \<Rightarrow> bytes \<Rightarrow> bytes \<Rightarrow> string \<Rightarrow> BlockData" where
  "block_record height proposer txCount hash prevHash stateRef =
     \<lparr>bd_Height = height, bd_Proposer = proposer, bd_TxCount = txCount, bd_Hash = hash,
      bd_PrevHash = prevHash, bd_StateRef = stateRef\<rparr>"

lemma SaveBlock_ok:
  assumes "bolt_laws B" "gob_laws G" "\<forall>d. b_commit B d = None" "ready B (s_db s)"
    and "length (block_bytes G (block_record h p n hash prev ref)) \<le> 2147483646"
  obtains d' where "SaveBlock B G h p n hash prev ref s = (Ret (), s\<lparr>s_db := d', s_height := h\<rparr>)"
    "b_has B d' = b_has B (s_db s)"
    "\<And>m j. b_get B d' m j =
       (if m = ''meta'' \<and> j = bytes_of_string ''height'' then Some (u64be h)
        else if m = ''blocks'' \<and> j = u64be h then Some (block_bytes G (block_record h p n hash prev ref))
        else b_get B (s_db s) m j)"
proof -
  let ?bd = "block_record h p n hash prev ref"
  obtain d' where d': "put_block B G ?bd (s_db s) = Ret d'" "b_has B d' = b_has B (s_db s)"
    "\<And>m j. b_get B d' m j =
       (if m = ''meta'' \<and> j = bytes_of_string ''height'' then Some (u64be (bd_Height ?bd))
        else if m = ''blocks'' \<and> j = u64be (bd_Height ?bd) then Some (block_bytes G ?bd)
        else b_get B (s_db s) m j)"
    by (rule put_block_ok[OF assms(1,2,4,5)]) (rule that)
  have "SaveBlock B G h p n hash prev ref s = (Ret (), s\<lparr>s_db := d', s_height := h\<rparr>)"
    using assms(3) d'(1) by (simp add: SaveBlock_def store_update_def Update_def block_record_def)
  then show thesis
    by (rule that) (use d'(2,3) in \<open>simp_all add: block_record_def\<close>)
qed

lemma SaveAllAccounts_ok:
  assumes "bolt_laws B" "gob_laws G" "\<forall>d. b_commit B d = None" "ready B (s_db s)"
    and "storable_map G accs" and "dom accs \<subseteq> set order"
  obtains d' where "SaveAllAccounts B G order accs s = (Ret (), s\<lparr>s_db := d'\<rparr>)"
    "b_has B d' = b_has B (s_db s)"
    "\<And>a. b_get B d' ''accounts'' (bytes_of_string a) =
       (case accs a of Some acc \<Rightarrow> Some (acc_bytes G acc) | None \<Rightarrow> b_get B (s_db s) ''accounts'' (bytes_of_string a))"
    "\<And>m j. m \<noteq> ''accounts'' \<Longrightarrow> b_get B d' m j = b_get B (s_db s) m j"
proof -
  have "b_has B (s_db s) ''accounts''"
    using assms(4) by (simp add: ready_def)
  then obtain d' where d': "put_accounts B G accs order (s_db s) = Ret d'"
    using put_accounts_ok[OF assms(1,2) _ assms(5)] by blast
  note e = put_accounts_effect[OF assms(1,2) d']
  have in_order: "a \<in> set order" if "accs a = Some acc" for a acc
    using assms(6) that by blast
  have "SaveAllAccounts B G order accs s = (Ret (), s\<lparr>s_db := d'\<rparr>)"
    using d' assms(3) by (simp add: SaveAllAccounts_def store_update_def Update_def)
  then show thesis
    by (rule that) (auto simp: e dest: in_order split: option.splits)
qed

text \<open>
  Loading gives exactly the saved accounts back when the store holds no others.
\<close>

lemma LoadAllAccounts_ok:
  assumes "bolt_laws B" "gob_laws G" "ready B (s_db s)"
    and "storable_map G accs"
    and "\<And>a. b_get B (s_db s) ''accounts'' (bytes_of_string a) = map_option (acc_bytes G) (accs a)"
  shows "LoadAllAccounts B G s = Ret (NewStateDB\<lparr>Accounts := accs\<rparr>)"
proof -
  let ?kvs = "b_items B (s_db s) ''accounts''"
  have items: "sorted_wrt (<) (map fst ?kvs)" "map_of ?kvs = b_get B (s_db s) ''accounts''"
    using assms(1) by (simp_all add: bolt_laws_def items_law_def)
  then have dist: "distinct (map fst ?kvs)"
    by (simp add: strict_sorted_iff)
  have dec: "deserializeAccount G (acc_bytes G acc) = Ret acc" if "accs a = Some acc" for a acc
    using storable_mapD[OF assms(4) that] by (simp add: storable_def deserialize_acc_bytes[OF assms(2)])
  have "\<exists>acc. deserializeAccount G v = Ret acc" if v: "v \<in> snd ` set ?kvs" for v
  proof -
    obtain k where "(k, v) \<in> set ?kvs"
      using v by auto
    then have "b_get B (s_db s) ''accounts'' k = Some v"
      using dist by (simp flip: items(2))
    then obtain acc where "accs (string_of_bytes k) = Some acc" "v = acc_bytes G acc"
      using assms(5)[of "string_of_bytes k"] by (cases "accs (string_of_bytes k)") simp_all
    then show ?thesis
      using dec by blast
  qed
  then obtain accs' where r: "read_accounts G ?kvs Map.empty = Ret accs'"
    and eq: "\<And>a. accs' a = (case map_of ?kvs (bytes_of_string a) of
               None \<Rightarrow> None
             | Some v \<Rightarrow> (case deserializeAccount G v of Ret acc \<Rightarrow> Some acc | _ \<Rightarrow> None))"
    using read_accounts_effect[OF dist, of G Map.empty] by blast
  have "accs' = accs"
  proof
    show "accs' a = accs a" for a
      using eq[of a] dec[of a] assms(5)[of a] by (cases "accs a") (simp_all add: items(2))
  qed
  with r assms(3) show ?thesis
    by (simp add: LoadAllAccounts_def ready_def NewStateDB_def)
qed

end
