(* ===== verification/Persistence.thy ===== *)
theory Persistence
  imports Store
begin

text \<open>
  The chain with its store (\<^verbatim>\<open>OpenStore\<close>, \<^verbatim>\<open>Sync\<close>, \<^verbatim>\<open>SyncTxs\<close>, \<^verbatim>\<open>LoadTxFromStore\<close> of
  \<^verbatim>\<open>chain.go\<close>) and the life of a node process (\<^verbatim>\<open>runNode\<close> of \<^verbatim>\<open>cli.go\<close>): it opens the store and
  resumes the chain found there or writes the genesis state, then produces and saves one block
  per tick, and saves once more when it is asked to stop. The package-level variables of the
  execution layer live in the process, not in the store.
\<close>

subsection \<open>The chain and its store\<close>

record 'd StoredChain =
  sc_Chain :: Chain
  sc_EVM :: EVM
  sc_Store :: "'d Store option"

definition new_stored_chain :: "int \<Rightarrow> 'd StoredChain" where
  "new_stored_chain now =
     \<lparr>sc_Chain = NewChain, sc_EVM = NewEVM ConsensusLane 1 (of_int now) 10008 30000000 [],
      sc_Store = None\<rparr>"

text \<open>A block of which only the height is filled in.\<close>

definition block_stub :: "BlockData \<Rightarrow> BlockWithTx" where
  "block_stub bd =
     \<lparr>blk_Height = bd_Height bd, blk_Proposer = replicate 20 0, blk_Timestamp = 0,
      blk_PrevHash = replicate 32 0, blk_Transactions = [], blk_StateRoot = replicate 32 0,
      blk_Hash = replicate 32 0, blk_Logs = []\<rparr>"

text \<open>
  \<open>now\<close> is the clock. The loaded state replaces the accounts, logs and refunds of the chain; the
  package-level variables stay what they are.
\<close>

definition OpenStore ::
  "'d bolt \<Rightarrow> gob \<Rightarrow> go_error option \<Rightarrow> 'd outcome \<Rightarrow> string \<Rightarrow> int \<Rightarrow> 'd StoredChain
   \<Rightarrow> unit outcome \<times> 'd StoredChain" where
  "OpenStore B G mkdir opened path now sc =
     (case Open B mkdir opened path of
        Ret s \<Rightarrow>
          let sc1 = sc\<lparr>sc_Store := Some s\<rparr> in
          if 0 < Store_Height s then
            (case LoadAllAccounts B G s of
               Ret st \<Rightarrow>
                 let c = sc_Chain sc1;
                     w = (ch_State c)\<lparr>Accounts := Accounts st, Logs := Logs st, Refunds := Refunds
                     st\<rparr>;
                     c1 = c\<lparr>ch_State := w, ch_Height := Store_Height s,
                            Blocks := Blocks c @ map block_stub (fst (LatestBlocks B G 5 s))\<rparr> in
                 (Ret (), sc1\<lparr>sc_Chain := c1,
                   sc_EVM := NewEVM ConsensusLane (Store_Height s + 1) (of_int now) 10008 30000000 []\<rparr>)
             | Err _ \<Rightarrow> (Err (Errorf ''chain: load state''), sc1)
             | Panic \<Rightarrow> (Panic, sc1))
          else (Ret (), sc1)
      | Err e \<Rightarrow> (Err e, sc)
      | Panic \<Rightarrow> (Panic, sc))"

text \<open>\<open>order\<close> is the order in which Go iterates over the account map.\<close>

definition Sync ::
  "'d bolt \<Rightarrow> gob \<Rightarrow> string list \<Rightarrow> string \<Rightarrow> int \<Rightarrow> bytes \<Rightarrow> bytes \<Rightarrow> 'd StoredChain
   \<Rightarrow> unit outcome \<times> 'd StoredChain" where
  "Sync B G order proposer txCount hash prevHash sc =
     (case sc_Store sc of
        None \<Rightarrow> (Ret (), sc)
      | Some s \<Rightarrow>
          (case SaveAllAccounts B G order (Accounts (ch_State (sc_Chain sc))) s of
             (Ret _, s1) \<Rightarrow>
               let stateRef = hex_encode (take 4 hash) in
               (case SaveBlock B G (ch_Height (sc_Chain sc)) proposer txCount hash prevHash stateRef s1 of
                  (Ret _, s2) \<Rightarrow> (Ret (), sc\<lparr>sc_Store := Some s2\<rparr>)
                | (Err _, s2) \<Rightarrow> (Err (Errorf ''chain: sync block''), sc\<lparr>sc_Store :=
                Some s2\<rparr>)
                | (Panic, s2) \<Rightarrow> (Panic, sc\<lparr>sc_Store := Some s2\<rparr>))
           | (Err _, s1) \<Rightarrow> (Err (Errorf ''chain: sync accounts''), sc\<lparr>sc_Store := Some
           s1\<rparr>)
           | (Panic, s1) \<Rightarrow> (Panic, sc\<lparr>sc_Store := Some s1\<rparr>)))"

definition tx_data :: "Transaction \<Rightarrow> TxData" where
  "tx_data tx =
     \<lparr>td_Nonce = tx_Nonce tx, td_From = tx_From tx, td_To = tx_To tx,
      td_Value = big_bytes (nat \<bar>tx_Value tx\<bar>), td_GasLimit = tx_GasLimit tx,
      td_GasPrice = tx_GasPrice tx, td_GasUsed = tx_GasUsed tx, td_Data = tx_Data tx,
      td_Hash = tx_Hash tx, td_Signature = tx_Signature tx\<rparr>"

text \<open>The loop of \<^verbatim>\<open>SyncTxs\<close> writes one index entry per transaction, each in its own transaction.\<close>

fun save_indices ::
  "'d bolt \<Rightarrow> u64 \<Rightarrow> nat \<Rightarrow> Transaction list \<Rightarrow> 'd Store \<Rightarrow> unit outcome \<times> 'd Store" where
  "save_indices B height i [] s = (Ret (), s)"
| "save_indices B height i (tx # txs) s =
     (case SaveTxIndex B (tx_Hash tx) height (of_nat i) s of
        (Ret _, s1) \<Rightarrow> save_indices B height (i + 1) txs s1
      | (Err _, s1) \<Rightarrow> (Err (Errorf ''chain: tx index''), s1)
      | (Panic, s1) \<Rightarrow> (Panic, s1))"

definition SyncTxs ::
  "'d bolt \<Rightarrow> gob \<Rightarrow> BlockWithTx \<Rightarrow> 'd StoredChain \<Rightarrow> unit outcome \<times> 'd StoredChain" where
  "SyncTxs B G block sc =
     (case sc_Store sc of
        None \<Rightarrow> (Ret (), sc)
      | Some s \<Rightarrow>
          if blk_Transactions block = [] then (Ret (), sc)
          else
            (case save_indices B (blk_Height block) 0 (blk_Transactions block) s of
               (Ret _, s1) \<Rightarrow>
                 (case SaveBlockTxs B G (blk_Height block) (map tx_data (blk_Transactions block)) s1 of
                    (Ret _, s2) \<Rightarrow> (Ret (), sc\<lparr>sc_Store := Some s2\<rparr>)
                  | (Err _, s2) \<Rightarrow> (Err (Errorf ''chain: save txs''), sc\<lparr>sc_Store :=
                  Some s2\<rparr>)
                  | (Panic, s2) \<Rightarrow> (Panic, sc\<lparr>sc_Store := Some s2\<rparr>))
             | (r, s1) \<Rightarrow> (r, sc\<lparr>sc_Store := Some s1\<rparr>)))"

text \<open>The fields that the record on disk does not have come back as zero values.\<close>

definition data_tx :: "TxData \<Rightarrow> Transaction" where
  "data_tx td =
     \<lparr>tx_Nonce = td_Nonce td, tx_From = td_From td, tx_To = td_To td,
      tx_Value = int (be_nat (td_Value td)), tx_GasLimit = td_GasLimit td,
      tx_GasPrice = td_GasPrice td, tx_GasUsed = td_GasUsed td, tx_Data = td_Data td,
      tx_Hash = td_Hash td, tx_Signature = td_Signature td, tx_Lane = 0, tx_EncryptedData = [],
      tx_Logs = []\<rparr>"

definition LoadTxFromStore ::
  "'d bolt \<Rightarrow> gob \<Rightarrow> bytes \<Rightarrow> 'd StoredChain \<Rightarrow> (Transaction \<times> u64) option outcome" where
  "LoadTxFromStore B G hash sc =
     (case sc_Store sc of
        None \<Rightarrow> Ret None
      | Some s \<Rightarrow>
          (case LoadTxIndex B hash s of
             None \<Rightarrow> Ret None
           | Some (height, txIdx) \<Rightarrow>
               and_then (LoadBlockTxs B G height s)
                 (\<lambda>txs. if length txs \<le> unat txIdx then Ret None
                        else Ret (Some (data_tx (txs ! unat txIdx), height)))))"

definition DeployTestContract :: "string \<Rightarrow> Chain \<Rightarrow> string outcome \<times> Chain" where
  "DeployTestContract deployer c =
     (let code = [0x60, 0x00, 0x35, 0x60, 0x00, 0x55, 0x60, 0x00, 0x54, 0x60, 0x00, 0x52,
                  0x60, 0x20, 0x60, 0x00, 0xF3];
          (r, w) = DeployContractFromCode deployer code ClassA (ch_State c) in
      (r, c\<lparr>ch_State := w\<rparr>))"

subsection \<open>The node process\<close>

text \<open>
  The start of \<^verbatim>\<open>runNode\<close> up to the validator account. \<open>gs\<close> is the result of \<^verbatim>\<open>InitGenesis\<close>
  followed by \<^verbatim>\<open>ProduceGenesisBlock\<close>; a failure to open the store or to save the genesis state
  ends the process, which is the error result.
\<close>

definition fund_if_empty :: "string \<Rightarrow> int \<Rightarrow> World \<Rightarrow> World" where
  "fund_if_empty a amount w0 =
     (let w = touch w0 a in
      if balance_of w a = 0
      then upd_acct w a (\<lambda>acc. acc\<lparr>Balance := amount, DoxDevLevel := 3\<rparr>)
      else w)"

definition boot ::
  "'d bolt \<Rightarrow> gob \<Rightarrow> BlockEnv \<Rightarrow> string list \<Rightarrow> GenesisValidator list \<Rightarrow> ValidatorID
   \<Rightarrow> go_error option \<Rightarrow> 'd outcome \<Rightarrow> string \<Rightarrow> 'd StoredChain outcome" where
  "boot B G env order vals proposer mkdir opened path =
     (case OpenStore B G mkdir opened path (be_now env) (new_stored_chain (be_now env)) of
        (Ret _, sc) \<Rightarrow>
          if ch_Height (sc_Chain sc) = 0 then
            (case ProduceBlock env proposer (snd (InitGenesis vals)) of
               Ret (_, c1) \<Rightarrow>
                 (case SeedQuestSupply (ch_State c1) of
                    Ret w \<Rightarrow>
                      let sc1 = (new_stored_chain (be_now env))
                            \<lparr>sc_Chain := c1\<lparr>ch_State := w\<rparr>, sc_Store := sc_Store
                            sc\<rparr> in
                      (case Sync B G order ''genesis'' 0 (replicate 32 0) (replicate 32 0) sc1 of
                         (Ret _, sc2) \<Rightarrow> Ret sc2
                       | (Err e, _) \<Rightarrow> Err e
                       | (Panic, _) \<Rightarrow> Panic)
                  | Err e \<Rightarrow> Err e | Panic \<Rightarrow> Panic)
             | Err e \<Rightarrow> Err e | Panic \<Rightarrow> Panic)
          else Ret sc
      | (Err e, _) \<Rightarrow> Err e
      | (Panic, _) \<Rightarrow> Panic)"

definition fund_accounts :: "string \<Rightarrow> 'd StoredChain \<Rightarrow> 'd StoredChain" where
  "fund_accounts devPubKeyHex sc =
     (let c = sc_Chain sc;
          w1 = fund_if_empty ''validator-1'' 1000000 (ch_State c);
          w2 = fund_if_empty devPubKeyHex 10000000 w1 in
      sc\<lparr>sc_Chain := c\<lparr>ch_State := w2\<rparr>\<rparr>)"

text \<open>
  The key of the developer account: the one in the store when it has the right length, otherwise
  a new one, which is saved. \<open>generated\<close> is the key that \<^verbatim>\<open>ed25519.GenerateKey\<close> returns and
  \<open>public\<close> its public half. The result of the save is ignored.
\<close>

definition dev_key ::
  "'d bolt \<Rightarrow> gob \<Rightarrow> (bytes \<Rightarrow> bytes) \<Rightarrow> bytes \<Rightarrow> 'd Store \<Rightarrow> (bytes \<times> string \<times> 'd Store) outcome" where
  "dev_key B G public generated s =
     (let fresh = (case SaveNodeInfo B G
                     \<lparr>ni_ID = ''validator-1'', ni_ListenAddr = [], ni_RPCAddr = [], ni_NodeKey =
                     generated\<rparr> s of
                   (Panic, _) \<Rightarrow> Panic
                 | (_, s1) \<Rightarrow> Ret (generated, hex_encode (public generated), s1)) in
      case LoadNodeInfo B G s of
        Ret (Some info) \<Rightarrow>
          if length (ni_NodeKey info) = 64
          then Ret (ni_NodeKey info, hex_encode (public (ni_NodeKey info)), s)
          else fresh
      | Panic \<Rightarrow> Panic
      | _ \<Rightarrow> fresh)"

text \<open>
  One tick of the block loop. Errors of the two saves are logged and the loop goes on.
\<close>

definition tick ::
  "'d bolt \<Rightarrow> gob \<Rightarrow> BlockEnv \<Rightarrow> string list \<Rightarrow> ValidatorID \<Rightarrow> 'd StoredChain
   \<Rightarrow> (unit outcome \<times> unit outcome \<times> 'd StoredChain) outcome" where
  "tick B G env order proposer sc =
     (case ProduceBlock env proposer (sc_Chain sc) of
        Ret (block, c) \<Rightarrow>
          let prevHash = (if 1 < length (Blocks c) then blk_Hash (Blocks c ! (length (Blocks c) - 2))
                          else replicate 32 0);
              (r1, sc1) = Sync B G order (ValidatorID_String proposer)
                            (int (length (blk_Transactions block))) (blk_Hash block) prevHash
                            (sc\<lparr>sc_Chain := c\<rparr>);
              (r2, sc2) = SyncTxs B G block sc1 in
          Ret (r1, r2, sc2)
      | Err e \<Rightarrow> Err e | Panic \<Rightarrow> Panic)"

definition shutdown ::
  "'d bolt \<Rightarrow> gob \<Rightarrow> string list \<Rightarrow> 'd StoredChain \<Rightarrow> unit outcome \<times> 'd StoredChain" where
  "shutdown B G order sc =
     Sync B G order ''shutdown'' 0 (replicate 32 0) (replicate 32 0) sc"

subsection \<open>What a successful save leaves on disk\<close>

text \<open>
  The database holds the chain: its height, and exactly its accounts.
\<close>

definition saved :: "'d bolt \<Rightarrow> gob \<Rightarrow> Chain \<Rightarrow> 'd \<Rightarrow> bool" where
  "saved B G c d \<longleftrightarrow>
     ready B d \<and>
     b_get B d ''meta'' (bytes_of_string ''height'') = Some (u64be (ch_Height c)) \<and>
     (\<forall>a. b_get B d ''accounts'' (bytes_of_string a) =
            map_option (acc_bytes G) (Accounts (ch_State c) a))"

definition no_strangers :: "'d bolt \<Rightarrow> Chain \<Rightarrow> 'd \<Rightarrow> bool" where
  "no_strangers B c d \<longleftrightarrow>
     (\<forall>a. b_get B d ''accounts'' (bytes_of_string a) \<noteq> None \<longrightarrow> Accounts (ch_State c) a \<noteq> None)"

lemma Sync_ok:
  assumes laws: "bolt_laws B" "gob_laws G" "\<forall>d. b_commit B d = None"
    and s: "sc_Store sc = Some s" "ready B (s_db s)" "no_strangers B (sc_Chain sc) (s_db s)"
    and c: "storable_map G (Accounts (ch_State (sc_Chain sc)))" "dom (Accounts (ch_State (sc_Chain sc))) \<subseteq> set order"
    and fits: "length (block_bytes G (block_record (ch_Height (sc_Chain sc)) proposer txCount hash
                 prevHash (hex_encode (take 4 hash)))) \<le> 2147483646"
  obtains d where
    "Sync B G order proposer txCount hash prevHash sc =
       (Ret (), sc\<lparr>sc_Store := Some (s\<lparr>s_db := d, s_height := ch_Height (sc_Chain sc)\<rparr>)\<rparr>)"
    "saved B G (sc_Chain sc) d"
    "b_get B d ''blocks'' (u64be (ch_Height (sc_Chain sc))) =
       Some (block_bytes G (block_record (ch_Height (sc_Chain sc)) proposer txCount hash prevHash
         (hex_encode (take 4 hash))))"
proof -
  obtain d1 where d1: "SaveAllAccounts B G order (Accounts (ch_State (sc_Chain sc))) s = (Ret (), s\<lparr>s_db := d1\<rparr>)"
    "b_has B d1 = b_has B (s_db s)"
    "\<And>a. b_get B d1 ''accounts'' (bytes_of_string a) =
       (case Accounts (ch_State (sc_Chain sc)) a of Some acc \<Rightarrow> Some (acc_bytes G acc)
        | None \<Rightarrow> b_get B (s_db s) ''accounts'' (bytes_of_string a))"
    by (rule SaveAllAccounts_ok[OF laws s(2) c]) (rule that)
  let ?s1 = "s\<lparr>s_db := d1\<rparr>" and ?h = "ch_Height (sc_Chain sc)" and ?ref = "hex_encode (take 4 hash)"
  have "ready B (s_db ?s1)"
    using s(2) d1(2) by (simp add: ready_def)
  then obtain d2 where d2: "SaveBlock B G ?h proposer txCount hash prevHash ?ref ?s1 =
      (Ret (), ?s1\<lparr>s_db := d2, s_height := ?h\<rparr>)"
    "b_has B d2 = b_has B (s_db ?s1)"
    "\<And>m j. b_get B d2 m j =
       (if m = ''meta'' \<and> j = bytes_of_string ''height'' then Some (u64be ?h)
        else if m = ''blocks'' \<and> j = u64be ?h
        then Some (block_bytes G (block_record ?h proposer txCount hash prevHash ?ref))
        else b_get B (s_db ?s1) m j)"
    by (rule SaveBlock_ok[OF laws _ fits]) (rule that)
  have "saved B G (sc_Chain sc) d2"
    using s(2,3) d1(2,3) d2(2,3) by (auto simp: saved_def ready_def no_strangers_def split: option.splits)
  moreover have "Sync B G order proposer txCount hash prevHash sc =
      (Ret (), sc\<lparr>sc_Store := Some (s\<lparr>s_db := d2, s_height := ch_Height (sc_Chain sc)\<rparr>)\<rparr>)"
    using s(1) d1(1) d2(1) by (simp add: Sync_def Let_def)
  ultimately show thesis
    using that d2(3) by simp
qed

lemma reopen:
  assumes laws: "bolt_laws B" "gob_laws G" "\<forall>d. b_commit B d = None"
    and d: "saved B G c d" "storable_map G (Accounts (ch_State c))" "0 < ch_Height c"
  obtains sc' where "OpenStore B G None (Ret d) path now sc = (Ret (), sc')"
    "Accounts (ch_State (sc_Chain sc')) = Accounts (ch_State c)"
    "ch_Height (sc_Chain sc') = ch_Height c"
    "Blocks (sc_Chain sc') = Blocks (sc_Chain sc) @ map block_stub (fst (LatestBlocks B G 5 (the (sc_Store sc'))))"
    "Pool (sc_Chain sc') = Pool (sc_Chain sc)" "ch_Staking (sc_Chain sc') = ch_Staking (sc_Chain sc)"
    "b_get B (s_db (the (sc_Store sc'))) = b_get B d" "ready B (s_db (the (sc_Store sc')))"
proof -
  obtain s where s: "Open B None (Ret d) path = Ret s" "b_get B (s_db s) = b_get B d"
    "s_height s = read_height B d" "ready B (s_db s)"
    by (rule Open_ok[OF laws(1,3)])
  have "read_height B d = ch_Height c"
    using d(1) by (simp add: saved_def read_height_def)
  moreover have "LoadAllAccounts B G s = Ret (NewStateDB\<lparr>Accounts := Accounts (ch_State c)\<rparr>)"
    using d(1) by (intro LoadAllAccounts_ok[OF laws(1,2) s(4) d(2)]) (simp add: s(2) saved_def)
  moreover define sc' where "sc' = snd (OpenStore B G None (Ret d) path now sc)"
  ultimately show thesis
    using s d(3) that[of sc'] by (simp add: OpenStore_def Store_Height_def Let_def NewStateDB_def)
qed

subsection \<open>The transaction index\<close>

lemma create_ok:
  assumes "bolt_laws B" "n \<noteq> []"
  obtains d' where "b_create B d n = Ret d'" "b_get B d' = b_get B d" "b_has B d' = (b_has B d)(n := True)"
  using assms unfolding bolt_laws_def create_law_def by metis

lemma SaveTxIndex_ok:
  assumes "bolt_laws B" "\<forall>d. b_commit B d = None" "hash \<noteq> []" "length hash \<le> 32768"
  obtains d' where "SaveTxIndex B hash h i s = (Ret (), s\<lparr>s_db := d'\<rparr>)"
    "b_has B d' = (b_has B (s_db s))(''tx_index'' := True)"
    "\<And>m j. b_get B d' m j =
       (if m = ''tx_index'' \<and> j = hash then Some (u64be h @ u16be i) else b_get B (s_db s) m j)"
proof -
  obtain d1 where d1: "b_create B (s_db s) ''tx_index'' = Ret d1" "b_get B d1 = b_get B (s_db s)"
    "b_has B d1 = (b_has B (s_db s))(''tx_index'' := True)"
    by (rule create_ok[OF assms(1), of "''tx_index''" "s_db s"]) simp_all
  obtain d2 where d2: "bucket_put B ''tx_index'' hash (u64be h @ u16be i) d1 = Ret d2"
    by (rule bucket_put_ok[OF assms(1) _ assms(3,4), of d1 "''tx_index''" "u64be h @ u16be i"])
       (simp_all add: d1(3))
  have "SaveTxIndex B hash h i s = (Ret (), s\<lparr>s_db := d2\<rparr>)"
    using d1(1) d2 assms(2) by (simp add: SaveTxIndex_def store_update_def Update_def)
  then show thesis
    by (rule that) (simp_all add: bucket_put_Ret[OF assms(1) d2] d1)
qed

definition keyable :: "Transaction list \<Rightarrow> bool" where
  "keyable txs \<longleftrightarrow>
     (\<forall>tx\<in>set txs. tx_Hash tx \<noteq> [] \<and> length (tx_Hash tx) \<le> 32768) \<and> distinct (map tx_Hash txs)"

lemma save_indices_ok:
  assumes "bolt_laws B" "\<forall>d. b_commit B d = None" "keyable txs"
  shows "\<exists>d'. save_indices B h i txs s = (Ret (), s\<lparr>s_db := d'\<rparr>) \<and>
    (\<forall>m. m \<noteq> ''tx_index'' \<longrightarrow> b_has B d' m = b_has B (s_db s) m \<and> b_get
        B d' m = b_get B (s_db s) m) \<and>
    (txs \<noteq> [] \<longrightarrow> b_has B d' ''tx_index'') \<and>
    (\<forall>j. j \<notin> tx_Hash ` set txs \<longrightarrow> b_get B d' ''tx_index'' j = b_get B (s_db
        s) ''tx_index'' j) \<and>
    (b_has B (s_db s) ''tx_index'' \<longrightarrow> b_has B d' ''tx_index'') \<and>
    (\<forall>k < length txs. b_get B d' ''tx_index'' (tx_Hash (txs ! k)) = Some (u64be h @ u16be (of_nat (i + k))))"
  using assms(3)
proof (induction txs arbitrary: i s)
  case Nil
  then show ?case
    by (auto intro: exI[of _ "s_db s"])
next
  case (Cons tx txs)
  have tx: "tx_Hash tx \<noteq> []" "length (tx_Hash tx) \<le> 32768" and rest: "keyable txs"
    and fresh: "tx_Hash tx \<notin> tx_Hash ` set txs"
    using Cons.prems by (simp_all add: keyable_def)
  obtain d1 where d1: "SaveTxIndex B (tx_Hash tx) h (of_nat i) s = (Ret (), s\<lparr>s_db := d1\<rparr>)"
    "b_has B d1 = (b_has B (s_db s))(''tx_index'' := True)"
    "\<And>m j. b_get B d1 m j =
       (if m = ''tx_index'' \<and> j = tx_Hash tx then Some (u64be h @ u16be (of_nat i)) else b_get B (s_db s) m j)"
    by (rule SaveTxIndex_ok[OF assms(1,2) tx]) (rule that)
  obtain d2 where d2: "save_indices B h (i + 1) txs (s\<lparr>s_db := d1\<rparr>) = (Ret (), s\<lparr>s_db := d2\<rparr>)"
    "\<forall>m. m \<noteq> ''tx_index'' \<longrightarrow> b_has B d2 m = b_has B d1 m \<and> b_get B d2 m = b_get B d1 m"
    "\<forall>j. j \<notin> tx_Hash ` set txs \<longrightarrow> b_get B d2 ''tx_index'' j = b_get B d1 ''tx_index'' j"
    "b_has B d1 ''tx_index'' \<longrightarrow> b_has B d2 ''tx_index''"
    "\<forall>k < length txs. b_get B d2 ''tx_index'' (tx_Hash (txs ! k)) = Some (u64be h @ u16be (of_nat (i + 1 + k)))"
    using Cons.IH[OF rest, of "i + 1" "s\<lparr>s_db := d1\<rparr>"] by auto
  have "b_get B d2 ''tx_index'' (tx_Hash ((tx # txs) ! k)) = Some (u64be h @ u16be (of_nat (i + k)))"
    if "k < length (tx # txs)" for k
    using that d2(3,5) d1(3) fresh by (cases k) simp_all
  moreover have "b_get B d1 m = b_get B (s_db s) m" if "m \<noteq> ''tx_index''" for m
    using that by (auto simp: d1(3))
  ultimately show ?case
    using d1 d2 by (intro exI[of _ d2]) auto
qed

text \<open>What the store gives back of a transaction.\<close>

lemma data_tx_data:
  "data_tx (tx_data tx) =
     tx\<lparr>tx_Value := \<bar>tx_Value tx\<bar>, tx_Lane := 0, tx_EncryptedData := [], tx_Logs := []\<rparr>"
  by (simp add: data_tx_def tx_data_def)

lemma enc_txs_ok:
  assumes "gob_laws G" obtains bs where "enc_txs G txs = Ret bs" "dec_txs G bs = Ret txs"
  using assms unfolding gob_laws_def codec_law_def by metis

definition txs_fit :: "gob \<Rightarrow> TxData list \<Rightarrow> bool" where
  "txs_fit G txs \<longleftrightarrow> (case enc_txs G txs of Ret bs \<Rightarrow> length bs \<le> 2147483646 | _ \<Rightarrow> False)"

lemma SyncTxs_ok:
  assumes laws: "bolt_laws B" "gob_laws G" "\<forall>d. b_commit B d = None"
    and s: "sc_Store sc = Some s"
    and b: "keyable (blk_Transactions block)" "txs_fit G (map tx_data (blk_Transactions block))"
  obtains d where "SyncTxs B G block sc = (Ret (), sc\<lparr>sc_Store := Some (s\<lparr>s_db := d\<rparr>)\<rparr>)"
    "\<And>m. m \<noteq> ''tx_index'' \<Longrightarrow> m \<noteq> ''txs'' \<Longrightarrow> b_has B d m = b_has B (s_db s) m \<and> b_get B d m = b_get B (s_db s) m"
    "\<And>k. k < length (blk_Transactions block) \<Longrightarrow>
       b_has B d ''tx_index'' \<and> b_has B d ''txs'' \<and>
       b_get B d ''tx_index'' (tx_Hash (blk_Transactions block ! k)) = Some (u64be (blk_Height block) @
       u16be (of_nat k)) \<and>
       (\<exists>bs. b_get B d ''txs'' (u64be (blk_Height block)) = Some bs \<and>
             dec_txs G bs = Ret (map tx_data (blk_Transactions block)))"
proof (cases "blk_Transactions block = []")
  case True
  then have "SyncTxs B G block sc = (Ret (), sc\<lparr>sc_Store := Some (s\<lparr>s_db := s_db s\<rparr>)\<rparr>)"
    using s by (simp add: SyncTxs_def)
  then show thesis
    by (rule that) (use True in simp_all)
next
  case False
  let ?txs = "blk_Transactions block" and ?h = "blk_Height block"
  obtain d1 where d1: "save_indices B ?h 0 ?txs s = (Ret (), s\<lparr>s_db := d1\<rparr>)"
    "\<forall>m. m \<noteq> ''tx_index'' \<longrightarrow> b_has B d1 m = b_has B (s_db s) m \<and> b_get B d1 m = b_get B (s_db s) m"
    "b_has B d1 ''tx_index''"
    "\<forall>k < length ?txs. b_get B d1 ''tx_index'' (tx_Hash (?txs ! k)) = Some (u64be ?h @ u16be (of_nat k))"
    using save_indices_ok[OF laws(1,3) b(1), of ?h 0 s] False by auto
  obtain bs where bs: "enc_txs G (map tx_data ?txs) = Ret bs" "dec_txs G bs = Ret (map tx_data ?txs)"
    by (rule enc_txs_ok[OF laws(2)])
  obtain d2 where d2: "b_create B d1 ''txs'' = Ret d2" "b_get B d2 = b_get B d1"
    "b_has B d2 = (b_has B d1)(''txs'' := True)"
    by (rule create_ok[OF laws(1), of "''txs''" d1]) simp_all
  have "u64be ?h \<noteq> []"
    using length_ube(1)[of ?h] by fastforce
  then obtain d3 where d3: "bucket_put B ''txs'' (u64be ?h) bs d2 = Ret d3"
    using b(2) bs(1) d2(3)
    by (rule_tac bucket_put_ok[OF laws(1), of d2 "''txs''" "u64be ?h" bs]) (simp_all add: txs_fit_def)
  note e3 = bucket_put_Ret[OF laws(1) d3]
  have "SyncTxs B G block sc = (Ret (), sc\<lparr>sc_Store := Some (s\<lparr>s_db := d3\<rparr>)\<rparr>)"
    using s False d1(1) d2(1) d3 bs(1) laws(3)
    by (simp add: SyncTxs_def SaveBlockTxs_def store_update_def Update_def)
  then show thesis
  proof (rule that)
    show "b_has B d3 m = b_has B (s_db s) m \<and> b_get B d3 m = b_get B (s_db s) m"
      if "m \<noteq> ''tx_index''" "m \<noteq> ''txs''" for m
      using that d1(2) by (auto simp: e3 d2)
  qed (use d1(3,4) bs(2) in \<open>simp add: e3 d2\<close>)
qed

lemma LoadTxFromStore_ok:
  assumes "sc_Store sc = Some s" "k < length txs" "k < 65536"
    and "b_has B (s_db s) ''tx_index''" "b_has B (s_db s) ''txs''"
    and "b_get B (s_db s) ''tx_index'' hash = Some (u64be h @ u16be (of_nat k))"
    and "b_get B (s_db s) ''txs'' (u64be h) = Some bs" "dec_txs G bs = Ret (map tx_data txs)"
  shows "LoadTxFromStore B G hash sc = Ret (Some (data_tx (tx_data (txs ! k)), h))"
proof -
  have "unat (of_nat k :: u16) = k"
    using assms(3) by (simp add: unat_of_nat take_bit_nat_eq_self)
  moreover have "slice 8 10 (u64be h @ u16be (of_nat k)) = u16be (of_nat k)"
    by (simp add: slice_def)
  ultimately show ?thesis
    using assms by (simp add: LoadTxFromStore_def LoadTxIndex_def LoadBlockTxs_def)
qed

subsection \<open>A tick and the next start\<close>

definition tick_record :: "ValidatorID \<Rightarrow> Chain \<Rightarrow> BlockData" where
  "tick_record proposer c =
     (let block = last (Blocks c) in
      block_record (ch_Height c) (ValidatorID_String proposer) (int (length (blk_Transactions block)))
        (blk_Hash block)
        (if 1 < length (Blocks c) then blk_Hash (Blocks c ! (length (Blocks c) - 2)) else replicate 32 0)
        (hex_encode (take 4 (blk_Hash block))))"

text \<open>The conditions under which nothing but the disk can make saving the chain fail.\<close>

definition savable :: "'d bolt \<Rightarrow> gob \<Rightarrow> string list \<Rightarrow> Chain \<Rightarrow> 'd \<Rightarrow> bool" where
  "savable B G order c d \<longleftrightarrow>
     ready B d \<and> no_strangers B c d \<and> storable_map G (Accounts (ch_State c)) \<and>
     dom (Accounts (ch_State c)) \<subseteq> set order"

lemma tick_ok:
  assumes laws: "bolt_laws B" "gob_laws G" "\<forall>d. b_commit B d = None"
    and p: "ProduceBlock env proposer (sc_Chain sc) = Ret (block, c)"
    and s: "sc_Store sc = Some s" "savable B G order c (s_db s)"
    and fits: "length (block_bytes G (tick_record proposer c)) \<le> 2147483646"
      "keyable (blk_Transactions block)" "txs_fit G (map tx_data (blk_Transactions block))"
  obtains d where
    "tick B G env order proposer sc =
       Ret (Ret (), Ret (), sc\<lparr>sc_Chain := c, sc_Store := Some (s\<lparr>s_db := d, s_height := ch_Height c\<rparr>)\<rparr>)"
    "saved B G c d"
    "b_get B d ''blocks'' (u64be (ch_Height c)) = Some (block_bytes G (tick_record proposer c))"
    "\<And>k. k < length (blk_Transactions block) \<Longrightarrow>
       b_has B d ''tx_index'' \<and> b_has B d ''txs'' \<and>
       b_get B d ''tx_index'' (tx_Hash (blk_Transactions block ! k)) = Some (u64be (blk_Height block) @
       u16be (of_nat k)) \<and>
       (\<exists>bs. b_get B d ''txs'' (u64be (blk_Height block)) = Some bs \<and>
             dec_txs G bs = Ret (map tx_data (blk_Transactions block)))"
proof -
  let ?prev = "if 1 < length (Blocks c) then blk_Hash (Blocks c ! (length (Blocks c) - 2)) else replicate 32 0"
  let ?n = "int (length (blk_Transactions block))"
  have "last (Blocks c) = block"
    using p by (rule ProduceBlock_shape) simp
  then have rec: "tick_record proposer c =
      block_record (ch_Height c) (ValidatorID_String proposer) ?n (blk_Hash block) ?prev
        (hex_encode (take 4 (blk_Hash block)))"
    by (simp add: tick_record_def)
  let ?sc = "sc\<lparr>sc_Chain := c\<rparr>"
  obtain d1 where d1: "Sync B G order (ValidatorID_String proposer) ?n (blk_Hash block) ?prev ?sc =
       (Ret (), ?sc\<lparr>sc_Store := Some (s\<lparr>s_db := d1, s_height := ch_Height (sc_Chain ?sc)\<rparr>)\<rparr>)"
    "saved B G (sc_Chain ?sc) d1"
    "b_get B d1 ''blocks'' (u64be (ch_Height (sc_Chain ?sc))) =
       Some (block_bytes G (block_record (ch_Height (sc_Chain ?sc)) (ValidatorID_String proposer) ?n
         (blk_Hash block) ?prev (hex_encode (take 4 (blk_Hash block)))))"
    by (rule Sync_ok[OF laws, of ?sc s order "ValidatorID_String proposer" ?n "blk_Hash block" ?prev])
       (use s fits(1) that in \<open>simp_all add: savable_def rec\<close>)
  let ?sc1 = "?sc\<lparr>sc_Store := Some (s\<lparr>s_db := d1, s_height := ch_Height c\<rparr>)\<rparr>"
  obtain d where d: "SyncTxs B G block ?sc1 =
       (Ret (), ?sc1\<lparr>sc_Store := Some (s\<lparr>s_db := d1, s_height := ch_Height c, s_db := d\<rparr>)\<rparr>)"
    "\<And>m. m \<noteq> ''tx_index'' \<Longrightarrow> m \<noteq> ''txs'' \<Longrightarrow> b_has B d m = b_has B d1 m \<and> b_get B d m = b_get B d1 m"
    "\<And>k. k < length (blk_Transactions block) \<Longrightarrow>
       b_has B d ''tx_index'' \<and> b_has B d ''txs'' \<and>
       b_get B d ''tx_index'' (tx_Hash (blk_Transactions block ! k)) = Some (u64be (blk_Height block) @
       u16be (of_nat k)) \<and>
       (\<exists>bs. b_get B d ''txs'' (u64be (blk_Height block)) = Some bs \<and>
             dec_txs G bs = Ret (map tx_data (blk_Transactions block)))"
    by (rule SyncTxs_ok[OF laws, of ?sc1 "s\<lparr>s_db := d1, s_height := ch_Height c\<rparr>" block])
       (use fits(2,3) that in simp_all)
  have "tick B G env order proposer sc =
      Ret (Ret (), Ret (), sc\<lparr>sc_Chain := c, sc_Store := Some (s\<lparr>s_db := d, s_height := ch_Height c\<rparr>)\<rparr>)"
    using p d1(1) d(1) by (simp add: tick_def Let_def)
  moreover have "saved B G c d"
    using d1(2) d(2) by (simp add: saved_def ready_def)
  moreover have "b_get B d ''blocks'' (u64be (ch_Height c)) = Some (block_bytes G (tick_record proposer c))"
    using d1(3) d(2) by (simp add: rec)
  ultimately show thesis
    using d(3) that by blast
qed

subsection \<open>What keeps the chain from being saved\<close>

lemma put_accounts_empty:
  assumes "bolt_laws B" "gob_laws G" "b_has B d ''accounts''" "accs [] = Some acc" "[] \<in> set order"
  shows "\<exists>e. put_accounts B G accs order d = Err e"
  using assms(3,5)
proof (induction order arbitrary: d)
  case (Cons a order)
  have empty: "b_put B d n [] v = Err (Errorf ''key required'')" for d n v
    using assms(1) by (simp add: bolt_laws_def put_empty_law_def)
  show ?case
  proof (cases "accs a")
    case None
    then show ?thesis
      using Cons assms(4) by auto
  next
    case (Some acc')
    show ?thesis
    proof (cases "bucket_put B ''accounts'' (bytes_of_string a) (acc_bytes G acc') d")
      case (Ret d1)
      then have "a \<noteq> []"
        using Cons.prems(1) empty by (auto simp: bucket_put_def bytes_of_string_def)
      with Cons.prems have "[] \<in> set order"
        by simp
      with Cons.IH[of d1] Cons.prems(1) Ret Some show ?thesis
        using bucket_put_Ret(1)[OF assms(1) Ret] by (simp add: serializeAccount_ok[OF assms(2)])
    next
      case Panic
      then have "b_put B d ''accounts'' (bytes_of_string a) (acc_bytes G acc') = Panic"
        using Cons.prems(1) by (simp add: bucket_put_def)
      then show ?thesis
        using assms(1) by (simp add: bolt_laws_def put_law_def)
    qed (use Some in \<open>simp add: serializeAccount_ok[OF assms(2)]\<close>)
  qed
qed simp

lemma Sync_empty_address:
  assumes "bolt_laws B" "gob_laws G" "sc_Store sc = Some s" "ready B (s_db s)"
    and "Accounts (ch_State (sc_Chain sc)) [] = Some acc" "[] \<in> set order"
  shows "Sync B G order proposer txCount hash prevHash sc = (Err (Errorf ''chain: sync accounts''), sc)"
proof -
  obtain e where "put_accounts B G (Accounts (ch_State (sc_Chain sc))) order (s_db s) = Err e"
    using put_accounts_empty[OF assms(1,2), of "s_db s" "Accounts (ch_State (sc_Chain sc))" acc order]
      assms(4-6) by (auto simp: ready_def)
  then show ?thesis
    using assms(3) by (simp add: Sync_def SaveAllAccounts_def store_update_def Update_def)
qed

subsection \<open>The block after a restart\<close>

lemma stubs_have_no_hash:
  assumes "Blocks c = map block_stub bds" "ProduceBlock env p c = Ret (b, c')"
  shows "blk_PrevHash b = replicate 32 0"
  using assms(2)
proof (rule ProduceBlock_shape)
  fix executed w1 logs ps1 w2 w3
  assume "b = assemble_block env (ch_Height c + 1) p (Blocks c) executed (Logs w2)"
  then show ?thesis
    using assms(1) by (simp add: last_map block_stub_def)
qed

text \<open>A new key is found again by the next process, whatever that one would generate.\<close>

lemma dev_key_kept:
  assumes laws: "bolt_laws B" "gob_laws G" "\<forall>d. b_commit B d = None"
    and s: "b_has B (s_db s) ''node''" "LoadNodeInfo B G s = Ret None" "length key = 64"
    and data: "enc_node G \<lparr>ni_ID = ''validator-1'', ni_ListenAddr = [], ni_RPCAddr = [], ni_NodeKey = key\<rparr> = Ret data"
      "length data \<le> 2147483646"
  obtains s' where "dev_key B G public key s = Ret (key, hex_encode (public key), s')"
    "dev_key B G public other s' = Ret (key, hex_encode (public key), s')"
proof -
  let ?info = "\<lparr>ni_ID = ''validator-1'', ni_ListenAddr = [], ni_RPCAddr = [], ni_NodeKey = key\<rparr>"
  obtain d where d: "bucket_put B ''node'' (bytes_of_string ''info'') data (s_db s) = Ret d"
    by (rule bucket_put_ok[OF laws(1) s(1) _ _ data(2), of "bytes_of_string ''info''"])
       (simp_all add: bytes_of_string_def)
  note put = bucket_put_Ret[OF laws(1) d]
  have "dec_node G data = Ret ?info"
    using laws(2) data(1) unfolding gob_laws_def codec_law_def by (metis outcome.inject(1))
  then have "LoadNodeInfo B G (s\<lparr>s_db := d\<rparr>) = Ret (Some ?info)"
    using s(1) by (simp add: LoadNodeInfo_def put)
  moreover have "SaveNodeInfo B G ?info s = (Ret (), s\<lparr>s_db := d\<rparr>)"
    using d data(1) laws(3) by (simp add: SaveNodeInfo_def store_update_def Update_def)
  ultimately show thesis
    using s by (intro that[of "s\<lparr>s_db := d\<rparr>"]) (simp_all add: dev_key_def Let_def)
qed

subsection \<open>A stop between the two saves\<close>

text \<open>
  \<^verbatim>\<open>Sync\<close> writes the accounts and the block record in two transactions. A process that stops between
  them leaves the accounts of the new block with the height of the one before.
\<close>

lemma stop_between_saves:
  assumes laws: "bolt_laws B" "gob_laws G" "\<forall>d. b_commit B d = None"
    and s: "savable B G order c (s_db s)"
      "b_get B (s_db s) ''meta'' (bytes_of_string ''height'') = Some (u64be h)" "0 < h"
  obtains d sc' where "SaveAllAccounts B G order (Accounts (ch_State c)) s = (Ret (), s\<lparr>s_db := d\<rparr>)"
    "OpenStore B G None (Ret d) path now sc = (Ret (), sc')"
    "Accounts (ch_State (sc_Chain sc')) = Accounts (ch_State c)" "ch_Height (sc_Chain sc') = h"
proof -
  let ?c = "c\<lparr>ch_Height := h\<rparr>"
  have sv: "ready B (s_db s)" "no_strangers B c (s_db s)" "storable_map G (Accounts (ch_State c))"
    "dom (Accounts (ch_State c)) \<subseteq> set order"
    using s(1) by (simp_all add: savable_def)
  obtain d where d: "SaveAllAccounts B G order (Accounts (ch_State c)) s = (Ret (), s\<lparr>s_db := d\<rparr>)"
    "b_has B d = b_has B (s_db s)"
    "\<And>a. b_get B d ''accounts'' (bytes_of_string a) =
       (case Accounts (ch_State c) a of Some acc \<Rightarrow> Some (acc_bytes G acc)
        | None \<Rightarrow> b_get B (s_db s) ''accounts'' (bytes_of_string a))"
    "\<And>m j. m \<noteq> ''accounts'' \<Longrightarrow> b_get B d m j = b_get B (s_db s) m j"
    by (rule SaveAllAccounts_ok[OF laws sv(1,3,4)]) (rule that)
  have "saved B G ?c d"
    using sv(1,2) s(2) d(2-4) by (auto simp: saved_def ready_def no_strangers_def split: option.splits)
  then show thesis
    using sv(3) s(3) that[OF d(1)] by (rule_tac reopen[OF laws, of ?c d path now sc]) simp_all
qed

end
