(* ===== verification/Rpc.thy ===== *)
theory Rpc
  imports Queries Persistence Rate_Limit
begin

text \<open>
  The JSON-RPC server (\<^verbatim>\<open>rpc.go\<close>): the method table with every handler, the log filter,
  receipts, and the websocket requests. A request arrives parsed: \<open>params\<close> is the JSON value,
  \<open>None\<close> when it is missing or malformed, and results are JSON values before they are written as
  text. Scanning of numbers follows \<^verbatim>\<open>fmt.Sscanf\<close> on ASCII input.

  \<open>RpcEnv\<close> collects what the handlers depend on besides the server: the database library, the
  value encoding, the signature check, the digest, revm, the clock, the order in which Go iterates
  over the account map, whether there is a peer-to-peer node, and for the log query whether the
  log object at a position of a block is one of the objects its transactions hold (the code
  compares pointers).
\<close>

record 'd RpcEnv =
  re_bolt :: "'d bolt"
  re_gob :: gob
  re_Verify :: sig_verify
  re_host :: Host
  re_revm :: revm
  re_now :: int
  re_order :: "string list"
  re_p2p :: bool
  re_attributed :: "nat \<Rightarrow> nat \<Rightarrow> bool"

text \<open>\<open>rpc_announced\<close> lists the transaction announcements handed to the peer-to-peer node.\<close>

record 'd RPCServer =
  rpc_chain :: "'d StoredChain"
  rpc_validators :: "ValidatorSet option"
  rpc_announced :: "string list"

type_synonym 'd handler = "json option \<Rightarrow> 'd RPCServer \<Rightarrow> json outcome \<times> 'd RPCServer"

definition rpc_world :: "'d RPCServer \<Rightarrow> World" where
  "rpc_world r = ch_State (sc_Chain (rpc_chain r))"

definition rpc_blocks :: "'d RPCServer \<Rightarrow> BlockWithTx list" where
  "rpc_blocks r = Blocks (sc_Chain (rpc_chain r))"

definition upd_chain :: "(Chain \<Rightarrow> Chain) \<Rightarrow> 'd RPCServer \<Rightarrow> 'd RPCServer" where
  "upd_chain f r = r\<lparr>rpc_chain := (rpc_chain r)\<lparr>sc_Chain := f (sc_Chain (rpc_chain r))\<rparr>\<rparr>"

definition upd_world :: "(World \<Rightarrow> World) \<Rightarrow> 'd RPCServer \<Rightarrow> 'd RPCServer" where
  "upd_world f = upd_chain (\<lambda>c. c\<lparr>ch_State := f (ch_State c)\<rparr>)"

subsection \<open>Parameters\<close>

text \<open>\<^verbatim>\<open>json.Unmarshal\<close> into \<^verbatim>\<open>[]string\<close>, \<^verbatim>\<open>[]interface{}\<close> and \<^verbatim>\<open>[]map[string]interface{}\<close>.\<close>

fun as_string :: "json \<Rightarrow> string option" where
  "as_string (JStr s) = Some s"
| "as_string JNull = Some []"
| "as_string _ = None"

fun as_object :: "json \<Rightarrow> (string \<times> json) list option" where
  "as_object (JObj m) = Some m"
| "as_object JNull = Some []"
| "as_object _ = None"

fun all_of :: "('a \<Rightarrow> 'b option) \<Rightarrow> 'a list \<Rightarrow> 'b list option" where
  "all_of f [] = Some []"
| "all_of f (x # xs) =
     (case (f x, all_of f xs) of (Some y, Some ys) \<Rightarrow> Some (y # ys) | _ \<Rightarrow> None)"

fun as_array :: "json option \<Rightarrow> json list option" where
  "as_array (Some (JArr xs)) = Some xs"
| "as_array (Some JNull) = Some []"
| "as_array _ = None"

definition string_params :: "json option \<Rightarrow> string list option" where
  "string_params params = (case as_array params of None \<Rightarrow> None | Some xs \<Rightarrow> all_of as_string xs)"

definition object_params :: "json option \<Rightarrow> (string \<times> json) list list option" where
  "object_params params = (case as_array params of None \<Rightarrow> None | Some xs \<Rightarrow> all_of as_object xs)"

text \<open>A handler that needs at least \<open>n\<close> parameters.\<close>

definition with_params ::
  "'a list option \<Rightarrow> nat \<Rightarrow> string \<Rightarrow> ('a list \<Rightarrow> 'd RPCServer \<Rightarrow> json outcome \<times> 'd RPCServer)
   \<Rightarrow> 'd RPCServer \<Rightarrow> json outcome \<times> 'd RPCServer" where
  "with_params ps n msg f r =
     (case ps of
        None \<Rightarrow> (Err (Errorf msg), r)
      | Some p \<Rightarrow> if length p < n then (Err (Errorf msg), r) else f p r)"

definition clean_addr :: "string \<Rightarrow> string" where
  "clean_addr s = ToLower (trim0x s)"

text \<open>\<^verbatim>\<open>fmt.Sprintf("%v", p)\<close> of a decoded JSON value.\<close>

fun intersperse_space :: "string list \<Rightarrow> string" where
  "intersperse_space [] = []"
| "intersperse_space [s] = s"
| "intersperse_space (s # ss) = s @ '' '' @ intersperse_space ss"

fun fmt_v :: "json \<Rightarrow> string" where
  "fmt_v JNull = ''<nil>''"
| "fmt_v (JBool b) = (if b then ''true'' else ''false'')"
| "fmt_v (JNum s) = s"
| "fmt_v (JStr s) = s"
| "fmt_v (JArr xs) = ''['' @ intersperse_space (map fmt_v xs) @ '']''"
| "fmt_v (JObj m) = ''map['' @ intersperse_space (map (\<lambda>(k, v). k @ '':'' @ fmt_v v) m) @ '']''"

text \<open>Integers: blanks, a sign where the type has one, at least one digit; what follows is ignored.\<close>

definition is_blank :: "char \<Rightarrow> bool" where
  "is_blank c \<longleftrightarrow> of_char c \<in> {32, 9, 11, 12, 13 :: nat}"

definition is_digit :: "nat \<Rightarrow> char \<Rightarrow> bool" where
  "is_digit base c \<longleftrightarrow> (case hex_value c of None \<Rightarrow> False | Some d \<Rightarrow> d < base)"

definition scan_nat :: "nat \<Rightarrow> string \<Rightarrow> nat option" where
  "scan_nat base s =
     (let ds = takeWhile (is_digit base) s in
      if ds = [] then None else Some (foldl (\<lambda>n c. base * n + the (hex_value c)) 0 ds))"

definition sscan_int :: "nat \<Rightarrow> string \<Rightarrow> int option" where
  "sscan_int base s0 =
     (let s = dropWhile is_blank s0;
          neg = (take 1 s = ''-'');
          digits = (if neg \<or> take 1 s = ''+'' then drop 1 s else s) in
      case scan_nat base digits of
        None \<Rightarrow> None
      | Some n \<Rightarrow>
          let v = (if neg then - int n else int n) in
          if - (2 ^ 63) \<le> v \<and> v < 2 ^ 63 then Some v else None)"

definition sscan_uint :: "nat \<Rightarrow> string \<Rightarrow> u64 option" where
  "sscan_uint base s =
     (case scan_nat base (dropWhile is_blank s) of
        None \<Rightarrow> None
      | Some n \<Rightarrow> if n < 2 ^ 64 then Some (of_nat n) else None)"

text \<open>A failed scan leaves the variable at zero.\<close>

definition scanned :: "int option \<Rightarrow> int" where
  "scanned v = (case v of None \<Rightarrow> 0 | Some n \<Rightarrow> n)"

definition parseHexBlock :: "string \<Rightarrow> u64 option" where
  "parseHexBlock s0 =
     (let s = trim0x s0 in
      if s = [] then None
      else case sscan_uint 16 s of Some n \<Rightarrow> Some n | None \<Rightarrow> sscan_uint 10 s)"

text \<open>\<^verbatim>\<open>(*big.Int).SetString(s, 16)\<close> and \<^verbatim>\<open>%x\<close> of a signed number.\<close>

definition SetString16 :: "string \<Rightarrow> int option" where
  "SetString16 s =
     (let neg = (take 1 s = ''-'');
          digits = (if neg \<or> take 1 s = ''+'' then drop 1 s else s) in
      if digits = [] then None
      else map_option (\<lambda>n. if neg then - int n else int n) (hex_number 0 digits))"

definition hex_int :: "int \<Rightarrow> string" where
  "hex_int v = (if v < 0 then ''-'' @ hex_string (nat (- v)) else hex_string (nat v))"

subsection \<open>Blocks, transactions and logs as JSON\<close>

definition ToJSON :: "Transaction \<Rightarrow> json" where
  "ToJSON tx = JObj (
     [(''data'', JStr (''0x'' @ hex_encode (tx_Data tx)))] @
     (if tx_EncryptedData tx = [] then [] else [(''encryptedData'', JStr (hex_encode (tx_EncryptedData
         tx)))]) @
     [(''from'', JStr (''0x'' @ tx_From tx)),
      (''gasLimit'', JStr (hex0x (unat (tx_GasLimit tx)))),
      (''gasPrice'', JStr (hex0x (unat (tx_GasPrice tx)))),
      (''gasUsed'', JStr (hex0x (unat (tx_GasUsed tx)))),
      (''hash'', JStr (''0x'' @ hex_encode (tx_Hash tx))),
      (''lane'', JStr (''0x'' @ dec_string (unat (tx_Lane tx)))),
      (''nonce'', JStr (hex0x (unat (tx_Nonce tx)))),
      (''signature'', JStr (''0x'' @ hex_encode (tx_Signature tx))),
      (''to'', JStr (''0x'' @ tx_To tx)),
      (''value'', JStr (''0x'' @ hex_int (tx_Value tx)))])"

definition LogToRPC :: "LogEntry \<Rightarrow> nat \<Rightarrow> string \<Rightarrow> nat \<Rightarrow> json" where
  "LogToRPC l blockNum txHash logIndex = JObj
     [(''address'', JStr (''0x'' @ log_Address l)),
      (''blockHash'', JStr []),
      (''blockNumber'', JStr (hex0x blockNum)),
      (''data'', JStr (''0x'' @ hex_encode (log_Data l))),
      (''logIndex'', JStr (hex0x logIndex)),
      (''removed'', JBool False),
      (''topics'', JArr (map (\<lambda>t. JStr (''0x'' @ hex_encode t)) (log_Topics l))),
      (''transactionHash'', JStr txHash),
      (''transactionIndex'', JStr ''0x0'')]"

definition txLogsToRPC :: "LogEntry list \<Rightarrow> nat \<Rightarrow> string \<Rightarrow> json" where
  "txLogsToRPC logs blockNum txHash =
     JArr (map (\<lambda>(i, l). LogToRPC l blockNum txHash i) (enumerate 0 logs))"

definition block_json :: "BlockWithTx \<Rightarrow> json \<Rightarrow> json" where
  "block_json b txs = JObj
     [(''hash'', JStr (''0x'' @ hex_encode (blk_Hash b))),
      (''number'', JStr (hex0x (unat (blk_Height b)))),
      (''parentHash'', JStr (''0x'' @ hex_encode (blk_PrevHash b))),
      (''proposer'', JStr (ValidatorID_String (blk_Proposer b))),
      (''timestamp'', JStr (''0x'' @ hex_int (blk_Timestamp b))),
      (''transactions'', txs)]"

definition createAddress :: "string \<Rightarrow> u64 \<Rightarrow> bytes" where
  "createAddress deployer nonce =
     take 20 (sha256 (bytes_of_string (deployer @ '':'' @ dec_string (unat nonce))))"

definition buildReceipt :: "Transaction \<Rightarrow> nat \<Rightarrow> string \<Rightarrow> json" where
  "buildReceipt tx blockIdx blockHash =
     (let txHex = hex_encode (tx_Hash tx);
          logs = txLogsToRPC (tx_Logs tx) blockIdx (''0x'' @ txHex) in
      JObj (
        [(''blockHash'', JStr (''0x'' @ blockHash)), (''blockNumber'', JStr (hex0x blockIdx))] @
        (if tx_To tx = []
         then [(''contractAddress'', JStr (''0x'' @ hex_encode (createAddress (tx_From tx) (tx_Nonce tx))))]
         else []) @
        [(''cumulativeGasUsed'', JStr (hex0x (unat (tx_GasUsed tx)))),
         (''from'', JStr (''0x'' @ tx_From tx)),
         (''gasUsed'', JStr (hex0x (unat (tx_GasUsed tx)))),
         (''logs'', logs),
         (''status'', JStr ''0x1''),
         (''to'', if tx_To tx = [] then JNull else JStr (''0x'' @ tx_To tx)),
         (''transactionHash'', JStr (''0x'' @ txHex))]))"

subsection \<open>The log filter\<close>

definition hit_any :: "string \<Rightarrow> string list \<Rightarrow> bool" where
  "hit_any want wanted \<longleftrightarrow> list_ex (\<lambda>t. EqualFold want (trim0x t)) wanted"

fun topics_match :: "slot list \<Rightarrow> string list list \<Rightarrow> bool" where
  "topics_match ts [] = True"
| "topics_match ts (wanted # rest) =
     (if wanted = [] then topics_match (tl ts) rest
      else case ts of
             [] \<Rightarrow> False
           | t # ts' \<Rightarrow> hit_any (hex_encode t) wanted \<and> topics_match ts' rest)"

definition logMatchesFilter :: "LogEntry \<Rightarrow> string list \<Rightarrow> string list list \<Rightarrow> bool" where
  "logMatchesFilter l addrs topics \<longleftrightarrow>
     (addrs = [] \<or> hit_any (log_Address l) addrs) \<and> topics_match (log_Topics l) topics"

text \<open>Decoding of the filter object: a member of the wrong shape leaves its field empty.\<close>

record LogFilter =
  f_FromBlock :: string
  f_ToBlock :: string
  f_Address :: "string list"
  f_Topics :: "string list list"

definition member_of :: "string \<Rightarrow> (string \<times> json) list \<Rightarrow> json" where
  "member_of name m = (case filter (\<lambda>(k, v). EqualFold k name) m of [] \<Rightarrow> JNull | ms \<Rightarrow> snd (last ms))"

fun lax_string :: "json \<Rightarrow> string" where
  "lax_string (JStr s) = s"
| "lax_string _ = []"

fun lax_list :: "(json \<Rightarrow> 'a) \<Rightarrow> json \<Rightarrow> 'a list" where
  "lax_list f (JArr xs) = map f xs"
| "lax_list f _ = []"

definition decode_filter :: "json option \<Rightarrow> LogFilter" where
  "decode_filter params =
     (let m = (case as_array params of Some (JObj m # _) \<Rightarrow> m | _ \<Rightarrow> []) in
      \<lparr>f_FromBlock = lax_string (member_of ''fromBlock'' m), f_ToBlock = lax_string (member_of
      ''toBlock'' m),
       f_Address = lax_list lax_string (member_of ''address'' m),
       f_Topics = lax_list (lax_list lax_string) (member_of ''topics'' m)\<rparr>)"

definition in_range :: "LogFilter \<Rightarrow> nat \<Rightarrow> bool" where
  "in_range f i \<longleftrightarrow>
     (f_FromBlock f \<in> {[], ''latest''} \<or>
        (case parseHexBlock (f_FromBlock f) of None \<Rightarrow> True | Some n \<Rightarrow> unat n
        \<le> i)) \<and>
     (f_ToBlock f \<in> {[], ''latest''} \<or>
        (case parseHexBlock (f_ToBlock f) of None \<Rightarrow> True | Some n \<Rightarrow> i \<le> unat n))"

definition filter_logs :: "LogFilter \<Rightarrow> LogEntry list \<Rightarrow> (nat \<times> LogEntry) list" where
  "filter_logs f logs = filter (\<lambda>(i, l). logMatchesFilter l (f_Address f) (f_Topics f)) (enumerate 0 logs)"

definition block_logs :: "LogFilter \<Rightarrow> (nat \<Rightarrow> bool) \<Rightarrow> nat \<Rightarrow> BlockWithTx \<Rightarrow> json list" where
  "block_logs f attributed bIdx b =
     concat (map (\<lambda>tx. map (\<lambda>(li, l). LogToRPC l bIdx (''0x'' @ hex_encode (tx_Hash tx)) li)
                            (filter_logs f (tx_Logs tx))) (blk_Transactions b)) @
     map (\<lambda>(li, l). LogToRPC l bIdx [] li)
       (filter (\<lambda>(li, l). \<not> attributed li) (filter_logs f (blk_Logs b)))"

definition eth_getLogs :: "'d RpcEnv \<Rightarrow> 'd handler" where
  "eth_getLogs env params r =
     (let f = decode_filter params in
      (Ret (JArr (concat (map (\<lambda>(bIdx, b). if in_range f bIdx then block_logs f (re_attributed
      env bIdx) bIdx b else [])
             (enumerate 0 (rpc_blocks r))))), r))"

subsection \<open>Block queries\<close>

definition eth_blockNumber :: "'d handler" where
  "eth_blockNumber params r = (Ret (JStr (hex0x (length (rpc_blocks r)))), r)"

text \<open>The index a block parameter names; \<open>plain\<close> says whether decimal numbers are scanned.\<close>

definition block_index :: "bool \<Rightarrow> json \<Rightarrow> nat \<Rightarrow> int" where
  "block_index plain p n =
     (let s = fmt_v p in
      if take 2 s = ''0x'' then scanned (sscan_int 16 (drop 2 s))
      else if s = ''latest'' \<or> s = ''pending'' then int n - 1
      else if plain then scanned (sscan_int 10 s)
      else 0)"

definition tx_list :: "bool \<Rightarrow> Transaction list \<Rightarrow> json" where
  "tx_list fullTx txs =
     JArr (map (\<lambda>tx. if fullTx then ToJSON tx else JStr (''0x'' @ hex_encode (tx_Hash tx))) txs)"

definition eth_getBlockByNumber :: "'d handler" where
  "eth_getBlockByNumber params =
     with_params (as_array params) 1 ''invalid params'' (\<lambda>p r.
       let i = block_index True (p ! 0) (length (rpc_blocks r));
           fullTx = (1 < length p \<and> p ! 1 = JBool True) in
       if i < 0 \<or> int (length (rpc_blocks r)) \<le> i then (Ret JNull, r)
       else let b = rpc_blocks r ! nat i in (Ret (block_json b (tx_list fullTx (blk_Transactions b))), r))"

text \<open>The whole hash has to match, in either case; what follows its 64 digits is ignored.\<close>

definition eth_getBlockByHash :: "'d handler" where
  "eth_getBlockByHash params =
     with_params (as_array params) 1 ''invalid params'' (\<lambda>p r.
       let hashStr = trim0x (fmt_v (p ! 0)) in
       case find (\<lambda>b. let h = hex_encode (blk_Hash b) in EqualFold h (take (length h) hashStr))
       (rpc_blocks r) of
         None \<Rightarrow> (Ret JNull, r)
       | Some b \<Rightarrow> (Ret (block_json b (tx_list True (blk_Transactions b))), r))"

definition eth_getBlockTransactionCountByNumber :: "'d handler" where
  "eth_getBlockTransactionCountByNumber params =
     with_params (as_array params) 1 ''invalid params'' (\<lambda>p r.
       let i = block_index False (p ! 0) (length (rpc_blocks r)) in
       if i < 0 \<or> int (length (rpc_blocks r)) \<le> i then (Ret (JStr ''0x0''), r)
       else (Ret (JStr (hex0x (length (blk_Transactions (rpc_blocks r ! nat i))))), r))"

subsection \<open>Account queries\<close>

definition account_query :: "(Account \<Rightarrow> string) \<Rightarrow> 'd handler" where
  "account_query f params =
     with_params (string_params params) 1 ''invalid params'' (\<lambda>p r.
       case GetAccount (rpc_world r) (clean_addr (p ! 0)) of
         None \<Rightarrow> (Ret (JStr ''0x0''), r)
       | Some acc \<Rightarrow> (Ret (JStr (''0x'' @ f acc)), r))"

definition eth_getBalance :: "'d handler" where
  "eth_getBalance = account_query (\<lambda>acc. hex_int (Balance acc))"

definition eth_getTransactionCount :: "'d handler" where
  "eth_getTransactionCount = account_query (\<lambda>acc. hex_string (unat (Nonce acc)))"

definition way_getDoxLevel :: "'d handler" where
  "way_getDoxLevel = account_query (\<lambda>acc. hex_string (unat (DoxDevLevel acc)))"

definition way_getBalance :: "'d handler" where
  "way_getBalance = account_query (\<lambda>acc. hex_int (Balance acc))"

text \<open>The accounts in the order of the iteration.\<close>

definition listed_accounts :: "'d RpcEnv \<Rightarrow> World \<Rightarrow> (string \<times> Account) list" where
  "listed_accounts env w = List.map_filter (\<lambda>a. map_option (\<lambda>acc. (a, acc)) (Accounts w a)) (re_order env)"

definition way_debugAccountCount :: "'d RpcEnv \<Rightarrow> 'd handler" where
  "way_debugAccountCount env params r =
     (Ret (JStr (dec_string (length (listed_accounts env (rpc_world r))))), r)"

definition way_debugAccounts :: "'d RpcEnv \<Rightarrow> 'd handler" where
  "way_debugAccounts env params r =
     (Ret (JArr (map (\<lambda>(a, acc). JObj [(''address'', JStr a), (''balance'', JStr (''0x'' @
         hex_int (Balance acc)))])
        (listed_accounts env (rpc_world r)))), r)"

definition way_accountCount :: "'d RpcEnv \<Rightarrow> 'd handler" where
  "way_accountCount env params r =
     (Ret (JStr (dec_string (length (filter (holds_value \<circ> snd) (listed_accounts env (rpc_world r)))))), r)"

subsection \<open>Counters and statistics\<close>

definition way_getBlockCount :: "'d handler" where
  "way_getBlockCount params r = (Ret (JStr (dec_string (length (rpc_blocks r)))), r)"

definition way_validatorCount :: "'d handler" where
  "way_validatorCount params r =
     (Ret (JStr (case rpc_validators r of Some vs \<Rightarrow> dec_string (vs_Count vs) | None \<Rightarrow> ''0'')), r)"

definition way_totalTxCount :: "'d handler" where
  "way_totalTxCount params r =
     (Ret (JStr (dec_string (foldl (\<lambda>n b. n + length (blk_Transactions b)) 0 (rpc_blocks r)))), r)"

definition way_pendingTxCount :: "'d handler" where
  "way_pendingTxCount params r =
     (Ret (JStr (dec_string (pool_Len (Pool (sc_Chain (rpc_chain r)))))), r)"

text \<open>A query that may create the account it reads.\<close>

definition world_query :: "(World \<Rightarrow> json \<times> World) \<Rightarrow> 'd handler" where
  "world_query q params r = (let (res, w) = q (rpc_world r) in (Ret res, upd_world (\<lambda>_. w) r))"

definition way_govProposals :: "'d handler" where
  "way_govProposals = world_query GovernanceListProposals"

definition way_twoWayStats :: "'d handler" where
  "way_twoWayStats = world_query (\<lambda>w0. let ((vaults, debt), w) = GetTwoWayStats w0 in
     (JObj [(''totalDebt'', JStr (hex0x debt)), (''vaults'', JStr (hex0x vaults))], w))"

definition way_bridgeStats :: "'d handler" where
  "way_bridgeStats = world_query (\<lambda>w0. let ((committed, withdrawn), w) = GetBridgeStats w0 in
     (JObj [(''committed'', JStr (hex0x committed)), (''withdrawn'', JStr (hex0x withdrawn))], w))"

definition way_1wayTotalSupply :: "'d handler" where
  "way_1wayTotalSupply = world_query (\<lambda>w0. let (total, w) = Get1WayTotalSupply w0 in (JStr (hex0x total), w))"

definition way_taskStatus :: "'d handler" where
  "way_taskStatus params =
     with_params (string_params params) 2 ''invalid params: expected taskId, claimant'' (\<lambda>p r.
       case hex_decode (clean_addr (p ! 0)) of
         None \<Rightarrow> (Ret (JStr ''none''), r)
       | Some idBytes \<Rightarrow> (Ret (JStr (TaskStatusOf (rpc_world r) idBytes (clean_addr (p ! 1)))), r))"

definition way_questPoolRemaining :: "'d handler" where
  "way_questPoolRemaining =
     world_query (\<lambda>w. (JStr (hex0x (QuestPoolRemaining w)), touch w task_addr))"

definition way_questGetAutopilot :: "'d handler" where
  "way_questGetAutopilot = world_query (\<lambda>w. (JStr (autopilotAddress w), touch w task_addr))"

definition way_wayTotalSupply :: "'d handler" where
  "way_wayTotalSupply = world_query (\<lambda>w. (JStr (hex0x (QuestTotalSupply w)), touch w task_addr))"

definition way_questCap :: "'d handler" where
  "way_questCap = world_query (\<lambda>w. (JStr (hex0x (QuestCap w)), touch w task_addr))"

definition way_econoIndicators :: "'d RpcEnv \<Rightarrow> 'd handler" where
  "way_econoIndicators env params r =
     (let w = touch (rpc_world r) task_addr in
      (GetEconoIndicators (re_order env) (rpc_world r), upd_world (\<lambda>_. w) r))"

definition way_econoPolicy :: "'d handler" where
  "way_econoPolicy params r =
     (let p = GetEconoPolicy (rpc_world r) in
      (Ret (JObj [(''burnBps'', JNat (unat (BurnBps p))), (''grantBps'', JNat (unat (GrantBps p))),
                  (''phase'', JNat (unat (policy_Phase p))),
                  (''phaseLabel'', JStr (if policy_Phase p = 1 then ''Expansion'' else ''Consolidation''))]), r))"

definition way_swayEmissionProjection :: "'d handler" where
  "way_swayEmissionProjection params r =
     (let w = rpc_world r in
      (Ret (JObj [(''gdpEquivalentThisEpoch'', JNat (unat (EconoGBPEquiv w))),
                  (''hardCeiling'', JNat (unat SwayHardCeiling)),
                  (''note'', JStr ''READ-ONLY projection. 3% is a proposed figure, not yet hardcoded or
                  minted.''),
                  (''projectedSwayPerYear'', JStr (dec_string (SwayProjectedEmissionFromGBP w 300))),
                  (''proposedPctBps'', JNat 300)]), r))"

subsection \<open>Calls and deployments\<close>

text \<open>
  \<^verbatim>\<open>eth_call\<close> runs on a clone of the state. The clone has its own accounts and logs; the
  package-level variables are not part of it, so what the call does to them stays.
\<close>

definition clone_world :: "World \<Rightarrow> World" where
  "clone_world w =
     (let st = Clone (StateDB.truncate w) in
      w\<lparr>Accounts := Accounts st, Logs := Logs st, Refunds := Refunds st\<rparr>)"

definition keep_globals :: "World \<Rightarrow> World \<Rightarrow> World" where
  "keep_globals w1 w =
     w\<lparr>econoSnap := econoSnap w1, econoPolicy := econoPolicy w1, activeInflationPct := activeInflationPct w1\<rparr>"

definition string_member :: "string \<Rightarrow> (string \<times> json) list \<Rightarrow> string" where
  "string_member k m = (case map_of m k of Some (JStr s) \<Rightarrow> s | _ \<Rightarrow> [])"

definition run_call :: "'d RpcEnv \<Rightarrow> string \<Rightarrow> string \<Rightarrow> bytes \<Rightarrow> 'd RPCServer \<Rightarrow> ExecutionResult outcome \<times> World" where
  "run_call env from to data r =
     (let snapshot = clone_world (rpc_world r);
          callEVM = NewEVM ConsensusLane (ch_Height (sc_Chain (rpc_chain r))) (of_int (re_now env)) 10008
          30000000 [];
          ctx = \<lparr>ctx_Caller = from, ctx_Address = to, ctx_Value = 0, ctx_GasLimit = 30000000,
                 ctx_Calldata = data, ctx_ReadOnly = True\<rparr> in
      Execute (re_Verify env) (re_host env) (re_revm env) callEVM ctx snapshot)"

definition eth_call :: "'d RpcEnv \<Rightarrow> 'd handler" where
  "eth_call env params =
     with_params (object_params params) 1 ''invalid params'' (\<lambda>p r.
       case hex_decode (trim0x (string_member ''data'' (p ! 0))) of
         None \<Rightarrow> (Ret (JStr ''0x''), r)
       | Some data \<Rightarrow>
           let from = clean_addr (string_member ''from'' (p ! 0));
               to = clean_addr (string_member ''to'' (p ! 0));
               (res, w1) = run_call env from to data r;
               r1 = upd_world (keep_globals w1) r in
           (case res of
              Ret result \<Rightarrow>
                if er_Error result \<noteq> None then (Ret (JStr ''0x''), r1)
                else (Ret (JStr (''0x'' @ hex_encode (ReturnData result))), r1)
            | Err e \<Rightarrow> (Err e, r1)
            | Panic \<Rightarrow> (Panic, r1)))"

definition way_deployCode :: "'d handler" where
  "way_deployCode params =
     with_params (string_params params) 2 ''invalid params: expected deployer, bytecode'' (\<lambda>p r.
       case hex_decode (trim0x (p ! 1)) of
         None \<Rightarrow> (Err (Errorf ''invalid bytecode''), r)
       | Some bytecode \<Rightarrow>
           (case DeployContractFromCode (clean_addr (p ! 0)) bytecode ClassA (rpc_world r) of
              (Ret addr, w) \<Rightarrow> (Ret (JStr (''0x'' @ addr)), upd_world (\<lambda>_. w) r)
            | (Err _, w) \<Rightarrow> (Err (Errorf ''deploy failed''), upd_world (\<lambda>_. w) r)
            | (Panic, w) \<Rightarrow> (Panic, upd_world (\<lambda>_. w) r)))"

text \<open>
  \<^verbatim>\<open>way_fundGenesis\<close> credits any amount to any address and raises its badge level to three. The
  error of saving the accounts is ignored.
\<close>

definition save_accounts :: "'d RpcEnv \<Rightarrow> 'd RPCServer \<Rightarrow> 'd RPCServer" where
  "save_accounts env r =
     (case sc_Store (rpc_chain r) of
        None \<Rightarrow> r
      | Some s \<Rightarrow>
          let (_, s') = SaveAllAccounts (re_bolt env) (re_gob env) (re_order env) (Accounts (rpc_world
          r)) s in
          r\<lparr>rpc_chain := (rpc_chain r)\<lparr>sc_Store := Some s'\<rparr>\<rparr>)"

definition way_fundGenesis :: "'d RpcEnv \<Rightarrow> 'd handler" where
  "way_fundGenesis env params =
     with_params (string_params params) 2 ''invalid params: expected addr, amount'' (\<lambda>p r.
       let addr = clean_addr (p ! 0) in
       case SetString16 (trim0x (p ! 1)) of
         None \<Rightarrow> (Err (Errorf ''invalid amount''), r)
       | Some amt \<Rightarrow>
           let r1 = upd_world (\<lambda>w. upd_acct (touch w addr) addr
                      (\<lambda>acc. acc\<lparr>Balance := Balance acc + amt,
                                 DoxDevLevel := (if DoxDevLevel acc < 3 then 3 else DoxDevLevel
                                 acc)\<rparr>)) r in
           (Ret (JStr (''0x'' @ hex_int (balance_of (rpc_world r1) addr))), save_accounts env r1))"

subsection \<open>Transactions\<close>

text \<open>The announcement sent to peers: the first four bytes of the hash.\<close>

definition BroadcastTransaction :: "'d RpcEnv \<Rightarrow> Transaction \<Rightarrow> 'd RPCServer \<Rightarrow> 'd RPCServer" where
  "BroadcastTransaction env tx r =
     (if re_p2p env then r\<lparr>rpc_announced := rpc_announced r @ [''tx:'' @ hex_encode (take 4 (tx_Hash tx))]\<rparr> else r)"

definition signature_error :: "'d RpcEnv \<Rightarrow> Transaction \<Rightarrow> go_error option" where
  "signature_error env tx =
     (if tx_Signature tx = [] then None
      else case ParsePubKey (tx_From tx) of
             Ret pub \<Rightarrow> if re_Verify env pub (tx_Hash tx) (tx_Signature tx) then None
                        else Some (Errorf ''invalid signature'')
           | _ \<Rightarrow> Some (Errorf ''invalid from address''))"

definition eth_sendRawTransaction :: "'d RpcEnv \<Rightarrow> 'd handler" where
  "eth_sendRawTransaction env params =
     with_params (string_params params) 1 ''invalid params: expected 0xhex_encoded_tx'' (\<lambda>p r.
       case DeserializeTxHex (trim0x (p ! 0)) of
         Ret tx0 \<Rightarrow>
           let r1 = upd_world (\<lambda>w. touch w (tx_From tx0)) r;
               sender = acct (rpc_world r1) (tx_From tx0) in
           (case signature_error env tx0 of
              Some e \<Rightarrow> (Err e, r1)
            | None \<Rightarrow>
                if tx_Nonce tx0 \<noteq> Nonce sender then (Err (Errorf ''invalid nonce''), r1)
                else
                  let tx = tx0\<lparr>tx_GasPrice := (if tx_GasPrice tx0 = 0 then 1 else tx_GasPrice
                  tx0)\<rparr>;
                      txCost = int (unat (tx_GasLimit tx * tx_GasPrice tx)) + tx_Value tx in
                  if Balance sender < txCost then (Err (Errorf ''insufficient balance''), r1)
                  else
                    case (if tx_To tx = [] then CanDeployContract (DoxDevLevel sender) else None) of
                      Some e \<Rightarrow> (Err e, r1)
                    | None \<Rightarrow>
                        let r2 = upd_chain (\<lambda>c. c\<lparr>Pool := pool_Add (Pool c) tx\<rparr>) r1 in
                        (Ret (JStr (''0x'' @ hex_encode (tx_Hash tx))), BroadcastTransaction env tx r2))
       | Err _ \<Rightarrow> (Err (Errorf ''invalid tx encoding''), r)
       | Panic \<Rightarrow> (Panic, r))"

definition search_bytes :: "string \<Rightarrow> bytes" where
  "search_bytes s =
     (case hex_decode s of
        Some h \<Rightarrow> if length h = 32 then h else replicate 32 0
      | None \<Rightarrow> replicate 32 0)"

definition has_hash :: "string \<Rightarrow> Transaction \<Rightarrow> bool" where
  "has_hash s tx \<longleftrightarrow> EqualFold (hex_encode (tx_Hash tx)) s"

definition all_pending :: "TxPool \<Rightarrow> Transaction list" where
  "all_pending p = Consensus p @ Oracle p @ Private p"

definition eth_getTransactionByHash :: "'d RpcEnv \<Rightarrow> 'd handler" where
  "eth_getTransactionByHash env params =
     with_params (string_params params) 1 ''invalid params: expected 0xtxhash'' (\<lambda>p r.
       let s = trim0x (p ! 0) in
       case find (has_hash s) (all_pending (Pool (sc_Chain (rpc_chain r))) @
                               concat (map blk_Transactions (rpc_blocks r))) of
         Some tx \<Rightarrow> (Ret (ToJSON tx), r)
       | None \<Rightarrow>
           (case LoadTxFromStore (re_bolt env) (re_gob env) (search_bytes s) (rpc_chain r) of
              Ret (Some (tx, _)) \<Rightarrow> (Ret (ToJSON tx), r)
            | Panic \<Rightarrow> (Panic, r)
            | _ \<Rightarrow> (Ret JNull, r)))"

definition eth_getTransactionReceipt :: "'d RpcEnv \<Rightarrow> 'd handler" where
  "eth_getTransactionReceipt env params =
     with_params (string_params params) 1 ''invalid params: expected 0xtxhash'' (\<lambda>p r.
       let s = trim0x (p ! 0) in
       case find (\<lambda>(i, b, tx). has_hash s tx)
              (concat (map (\<lambda>(i, b). map (\<lambda>tx. (i, b, tx)) (blk_Transactions b))
              (enumerate 0 (rpc_blocks r)))) of
         Some (i, b, tx) \<Rightarrow> (Ret (buildReceipt tx i (hex_encode (blk_Hash b))), r)
       | None \<Rightarrow>
           (case LoadTxFromStore (re_bolt env) (re_gob env) (search_bytes s) (rpc_chain r) of
              Ret (Some (tx, height)) \<Rightarrow>
                (Ret (if 0 < height then buildReceipt tx (unat height) (hex_encode (tx_Hash tx)) else
                JNull), r)
            | Panic \<Rightarrow> (Panic, r)
            | _ \<Rightarrow> (Ret JNull, r)))"

subsection \<open>The method table\<close>

definition fixed_reply :: "string \<Rightarrow> 'd handler" where
  "fixed_reply s params r = (Ret (JStr s), r)"

definition refuse :: "string \<Rightarrow> 'd handler" where
  "refuse msg params r = (Err (Errorf msg), r)"

definition method_table :: "'d RpcEnv \<Rightarrow> (string \<times> 'd handler) list" where
  "method_table env =
    [(''eth_chainId'', fixed_reply (hex0x 10008)), (''net_version'', fixed_reply ''10008''),
     (''eth_blockNumber'', eth_blockNumber), (''eth_getBlockByNumber'', eth_getBlockByNumber),
     (''eth_getBlockByHash'', eth_getBlockByHash), (''eth_getBalance'', eth_getBalance),
     (''eth_getTransactionCount'', eth_getTransactionCount),
     (''way_debugAccountCount'', way_debugAccountCount env), (''way_debugAccounts'', way_debugAccounts env),
     (''eth_call'', eth_call env), (''eth_estimateGas'', fixed_reply ''0x5208''),
     (''eth_gasPrice'', fixed_reply ''0x9502f900''), (''way_getDoxLevel'', way_getDoxLevel),
     (''way_getBalance'', way_getBalance), (''way_fundGenesis'', way_fundGenesis env),
     (''way_getBlockCount'', way_getBlockCount), (''way_validatorCount'', way_validatorCount),
     (''way_accountCount'', way_accountCount env), (''way_totalTxCount'', way_totalTxCount),
     (''way_pendingTxCount'', way_pendingTxCount), (''way_govProposals'', way_govProposals),
     (''way_twoWayStats'', way_twoWayStats), (''way_bridgeStats'', way_bridgeStats),
     (''way_taskStatus'', way_taskStatus), (''way_questPoolRemaining'', way_questPoolRemaining),
     (''way_questGetAutopilot'', way_questGetAutopilot), (''way_wayTotalSupply'', way_wayTotalSupply),
     (''way_1wayTotalSupply'', way_1wayTotalSupply), (''way_questCap'', way_questCap),
     (''way_econoIndicators'', way_econoIndicators env), (''way_econoPolicy'', way_econoPolicy),
     (''way_swayEmissionProjection'', way_swayEmissionProjection), (''way_deployCode'', way_deployCode),
     (''eth_sendRawTransaction'', eth_sendRawTransaction env),
     (''eth_getTransactionByHash'', eth_getTransactionByHash env),
     (''eth_getTransactionReceipt'', eth_getTransactionReceipt env), (''eth_getLogs'', eth_getLogs env),
     (''eth_getBlockTransactionCountByNumber'', eth_getBlockTransactionCountByNumber),
     (''eth_subscribe'', refuse ''eth_subscribe requires a WebSocket connection''),
     (''eth_unsubscribe'', refuse ''eth_unsubscribe requires a WebSocket connection'')]"

definition handleMethod ::
  "'d RpcEnv \<Rightarrow> string \<Rightarrow> json option \<Rightarrow> 'd RPCServer \<Rightarrow> json outcome \<times> 'd RPCServer" where
  "handleMethod env method params r =
     (case map_of (method_table env) method of
        Some h \<Rightarrow> h params r
      | None \<Rightarrow> (Err (Errorf ''method not found''), r))"

subsection \<open>Requests\<close>

record JSONRPCRequest =
  req_Method :: string
  req_Params :: "json option"
  req_ID :: json

datatype response =
    Empty
  | Result json json
  | Failure json int go_error

text \<open>
  A plain HTTP request; \<open>req\<close> is the decoded body. The panic of a handler ends the request
  without a reply.
\<close>

definition handleRequest ::
  "'d RpcEnv \<Rightarrow> string \<Rightarrow> JSONRPCRequest option \<Rightarrow> 'd RPCServer \<Rightarrow> response \<times> 'd RPCServer" where
  "handleRequest env verb req r =
     (if verb = ''OPTIONS'' then (Empty, r)
      else
        case req of
          None \<Rightarrow> (Failure JNull (-32700) (Errorf ''Parse error''), r)
        | Some q \<Rightarrow>
            (case handleMethod env (req_Method q) (req_Params q) r of
               (Ret res, r') \<Rightarrow> (Result (req_ID q) res, r')
             | (Err e, r') \<Rightarrow> (Failure (req_ID q) (-32000) e, r')
             | (Panic, r') \<Rightarrow> (Empty, r')))"

text \<open>One message of a websocket client on the connection \<open>conn\<close>.\<close>

definition ws_request ::
  "'d RpcEnv \<Rightarrow> 'c \<Rightarrow> JSONRPCRequest \<Rightarrow> 'd RPCServer \<Rightarrow> ('c, json option) SubscriptionManager
   \<Rightarrow> (response \<times> 'd RPCServer \<times> ('c, json option) SubscriptionManager) outcome" where
  "ws_request env conn q r sm =
     (if req_Method q = ''eth_subscribe'' then
        (case as_array (req_Params q) of
           Some (JStr subType # rest) \<Rightarrow>
             let (i, sm') = Subscribe subType (case rest of [] \<Rightarrow> None | p # _ \<Rightarrow>
             Some p) conn sm in
             Ret (Result (req_ID q) (JStr i), r, sm')
         | Some (_ # _) \<Rightarrow> Ret (Failure (req_ID q) (-32602) (Errorf ''invalid subscription
         type''), r, sm)
         | _ \<Rightarrow> Ret (Failure (req_ID q) (-32602) (Errorf ''invalid params''), r, sm))
      else if req_Method q = ''eth_unsubscribe'' then
        (case string_params (req_Params q) of
           Some (i # _) \<Rightarrow>
             (case Unsubscribe i sm of
                Ret (ok, sm') \<Rightarrow> Ret (Result (req_ID q) (JBool ok), r, sm')
              | Err e \<Rightarrow> Err e | Panic \<Rightarrow> Panic)
         | _ \<Rightarrow> Ret (Failure (req_ID q) (-32602) (Errorf ''invalid params''), r, sm))
      else
        case handleMethod env (req_Method q) (req_Params q) r of
          (Ret res, r') \<Rightarrow> Ret (Result (req_ID q) res, r', sm)
        | (Err e, r') \<Rightarrow> Ret (Failure (req_ID q) (-32000) e, r', sm)
        | (Panic, r') \<Rightarrow> Panic)"

subsection \<open>What requests change\<close>

text \<open>A request that changes nothing but, at most, the package-level variables and the set of accounts that exist.\<close>

definition reads_only :: "'d RPCServer \<Rightarrow> 'd RPCServer \<Rightarrow> bool" where
  "reads_only r r' \<longleftrightarrow>
     (\<forall>a. acct (rpc_world r') a = acct (rpc_world r) a) \<and> Logs (rpc_world r') = Logs
         (rpc_world r) \<and>
     Pool (sc_Chain (rpc_chain r')) = Pool (sc_Chain (rpc_chain r)) \<and> rpc_blocks r' = rpc_blocks r \<and>
     ch_Height (sc_Chain (rpc_chain r')) = ch_Height (sc_Chain (rpc_chain r)) \<and>
     ch_Staking (sc_Chain (rpc_chain r')) = ch_Staking (sc_Chain (rpc_chain r)) \<and>
     sc_Store (rpc_chain r') = sc_Store (rpc_chain r) \<and> rpc_validators r' = rpc_validators r \<and>
     rpc_announced r' = rpc_announced r"

lemma reads_only_refl [simp, intro]: "reads_only r r"
  by (simp add: reads_only_def)

lemma rpc_world_upd [simp]: "rpc_world (upd_world f r) = f (rpc_world r)"
  by (simp add: rpc_world_def upd_world_def upd_chain_def)

lemma reads_only_upd_world:
  assumes "\<And>a. acct (f (rpc_world r)) a = acct (rpc_world r) a" "Logs (f (rpc_world r)) = Logs (rpc_world r)"
  shows "reads_only r (upd_world f r)"
  using assms by (simp add: reads_only_def) (simp add: upd_world_def upd_chain_def rpc_blocks_def)

lemma reads_only_with_params:
  assumes "\<And>p. ps = Some p \<Longrightarrow> n \<le> length p \<Longrightarrow> reads_only r (snd (f p r))"
  shows "reads_only r (snd (with_params ps n msg f r))"
  using assms by (auto simp: with_params_def split: option.splits)

lemma reads_only_world_query:
  assumes "\<And>w a. acct (snd (q w)) a = acct w a" "\<And>w. Logs (snd (q w)) = Logs w"
  shows "reads_only r (snd (world_query q params r))"
  using reads_only_upd_world[of "\<lambda>_. snd (q (rpc_world r))" r] assms by (simp add: world_query_def split_beta)

lemma keep_globals_state [simp]:
  "acct (keep_globals w1 w) a = acct w a" "Logs (keep_globals w1 w) = Logs w"
  by (simp_all add: keep_globals_def acct_def)

definition writers :: "string list" where
  "writers = [''way_fundGenesis'', ''way_deployCode'', ''eth_sendRawTransaction'']"

lemma account_query_reads: "reads_only r (snd (account_query f params r))"
  unfolding account_query_def by (intro reads_only_with_params) (auto split: option.splits)

lemma eth_call_reads: "reads_only r (snd (eth_call env params r))"
  unfolding eth_call_def
  by (intro reads_only_with_params)
     (auto simp: Let_def split: option.splits prod.splits outcome.splits intro!: reads_only_upd_world)

lemma block_queries_read:
  "reads_only r (snd (eth_getBlockByNumber params r))" "reads_only r (snd (eth_getBlockByHash params r))"
  "reads_only r (snd (eth_getBlockTransactionCountByNumber params r))" "reads_only r (snd (way_taskStatus params r))"
  unfolding eth_getBlockByNumber_def eth_getBlockByHash_def eth_getBlockTransactionCountByNumber_def
      way_taskStatus_def
  by (intro reads_only_with_params; auto simp: Let_def split: option.splits)+

lemma tx_queries_read:
  "reads_only r (snd (eth_getTransactionByHash env params r))"
  "reads_only r (snd (eth_getTransactionReceipt env params r))"
  unfolding eth_getTransactionByHash_def eth_getTransactionReceipt_def
  by (intro reads_only_with_params; auto simp: Let_def split: option.splits outcome.splits)+

lemma stats_read:
  "reads_only r (snd (way_govProposals params r))" "reads_only r (snd (way_twoWayStats params r))"
  "reads_only r (snd (way_bridgeStats params r))" "reads_only r (snd (way_1wayTotalSupply params r))"
  "reads_only r (snd (way_questPoolRemaining params r))" "reads_only r (snd (way_questGetAutopilot params r))"
  "reads_only r (snd (way_wayTotalSupply params r))" "reads_only r (snd (way_questCap params r))"
  unfolding way_govProposals_def way_twoWayStats_def way_bridgeStats_def way_1wayTotalSupply_def
    way_questPoolRemaining_def way_questGetAutopilot_def way_wayTotalSupply_def way_questCap_def
  by (rule reads_only_world_query;
      simp add: GovernanceListProposals_def GetTwoWayStats_def GetBridgeStats_def Get1WayTotalSupply_def
      Let_def)+

lemma plain_reads:
  "snd (fixed_reply s params r) = r" "snd (refuse msg params r) = r" "snd (eth_blockNumber params r) = r"
  "snd (way_debugAccountCount env params r) = r" "snd (way_debugAccounts env params r) = r"
  "snd (way_getBlockCount params r) = r" "snd (way_validatorCount params r) = r"
  "snd (way_accountCount env params r) = r" "snd (way_totalTxCount params r) = r"
  "snd (way_pendingTxCount params r) = r" "snd (way_econoPolicy params r) = r"
  "snd (way_swayEmissionProjection params r) = r" "snd (eth_getLogs env params r) = r"
  by (simp_all add: fixed_reply_def refuse_def eth_blockNumber_def way_debugAccountCount_def
      way_debugAccounts_def way_getBlockCount_def way_validatorCount_def way_accountCount_def
      way_totalTxCount_def way_pendingTxCount_def way_econoPolicy_def way_swayEmissionProjection_def
      eth_getLogs_def Let_def)

lemma account_queries_read:
  "reads_only r (snd (eth_getBalance params r))" "reads_only r (snd (eth_getTransactionCount params r))"
  "reads_only r (snd (way_getDoxLevel params r))" "reads_only r (snd (way_getBalance params r))"
  by (simp_all add: eth_getBalance_def eth_getTransactionCount_def way_getDoxLevel_def way_getBalance_def
      account_query_reads)

lemma way_econoIndicators_reads: "reads_only r (snd (way_econoIndicators env params r))"
  by (simp add: way_econoIndicators_def Let_def reads_only_upd_world)

lemmas readers = plain_reads account_queries_read way_econoIndicators_reads eth_call_reads
  block_queries_read tx_queries_read stats_read reads_only_refl

lemma table_reads:
  "list_all (\<lambda>(m, h). m \<in> set writers \<or> reads_only r (snd (h params r))) (method_table env)"
  unfolding method_table_def writers_def list.pred_inject prod.case
  by (intro conjI; (simp only: readers simp_thms; fail)?; simp)

lemma handleMethod_reads:
  assumes "m \<notin> set writers" shows "reads_only r (snd (handleMethod env m params r))"
proof (cases "map_of (method_table env) m")
  case (Some h)
  then have "(m, h) \<in> set (method_table env)"
    by (rule map_of_SomeD)
  with table_reads[of r params env] assms have "reads_only r (snd (h params r))"
    by (auto simp: list_all_iff)
  with Some show ?thesis
    by (simp add: handleMethod_def)
qed (simp add: handleMethod_def)

subsection \<open>Admission of transactions\<close>

lemma need_Ret: "need rd n msg f = Ret x \<longleftrightarrow> (\<exists>rd'. reader_read rd n = Some rd' \<and> f rd' = Ret x)"
  by (simp add: need_def split: option.splits)

lemma DeserializeTx_hash: "DeserializeTx data = Ret tx \<Longrightarrow> tx_Hash tx = TxHash tx"
  by (auto simp: DeserializeTx_def Let_def need_Ret TxHash_def)

lemma DeserializeTxHex_hash: "DeserializeTxHex s = Ret tx \<Longrightarrow> tx_Hash tx = TxHash tx"
  by (auto simp: DeserializeTxHex_def split: option.splits intro: DeserializeTx_hash)

text \<open>The tests that block production applies to a transaction before it runs it.\<close>

definition passes_checks :: "sig_verify \<Rightarrow> Transaction \<Rightarrow> World \<Rightarrow> bool" where
  "passes_checks V tx w \<longleftrightarrow>
     (let sender = acct w (tx_From tx) in
      sig_accepted V tx \<and> tx_Nonce tx = Nonce sender \<and>
      (tx_To tx = [] \<longrightarrow> CanDeployContract (DoxDevLevel sender) = None) \<and>
      int (unat (tx_GasLimit tx * gas_price tx)) + tx_Value tx \<le> Balance sender)"

lemma exec_tx_rejects:
  "\<not> passes_checks (be_Verify env) tx w \<Longrightarrow> exec_tx env h tx w = Ret (None, touch w (tx_From tx))"
  by (auto simp: exec_tx_def passes_checks_def Let_def)

lemma exec_tx_runs:
  assumes "passes_checks (be_Verify env) tx w"
    and "Execute (be_Verify env) (be_host env) (be_revm env)
           (NewEVM (tx_Lane tx) h (of_int (be_now env)) 10008 (tx_GasLimit tx) []) (tx_context tx)
           (touch w (tx_From tx)) = (Ret result, w1)"
  shows "\<exists>t cost. exec_tx env h tx w =
           Ret (t, upd_acct w1 (tx_From tx) (\<lambda>acc. acc\<lparr>Balance := Balance acc - cost,
           Nonce := Nonce acc + 1\<rparr>))
         \<and> (t = None \<longleftrightarrow> er_Error result \<noteq> None)"
  using assms by (auto simp: exec_tx_def passes_checks_def Let_def)

definition priced :: "Transaction \<Rightarrow> Transaction" where
  "priced tx = tx\<lparr>tx_GasPrice := gas_price tx\<rparr>"

lemma priced_simps [simp]:
  "tx_From (priced tx) = tx_From tx" "tx_To (priced tx) = tx_To tx" "tx_Nonce (priced tx) = tx_Nonce tx"
  "tx_Hash (priced tx) = tx_Hash tx" "gas_price (priced tx) = gas_price tx"
  "tx_GasLimit (priced tx) = tx_GasLimit tx" "tx_Value (priced tx) = tx_Value tx"
  "TxHash (priced tx) = TxHash tx" "tx_Signature (priced tx) = tx_Signature tx"
  "tx_GasPrice (priced tx) = gas_price tx"
  by (simp_all add: priced_def gas_price_def TxHash_def)

lemma sig_accepted_priced: "sig_accepted V (priced tx) = sig_accepted V tx"
  by (simp add: sig_accepted_def split: outcome.split)

lemma signature_error_iff:
  assumes "tx_Hash tx = TxHash tx"
  shows "signature_error env tx = None \<longleftrightarrow> sig_accepted (re_Verify env) tx"
  using assms by (simp add: signature_error_def sig_accepted_def split: outcome.splits)

lemma sendRaw_effect:
  fixes r :: "'d RPCServer"
  assumes d: "DeserializeTxHex (trim0x raw) = Ret tx0"
  defines "r1 \<equiv> upd_world (\<lambda>w. touch w (tx_From tx0)) r"
  shows "passes_checks (re_Verify env) (priced tx0) (rpc_world r) \<Longrightarrow>
      eth_sendRawTransaction env (Some (JArr [JStr raw])) r =
        (Ret (JStr (''0x'' @ hex_encode (tx_Hash tx0))),
         BroadcastTransaction env (priced tx0) (upd_chain (\<lambda>c. c\<lparr>Pool := pool_Add (Pool c) (priced tx0)\<rparr>) r1))"
    and "\<not> passes_checks (re_Verify env) (priced tx0) (rpc_world r) \<Longrightarrow>
      \<exists>e. eth_sendRawTransaction env (Some (JArr [JStr raw])) r = (Err e, r1)"
proof -
  have sig: "signature_error env tx0 = None \<longleftrightarrow> sig_accepted (re_Verify env) (priced tx0)"
    unfolding sig_accepted_priced by (rule signature_error_iff[OF DeserializeTxHex_hash[OF d]])
  have priced: "tx0\<lparr>tx_GasPrice := if tx_GasPrice tx0 = 0 then 1 else tx_GasPrice tx0\<rparr> = priced tx0"
    by (simp add: priced_def gas_price_def)
  have sender: "acct (rpc_world r1) (tx_From tx0) = acct (rpc_world r) (tx_From tx0)"
    by (simp add: r1_def)
  note unfolded = eth_sendRawTransaction_def with_params_def string_params_def Let_def d r1_def[symmetric]
    priced sender
  show "eth_sendRawTransaction env (Some (JArr [JStr raw])) r =
        (Ret (JStr (''0x'' @ hex_encode (tx_Hash tx0))),
         BroadcastTransaction env (priced tx0) (upd_chain (\<lambda>c. c\<lparr>Pool := pool_Add (Pool c) (priced tx0)\<rparr>) r1))"
    if "passes_checks (re_Verify env) (priced tx0) (rpc_world r)"
    using that sig by (simp add: unfolded passes_checks_def gas_price_def[of tx0] not_less split: if_splits)
  show "\<exists>e. eth_sendRawTransaction env (Some (JArr [JStr raw])) r = (Err e, r1)"
    if "\<not> passes_checks (re_Verify env) (priced tx0) (rpc_world r)"
    using that sig
    by (auto simp: unfolded passes_checks_def gas_price_def[of tx0] not_less split: option.splits if_splits)
qed

lemma sendRaw_world:
  assumes "DeserializeTxHex (trim0x raw) = Ret tx0"
  shows "rpc_world (snd (eth_sendRawTransaction env (Some (JArr [JStr raw])) r)) = touch (rpc_world r) (tx_From tx0)"
proof (cases "passes_checks (re_Verify env) (priced tx0) (rpc_world r)")
  case True
  then show ?thesis
    using sendRaw_effect(1)[OF assms True]
    by (simp add: BroadcastTransaction_def rpc_world_def upd_chain_def upd_world_def)
next
  case False
  then show ?thesis
    using sendRaw_effect(2)[OF assms False] by auto
qed

subsection \<open>The log filter position by position\<close>

lemma topics_match_iff:
  "topics_match ts wanted \<longleftrightarrow>
     (\<forall>i < length wanted. wanted ! i = [] \<or> (i < length ts \<and> hit_any (hex_encode (ts ! i)) (wanted ! i)))"
proof (induction wanted arbitrary: ts)
  case (Cons w wanted)
  have "(\<forall>i < length (w # wanted). P i) \<longleftrightarrow> P 0 \<and> (\<forall>i < length wanted. P (Suc i))" for P
    by (auto simp: less_Suc_eq_0_disj)
  then show ?case
    using Cons.IH[of "tl ts"] by (cases ts) auto
qed simp

subsection \<open>Unauthenticated writers\<close>

lemma fundGenesis_effect:
  fixes addr :: string
  assumes "SetString16 (trim0x amt) = Some v"
  defines "a \<equiv> clean_addr addr"
  shows "\<exists>r'. way_fundGenesis env (Some (JArr [JStr addr, JStr amt])) r = (Ret (JStr (''0x'' @ hex_int (balance_of (rpc_world r) a + v))), r')
     \<and> balance_of (rpc_world r') a = balance_of (rpc_world r) a + v
     \<and> 3 \<le> DoxDevLevel (acct (rpc_world r') a)
     \<and> (\<forall>x. x \<noteq> a \<longrightarrow> acct (rpc_world r') x = acct (rpc_world r) x)"
proof -
  have saved: "rpc_world (save_accounts env s) = rpc_world s" for s
    by (simp add: save_accounts_def rpc_world_def split: option.splits prod.splits)
  show ?thesis
    using assms(1)
    by (simp add: way_fundGenesis_def with_params_def string_params_def Let_def saved balance_of_def
        acct_upd_acct not_less flip: a_def)
qed

end
