(* ===== verification/P2p.thy ===== *)
theory P2p
  imports Consensus_Round
begin

text \<open>
  The peer-to-peer transport (\<^verbatim>\<open>p2p.go\<close>): the table of peers, one read loop per connection, and
  the bounded queue of incoming messages. Connections are values of an arbitrary type; dialling,
  accepting, decoding a message, losing a connection and the liveness check are events, and the
  step relation \<open>net_step\<close> allows them in any order, as the goroutines of the node may run.
\<close>

subsection \<open>State\<close>

record 'k Peer =
  peer_ID :: string
  peer_Addr :: string
  peer_Conn :: 'k
  peer_Height :: u64

text \<open>\<open>loops\<close> are the running read loops, by the connection they read from.\<close>

record 'k Network =
  net_ID :: string
  net_ListenAddr :: string
  Peers :: "string \<rightharpoonup> 'k Peer"
  loops :: "'k \<rightharpoonup> string"
  Incoming :: "P2PMessage list"
  net_seq :: u64

definition MsgTx :: u8 where "MsgTx = 1"
definition MsgPeerList :: u8 where "MsgPeerList = 4"

definition IncomingCapacity :: nat where "IncomingCapacity = 256"

definition NewP2PNode :: "string \<Rightarrow> string \<Rightarrow> 'k Network" where
  "NewP2PNode i listenAddr =
     \<lparr>net_ID = i, net_ListenAddr = listenAddr, Peers = Map.empty, loops = Map.empty, Incoming = [],
      net_seq = 0\<rparr>"

definition nextSeq :: "'k Network \<Rightarrow> u64 \<times> 'k Network" where
  "nextSeq n = (let s = net_seq n + 1 in (s, n\<lparr>net_seq := s\<rparr>))"

subsection \<open>Peers come and go\<close>

definition add_peer :: "string \<Rightarrow> string \<Rightarrow> 'k \<Rightarrow> 'k Network \<Rightarrow> 'k Network" where
  "add_peer pid addr k n =
     n\<lparr>Peers := (Peers n)(pid \<mapsto> \<lparr>peer_ID = pid, peer_Addr = addr, peer_Conn = k,
         peer_Height = 0\<rparr>),
       loops := (loops n)(k \<mapsto> pid)\<rparr>"

text \<open>\<open>dialed\<close> is the connection, or the failure, of \<^verbatim>\<open>net.DialTimeout\<close>; the handshake is returned.\<close>

definition Connect :: "string \<Rightarrow> 'k option \<Rightarrow> 'k Network \<Rightarrow> P2PMessage outcome \<times> 'k Network" where
  "Connect addr dialed n =
     (case dialed of
        None \<Rightarrow> (Err (Errorf ''connect failed''), n)
      | Some k \<Rightarrow>
          (Ret \<lparr>msg_Type = MsgPeerList, msg_Payload = net_ID n @ ''|'' @ net_ListenAddr n,
          msg_From = net_ID n,
                msg_Seq = 0\<rparr>,
           add_peer (''peer@'' @ addr) addr k n))"

definition accept_conn :: "string \<Rightarrow> 'k \<Rightarrow> 'k Network \<Rightarrow> 'k Network" where
  "accept_conn remote k n = add_peer (''inbound@'' @ remote) remote k n"

definition Stop :: "'k Network \<Rightarrow> 'k Network" where
  "Stop n = n\<lparr>Peers := Map.empty\<rparr>"

text \<open>The end of a read loop removes the entry under the peer's id, whoever holds it by then.\<close>

definition end_loop :: "'k \<Rightarrow> 'k Network \<Rightarrow> 'k Network" where
  "end_loop k n =
     (case loops n k of
        None \<Rightarrow> n
      | Some pid \<Rightarrow> n\<lparr>Peers := (Peers n)(pid := None), loops := (loops n)(k := None)\<rparr>)"

text \<open>\<open>dead\<close> are the connections on which the probe of the heartbeat fails.\<close>

definition heartbeat :: "('k \<Rightarrow> bool) \<Rightarrow> 'k Network \<Rightarrow> 'k Network" where
  "heartbeat dead n =
     n\<lparr>Peers := (\<lambda>pid. case Peers n pid of
          None \<Rightarrow> None
        | Some p \<Rightarrow> if dead (peer_Conn p) then None else Some p)\<rparr>"

subsection \<open>Messages\<close>

text \<open>
  A decoded message carries the id of the peer it came from. A handshake sets the peer's height,
  every other message is queued, or dropped when the queue is full.
\<close>

definition receive :: "'k \<Rightarrow> P2PMessage \<Rightarrow> 'k Network \<Rightarrow> 'k Network" where
  "receive k m0 n =
     (case loops n k of
        None \<Rightarrow> n
      | Some pid \<Rightarrow>
          let m = m0\<lparr>msg_From := pid\<rparr> in
          if msg_Type m = MsgPeerList then
            (case Peers n pid of
               None \<Rightarrow> n
             | Some p \<Rightarrow> n\<lparr>Peers := (Peers n)(pid \<mapsto> p\<lparr>peer_Height :=
             msg_Seq m\<rparr>)\<rparr>)
          else if length (Incoming n) < IncomingCapacity then n\<lparr>Incoming := Incoming n @ [m]\<rparr>
          else n)"

text \<open>The peers a message is handed to.\<close>

definition Broadcast :: "P2PMessage \<Rightarrow> 'k Network \<Rightarrow> ('k \<times> P2PMessage) set" where
  "Broadcast m n = {(peer_Conn p, m) | p. p \<in> ran (Peers n)}"

definition sendMsg :: "string \<Rightarrow> P2PMessage \<Rightarrow> 'k Network \<Rightarrow> ('k \<times> P2PMessage) option" where
  "sendMsg pid m n = map_option (\<lambda>p. (peer_Conn p, m)) (Peers n pid)"

definition take_message :: "'k Network \<Rightarrow> P2PMessage option \<times> 'k Network" where
  "take_message n =
     (case Incoming n of [] \<Rightarrow> (None, n) | m # ms \<Rightarrow> (Some m, n\<lparr>Incoming := ms\<rparr>))"

definition announce_block :: "BlockWithTx \<Rightarrow> 'k Network \<Rightarrow> P2PMessage \<times> 'k Network" where
  "announce_block b n =
     (let (s, n') = nextSeq n in
      (\<lparr>msg_Type = MsgBlock,
        msg_Payload = ''block:#'' @ dec_string (unat (blk_Height b)) @ '':hash:'' @
          hex_encode (take 4 (blk_Hash b)) @ '':txs:'' @ dec_string (length (blk_Transactions b)),
        msg_From = net_ID n, msg_Seq = s\<rparr>, n'))"

definition announce_tx :: "Transaction \<Rightarrow> 'k Network \<Rightarrow> P2PMessage \<times> 'k Network" where
  "announce_tx tx n =
     (let (s, n') = nextSeq n in
      (\<lparr>msg_Type = MsgTx, msg_Payload = ''tx:'' @ hex_encode (take 4 (tx_Hash tx)), msg_From =
      net_ID n,
        msg_Seq = s\<rparr>, n'))"

text \<open>
  \<^verbatim>\<open>RunP2PNode\<close> of \<^verbatim>\<open>p2p_daemon.go\<close>: \<open>listening\<close> says whether the listener could be opened; the
  result is the node and the addresses that are dialled in the background. The callbacks it
  installs are called from nowhere.
\<close>

definition RunP2PNode ::
  "string \<Rightarrow> string \<Rightarrow> string list \<Rightarrow> bool \<Rightarrow> ('k Network \<times> string list) option" where
  "RunP2PNode nodeID listenAddr seedPeers listening =
     (if listening then Some (NewP2PNode nodeID listenAddr, filter (\<lambda>addr. addr \<noteq>
         listenAddr) seedPeers)
      else None)"

text \<open>\<^verbatim>\<open>getEnvAsList\<close> of \<^verbatim>\<open>cli.go\<close>: the whole value is one address.\<close>

definition getEnvAsList :: "string \<Rightarrow> string list" where
  "getEnvAsList v = (if v = [] then [] else [v])"

subsection \<open>Runs\<close>

text \<open>
  The events of a node. A connection that is opened is none of those its loops read from. Only
  \<open>Consume\<close> takes a message out of the queue, which is what \<open>taken\<close> says.
\<close>

datatype 'k net_event =
    Dial string 'k
  | Accept string 'k
  | Lost 'k
  | Probe "'k \<Rightarrow> bool"
  | Arrive 'k P2PMessage
  | Consume
  | SendBlock BlockWithTx
  | SendTx Transaction
  | Shut

inductive net_step :: "'k Network \<Rightarrow> 'k net_event \<Rightarrow> 'k Network \<Rightarrow> bool" where
  connect: "loops n k = None \<Longrightarrow> net_step n (Dial addr k) (snd (Connect addr (Some k) n))"
| accept: "loops n k = None \<Longrightarrow> net_step n (Accept remote k) (accept_conn remote k n)"
| lost: "net_step n (Lost k) (end_loop k n)"
| probe: "net_step n (Probe dead) (heartbeat dead n)"
| arrive: "net_step n (Arrive k m) (receive k m n)"
| consume: "net_step n Consume (snd (take_message n))"
| send_block: "net_step n (SendBlock b) (snd (announce_block b n))"
| send_tx: "net_step n (SendTx tx) (snd (announce_tx tx n))"
| stop: "net_step n Shut (Stop n)"

inductive_cases net_stepE [elim]: "net_step n e n'"

fun taken :: "'k net_event \<Rightarrow> 'k Network \<Rightarrow> P2PMessage list" where
  "taken Consume n = (case fst (take_message n) of None \<Rightarrow> [] | Some m \<Rightarrow> [m])"
| "taken _ n = []"

text \<open>A run: its events, latest first, the messages consumed in order, and the node it leads to.\<close>

inductive net_run :: "'k net_event list \<Rightarrow> P2PMessage list \<Rightarrow> 'k Network \<Rightarrow> bool" where
  start: "net_run [] [] (NewP2PNode i listenAddr)"
| step: "net_run es ms n \<Longrightarrow> net_step n e n' \<Longrightarrow> net_run (e # es) (ms @ taken e n) n'"

text \<open>
  Read off the events alone: the identifier a connection got when it was opened, until it is
  lost, and the messages that arrived over open connections, in order, each with the identifier
  of its connection as its sender. Handshakes are not among them.
\<close>

fun opened_as :: "'k net_event list \<Rightarrow> 'k \<Rightarrow> string option" where
  "opened_as [] k = None"
| "opened_as (Dial addr k' # es) k = (if k' = k then Some (''peer@'' @ addr) else opened_as es k)"
| "opened_as (Accept remote k' # es) k =
     (if k' = k then Some (''inbound@'' @ remote) else opened_as es k)"
| "opened_as (Lost k' # es) k = (if k' = k then None else opened_as es k)"
| "opened_as (_ # es) k = opened_as es k"

fun attributed :: "'k net_event list \<Rightarrow> P2PMessage list" where
  "attributed [] = []"
| "attributed (Arrive k m # es) =
     attributed es @
     (case opened_as es k of
        None \<Rightarrow> []
      | Some pid \<Rightarrow> if msg_Type m = MsgPeerList then [] else [m\<lparr>msg_From := pid\<rparr>])"
| "attributed (_ # es) = attributed es"

definition net_inv :: "'k net_event list \<Rightarrow> P2PMessage list \<Rightarrow> 'k Network \<Rightarrow> bool" where
  "net_inv es ms n \<longleftrightarrow>
     length (Incoming n) \<le> IncomingCapacity
     \<and> (\<forall>k. loops n k = opened_as es k)
     \<and> subseq (ms @ Incoming n) (attributed es)
     \<and> (length (attributed es) \<le> IncomingCapacity \<longrightarrow> ms @ Incoming n = attributed es)
     \<and> (\<forall>pid p. Peers n pid = Some p \<longrightarrow> peer_ID p = pid)"

lemma add_peer_inv:
  assumes "net_inv es ms n" "attributed (e # es) = attributed es"
    and "\<And>k'. opened_as (e # es) k' = (if k' = k then Some pid else opened_as es k')"
  shows "net_inv (e # es) ms (add_peer pid addr k n)"
  using assms by (auto simp: net_inv_def add_peer_def)

text \<open>A message that arrives over an open connection joins the queue unless it is full.\<close>

lemma receive_cases:
  assumes "loops n k = Some pid" "msg_Type m \<noteq> MsgPeerList"
  shows "receive k m n =
    (if length (Incoming n) < IncomingCapacity
     then n\<lparr>Incoming := Incoming n @ [m\<lparr>msg_From := pid\<rparr>]\<rparr> else n)"
  using assms by (simp add: receive_def Let_def)

lemma receive_inv:
  assumes "net_inv es ms n"
  shows "net_inv (Arrive k m # es) ms (receive k m n)"
proof (cases "loops n k")
  case None
  with assms show ?thesis
    by (auto simp: net_inv_def receive_def)
next
  case (Some pid)
  have o: "opened_as es k = Some pid"
    using assms Some by (simp add: net_inv_def)
  show ?thesis
  proof (cases "msg_Type m = MsgPeerList")
    case True
    with assms Some o show ?thesis
      by (auto simp: net_inv_def receive_def Let_def split: option.splits)
  next
    case False
    have sub: "subseq (ms @ Incoming n) (attributed es)"
      using assms by (simp add: net_inv_def)
    have "subseq ((ms @ Incoming n) @ [m\<lparr>msg_From := pid\<rparr>]) (attributed es @ [m\<lparr>msg_From := pid\<rparr>])"
      "subseq ((ms @ Incoming n) @ []) (attributed es @ [m\<lparr>msg_From := pid\<rparr>])"
      by (intro list_emb_append_mono sub; simp)+
    moreover have "length (Incoming n) < IncomingCapacity" if "length (attributed es) < IncomingCapacity"
      using list_emb_length[OF sub] that by simp
    ultimately show ?thesis
      using assms o by (auto simp: net_inv_def receive_cases[OF Some False] False Suc_le_eq)
  qed
qed

lemma net_step_inv: "net_step n e n' \<Longrightarrow> net_inv es ms n \<Longrightarrow> net_inv (e # es) (ms @ taken e n) n'"
proof (induction rule: net_step.induct)
  case (connect n k addr)
  then show ?case
    by (simp add: Connect_def add_peer_inv)
next
  case (accept n k remote)
  then show ?case
    by (simp add: accept_conn_def add_peer_inv)
next
  case (arrive n k m)
  then show ?case
    by (simp add: receive_inv)
qed (auto simp: net_inv_def end_loop_def heartbeat_def Stop_def take_message_def announce_block_def
    announce_tx_def nextSeq_def Let_def split: option.splits list.splits if_splits)

lemma net_run_inv: "net_run es ms n \<Longrightarrow> net_inv es ms n"
proof (induction rule: net_run.induct)
  case (start i listenAddr)
  then show ?case
    by (simp add: net_inv_def NewP2PNode_def)
next
  case (step es ms n e n')
  then show ?case
    by (intro net_step_inv)
qed

text \<open>
  Connecting twice to one address and losing the first connection removes the entry of the
  second, whose loop goes on.
\<close>

lemma reconnect_loses_peer:
  assumes "k \<noteq> k'"
  shows "Peers (end_loop k (add_peer pid addr k' (add_peer pid addr k n))) pid = None"
    and "loops (end_loop k (add_peer pid addr k' (add_peer pid addr k n))) k' = Some pid"
  using assms by (simp_all add: end_loop_def add_peer_def)

subsection \<open>The configured peers\<close>

text \<open>
  \<^verbatim>\<open>runAsNode\<close> of \<^verbatim>\<open>node.go\<close> cuts the peer list from the environment at its commas, in a loop
  that ends when the rest is empty or the end of the address is the end of the rest; an empty
  address is skipped. Nothing bounds the loop syntactically: it is a partial function, and that it
  returns is a theorem.

  The inner loop looks for the end of the first address. It ranges over the runes of the text,
  while its index counts bytes: \<open>rune_width\<close> is the number of bytes of the UTF-8 sequence a
  non-empty text starts with, 1 if it starts with no valid one, as the Go language defines the
  iteration. Without a comma, the end is the byte after the first byte of the last rune.
\<close>

definition byte_at :: "string \<Rightarrow> nat \<Rightarrow> nat" where
  "byte_at s i = (if i < length s then of_char (s ! i) else 0)"

definition cont :: "nat \<Rightarrow> bool" where
  "cont b \<longleftrightarrow> 0x80 \<le> b \<and> b \<le> 0xBF"

definition rune_width :: "string \<Rightarrow> nat" where
  "rune_width s =
     (let b0 = byte_at s 0; b1 = byte_at s 1; b2 = byte_at s 2; b3 = byte_at s 3 in
      if 0xC2 \<le> b0 \<and> b0 \<le> 0xDF \<and> cont b1 then 2
      else if 0xE0 \<le> b0 \<and> b0 \<le> 0xEF \<and> cont b1 \<and> (b0 = 0xE0 \<longrightarrow> 0xA0 \<le> b1) \<and> (b0 = 0xED \<longrightarrow> b1 \<le> 0x9F)
              \<and> cont b2 then 3
      else if 0xF0 \<le> b0 \<and> b0 \<le> 0xF4 \<and> cont b1 \<and> (b0 = 0xF0 \<longrightarrow> 0x90 \<le> b1) \<and> (b0 = 0xF4 \<longrightarrow> b1 \<le> 0x8F)
              \<and> cont b2 \<and> cont b3 then 4
      else 1)"

text \<open>\<open>next_rune\<close> is the text after the first rune.\<close>

definition next_rune :: "string \<Rightarrow> string" where
  "next_rune s = drop (rune_width s) s"

lemma rune_width_pos: "0 < rune_width s"
  by (simp add: rune_width_def Let_def)

lemma next_rune_shorter: "s \<noteq> [] \<Longrightarrow> length (next_rune s) < length s"
  by (simp add: next_rune_def rune_width_pos)

function scan_end :: "nat \<Rightarrow> nat \<Rightarrow> string \<Rightarrow> nat" where
  "scan_end i e s =
     (if s = [] then e
      else if hd s = CHR '','' then i
      else scan_end (i + rune_width s) (i + 1) (next_rune s))"
  by pat_completeness auto
termination
  by (relation "measure (\<lambda>(i, e, s). length s)") (auto intro: next_rune_shorter)

declare scan_end.simps [simp del]

partial_function (option) split_peers :: "string \<Rightarrow> string list \<Rightarrow> string list option" where
  "split_peers peers addrs =
     (if peers = [] then Some addrs
      else
        let e = scan_end 0 0 peers;
            addr = take e peers;
            addrs' = (if addr \<noteq> [] then addrs @ [addr] else addrs) in
        if length peers \<le> e then Some addrs' else split_peers (drop (e + 1) peers) addrs')"

subsubsection \<open>What the loop returns\<close>

text \<open>
  The specification: the text between the commas, and what becomes of the last field, which the
  code cuts after the first byte of its last rune. The bytes behind the cut, without the first of
  them, are taken for another address.
\<close>

fun comma_fields :: "string \<Rightarrow> string list" where
  "comma_fields [] = [[]]"
| "comma_fields (c # cs) =
     (if c = CHR '','' then [] # comma_fields cs
      else case comma_fields cs of [] \<Rightarrow> [[c]] | f # fs \<Rightarrow> (c # f) # fs)"

function last_width :: "string \<Rightarrow> nat" where
  "last_width s =
     (if s = [] then 1 else if next_rune s = [] then rune_width s else last_width (next_rune s))"
  by pat_completeness auto
termination
  by (relation "measure length") (auto intro: next_rune_shorter)

declare last_width.simps [simp del]

lemma last_width_Nil [simp]: "last_width [] = 1"
  by (simp add: last_width.simps)

lemma last_width_next: "s \<noteq> [] \<Longrightarrow> next_rune s \<noteq> [] \<Longrightarrow> last_width s = last_width (next_rune s)"
  by (subst last_width.simps) simp

definition last_addresses :: "string \<Rightarrow> string list" where
  "last_addresses s =
     (let n = length s; v = last_width s in
      if v = 1 then [s] else [take (n + 1 - v) s, drop (n + 2 - v) s])"

definition peer_addresses :: "string \<Rightarrow> string list" where
  "peer_addresses s = filter (\<lambda>a. a \<noteq> [])
     (butlast (comma_fields s) @ last_addresses (last (comma_fields s)))"

text \<open>No byte of a rune that starts with another byte is a comma.\<close>

lemma rune_width_field:
  assumes "s \<noteq> []" "hd s \<noteq> CHR '',''"
  shows "rune_width s \<le> length (takeWhile (\<lambda>c. c \<noteq> CHR '','') s)"
proof -
  have comma: "c \<noteq> CHR '',''" if "cont (of_char c)" for c
    using that by (auto simp: cont_def)
  have out: "\<not> cont 0"
    by (simp add: cont_def)
  show ?thesis
    using assms comma out
    by (cases s rule: list.exhaust; cases "tl s"; cases "tl (tl s)"; cases "tl (tl (tl s))")
       (auto simp: rune_width_def Let_def byte_at_def nth_Cons')
qed

lemma takeWhile_drop:
  "n \<le> length (takeWhile P s) \<Longrightarrow> takeWhile P (drop n s) = drop n (takeWhile P s)"
proof (induction s arbitrary: n)
  case (Cons c s)
  then show ?case
    by (cases n) (auto split: if_splits)
qed simp

lemma field_next:
  assumes "s \<noteq> []" "hd s \<noteq> CHR '',''"
  shows "length (takeWhile (\<lambda>c. c \<noteq> CHR '','') s)
           = rune_width s + length (takeWhile (\<lambda>c. c \<noteq> CHR '','') (next_rune s))"
  using rune_width_field[OF assms] by (simp add: next_rune_def takeWhile_drop)

lemma comma_next:
  assumes "CHR '','' \<in> set s" "hd s \<noteq> CHR '',''"
  shows "CHR '','' \<in> set (next_rune s)"
proof (rule ccontr)
  assume "CHR '','' \<notin> set (next_rune s)"
  then have "takeWhile (\<lambda>c. c \<noteq> CHR '','') (next_rune s) = next_rune s"
    by (auto simp: takeWhile_eq_all_conv)
  moreover have "s \<noteq> []"
    using assms by auto
  ultimately have "length (takeWhile (\<lambda>c. c \<noteq> CHR '','') s) = rune_width s + length (next_rune s)"
    using field_next[of s] assms(2) by metis
  then have "length s \<le> length (takeWhile (\<lambda>c. c \<noteq> CHR '','') s)"
    by (simp add: next_rune_def)
  then have "takeWhile (\<lambda>c. c \<noteq> CHR '','') s = s"
    by (metis takeWhile_eq_take take_all)
  with assms(1) show False
    by (auto simp: takeWhile_eq_all_conv)
qed

lemma scan_end_comma:
  assumes "CHR '','' \<in> set s"
  shows "scan_end i e s = i + length (takeWhile (\<lambda>c. c \<noteq> CHR '','') s)"
  using assms
proof (induction i e s rule: scan_end.induct)
  case (1 i e s)
  then have s: "s \<noteq> []"
    by auto
  show ?case
  proof (cases "hd s = CHR '',''")
    case True
    with s show ?thesis
      by (cases s) (simp_all add: scan_end.simps)
  next
    case False
    then show ?thesis
      using 1(1)[OF s False comma_next[OF 1(2) False]] s
      by (subst scan_end.simps) (simp add: field_next)
  qed
qed

lemma rune_width_le: "s \<noteq> [] \<Longrightarrow> rune_width s \<le> length s"
  by (cases s; cases "tl s"; cases "tl (tl s)"; cases "tl (tl (tl s))")
     (auto simp: rune_width_def Let_def byte_at_def cont_def)

text \<open>Without a comma, the scan stops after the first byte of the last rune.\<close>

lemma scan_end_last:
  assumes "CHR '','' \<notin> set s" "s \<noteq> []"
  shows "scan_end i e s + last_width s = i + length s + 1"
  using assms
proof (induction i e s rule: scan_end.induct)
  case (1 i e s)
  have "hd s \<noteq> CHR '',''"
    using 1(2,3) by (metis list.set_sel(1))
  note IH = 1(1)[OF 1(3) this]
  have nx: "CHR '','' \<notin> set (next_rune s)"
    using 1(2) by (auto simp: next_rune_def dest: in_set_dropD)
  have len: "length s = rune_width s + length (next_rune s)"
    using rune_width_le[OF 1(3)] by (simp add: next_rune_def)
  show ?case
  proof (cases "next_rune s = []")
    case True
    then show ?thesis
      using len \<open>hd s \<noteq> _\<close> 1(3) by (subst scan_end.simps, subst last_width.simps) (simp add: scan_end.simps)
  next
    case False
    then show ?thesis
      using IH[OF nx False] len \<open>hd s \<noteq> _\<close> 1(3)
      by (subst scan_end.simps, subst last_width.simps) simp
  qed
qed

text \<open>The bytes of a rune after its first are continuation bytes, each a rune of its own.\<close>

lemma rune_tail_cont:
  "\<forall>c \<in> set (drop 1 (take (rune_width s) s)). cont (of_char c)"
  by (cases s; cases "tl s"; cases "tl (tl s)"; cases "tl (tl (tl s))")
     (auto simp: rune_width_def Let_def byte_at_def cont_def)

lemma last_width_bounds: "1 \<le> last_width s \<and> last_width s \<le> 4 \<and> (s \<noteq> [] \<longrightarrow> last_width s \<le> length s)"
proof (induction s rule: last_width.induct)
  case (1 s)
  have "rune_width s \<le> 4" "length (next_rune s) \<le> length s"
    by (simp_all add: rune_width_def Let_def next_rune_def)
  with 1 show ?case
    using rune_width_pos[of s] rune_width_le[of s] by (subst (1 2 3) last_width.simps) (auto simp: Suc_le_eq)
qed

lemma last_tail_cont: "\<forall>c \<in> set (drop (length s + 1 - last_width s) s). cont (of_char c)"
proof (induction s rule: last_width.induct)
  case (1 s)
  show ?case
  proof (cases "s = [] \<or> next_rune s = []")
    case True
    then show ?thesis
      using rune_tail_cont[of s] rune_width_le[of s]
      by (subst last_width.simps) (auto simp: next_rune_def)
  next
    case False
    have len: "length s = rune_width s + length (next_rune s)"
      using rune_width_le[of s] False by (simp add: next_rune_def)
    have "last_width (next_rune s) \<le> length (next_rune s) + 1"
      using last_width_bounds[of "next_rune s"] False by auto
    then have "length s + 1 - last_width s
        = length (next_rune s) + 1 - last_width (next_rune s) + rune_width s"
      using False len last_width_next[of s] by linarith
    then have "drop (length s + 1 - last_width s) s
        = drop (length (next_rune s) + 1 - last_width (next_rune s)) (drop (rune_width s) s)"
      by (metis drop_drop)
    with 1 False show ?thesis
      by (simp add: next_rune_def)
  qed
qed

lemma cont_width: "cont (of_char c) \<Longrightarrow> rune_width (c # s) = 1"
  by (auto simp: rune_width_def Let_def byte_at_def cont_def)

lemma cont_last_width: "\<forall>c \<in> set s. cont (of_char c) \<Longrightarrow> last_width s = 1"
proof (induction s)
  case (Cons c s)
  then show ?case
    by (subst last_width.simps) (auto simp: next_rune_def cont_width)
qed (simp add: last_width.simps)

lemma cont_no_comma: "\<forall>c \<in> set s. cont (of_char c) \<Longrightarrow> CHR '','' \<notin> set s"
  by (auto simp: cont_def)

text \<open>The last field: one step of the loop, and a second one on the bytes behind the cut.\<close>

lemma split_peers_whole:
  assumes "CHR '','' \<notin> set s" "last_width s = 1"
  shows "split_peers s addrs = Some (addrs @ filter (\<lambda>a. a \<noteq> []) [s])"
  using scan_end_last[OF assms(1), of 0 0] assms(2)
  by (subst split_peers.simps) (auto simp: Let_def)

lemma split_peers_step:
  assumes "scan_end 0 0 s = e" "e < length s"
  shows "split_peers s addrs = split_peers (drop (Suc e) s) (addrs @ filter (\<lambda>a. a \<noteq> []) [take e s])"
  using assms by (subst split_peers.simps) (auto simp: Let_def)

lemma split_peers_last:
  assumes "CHR '','' \<notin> set s"
  shows "split_peers s addrs = Some (addrs @ filter (\<lambda>a. a \<noteq> []) (last_addresses s))"
proof (cases "s = [] \<or> last_width s = 1")
  case True
  then have "last_width s = 1"
    by auto
  then show ?thesis
    using split_peers_whole[OF assms] by (simp add: last_addresses_def)
next
  case False
  define v where "v = last_width s"
  define q where "q = drop (length s + 2 - v) s"
  have v: "2 \<le> v" "v \<le> length s"
    using last_width_bounds[of s] False by (auto simp: v_def)
  have e: "scan_end 0 0 s = length s + 1 - v"
    using scan_end_last[of s 0 0] assms False v by (simp add: v_def)
  have "\<forall>c \<in> set q. cont (of_char c)"
    using last_tail_cont[of s] subsetD[OF set_drop_subset_set_drop[OF diff_le_mono, of "length s + 1" "length s + 2" v s]]
    unfolding q_def v_def by simp
  then have q: "split_peers q a = Some (a @ filter (\<lambda>a. a \<noteq> []) [q])" for a
    by (intro split_peers_whole cont_no_comma cont_last_width)
  define p where "p = take (length s + 1 - v) s"
  have n: "Suc (length s + 1 - v) = length s + 2 - v" "length s + 1 - v < length s"
    using v by simp_all
  have "split_peers s addrs = split_peers q (addrs @ filter (\<lambda>a. a \<noteq> []) [p])"
    using split_peers_step[OF e n(2)] unfolding p_def q_def n(1) .
  also have "\<dots> = Some (addrs @ filter (\<lambda>a. a \<noteq> []) [p, q])"
    by (simp add: q)
  also have "[p, q] = last_addresses s"
    using False by (simp add: last_addresses_def Let_def p_def q_def v_def)
  finally show ?thesis .
qed

lemma comma_fields_first:
  "CHR '','' \<in> set s \<Longrightarrow> comma_fields s =
     takeWhile (\<lambda>c. c \<noteq> CHR '','') s # comma_fields (drop (length (takeWhile (\<lambda>c. c \<noteq> CHR '','') s) + 1) s)"
  by (induction s) auto

lemma comma_fields_last: "CHR '','' \<notin> set s \<Longrightarrow> comma_fields s = [s]"
  by (induction s) auto

lemma comma_fields_not_Nil: "comma_fields s \<noteq> []"
  by (induction s) (auto split: list.splits)

lemma split_peers_total: "split_peers peers addrs = Some (addrs @ peer_addresses peers)"
proof (induction "length peers" arbitrary: peers addrs rule: less_induct)
  case less
  let ?a = "takeWhile (\<lambda>c. c \<noteq> CHR '','') peers"
  show ?case
  proof (cases "CHR '','' \<in> set peers")
    case False
    then show ?thesis
      using split_peers_last[OF False] by (simp add: peer_addresses_def comma_fields_last)
  next
    case True
    have short: "length ?a < length peers"
    proof (rule ccontr)
      assume "\<not> length ?a < length peers"
      then have "?a = peers"
        by (metis takeWhile_eq_take take_all not_less)
      from arg_cong[OF this, of set] True have "CHR '','' \<in> set ?a"
        by blast
      then show False
        by (auto dest: set_takeWhileD)
    qed
    then have "length (drop (length ?a + 1) peers) < length peers"
      by simp
    note IH = less[OF this]
    have pre: "take (length ?a) peers = ?a"
      by (metis takeWhile_eq_take)
    have "scan_end 0 0 peers = length ?a"
      using scan_end_comma[OF True] by simp
    from split_peers_step[OF this short, of addrs]
    have "split_peers peers addrs
        = Some (addrs @ filter (\<lambda>a. a \<noteq> []) [?a] @ peer_addresses (drop (length ?a + 1) peers))"
      unfolding pre Suc_eq_plus1 IH append_assoc .
    also have "filter (\<lambda>a. a \<noteq> []) [?a] @ peer_addresses (drop (length ?a + 1) peers) = peer_addresses peers"
      using comma_fields_not_Nil[of "drop (length ?a + 1) peers"] comma_fields_first[OF True]
      by (simp add: peer_addresses_def)
    finally show ?thesis .
  qed
qed

text \<open>Of ASCII text every rune is a byte, and the addresses are the fields.\<close>

lemma ascii_last_width: "\<forall>c \<in> set s. of_char c < (0x80 :: nat) \<Longrightarrow> last_width s = 1"
proof (induction s)
  case (Cons c s)
  then have "rune_width (c # s) = 1"
    by (auto simp: rune_width_def Let_def byte_at_def)
  with Cons show ?case
    by (subst last_width.simps) (auto simp: next_rune_def)
qed (simp add: last_width.simps)

lemma comma_fields_subset: "f \<in> set (comma_fields s) \<Longrightarrow> set f \<subseteq> set s"
proof (induction s arbitrary: f)
  case (Cons c s)
  then show ?case
    by (fastforce split: if_splits list.splits)
qed simp

lemma peer_addresses_ascii:
  assumes "\<forall>c \<in> set s. of_char c < (0x80 :: nat)"
  shows "peer_addresses s = filter (\<lambda>a. a \<noteq> []) (comma_fields s)"
proof -
  have "last (comma_fields s) \<in> set (comma_fields s)"
    using comma_fields_not_Nil by simp
  from comma_fields_subset[OF this] assms have "last_width (last (comma_fields s)) = 1"
    by (intro ascii_last_width) auto
  then have "last_addresses (last (comma_fields s)) = [last (comma_fields s)]"
    by (simp add: last_addresses_def)
  then show ?thesis
    using comma_fields_not_Nil by (simp add: peer_addresses_def del: filter_append)
qed

end
