(* ===== verification/Machine.thy ===== *)
theory Machine
  imports Prelude Go_Bytes
begin

text \<open>
  The instruction set tables of the execution layer (\<^verbatim>\<open>evm/opcodes.go\<close>) and the stack and memory
  of \<^verbatim>\<open>evm/interpreter.go\<close>. The dispatcher runs contracts through revm, so nothing of this
  theory is on the path of a call; the tables and the two data structures are still exported by
  the package. Integers of type \<^verbatim>\<open>int\<close> are 64-bit words read with \<open>sint\<close>.
\<close>

subsection \<open>Opcodes\<close>

type_synonym Opcode = u8

text \<open>The constants, with the names they are declared under.\<close>

definition standard_opcodes :: "(string \<times> Opcode) list" where
  "standard_opcodes =
    [(''STOP'', 0x00), (''ADD'', 0x01), (''MUL'', 0x02), (''SUB'', 0x03), (''DIV'', 0x04),
     (''SDIV'', 0x05), (''MOD'', 0x06), (''SMOD'', 0x07), (''ADDMOD'', 0x08),
     (''MULMOD'', 0x09), (''EXP'', 0x0A), (''SIGNEXTEND'', 0x0B), (''LT'', 0x10),
     (''GT'', 0x11), (''SLT'', 0x12), (''SGT'', 0x13), (''EQ'', 0x14), (''ISZERO'', 0x15),
     (''AND'', 0x16), (''OR'', 0x17), (''XOR'', 0x18), (''NOT'', 0x19), (''BYTE'', 0x1A),
     (''SHL'', 0x1B), (''SHR'', 0x1C), (''SAR'', 0x1D), (''SHA3'', 0x20), (''ADDRESS'', 0x30),
     (''BALANCE'', 0x31), (''ORIGIN'', 0x32), (''CALLER'', 0x33), (''CALLVALUE'', 0x34),
     (''CALLDATALOAD'', 0x35), (''CALLDATASIZE'', 0x36), (''CALLDATACOPY'', 0x37),
     (''CODESIZE'', 0x38), (''CODECOPY'', 0x39), (''GASPRICE'', 0x3A),
     (''EXTCODESIZE'', 0x3B), (''EXTCODECOPY'', 0x3C), (''RETURNDATASIZE'', 0x3D),
     (''RETURNDATACOPY'', 0x3E), (''EXTCODEHASH'', 0x3F), (''BLOCKHASH'', 0x40),
     (''COINBASE'', 0x41), (''TIMESTAMP'', 0x42), (''NUMBER'', 0x43), (''DIFFICULTY'', 0x44),
     (''GASLIMIT'', 0x45), (''CHAINID'', 0x46), (''SELFBALANCE'', 0x47), (''BASEFEE'', 0x48),
     (''POP'', 0x50), (''MLOAD'', 0x51), (''MSTORE'', 0x52), (''MSTORE8'', 0x53),
     (''SLOAD'', 0x54), (''SSTORE'', 0x55), (''JUMP'', 0x56), (''JUMPI'', 0x57),
     (''PC'', 0x58), (''MSIZE'', 0x59), (''GAS'', 0x5A), (''JUMPDEST'', 0x5B),
     (''PUSH1'', 0x60), (''PUSH2'', 0x61), (''PUSH3'', 0x62), (''PUSH4'', 0x63),
     (''PUSH5'', 0x64), (''PUSH6'', 0x65), (''PUSH7'', 0x66), (''PUSH8'', 0x67),
     (''PUSH9'', 0x68), (''PUSH10'', 0x69), (''PUSH11'', 0x6A), (''PUSH12'', 0x6B),
     (''PUSH13'', 0x6C), (''PUSH14'', 0x6D), (''PUSH15'', 0x6E), (''PUSH16'', 0x6F),
     (''PUSH17'', 0x70), (''PUSH18'', 0x71), (''PUSH19'', 0x72), (''PUSH20'', 0x73),
     (''PUSH21'', 0x74), (''PUSH22'', 0x75), (''PUSH23'', 0x76), (''PUSH24'', 0x77),
     (''PUSH25'', 0x78), (''PUSH26'', 0x79), (''PUSH27'', 0x7A), (''PUSH28'', 0x7B),
     (''PUSH29'', 0x7C), (''PUSH30'', 0x7D), (''PUSH31'', 0x7E), (''PUSH32'', 0x7F),
     (''DUP1'', 0x80), (''DUP2'', 0x81), (''DUP3'', 0x82), (''DUP4'', 0x83), (''DUP5'', 0x84),
     (''DUP6'', 0x85), (''DUP7'', 0x86), (''DUP8'', 0x87), (''DUP9'', 0x88),
     (''DUP10'', 0x89), (''DUP11'', 0x8A), (''DUP12'', 0x8B), (''DUP13'', 0x8C),
     (''DUP14'', 0x8D), (''DUP15'', 0x8E), (''DUP16'', 0x8F), (''SWAP1'', 0x90),
     (''SWAP2'', 0x91), (''SWAP3'', 0x92), (''SWAP4'', 0x93), (''SWAP5'', 0x94),
     (''SWAP6'', 0x95), (''SWAP7'', 0x96), (''SWAP8'', 0x97), (''SWAP9'', 0x98),
     (''SWAP10'', 0x99), (''SWAP11'', 0x9A), (''SWAP12'', 0x9B), (''SWAP13'', 0x9C),
     (''SWAP14'', 0x9D), (''SWAP15'', 0x9E), (''SWAP16'', 0x9F), (''LOG0'', 0xA0),
     (''LOG4'', 0xA4), (''CREATE'', 0xF0), (''CALL'', 0xF1), (''CALLCODE'', 0xF2),
     (''RETURN'', 0xF3), (''DELEGATECALL'', 0xF4), (''CREATE2'', 0xF5),
     (''STATICCALL'', 0xFA), (''REVERT'', 0xFD), (''INVALID'', 0xFE),
     (''SELFDESTRUCT'', 0xFF)]"

definition waychain_opcodes :: "(string \<times> Opcode) list" where
  "waychain_opcodes =
    [(''CONTRACTCLASS'', 0xC0), (''DOXDEVLEVEL'', 0xC1), (''LANETYPE'', 0xC2),
     (''ATTEST'', 0xC3), (''RANDOM'', 0xC4), (''RENTBALANCE'', 0xC5),
     (''DEADMANSWITCH'', 0xC6), (''VERIFYBADGE'', 0xC7)]"

definition opcode_consts :: "(string \<times> Opcode) list" where
  "opcode_consts = standard_opcodes @ waychain_opcodes"

record OpcodeInfo =
  oi_Name :: string
  oi_Gas :: u64
  oi_MinStack :: nat
  oi_Result :: nat

definition entry :: "Opcode \<Rightarrow> string \<Rightarrow> u64 \<Rightarrow> nat \<Rightarrow> nat \<Rightarrow> Opcode \<times> OpcodeInfo" where
  "entry op name gas minStack result =
     (op, \<lparr>oi_Name = name, oi_Gas = gas, oi_MinStack = minStack, oi_Result = result\<rparr>)"

definition OpcodeTable :: "(Opcode \<times> OpcodeInfo) list" where
  "OpcodeTable =
    [entry 0x00 ''STOP'' 0 0 0, entry 0x01 ''ADD'' 3 2 1, entry 0x02 ''MUL'' 5 2 1,
     entry 0x03 ''SUB'' 3 2 1, entry 0x04 ''DIV'' 5 2 1, entry 0x05 ''SDIV'' 5 2 1,
     entry 0x06 ''MOD'' 5 2 1, entry 0x07 ''SMOD'' 5 2 1, entry 0x08 ''ADDMOD'' 8 3 1,
     entry 0x09 ''MULMOD'' 8 3 1, entry 0x0A ''EXP'' 10 2 1, entry 0x0B ''SIGNEXTEND'' 5 2 1,
     entry 0x10 ''LT'' 3 2 1, entry 0x11 ''GT'' 3 2 1, entry 0x12 ''SLT'' 3 2 1,
     entry 0x13 ''SGT'' 3 2 1, entry 0x14 ''EQ'' 3 2 1, entry 0x15 ''ISZERO'' 3 1 1,
     entry 0x16 ''AND'' 3 2 1, entry 0x17 ''OR'' 3 2 1, entry 0x18 ''XOR'' 3 2 1,
     entry 0x19 ''NOT'' 3 1 1, entry 0x1A ''BYTE'' 3 2 1, entry 0x1B ''SHL'' 3 2 1,
     entry 0x1C ''SHR'' 3 2 1, entry 0x1D ''SAR'' 3 2 1, entry 0x20 ''SHA3'' 30 2 1,
     entry 0x30 ''ADDRESS'' 2 0 1, entry 0x31 ''BALANCE'' 700 1 1,
     entry 0x32 ''ORIGIN'' 2 0 1, entry 0x33 ''CALLER'' 2 0 1, entry 0x34 ''CALLVALUE'' 2 0 1,
     entry 0x35 ''CALLDATALOAD'' 3 1 1, entry 0x36 ''CALLDATASIZE'' 2 0 1,
     entry 0x37 ''CALLDATACOPY'' 3 3 0, entry 0x38 ''CODESIZE'' 2 0 1,
     entry 0x39 ''CODECOPY'' 3 3 0, entry 0x3A ''GASPRICE'' 2 0 1,
     entry 0x3B ''EXTCODESIZE'' 700 1 1, entry 0x3D ''RETURNDATASIZE'' 2 0 1,
     entry 0x3E ''RETURNDATACOPY'' 3 3 0, entry 0x42 ''TIMESTAMP'' 2 0 1,
     entry 0x43 ''NUMBER'' 2 0 1, entry 0x46 ''CHAINID'' 2 0 1, entry 0x48 ''BASEFEE'' 2 0 1,
     entry 0x47 ''SELFBALANCE'' 5 0 1, entry 0x50 ''POP'' 2 1 0, entry 0x51 ''MLOAD'' 3 1 1,
     entry 0x52 ''MSTORE'' 3 2 0, entry 0x53 ''MSTORE8'' 3 2 0, entry 0x54 ''SLOAD'' 2100 1 1,
     entry 0x55 ''SSTORE'' 5000 2 0, entry 0x56 ''JUMP'' 8 1 0, entry 0x57 ''JUMPI'' 10 2 0,
     entry 0x58 ''PC'' 2 0 1, entry 0x59 ''MSIZE'' 2 0 1, entry 0x5A ''GAS'' 2 0 1,
     entry 0x5B ''JUMPDEST'' 1 0 0, entry 0x60 ''PUSH1'' 3 0 1, entry 0x61 ''PUSH2'' 3 0 1,
     entry 0x62 ''PUSH3'' 3 0 1, entry 0x63 ''PUSH4'' 3 0 1, entry 0x64 ''PUSH5'' 3 0 1,
     entry 0x65 ''PUSH6'' 3 0 1, entry 0x66 ''PUSH7'' 3 0 1, entry 0x67 ''PUSH8'' 3 0 1,
     entry 0x68 ''PUSH9'' 3 0 1, entry 0x69 ''PUSH10'' 3 0 1, entry 0x6A ''PUSH11'' 3 0 1,
     entry 0x6B ''PUSH12'' 3 0 1, entry 0x6C ''PUSH13'' 3 0 1, entry 0x6D ''PUSH14'' 3 0 1,
     entry 0x6E ''PUSH15'' 3 0 1, entry 0x6F ''PUSH16'' 3 0 1, entry 0x70 ''PUSH17'' 3 0 1,
     entry 0x71 ''PUSH18'' 3 0 1, entry 0x72 ''PUSH19'' 3 0 1, entry 0x73 ''PUSH20'' 3 0 1,
     entry 0x74 ''PUSH21'' 3 0 1, entry 0x75 ''PUSH22'' 3 0 1, entry 0x76 ''PUSH23'' 3 0 1,
     entry 0x77 ''PUSH24'' 3 0 1, entry 0x78 ''PUSH25'' 3 0 1, entry 0x79 ''PUSH26'' 3 0 1,
     entry 0x7A ''PUSH27'' 3 0 1, entry 0x7B ''PUSH28'' 3 0 1, entry 0x7C ''PUSH29'' 3 0 1,
     entry 0x7D ''PUSH30'' 3 0 1, entry 0x7E ''PUSH31'' 3 0 1, entry 0x7F ''PUSH32'' 3 0 1,
     entry 0x80 ''DUP1'' 3 1 1, entry 0x81 ''DUP2'' 3 2 1, entry 0x82 ''DUP3'' 3 3 1,
     entry 0x83 ''DUP4'' 3 4 1, entry 0x84 ''DUP5'' 3 5 1, entry 0x85 ''DUP6'' 3 6 1,
     entry 0x86 ''DUP7'' 3 7 1, entry 0x87 ''DUP8'' 3 8 1, entry 0x88 ''DUP9'' 3 9 1,
     entry 0x89 ''DUP10'' 3 10 1, entry 0x8A ''DUP11'' 3 11 1, entry 0x8B ''DUP12'' 3 12 1,
     entry 0x8C ''DUP13'' 3 13 1, entry 0x8D ''DUP14'' 3 14 1, entry 0x8E ''DUP15'' 3 15 1,
     entry 0x8F ''DUP16'' 3 16 1, entry 0x90 ''SWAP1'' 3 2 0, entry 0xA0 ''LOG0'' 375 2 0,
     entry 0xA4 ''LOG4'' 625 6 0, entry 0xF0 ''CREATE'' 32000 3 1,
     entry 0xF1 ''CALL'' 700 7 1, entry 0xF3 ''RETURN'' 0 2 0, entry 0xFD ''REVERT'' 0 2 0,
     entry 0xFE ''INVALID'' 0 0 0, entry 0xFF ''SELFDESTRUCT'' 5000 1 0,
     entry 0xC0 ''CONTRACTCLASS'' 2 0 1, entry 0xC1 ''DOXDEVLEVEL'' 20 0 1,
     entry 0xC2 ''LANETYPE'' 2 0 1, entry 0xC3 ''ATTEST'' 20000 1 0,
     entry 0xC4 ''RANDOM'' 20 0 1, entry 0xC5 ''RENTBALANCE'' 700 1 1,
     entry 0xC6 ''DEADMANSWITCH'' 2000 1 1, entry 0xC7 ''VERIFYBADGE'' 700 2 1]"

text \<open>\<^verbatim>\<open>%02X\<close> of a byte.\<close>

definition upper_hex :: "char \<Rightarrow> char" where
  "upper_hex c = (if (97 :: nat) \<le> of_char c then char_of (of_char c - 32 :: nat) else c)"

definition OpcodeName :: "Opcode \<Rightarrow> string" where
  "OpcodeName op =
     (case map_of OpcodeTable op of
        Some info \<Rightarrow> oi_Name info
      | None \<Rightarrow> ''UNKNOWN(0x'' @ map upper_hex (fmt_02x op) @ '')'')"

definition IsPushOp :: "Opcode \<Rightarrow> bool" where
  "IsPushOp op \<longleftrightarrow> 0x60 \<le> op \<and> op \<le> 0x7F"

definition PushSize :: "Opcode \<Rightarrow> int" where
  "PushSize op = (if IsPushOp op then uint (op - 0x60 + 1) else 0)"

definition IsDupOp :: "Opcode \<Rightarrow> bool" where
  "IsDupOp op \<longleftrightarrow> 0x80 \<le> op \<and> op \<le> 0x8F"

definition DupIndex :: "Opcode \<Rightarrow> int" where
  "DupIndex op = (if IsDupOp op then uint (op - 0x80 + 1) else 0)"

definition IsSwapOp :: "Opcode \<Rightarrow> bool" where
  "IsSwapOp op \<longleftrightarrow> 0x90 \<le> op \<and> op \<le> 0x9F"

definition SwapIndex :: "Opcode \<Rightarrow> int" where
  "SwapIndex op = (if IsSwapOp op then uint (op - 0x90 + 1) else 0)"

definition IsLogOp :: "Opcode \<Rightarrow> bool" where
  "IsLogOp op \<longleftrightarrow> 0xA0 \<le> op \<and> op \<le> 0xA4"

definition LogTopicCount :: "Opcode \<Rightarrow> int" where
  "LogTopicCount op = (if IsLogOp op then uint (op - 0xA0) else 0)"

definition LogGasCost :: "int \<Rightarrow> u64" where
  "LogGasCost topics = 375 + of_int topics * 125"

subsection \<open>The stack\<close>

text \<open>The last element of the list is the top. Reading an empty stack gives zero.\<close>

type_synonym Stack = "int list"

definition NewStack :: Stack where "NewStack = []"

definition stack_Push :: "int \<Rightarrow> Stack \<Rightarrow> Stack" where "stack_Push v s = s @ [v]"

definition stack_Pop :: "Stack \<Rightarrow> int \<times> Stack" where
  "stack_Pop s = (if s = [] then (0, s) else (last s, butlast s))"

definition stack_Peek :: "Stack \<Rightarrow> int" where
  "stack_Peek s = (if s = [] then 0 else last s)"

text \<open>\<^verbatim>\<open>s.data[i]\<close> panics outside the slice.\<close>

definition in_slice :: "64 word \<Rightarrow> 'a list \<Rightarrow> bool" where
  "in_slice i xs \<longleftrightarrow> 0 \<le> sint i \<and> sint i < int (length xs)"

definition stack_Swap :: "64 word \<Rightarrow> Stack \<Rightarrow> Stack outcome" where
  "stack_Swap n s =
     (let l = of_nat (length s) :: 64 word in
      if sint (n + 1) \<le> sint l then
        let i = l - 1; j = l - 1 - n in
        if in_slice i s \<and> in_slice j s
        then Ret (s[unat i := s ! unat j, unat j := s ! unat i])
        else Panic
      else Ret s)"

definition stack_Dup :: "64 word \<Rightarrow> Stack \<Rightarrow> Stack outcome" where
  "stack_Dup n s =
     (let l = of_nat (length s) :: 64 word in
      if sint n \<le> sint l then
        let i = l - n in if in_slice i s then Ret (stack_Push (s ! unat i) s) else Panic
      else Ret s)"

definition stack_Len :: "Stack \<Rightarrow> nat" where "stack_Len s = length s"

subsection \<open>The memory\<close>

text \<open>
  \<open>lim\<close> is the largest slice that \<^verbatim>\<open>make\<close> can allocate; it panics beyond it. The sum of offset
  and size wraps around at 64 bits.
\<close>

type_synonym Memory = bytes

definition NewMemory :: Memory where "NewMemory = []"

definition mem_Resize :: "nat \<Rightarrow> u64 \<Rightarrow> Memory \<Rightarrow> Memory outcome" where
  "mem_Resize lim sz m =
     (if (of_nat (length m) :: u64) < sz then
        if lim < unat sz then Panic else Ret (copy_at 0 m (replicate (unat sz) 0))
      else Ret m)"

definition mem_Set :: "nat \<Rightarrow> u64 \<Rightarrow> bytes \<Rightarrow> Memory \<Rightarrow> Memory outcome" where
  "mem_Set lim offset val m =
     (case mem_Resize lim (offset + of_nat (length val)) m of
        Ret m1 \<Rightarrow> if length m1 < unat offset then Panic else Ret (copy_at (unat offset) val m1)
      | Err e \<Rightarrow> Err e | Panic \<Rightarrow> Panic)"

definition mem_Get :: "nat \<Rightarrow> u64 \<Rightarrow> u64 \<Rightarrow> Memory \<Rightarrow> (bytes \<times> Memory) outcome" where
  "mem_Get lim offset sz m =
     (case mem_Resize lim (offset + sz) m of
        Ret m1 \<Rightarrow>
          if lim < unat sz \<or> unat (offset + sz) < unat offset then Panic
          else Ret (copy_at 0 (slice (unat offset) (unat (offset + sz)) m1) (replicate (unat sz) 0), m1)
      | Err e \<Rightarrow> Err e | Panic \<Rightarrow> Panic)"

definition mem_Len :: "Memory \<Rightarrow> u64" where "mem_Len m = of_nat (length m)"

subsection \<open>Facts\<close>

text \<open>The stack requirement of the \<^verbatim>\<open>DUP\<close> instructions is the index they read.\<close>

lemma dup_min_stack:
  "list_all (\<lambda>(op, info). IsDupOp op \<longrightarrow> int (oi_MinStack info) = DupIndex op) OpcodeTable"
  by code_simp

text \<open>The table prices the instruction with four topics below what the helper computes.\<close>

lemma log4_price:
  "map_option oi_Gas (map_of OpcodeTable 0xA4) = Some 625" "LogGasCost (LogTopicCount 0xA4) = 875"
  by code_simp+

subsubsection \<open>Stack and memory\<close>

lemma pop_push: "stack_Pop (stack_Push v s) = (v, s)"
  by (simp add: stack_Pop_def stack_Push_def)

text \<open>
  \<^verbatim>\<open>DUP1\<close> copies the top and \<^verbatim>\<open>SWAP1\<close> exchanges the two topmost elements; on too short a stack
  both leave it alone.
\<close>

lemma sint_small: "n < 2 ^ 63 \<Longrightarrow> sint (of_nat n :: 64 word) = int n"
  by (simp add: signed_of_nat signed_take_bit_int_eq_self)

lemma dup_copies:
  assumes "1 \<le> n" "n \<le> length s" "length s < 2 ^ 63"
  shows "stack_Dup (of_nat n) s = Ret (s @ [s ! (length s - n)])"
proof -
  have i: "of_nat (length s) - of_nat n = (of_nat (length s - n) :: 64 word)"
    using assms(2) by (simp add: of_nat_diff)
  have "unat (of_nat (length s - n) :: 64 word) = length s - n"
    using assms(3) by (simp add: unat_of_nat take_bit_nat_eq_self)
  moreover have "sint (of_nat (length s - n) :: 64 word) = int (length s - n)"
    using assms(3) by (intro sint_small) simp
  moreover have "sint (of_nat n :: 64 word) \<le> sint (of_nat (length s) :: 64 word)"
    using assms by (simp only: sint_small)
  moreover have "length s - n < length s"
    using assms by simp
  ultimately show ?thesis
    by (simp only: stack_Dup_def Let_def i in_slice_def stack_Push_def if_True of_nat_0_le_iff
        of_nat_less_iff simp_thms)
qed

text \<open>
  What was stored is read back, memory grows with zeros, and reading past the end of the address
  space panics.
\<close>

lemma mem_Resize_ok:
  assumes "length m < 2 ^ 64" "unat sz \<le> lim"
  shows "mem_Resize lim sz m = Ret (m @ replicate (unat sz - length m) 0)"
proof (cases "unat sz \<le> length m")
  case True
  then have "\<not> (of_nat (length m) :: u64) < sz"
    using assms(1) by (simp add: word_less_nat_alt unat_of_nat_u64)
  with True show ?thesis
    by (simp add: mem_Resize_def)
next
  case False
  then have "(of_nat (length m) :: u64) < sz"
    using assms(1) by (simp add: word_less_nat_alt unat_of_nat_u64)
  with False assms(2) show ?thesis
    by (simp add: mem_Resize_def copy_at_def)
qed

lemma mem_round_trip:
  assumes "length m < 2 ^ 64" "unat offset + length val < 2 ^ 64" "unat offset + length val \<le> lim"
  obtains m' where "mem_Set lim offset val m = Ret m'"
    "mem_Get lim offset (of_nat (length val)) m' = Ret (val, m')"
    "\<And>i. i < unat offset \<Longrightarrow> i < length m \<Longrightarrow> m' ! i = m ! i"
    "\<And>i. unat offset + length val \<le> i \<Longrightarrow> i < length m \<Longrightarrow> m' ! i = m ! i"
proof -
  let ?fin = "offset + of_nat (length val)" and ?n = "unat offset + length val"
  have len: "unat (of_nat (length val) :: u64) = length val"
    using assms(2) by (intro unat_of_nat_u64) simp
  then have e: "unat ?fin = ?n"
    using assms(2) by (subst unat_add_no_wrap) simp_all
  define m1 where "m1 = m @ replicate (?n - length m) 0"
  have m1: "mem_Resize lim ?fin m = Ret m1" "?n \<le> length m1" "length m \<le> length m1"
    using mem_Resize_ok[OF assms(1), of ?fin lim] assms(3) e by (auto simp: m1_def)
  define m' where "m' = copy_at (unat offset) val m1"
  have set: "mem_Set lim offset val m = Ret m'"
    using m1 by (simp add: mem_Set_def m'_def)
  have len': "length m' = max (length m) ?n"
    using m1(2) by (simp add: m'_def m1_def)
  have "mem_Resize lim ?fin m' = Ret m'"
    using mem_Resize_ok[of m' ?fin lim] assms e by (simp add: len')
  moreover have "slice (unat offset) ?n m' = val"
    using m1(2) by (simp add: m'_def slice_copy_at_same)
  ultimately have get: "mem_Get lim offset (of_nat (length val)) m' = Ret (val, m')"
    using assms(3) by (simp add: mem_Get_def e len copy_at_def)
  have below: "m' ! i = m ! i" if "i < unat offset" "i < length m" for i
    using that m1(2) by (simp add: m'_def nth_copy_at_below m1_def nth_append)
  have above: "m' ! i = m ! i" if "?n \<le> i" "i < length m" for i
    using that m1(3) by (simp add: m'_def nth_copy_at_above m1_def nth_append)
  show thesis
    by (rule that[OF set get below above])
qed

end
