(* ===== verification/Memory_Store.thy ===== *)
theory Memory_Store
  imports Persistence
begin

text \<open>
  A database in memory and a value encoding that satisfy \<open>bolt_laws\<close> and \<open>gob_laws\<close>, so that the
  hypotheses about the two libraries can hold together and the properties about saving apply to
  concrete chains.
\<close>

subsection \<open>A database in memory\<close>

type_synonym memory = "string list \<times> ((string \<times> bytes) \<times> bytes) list"

definition bucket_keys :: "memory \<Rightarrow> string \<Rightarrow> bytes list" where
  "bucket_keys d n = sort (remdups (map (snd \<circ> fst) (filter (\<lambda>e. fst (fst e) = n) (snd d))))"

definition memory_bolt :: "memory bolt" where
  "memory_bolt =
     \<lparr>b_has = (\<lambda>d n. n \<in> set (fst d)),
      b_get = (\<lambda>d n k. map_of (snd d) (n, k)),
      b_put = (\<lambda>d n k v.
        if k = [] then Err (Errorf ''key required'')
        else if n \<notin> set (fst d) then Err (Errorf ''bucket not found'')
        else Ret (fst d, ((n, k), v) # snd d)),
      b_create = (\<lambda>d n. Ret (n # fst d, snd d)),
      b_items = (\<lambda>d n. map (\<lambda>k. (k, the (map_of (snd d) (n, k)))) (bucket_keys d n)),
      b_commit = (\<lambda>_. None)\<rparr>"

lemma bucket_keys_iff: "k \<in> set (bucket_keys d n) \<longleftrightarrow> map_of (snd d) (n, k) \<noteq> None"
  by (force simp: bucket_keys_def map_of_eq_None_iff)

lemma bucket_keys_sorted: "sorted_wrt (<) (bucket_keys d n)"
  by (simp add: bucket_keys_def strict_sorted_iff)

lemma memory_items: "map_of (b_items memory_bolt d n) = b_get memory_bolt d n"
proof
  fix k
  have "map_of (map (\<lambda>k. (k, the (map_of (snd d) (n, k)))) ks) k
      = (if k \<in> set ks then Some (the (map_of (snd d) (n, k))) else None)" for ks
    by (induction ks) auto
  then show "map_of (b_items memory_bolt d n) k = b_get memory_bolt d n k"
    using bucket_keys_iff[of k d n] by (auto simp: memory_bolt_def)
qed

lemma memory_bolt_laws: "bolt_laws memory_bolt"
proof -
  have "put_law memory_bolt" "put_succeeds_law memory_bolt" "put_empty_law memory_bolt"
    by (auto simp: memory_bolt_def put_law_def put_succeeds_law_def put_empty_law_def)
  moreover have "create_law memory_bolt"
    by (auto simp: memory_bolt_def create_law_def fun_eq_iff)
  moreover have "items_law memory_bolt"
    using bucket_keys_sorted by (simp add: items_law_def memory_items)
      (simp add: memory_bolt_def comp_def)
  ultimately show ?thesis
    by (simp add: bolt_laws_def)
qed

lemma memory_commits: "\<forall>d. b_commit memory_bolt d = None"
  by (simp add: memory_bolt_def)

subsection \<open>An encoding of records\<close>

text \<open>A list of byte strings, each after its length in unary.\<close>

fun join_fields :: "bytes list \<Rightarrow> bytes" where
  "join_fields [] = []"
| "join_fields (b # bs) = replicate (length b) 1 @ [0] @ b @ join_fields bs"

fun split_fields :: "nat \<Rightarrow> bytes \<Rightarrow> bytes list" where
  "split_fields n [] = []"
| "split_fields n (b # bs) =
     (if b = 0 then take n bs # split_fields 0 (drop n bs) else split_fields (n + 1) bs)"

lemma split_fields_unary: "split_fields n (replicate k 1 @ bs) = split_fields (n + k) bs"
  by (induction k arbitrary: n) simp_all

lemma split_join_fields [simp]: "split_fields 0 (join_fields bs) = bs"
  by (induction bs) (simp_all add: split_fields_unary)

lemma length_join_fields [simp]: "length (join_fields bs) = (\<Sum>b\<leftarrow>bs. 2 * length b + 1)"
  by (induction bs) simp_all

definition int_bytes :: "int \<Rightarrow> bytes" where
  "int_bytes v = (if v < 0 then 1 else 0) # big_bytes (nat \<bar>v\<bar>)"

definition bytes_int :: "bytes \<Rightarrow> int" where
  "bytes_int bs = (let n = int (be_nat (drop 1 bs)) in if take 1 bs = [1] then - n else n)"

lemma bytes_int_bytes [simp]: "bytes_int (int_bytes v) = v"
  by (simp add: bytes_int_def int_bytes_def)

text \<open>The fields of each record, and the record from its fields.\<close>

definition account_fields :: "serializedAccount \<Rightarrow> bytes list" where
  "account_fields a =
     [u64be (sa_Nonce a), sa_Balance a, sa_CodeHash a, sa_Code a, join_fields (sa_StorageKeys a),
      join_fields (sa_StorageVals a), [sa_ContractClass a], [sa_DoxDevLevel a], sa_StateRentPaid a,
      u64be (sa_LastRentPayment a)]"

definition fields_account :: "bytes list \<Rightarrow> serializedAccount" where
  "fields_account f =
     \<lparr>sa_Nonce = be64 (f ! 0), sa_Balance = f ! 1, sa_CodeHash = f ! 2, sa_Code = f ! 3,
      sa_StorageKeys = split_fields 0 (f ! 4), sa_StorageVals = split_fields 0 (f ! 5),
      sa_ContractClass = hd (f ! 6), sa_DoxDevLevel = hd (f ! 7), sa_StateRentPaid = f ! 8,
      sa_LastRentPayment = be64 (f ! 9)\<rparr>"

definition block_fields :: "BlockData \<Rightarrow> bytes list" where
  "block_fields b =
     [u64be (bd_Height b), bytes_of_string (bd_Proposer b), int_bytes (bd_TxCount b), bd_Hash b,
      bd_PrevHash b, bytes_of_string (bd_StateRef b)]"

definition fields_block :: "bytes list \<Rightarrow> BlockData" where
  "fields_block f =
     \<lparr>bd_Height = be64 (f ! 0), bd_Proposer = string_of_bytes (f ! 1), bd_TxCount = bytes_int (f ! 2),
      bd_Hash = f ! 3, bd_PrevHash = f ! 4, bd_StateRef = string_of_bytes (f ! 5)\<rparr>"

definition node_fields :: "NodeInfo \<Rightarrow> bytes list" where
  "node_fields i =
     [bytes_of_string (ni_ID i), bytes_of_string (ni_ListenAddr i), bytes_of_string (ni_RPCAddr i), ni_NodeKey i]"

definition fields_node :: "bytes list \<Rightarrow> NodeInfo" where
  "fields_node f =
     \<lparr>ni_ID = string_of_bytes (f ! 0), ni_ListenAddr = string_of_bytes (f ! 1),
      ni_RPCAddr = string_of_bytes (f ! 2), ni_NodeKey = f ! 3\<rparr>"

definition tx_fields :: "TxData \<Rightarrow> bytes list" where
  "tx_fields t =
     [u64be (td_Nonce t), bytes_of_string (td_From t), bytes_of_string (td_To t), td_Value t,
      u64be (td_GasLimit t), u64be (td_GasPrice t), u64be (td_GasUsed t), td_Data t, td_Hash t, td_Signature t]"

definition fields_tx :: "bytes list \<Rightarrow> TxData" where
  "fields_tx f =
     \<lparr>td_Nonce = be64 (f ! 0), td_From = string_of_bytes (f ! 1), td_To = string_of_bytes (f ! 2),
      td_Value = f ! 3, td_GasLimit = be64 (f ! 4), td_GasPrice = be64 (f ! 5),
      td_GasUsed = be64 (f ! 6), td_Data = f ! 7, td_Hash = f ! 8, td_Signature = f ! 9\<rparr>"

definition memory_gob :: gob where
  "memory_gob =
     \<lparr>enc_account = (\<lambda>a. Ret (join_fields (account_fields a))),
      dec_account = (\<lambda>bs. Ret (fields_account (split_fields 0 bs))),
      enc_block = (\<lambda>b. Ret (join_fields (block_fields b))),
      dec_block = (\<lambda>bs. Ret (fields_block (split_fields 0 bs))),
      enc_node = (\<lambda>i. Ret (join_fields (node_fields i))),
      dec_node = (\<lambda>bs. Ret (fields_node (split_fields 0 bs))),
      enc_txs = (\<lambda>ts. Ret (join_fields (map (join_fields \<circ> tx_fields) ts))),
      dec_txs = (\<lambda>bs. Ret (map (fields_tx \<circ> split_fields 0) (split_fields 0 bs)))\<rparr>"

lemma fields_inverse [simp]:
  "fields_account (account_fields a) = a" "fields_block (block_fields b) = b"
  "fields_node (node_fields i) = i" "fields_tx (tx_fields t) = t"
  by (simp_all add: fields_account_def account_fields_def fields_block_def block_fields_def
      fields_node_def node_fields_def fields_tx_def tx_fields_def)

lemma memory_gob_laws: "gob_laws memory_gob"
  by (simp add: gob_laws_def codec_law_def memory_gob_def comp_def)

lemmas memory_laws = memory_bolt_laws memory_gob_laws memory_commits

end
