(* ===== verification/Node_Claims.thy ===== *)
theory Node_Claims
  imports Rpc P2p Machine Memory_Store Ledger_Claims
begin

text \<open>
  The properties of the node around the chain: saving and restarting, the JSON-RPC methods, the
  websocket subscriptions and the peers. The instances run on the database in memory of
  \<^verbatim>\<open>Memory_Store\<close>.
\<close>

subsection \<open>Sample values for the instances\<close>

definition memory_store :: "memory Store" where
  "memory_store = \<lparr>s_db = ([''accounts'', ''blocks'', ''meta'', ''node''], []), s_path = ''data'', s_height = 0\<rparr>"

definition funded_chain :: Chain where
  "funded_chain = empty_chain\<lparr>ch_State := funded_world\<rparr>"

definition funded_node :: "memory StoredChain" where
  "funded_node = (new_stored_chain 0)\<lparr>sc_Chain := funded_chain, sc_Store := Some memory_store\<rparr>"

lemma memory_store_ready: "ready memory_bolt (s_db memory_store)"
  by (simp add: ready_def memory_bolt_def memory_store_def)

lemma idle_state: "te_State (NewTimeExecution w) = w"
  by (simp add: NewTimeExecution_def)

lemma funded_chain_block:
  "\<exists>b c. ProduceBlock sample_env (NewValidatorID 1) funded_chain = Ret (b, c) \<and> ch_Height c = 1
     \<and> Accounts (ch_State c) = Accounts funded_world \<and> Blocks c = [b] \<and> blk_Transactions b = []
     \<and> length (blk_Hash b) = 32"
  by (simp add: ProduceBlock_def funded_chain_def empty_chain_def NewTxPool_def PopConsensus_def
      run_due_tasks_def
      NewTimeExecution_idle epoch_step_def reward_step_def NewProgressiveStaking_def Let_def
      DistributeBlockReward_def sample_env_def SetInflationPct_def split_beta idle_state ComputeHash_def)

lemma NewChain_pool: "Pool NewChain = NewTxPool"
  by (simp add: NewChain_def Let_def split_beta)

subsection \<open>Restart\<close>

text \<open>
  C17. A restart after a block loses no account. When a block is produced and saved, a process
  started on the database it leaves finds every account with its nonce, balance, code and storage,
  the height of the chain, and the record of the last block; the transactions still pending and the
  stakes are not saved. The database is assumed not to fail at the commit, and the accounts to have
  storable addresses and no negative amounts.
\<close>

theorem restart_restores:
  assumes laws: "bolt_laws B" "gob_laws G" "\<forall>d. b_commit B d = None"
    and p: "ProduceBlock env proposer (sc_Chain sc) = Ret (block, c)" "ch_Height c \<noteq> 0"
    and s: "sc_Store sc = Some s" "savable B G order c (s_db s)"
    and fits: "length (block_bytes G (tick_record proposer c)) \<le> 2147483646"
      "keyable (blk_Transactions block)" "txs_fit G (map tx_data (blk_Transactions block))"
  shows "\<exists>sc1 s1 sc2.
      tick B G env order proposer sc = Ret (Ret (), Ret (), sc1) \<and> sc_Chain sc1 = c \<and> sc_Store
      sc1 = Some s1
    \<and> LoadBlock B G (ch_Height c) s1 = Ret (Some (tick_record proposer c))
    \<and> OpenStore B G None (Ret (s_db s1)) path now (new_stored_chain now) = (Ret (), sc2)
    \<and> Accounts (ch_State (sc_Chain sc2)) = Accounts (ch_State c)
    \<and> ch_Height (sc_Chain sc2) = ch_Height c
    \<and> Pool (sc_Chain sc2) = NewTxPool \<and> ch_Staking (sc_Chain sc2) = ch_Staking NewChain"
proof -
  obtain d where d: "tick B G env order proposer sc =
       Ret (Ret (), Ret (), sc\<lparr>sc_Chain := c, sc_Store := Some (s\<lparr>s_db := d, s_height := ch_Height c\<rparr>)\<rparr>)"
    "saved B G c d"
    "b_get B d ''blocks'' (u64be (ch_Height c)) = Some (block_bytes G (tick_record proposer c))"
    by (rule tick_ok[OF laws p(1) s fits])
  have stored: "storable_map G (Accounts (ch_State c))" and height: "0 < ch_Height c"
    using s(2) p(2) by (simp_all add: savable_def word_gt_0)
  obtain sc2 where "OpenStore B G None (Ret d) path now (new_stored_chain now) = (Ret (), sc2)"
    "Accounts (ch_State (sc_Chain sc2)) = Accounts (ch_State c)" "ch_Height (sc_Chain sc2) = ch_Height c"
    "Pool (sc_Chain sc2) = Pool (sc_Chain (new_stored_chain now :: 'a StoredChain))"
    "ch_Staking (sc_Chain sc2) = ch_Staking (sc_Chain (new_stored_chain now :: 'a StoredChain))"
    by (rule reopen[OF laws d(2) stored height, of path now "new_stored_chain now"])
  moreover have "LoadBlock B G (ch_Height c) (s\<lparr>s_db := d, s_height := ch_Height c\<rparr>) = Ret (Some (tick_record proposer c))"
    using d(2,3) by (simp add: LoadBlock_def saved_def ready_def enc_block_ok[OF laws(2)])
  ultimately show ?thesis
    using d(1) by (simp add: new_stored_chain_def NewChain_pool)
qed

lemma funded_savable:
  assumes "Accounts (ch_State c) = Accounts funded_world"
  shows "savable memory_bolt memory_gob [''aa''] c (s_db memory_store)"
proof -
  have accounts: "Accounts funded_world = [''aa'' \<mapsto> NewAccount\<lparr>Balance := 1000000\<rparr>]"
    by (simp add: funded_world_def set_balance_def upd_acct_def initial_world_def acct_def fun_eq_iff)
  have "length (big_bytes (nat 1000000)) = 3" "length (big_bytes 0) = 0"
    by code_simp+
  then have "length (acc_bytes memory_gob (NewAccount\<lparr>Balance := 1000000\<rparr>)) \<le> 2147483646"
    by (simp add: acc_bytes_def serializeAccount_def memory_gob_def account_fields_def account_data_def
        NewAccount_def)
  then have "storable_map memory_gob (Accounts funded_world)"
    by (simp add: storable_map_def storable_def accounts storage_wf_def NewAccount_def)
  moreover have "no_strangers memory_bolt c (s_db memory_store)"
    by (simp add: no_strangers_def memory_bolt_def memory_store_def)
  ultimately show ?thesis
    using memory_store_ready by (simp add: savable_def assms accounts)
qed

theorem restart_restores_witness:
  "\<exists>sc1 s1 sc2. tick memory_bolt memory_gob sample_env [''aa''] (NewValidatorID 1) funded_node = Ret (Ret (), Ret (), sc1)
     \<and> sc_Store sc1 = Some s1
     \<and> OpenStore memory_bolt memory_gob None (Ret (s_db s1)) ''data'' 9 (new_stored_chain 9) = (Ret
         (), sc2)
     \<and> Accounts (ch_State (sc_Chain sc2)) = Accounts funded_world \<and> ch_Height (sc_Chain sc2) = 1"
proof -
  obtain b c where bc: "ProduceBlock sample_env (NewValidatorID 1) funded_chain = Ret (b, c)" "ch_Height c = 1"
    "Accounts (ch_State c) = Accounts funded_world" "Blocks c = [b]" "blk_Transactions b = []" "length (blk_Hash b) = 32"
    using funded_chain_block by blast
  have node: "sc_Chain funded_node = funded_chain" "sc_Store funded_node = Some memory_store"
    by (simp_all add: funded_node_def)
  have "length (big_bytes 0) = 0"
    by code_simp
  with bc have fits: "length (block_bytes memory_gob (tick_record (NewValidatorID 1) c)) \<le> 2147483646"
    "keyable (blk_Transactions b)" "txs_fit memory_gob (map tx_data (blk_Transactions b))"
    by (simp_all add: block_bytes_def memory_gob_def block_fields_def tick_record_def block_record_def
        int_bytes_def ValidatorID_String_def fmt_02x_def keyable_def txs_fit_def)
  from restart_restores[OF memory_laws _ _ _ funded_savable[OF bc(3)] fits, of sample_env funded_node "''data''" 9] bc
  show ?thesis
    by (auto simp: node)
qed




subsection \<open>Submitting transactions\<close>

text \<open>
  C19. The RPC admits exactly what block production accepts. A well-formed submission is answered
  with its hash and queued, once, with its gas price filled in, if the tests of block production
  (signature, nonce, deployment level, balance) hold in the current state; otherwise the answer is
  an error, the pool is as before, and a block made from this state would skip the transaction.
  In both cases nothing of the accounts changes.
\<close>

theorem admission_matches_block:
  fixes r :: "'d RPCServer"
  assumes "DeserializeTxHex (trim0x raw) = Ret tx"
  shows "\<exists>res r'. handleMethod env ''eth_sendRawTransaction'' (Some (JArr [JStr raw])) r = (res, r')
    \<and> (\<forall>a. acct (rpc_world r') a = acct (rpc_world r) a)
    \<and> (if passes_checks (re_Verify env) (priced tx) (rpc_world r)
       then res = Ret (JStr (''0x'' @ hex_encode (tx_Hash tx)))
          \<and> Pool (sc_Chain (rpc_chain r')) = pool_Add (Pool (sc_Chain (rpc_chain r))) (priced tx)
       else (\<exists>e. res = Err e) \<and> Pool (sc_Chain (rpc_chain r')) = Pool (sc_Chain (rpc_chain r))
          \<and> (be_Verify benv = re_Verify env \<longrightarrow>
               exec_tx benv h (priced tx) (rpc_world r) = Ret (None, touch (rpc_world r) (tx_From tx))))"
proof -
  let ?p = "Some (JArr [JStr raw])"
  have m: "handleMethod env ''eth_sendRawTransaction'' ?p r = eth_sendRawTransaction env ?p r"
    by (simp add: handleMethod_def method_table_def)
  have world: "rpc_world (snd (eth_sendRawTransaction env ?p r)) = touch (rpc_world r) (tx_From tx)"
    by (rule sendRaw_world[OF assms])
  show ?thesis
  proof (cases "passes_checks (re_Verify env) (priced tx) (rpc_world r)")
    case True
    from sendRaw_effect(1)[OF assms True] world True show ?thesis
      by (simp add: m BroadcastTransaction_def upd_chain_def upd_world_def)
  next
    case False
    then have "exec_tx benv h (priced tx) (rpc_world r) = Ret (None, touch (rpc_world r) (tx_From tx))"
      if "be_Verify benv = re_Verify env"
      using exec_tx_rejects[of benv "priced tx" "rpc_world r" h] that by simp
    with sendRaw_effect(2)[OF assms False] world False show ?thesis
      by (auto simp: m upd_chain_def upd_world_def)
  qed
qed

definition sample_rpc_env :: "memory RpcEnv" where
  "sample_rpc_env =
     \<lparr>re_bolt = memory_bolt, re_gob = memory_gob, re_Verify = be_Verify sample_env, re_host =
         be_host sample_env,
      re_revm = be_revm sample_env, re_now = 0, re_order = [''aa''], re_p2p = False, re_attributed = (\<lambda>_ _. False)\<rparr>"

definition sample_server :: "memory RPCServer" where
  "sample_server = \<lparr>rpc_chain = funded_node, rpc_validators = None, rpc_announced = []\<rparr>"

lemma sample_raw:
  "tx_wire_ok tx \<Longrightarrow>
   DeserializeTxHex (trim0x (''0x'' @ SerializeTxHex tx)) = Ret (tx\<lparr>tx_Hash := TxHash tx, tx_GasUsed := 0, tx_Logs := []\<rparr>)"
  using DeserializeTx_SerializeTx[of tx "[]"] by (simp add: DeserializeTxHex_def SerializeTxHex_def trim0x_def)

theorem admission_matches_block_witness:
  "\<exists>r'. handleMethod sample_rpc_env ''eth_sendRawTransaction'' (Some (JArr [JStr (''0x'' @ SerializeTxHex sample_tx)])) sample_server
       = (Ret (JStr (''0x'' @ hex_encode (tx_Hash sample_tx))), r')
     \<and> Consensus (Pool (sc_Chain (rpc_chain r'))) = [sample_tx\<lparr>tx_GasPrice := 1\<rparr>]"
proof -
  have "tx_wire_ok sample_tx"
    by code_simp
  moreover have "sample_tx\<lparr>tx_Hash := TxHash sample_tx, tx_GasUsed := 0, tx_Logs := []\<rparr> = sample_tx"
    using TxHash_New[of 0 "''aa''" "''bb''" 5 21000 "[]"] by (simp add: sample_tx_def NewTransaction_def)
  ultimately have raw: "DeserializeTxHex (trim0x (''0x'' @ SerializeTxHex sample_tx)) = Ret sample_tx"
    using sample_raw[of sample_tx] by simp
  have priced: "priced sample_tx = sample_tx\<lparr>tx_GasPrice := 1\<rparr>" "gas_price sample_tx = 1"
    by (simp_all add: priced_def gas_price_def sample_tx_def NewTransaction_def)
  have world: "rpc_world sample_server = funded_world" "Pool (sc_Chain (rpc_chain sample_server)) = NewTxPool"
    by (simp_all add: rpc_world_def sample_server_def funded_node_def funded_chain_def empty_chain_def)
  have "passes_checks (re_Verify sample_rpc_env) (priced sample_tx) funded_world"
    by (simp add: passes_checks_def sig_accepted_priced acct_samples NewAccount_def priced(2) Let_def)
       (simp add: sig_accepted_def sample_tx_def NewTransaction_def)
  moreover have "Consensus (pool_Add NewTxPool (sample_tx\<lparr>tx_GasPrice := 1\<rparr>)) = [sample_tx\<lparr>tx_GasPrice := 1\<rparr>]"
    by (simp add: pool_Add_def NewTxPool_def sample_tx_def NewTransaction_def
        ConsensusLane_def OracleLane_def PrivateLane_def)
  ultimately show ?thesis
    using admission_matches_block[OF raw, of sample_rpc_env sample_server sample_env 1]
    by (auto simp: world priced(1))
qed

text \<open>
  C20. A submission whose sender is the empty string stops the node from saving. Whether it is
  admitted or refused, looking up the sender has put an account with the empty address into the
  state; from then on saving the accounts fails, because the database accepts no empty key, and the
  store stays as it is.
\<close>

theorem empty_sender_stops_saving:
  fixes r :: "'d RPCServer"
  assumes laws: "bolt_laws B" "gob_laws G"
    and raw: "DeserializeTxHex (trim0x raw) = Ret tx" "tx_From tx = []"
    and r': "r' = snd (handleMethod env ''eth_sendRawTransaction'' (Some (JArr [JStr raw])) r)"
    and s: "sc_Store (rpc_chain r) = Some s" "ready B (s_db s)"
    and order: "set order = dom (Accounts (rpc_world r'))"
  shows "Sync B G order proposer txCount hash prevHash (rpc_chain r')
           = (Err (Errorf ''chain: sync accounts''), rpc_chain r')
         \<and> sc_Store (rpc_chain r') = Some s"
proof -
  have m: "r' = snd (eth_sendRawTransaction env (Some (JArr [JStr raw])) r)"
    by (simp add: r' handleMethod_def method_table_def)
  have "rpc_world r' = touch (rpc_world r) []"
    using sendRaw_world[OF raw(1), of env r] by (simp add: m raw(2))
  then obtain acc where acc: "Accounts (rpc_world r') [] = Some acc"
    by (cases "Exist (rpc_world r) []") (auto simp: touch_def Exist_def)
  have store: "sc_Store (rpc_chain r') = Some s"
    using sendRaw_effect[OF raw(1), of env r] s(1)
    by (cases "passes_checks (re_Verify env) (priced tx) (rpc_world r)")
       (auto simp: m BroadcastTransaction_def upd_chain_def upd_world_def)
  have "[] \<in> set order"
    using acc order by blast
  from Sync_empty_address[OF laws store s(2) _ this] acc show ?thesis
    by (simp add: rpc_world_def store)
qed

theorem empty_sender_stops_saving_witness:
  "\<exists>r'. r' = snd (handleMethod sample_rpc_env ''eth_sendRawTransaction''
            (Some (JArr [JStr (''0x'' @ SerializeTxHex (sample_tx\<lparr>tx_From := []\<rparr>))]))
            sample_server)
     \<and> fst (Sync memory_bolt memory_gob [''aa'', []] ''p'' 0 [] [] (rpc_chain r')) = Err (Errorf ''chain: sync accounts'')"
proof -
  let ?tx = "sample_tx\<lparr>tx_From := []\<rparr>"
  define r' where "r' = snd (handleMethod sample_rpc_env ''eth_sendRawTransaction''
            (Some (JArr [JStr (''0x'' @ SerializeTxHex ?tx)])) sample_server)"
  have "tx_wire_ok ?tx"
    by code_simp
  note raw = sample_raw[OF this]
  have "rpc_world r' = touch funded_world []"
    using sendRaw_world[OF raw, of sample_rpc_env sample_server]
    by (simp add: r'_def handleMethod_def method_table_def)
       (simp add: rpc_world_def sample_server_def funded_node_def funded_chain_def)
  then have "set [''aa'', []] = dom (Accounts (rpc_world r'))"
    by (simp add: touch_def Exist_def funded_world_def set_balance_def upd_acct_def initial_world_def
        insert_commute)
  with empty_sender_stops_saving[OF memory_laws(1,2) raw _ r'_def _ memory_store_ready, of "[''aa'', []]" "''p''" 0 "[]" "[]"]
  show ?thesis
    by (auto simp: r'_def sample_server_def funded_node_def)
qed

subsection \<open>Queries\<close>

text \<open>
  C21. Of the methods of the server only \<open>way_fundGenesis\<close>, \<open>way_deployCode\<close> and
  \<open>eth_sendRawTransaction\<close> can change the chain: every other request, known or unknown and with
  whatever parameters, \<open>eth_call\<close> included, leaves each account, the logs, the pool, the blocks,
  the height, the stakes and the store as they were. Two things are not covered: a query may
  create the blank account it looks up, which reads like an absent one, and an \<open>eth_call\<close> can
  change the package-level economic counters and the inflation rate, which lie outside the state
  it copies.
\<close>

theorem rpc_reads_change_nothing:
  assumes "m \<notin> {''way_fundGenesis'', ''way_deployCode'', ''eth_sendRawTransaction''}"
  shows "reads_only r (snd (handleMethod env m params r))"
  using assms by (intro handleMethod_reads) (simp add: writers_def)

theorem rpc_reads_change_nothing_witness:
  "reads_only sample_server (snd (handleMethod sample_rpc_env ''eth_call''
     (Some (JArr [JObj [(''from'', JStr ''0xaa''), (''to'', JStr ''0x27''), (''data'', JStr ''0x2a7ab5da'')]]))
     sample_server))"
  by (rule rpc_reads_change_nothing) simp

subsection \<open>Subscriptions\<close>

text \<open>
  C22. Any sequence of subscriptions, cancellations (of whatever id), lost connections and
  broadcasts with whatever failing writes, started on a new manager and with fewer than
  \<open>2^64 - 1\<close> subscriptions in it, ends without a panic (no channel is closed twice) and in a
  state where the two tables agree: a connection's entry lists exactly its open subscriptions,
  without repetitions, and a connection without any has no entry.
\<close>

theorem subscriptions_consistent:
  fixes ops :: "('c, 'p, 'n) sub_op list"
  assumes "list_all op_ok ops" "length (filter is_subscribe ops) < 2 ^ 64 - 1"
  shows "\<exists>sm. sub_run ops NewSubscriptionManager = Ret sm \<and> sub_inv sm"
proof -
  have "unat (nextID (NewSubscriptionManager :: ('c, 'p) SubscriptionManager)) = 0"
    by (simp add: NewSubscriptionManager_def)
  with sub_run_inv[OF new_manager_inv assms(1)] assms(2) show ?thesis
    by simp
qed

definition sample_ops :: "(bool, unit, unit) sub_op list" where
  "sample_ops =
     [OpSubscribe ''newHeads'' () True, OpSubscribe ''newHeads'' () True, OpSubscribe ''logs'' () False,
      OpUnsubscribe ''0x1'', OpUnsubscribe ''0x1'', OpHead (\<lambda>_ _. False) [''0x1'', ''0x2'', ''0x3''] (), OpCleanup True]"

theorem subscriptions_consistent_witness:
  "\<exists>sm. sub_run sample_ops NewSubscriptionManager = Ret sm \<and> sub_inv sm \<and> subs sm ''0x2'' = None
     \<and> connSubs sm True = None \<and> connSubs sm False = Some [''0x3'']"
proof -
  have "case sub_run sample_ops NewSubscriptionManager of
      Ret sm \<Rightarrow> Option.is_none (subs sm ''0x2'') \<and> connSubs sm True = None \<and>
      connSubs sm False = Some [''0x3'']
    | _ \<Rightarrow> False"
    by code_simp
  moreover have "\<exists>sm. sub_run sample_ops NewSubscriptionManager = Ret sm \<and> sub_inv sm"
    by (rule subscriptions_consistent) (simp_all add: sample_ops_def)
  ultimately show ?thesis
    by (auto simp: Option.is_none_def)
qed

text \<open>
  C23. Whom a new head reaches. In a consistent manager, whatever order Go iterates in, nothing
  is delivered twice; every delivery goes to an open \<open>newHeads\<close> subscription over a working
  write; each such subscription that is still open afterwards got it; and a subscription is
  dropped only together with all others of its connection, after a failed write to that
  connection.
\<close>

theorem new_head_broadcast:
  assumes inv: "sub_inv sm" and order: "distinct order" "set order = dom (subs sm)"
  shows "\<exists>out sm'. BroadcastNewHead write_ok order head sm = Ret (out, sm') \<and> sub_inv sm' \<and> distinct out
    \<and> (\<forall>n\<in>set out. \<exists>i sub. subs sm i = Some sub \<and> sub_Type sub = SubNewHeads
         \<and> n = (sub_conn sub, i, head) \<and> write_ok (sub_conn sub) i)
    \<and> (\<forall>i sub. subs sm' i = Some sub \<and> sub_Type sub = SubNewHeads \<longrightarrow>
        (sub_conn sub, i, head) \<in> set out)
    \<and> (\<forall>i sub. subs sm i = Some sub \<and> subs sm' i \<noteq> Some sub \<longrightarrow>
         of_conn (sub_conn sub) sm' = {}
         \<and> (\<exists>j s. subs sm j = Some s \<and> sub_conn s = sub_conn sub \<and> \<not> write_ok (sub_conn s) j))"
proof -
  obtain out sm' where "BroadcastNewHead write_ok order head sm = Ret (out, sm')"
    and n: "notified write_ok head (select_subs SubNewHeads order sm) sm out sm'"
    using broadcast_effect[OF inv order(1), of write_ok head SubNewHeads] by (auto simp: BroadcastNewHead_def)
  moreover have "sub_inv sm'" "distinct out"
    using n by (simp_all add: notified_def)
  moreover note delivered_to_open[OF n inv order(2)] open_got_it[OF n inv order(2)]
    dropped_by_failure[OF n inv order(2)]
  ultimately show ?thesis
    by (intro exI[of _ out] exI[of _ sm']) blast
qed

definition sample_manager :: "(bool, unit) SubscriptionManager" where
  "sample_manager = snd (Subscribe ''newHeads'' () False (snd (Subscribe ''newHeads'' () True NewSubscriptionManager)))"

theorem new_head_broadcast_witness:
  "\<exists>out sm'. BroadcastNewHead (\<lambda>c _. c) [''0x1'', ''0x2''] (5 :: nat) sample_manager = Ret (out, sm')
     \<and> (True, ''0x1'', 5) \<in> set out \<and> of_conn False sm' = {}"
proof -
  have id: "sub_id 1 = ''0x1''" "sub_id 2 = ''0x2''"
    by code_simp+
  have subs: "subs sample_manager =
      [''0x1'' \<mapsto> \<lparr>sub_ID = ''0x1'', sub_Type = SubNewHeads, sub_params = (), sub_conn =
      True\<rparr>,
       ''0x2'' \<mapsto> \<lparr>sub_ID = ''0x2'', sub_Type = SubNewHeads, sub_params = (), sub_conn = False\<rparr>]"
    by (simp add: sample_manager_def Subscribe_def NewSubscriptionManager_def Let_def id SubNewHeads_def)
  have "sub_inv (snd (Subscribe ''newHeads'' () True NewSubscriptionManager :: _ \<times> (bool, unit) SubscriptionManager))"
    by (rule Subscribe_inv(1)[OF new_manager_inv _ surjective_pairing]) (simp add: NewSubscriptionManager_def)
  then have "sub_inv sample_manager"
    unfolding sample_manager_def
    by (rule Subscribe_inv(1)[OF _ _ surjective_pairing])
       (simp add: NewSubscriptionManager_def Subscribe_def Let_def)
  moreover have "distinct [''0x1'', ''0x2'']" "set [''0x1'', ''0x2''] = dom (subs sample_manager)"
    by (auto simp: subs)
  ultimately have reach: "\<exists>out sm'. BroadcastNewHead (\<lambda>c _. c) [''0x1'', ''0x2''] (5 :: nat) sample_manager = Ret (out, sm')
    \<and> sub_inv sm' \<and> distinct out
    \<and> (\<forall>n\<in>set out. \<exists>i sub. subs sample_manager i = Some sub \<and> sub_Type sub
        = SubNewHeads
         \<and> n = (sub_conn sub, i, 5) \<and> sub_conn sub)
    \<and> (\<forall>i sub. subs sm' i = Some sub \<and> sub_Type sub = SubNewHeads \<longrightarrow>
        (sub_conn sub, i, 5) \<in> set out)
    \<and> (\<forall>i sub. subs sample_manager i = Some sub \<and> subs sm' i \<noteq> Some sub
        \<longrightarrow>
         of_conn (sub_conn sub) sm' = {}
         \<and> (\<exists>j s. subs sample_manager j = Some s \<and> sub_conn s = sub_conn sub \<and> \<not> sub_conn s))"
    by (rule new_head_broadcast)
  then
  obtain out sm' where b: "BroadcastNewHead (\<lambda>c _. c) [''0x1'', ''0x2''] (5 :: nat) sample_manager = Ret (out, sm')"
    and got: "\<forall>i sub. subs sm' i = Some sub \<and> sub_Type sub = SubNewHeads \<longrightarrow> (sub_conn sub, i, 5) \<in> set out"
    and sent: "\<forall>n\<in>set out. \<exists>i sub. subs sample_manager i = Some sub \<and> sub_Type sub = SubNewHeads
         \<and> n = (sub_conn sub, i, 5) \<and> sub_conn sub"
    and gone: "\<forall>i sub. subs sample_manager i = Some sub \<and> subs sm' i \<noteq> Some sub \<longrightarrow>
      of_conn (sub_conn sub) sm' = {} \<and> (\<exists>j s. subs sample_manager j = Some s \<and> sub_conn s = sub_conn sub \<and> \<not> sub_conn s)"
    by blast
  let ?s = "\<lambda>i c. \<lparr>sub_ID = i, sub_Type = SubNewHeads, sub_params = (), sub_conn = c\<rparr>"
  have open1: "subs sm' ''0x1'' = Some (?s ''0x1'' True)"
    using gone[THEN spec, THEN spec, of "''0x1''" "?s ''0x1'' True"] by (auto simp: subs)
  have "(True, ''0x1'', 5) \<in> set out"
    using got[THEN spec, THEN spec, of "''0x1''" "?s ''0x1'' True"] open1 by simp
  moreover have "subs sm' ''0x2'' \<noteq> Some (?s ''0x2'' False)"
  proof
    assume "subs sm' ''0x2'' = Some (?s ''0x2'' False)"
    then have "(False, ''0x2'', 5) \<in> set out"
      using got[THEN spec, THEN spec, of "''0x2''" "?s ''0x2'' False"] by simp
    from sent[THEN bspec, OF this] show False
      by auto
  qed
  then have "of_conn False sm' = {}"
    using gone[THEN spec, THEN spec, of "''0x2''" "?s ''0x2'' False"] by (simp add: subs)
  ultimately show ?thesis
    using b by blast
qed

subsection \<open>Peers\<close>

text \<open>
  C24. The loop that cuts the configured peer list into addresses ends on every input. All fields
  before the last comma become addresses, the empty ones left out, and so does the field behind
  it, unless its last rune takes \<open>v\<close> bytes with \<open>v > 1\<close>: then the address loses the last
  \<open>v - 1\<close> bytes, and the last \<open>v - 2\<close> of these are taken for one more address. On ASCII text
  the addresses are exactly the non-empty fields between the commas, in their order.
\<close>

theorem peer_list_terminates:
  "split_peers peers [] = Some (peer_addresses peers)
   \<and> ((\<forall>c \<in> set peers. of_char c < (0x80 :: nat)) \<longrightarrow>
        peer_addresses peers = filter (\<lambda>a. a \<noteq> []) (comma_fields peers))"
  by (simp add: split_peers_total peer_addresses_ascii)

theorem peer_list_terminates_witness:
  "split_peers ''a:1,,b:2'' [] = Some [''a:1'', ''b:2'']"
proof -
  have "\<forall>c \<in> set ''a:1,,b:2''. of_char c < (0x80 :: nat)"
    by simp
  with peer_list_terminates[of "''a:1,,b:2''"] show ?thesis
    by simp
qed

text \<open>The peer list that is the letter e with an acute accent is dialled as its first byte alone.\<close>

lemma peer_list_cut: "split_peers [CHR 0xC3, CHR 0xA9] [] = Some [[CHR 0xC3]]"
proof -
  have "peer_addresses [CHR 0xC3, CHR 0xA9] = [[CHR 0xC3]]"
    by code_simp
  then show ?thesis
    by (simp add: split_peers_total)
qed

text \<open>
  C25. However connections come and go and messages arrive, the queue of incoming messages never
  holds more than 256. The messages consumed so far, followed by the queue, are a subsequence of
  the messages that arrived over open connections, in the order of their arrival, each with the
  identifier its own connection got when it was opened as its sender, whatever the message
  claims; handshakes are never queued. As long as at most 256 such messages have arrived in all,
  none is missing. Every entry of the peer table is filed under its own identifier.
\<close>

theorem queue_bounded_and_attributed:
  assumes "net_run es ms n"
  shows "length (Incoming n) \<le> 256
    \<and> subseq (ms @ Incoming n) (attributed es)
    \<and> (length (attributed es) \<le> 256 \<longrightarrow> ms @ Incoming n = attributed es)
    \<and> (\<forall>pid p. Peers n pid = Some p \<longrightarrow> peer_ID p = pid)"
  using net_run_inv[OF assms] unfolding net_inv_def IncomingCapacity_def by blast

definition sample_vote :: P2PMessage where
  "sample_vote = \<lparr>msg_Type = MsgVote, msg_Payload = ''v'', msg_From = ''peer@10.0.0.2:9'', msg_Seq = 7\<rparr>"

definition sample_network :: "nat Network" where
  "sample_network = snd (take_message
     (receive 2 sample_vote (receive 3 sample_vote
       (snd (Connect ''10.0.0.2:9'' (Some 3)
         (accept_conn ''10.0.0.1:9'' 2 (NewP2PNode ''node'' '':9100'')))))))"

definition sample_events :: "nat net_event list" where
  "sample_events =
     [Consume, Arrive 2 sample_vote, Arrive 3 sample_vote, Dial ''10.0.0.2:9'' 3, Accept ''10.0.0.1:9'' 2]"

lemma sample_net_run: "net_run sample_events [sample_vote] sample_network"
proof -
  let ?n0 = "NewP2PNode ''node'' '':9100'' :: nat Network"
  let ?n1 = "accept_conn ''10.0.0.1:9'' 2 ?n0"
  let ?n2 = "snd (Connect ''10.0.0.2:9'' (Some 3) ?n1)"
  let ?n3 = "receive 3 sample_vote ?n2"
  let ?n4 = "receive 2 sample_vote ?n3"
  note defs = NewP2PNode_def accept_conn_def add_peer_def Connect_def receive_def sample_vote_def
    MsgVote_def MsgPeerList_def IncomingCapacity_def take_message_def
  have "net_run [Accept ''10.0.0.1:9'' 2] [] ?n1"
    using net_run.step[OF net_run.start net_step.accept, of "''node''" "'':9100''" "2 :: nat" "''10.0.0.1:9''"]
    by (simp add: NewP2PNode_def)
  from net_run.step[OF this net_step.connect, of 3 "''10.0.0.2:9''"]
  have "net_run [Dial ''10.0.0.2:9'' 3, Accept ''10.0.0.1:9'' 2] [] ?n2"
    by (simp add: defs)
  from net_run.step[OF this net_step.arrive, of 3 sample_vote]
  have "net_run [Arrive 3 sample_vote, Dial ''10.0.0.2:9'' 3, Accept ''10.0.0.1:9'' 2] [] ?n3"
    by simp
  from net_run.step[OF this net_step.arrive, of 2 sample_vote]
  have "net_run [Arrive 2 sample_vote, Arrive 3 sample_vote, Dial ''10.0.0.2:9'' 3,
      Accept ''10.0.0.1:9'' 2] [] ?n4"
    by simp
  from net_run.step[OF this net_step.consume] show ?thesis
    by (simp add: sample_events_def sample_network_def) (simp add: defs)
qed

theorem queue_bounded_and_attributed_witness:
  "map msg_From (sample_vote # Incoming sample_network) = [''peer@10.0.0.2:9'', ''inbound@10.0.0.1:9'']"
proof -
  have "attributed sample_events = [sample_vote, sample_vote\<lparr>msg_From := ''inbound@10.0.0.1:9''\<rparr>]"
    by (simp add: sample_events_def sample_vote_def MsgVote_def MsgPeerList_def)
  with queue_bounded_and_attributed[OF sample_net_run] show ?thesis
    by (simp add: sample_vote_def)
qed

end
