(* ===== verification/Oracle_Client.thy ===== *)
theory Oracle_Client
  imports Econo Go_Float Go_Sha256 Go_Bytes
begin

text \<open>
  The oracle client (\<^verbatim>\<open>oracle/client.go\<close>): its price feeds, the events it has witnessed, the
  attestations it writes into the log of the chain, and one round of each of its loops. The
  clock is an argument. Printing is left out, except that cutting a hash to its first eight
  characters for the message panics on a shorter one.
\<close>

subsection \<open>State\<close>

definition StatusIdle :: u8 where "StatusIdle = 0"
definition StatusWatching :: u8 where "StatusWatching = 1"
definition StatusAttesting :: u8 where "StatusAttesting = 2"
definition StatusError :: u8 where "StatusError = 3"

definition AttestPrice :: u8 where "AttestPrice = 1"
definition AttestTx :: u8 where "AttestTx = 2"
definition AttestTruth :: u8 where "AttestTruth = 3"
definition AttestStorage :: u8 where "AttestStorage = 4"

record Attestation =
  att_Type :: u8
  att_Data :: bytes
  att_Timestamp :: int
  att_OracleID :: string
  att_Signature :: bytes

record PriceFeed =
  pf_Pair :: string
  pf_Price :: float64
  pf_Timestamp :: int
  pf_Sources :: int

record WitnessedEvent =
  we_SourceChain :: string
  we_TxHash :: string
  we_BlockHeight :: u64
  we_EventType :: string
  we_Data :: bytes
  we_Confirmed :: bool

record OracleClient =
  oc_ID :: string
  oc_DoxDevLevel :: u8
  oc_Status :: u8
  PriceFeeds :: "string \<rightharpoonup> PriceFeed"
  PendingEvents :: "string \<rightharpoonup> WitnessedEvent"
  MonitoredChains :: "string list"
  BadgeContract :: string
  TotalAttestations :: u64
  TotalErrors :: u64
  UptimeSeconds :: int
  startTime :: int

definition NewOracleClient :: "string \<Rightarrow> u8 \<Rightarrow> int \<Rightarrow> OracleClient" where
  "NewOracleClient i doxLevel now =
     \<lparr>oc_ID = i, oc_DoxDevLevel = doxLevel, oc_Status = StatusIdle, PriceFeeds = Map.empty,
      PendingEvents = Map.empty, MonitoredChains = [], BadgeContract = ''doxdev.waychain'',
      TotalAttestations = 0, TotalErrors = 0, UptimeSeconds = 0, startTime = now\<rparr>"

subsection \<open>Operations\<close>

definition oc_Start :: "OracleClient \<Rightarrow> OracleClient" where
  "oc_Start oc = oc\<lparr>oc_Status := StatusWatching, UptimeSeconds := 0\<rparr>"

definition oc_Stop :: "OracleClient \<Rightarrow> OracleClient" where
  "oc_Stop oc = oc\<lparr>oc_Status := StatusIdle\<rparr>"

definition signed_decimal :: "int \<Rightarrow> string" where
  "signed_decimal v = (if v < 0 then ''-'' @ dec_string (nat (- v)) else dec_string (nat v))"

definition attestation_text :: "u8 \<Rightarrow> bytes \<Rightarrow> int \<Rightarrow> string \<Rightarrow> string" where
  "attestation_text ty data now i =
     dec_string (unat ty) @ '':'' @ hex_encode data @ '':'' @ signed_decimal now @ '':'' @ i"

text \<open>The clock is read for the attestation and again for the log entry.\<close>

definition Attest ::
  "u8 \<Rightarrow> bytes \<Rightarrow> int \<Rightarrow> int \<Rightarrow> OracleClient \<Rightarrow> World \<Rightarrow> Attestation \<times> OracleClient \<times> World" where
  "Attest attType data now later oc w =
     (\<lparr>att_Type = attType, att_Data = data, att_Timestamp = now, att_OracleID = oc_ID oc,
       att_Signature = sha256 (bytes_of_string (attestation_text attType data now (oc_ID oc)))\<rparr>,
      oc\<lparr>TotalAttestations := TotalAttestations oc + 1, oc_Status := StatusWatching\<rparr>,
      AddLog w (oc_ID oc) [copy_at 0 data (replicate 32 0)] data (of_int later))"

definition WatchEvent ::
  "string \<Rightarrow> string \<Rightarrow> u64 \<Rightarrow> string \<Rightarrow> bytes \<Rightarrow> OracleClient \<Rightarrow> OracleClient outcome" where
  "WatchEvent sourceChain txHash blockHeight eventType data oc =
     (let event = \<lparr>we_SourceChain = sourceChain, we_TxHash = txHash, we_BlockHeight = blockHeight,
                   we_EventType = eventType, we_Data = data, we_Confirmed = False\<rparr> in
      if length txHash < 8 then Panic
      else Ret (oc\<lparr>PendingEvents := (PendingEvents oc)(txHash \<mapsto> event)\<rparr>))"

definition ConfirmEvent :: "string \<Rightarrow> OracleClient \<Rightarrow> OracleClient" where
  "ConfirmEvent txHash oc =
     (case PendingEvents oc txHash of
        None \<Rightarrow> oc
      | Some event \<Rightarrow>
          oc\<lparr>PendingEvents := (PendingEvents oc)(txHash \<mapsto> event\<lparr>we_Confirmed := True\<rparr>)\<rparr>)"

definition GetPriceFeed :: "string \<Rightarrow> OracleClient \<Rightarrow> PriceFeed option" where
  "GetPriceFeed pair oc = PriceFeeds oc pair"

definition UpdatePriceFeed :: "string \<Rightarrow> float64 \<Rightarrow> int \<Rightarrow> int \<Rightarrow> OracleClient \<Rightarrow> OracleClient" where
  "UpdatePriceFeed pair price sources now oc =
     oc\<lparr>PriceFeeds := (PriceFeeds oc)
          (pair \<mapsto> \<lparr>pf_Pair = pair, pf_Price = price, pf_Timestamp = now, pf_Sources = sources\<rparr>)\<rparr>"

definition AddChain :: "string \<Rightarrow> OracleClient \<Rightarrow> OracleClient" where
  "AddChain chain oc = oc\<lparr>MonitoredChains := MonitoredChains oc @ [chain]\<rparr>"

subsection \<open>One round of each loop\<close>

text \<open>
  \<open>None\<close> means that the loop has ended. The remainder of a time after 1970 is its remainder in
  mathematics. The constants are the doubles next to one tenth of a percent and to one percent.
\<close>

definition drifted_price :: "int \<Rightarrow> float64" where
  "drifted_price k = fl_add (fl (1 / 2)) (fl_mul (fl_sub (of_int k) 50) (fl (1 / 1000)))"

definition simulated_price :: "int \<Rightarrow> float64" where
  "simulated_price now =
     (let price = drifted_price (now mod 100) in
      if price < fl (1 / 100) then fl (1 / 100) else price)"

definition priceFeedLoop :: "int \<Rightarrow> OracleClient \<Rightarrow> OracleClient option" where
  "priceFeedLoop now oc =
     (if oc_Status oc = StatusIdle then None
      else Some (UpdatePriceFeed ''WAY/USD'' (simulated_price now) 3 now oc))"

definition confirm_all :: "(string \<rightharpoonup> WitnessedEvent) \<Rightarrow> string \<rightharpoonup> WitnessedEvent" where
  "confirm_all m = (\<lambda>h. map_option (\<lambda>e. e\<lparr>we_Confirmed := True\<rparr>) (m h))"

text \<open>\<open>order\<close> is the order in which Go iterates over the events.\<close>

definition witnessLoop :: "string list \<Rightarrow> OracleClient \<Rightarrow> OracleClient option outcome" where
  "witnessLoop order oc =
     (if oc_Status oc = StatusIdle then Ret None
      else if list_ex (\<lambda>h. case PendingEvents oc h of
                 None \<Rightarrow> False | Some e \<Rightarrow> \<not> we_Confirmed e \<and> length h <
                 8) order
      then Panic
      else Ret (Some (oc\<lparr>PendingEvents := confirm_all (PendingEvents oc)\<rparr>)))"

definition healthLoop :: "int \<Rightarrow> OracleClient \<Rightarrow> OracleClient option" where
  "healthLoop now oc =
     (if oc_Status oc = StatusIdle then None else Some (oc\<lparr>UptimeSeconds := now - startTime oc\<rparr>))"

subsection \<open>Facts\<close>

text \<open>The simulated price stays within ten percent of its base, so that its floor is never used.\<close>

lemma drifted_price_mono: "j \<le> k \<Longrightarrow> drifted_price j \<le> drifted_price k"
  using fl_nonneg[of "1 / 1000"]
  by (simp add: drifted_price_def fl_add_def fl_mul_def fl_sub_def fl_mono mult_right_mono)

lemma simulated_price_bounds:
  "simulated_price now = drifted_price (now mod 100)"
  "449 / 1000 < simulated_price now" "simulated_price now < 551 / 1000"
proof -
  have "449 / 1000 < drifted_price 0" "drifted_price 99 < 551 / 1000" "fl (1 / 100) < 449 / 1000"
    by code_simp+
  moreover have "drifted_price 0 \<le> drifted_price (now mod 100)" "drifted_price (now mod 100) \<le> drifted_price 99"
    by (simp_all add: drifted_price_mono)
  ultimately show "simulated_price now = drifted_price (now mod 100)"
    "449 / 1000 < simulated_price now" "simulated_price now < 551 / 1000"
    by (simp_all add: simulated_price_def Let_def)
qed

text \<open>
  The events are filed under their hashes, which are long enough to be printed, so the witness
  round never panics and confirms all of them.
\<close>

definition events_ok :: "OracleClient \<Rightarrow> bool" where
  "events_ok oc \<longleftrightarrow> (\<forall>h e. PendingEvents oc h = Some e \<longrightarrow> we_TxHash e = h \<and> 8 \<le> length h)"

lemma events_ok_kept:
  "events_ok (NewOracleClient i l now)"
  "events_ok oc \<Longrightarrow> events_ok (oc_Start oc)" "events_ok oc \<Longrightarrow> events_ok (oc_Stop oc)"
  "events_ok oc \<Longrightarrow> events_ok (fst (snd (Attest ty d now later oc w)))"
  "events_ok oc \<Longrightarrow> WatchEvent c h b t d oc = Ret oc' \<Longrightarrow> events_ok oc'"
  "events_ok oc \<Longrightarrow> events_ok (ConfirmEvent h oc)"
  "events_ok oc \<Longrightarrow> events_ok (UpdatePriceFeed p price n now oc)" "events_ok oc \<Longrightarrow> events_ok (AddChain c oc)"
  by (auto simp: events_ok_def NewOracleClient_def oc_Start_def oc_Stop_def Attest_def WatchEvent_def
      ConfirmEvent_def UpdatePriceFeed_def AddChain_def Let_def split: if_splits option.splits)

lemma witness_round:
  assumes "events_ok oc" "oc_Status oc \<noteq> StatusIdle"
  shows "witnessLoop order oc = Ret (Some (oc\<lparr>PendingEvents := confirm_all (PendingEvents oc)\<rparr>))"
    and "events_ok (oc\<lparr>PendingEvents := confirm_all (PendingEvents oc)\<rparr>)"
  using assms by (auto simp: witnessLoop_def events_ok_def confirm_all_def list_ex_iff not_less split:
      option.splits)

text \<open>An attestation after the stop makes the client active again.\<close>

lemma attest_after_stop: "oc_Status (fst (snd (Attest ty d now later (oc_Stop oc) w))) = StatusWatching"
  by (simp add: Attest_def)

end
