(* ===== verification/Spec2Isabelle.thy ===== *)
theory Spec2Isabelle
  imports Consensus_Claims Execution_Claims Protocol_Claims Node_Claims Oracle_Client
begin

text \<open>
  WayChain is a proof-of-stake chain written in Go. A node elects a proposer among weighted
  validators, collects transactions in a pool of three lanes, executes them in blocks over an account
  state, and pays staking rewards. The application logic of the chain is compiled into the node: the
  addresses 0x0C to 0x27 are precompiled contracts (badges, vaults, a stablecoin, governance, task
  payments and others); other code runs in the Rust library revm. The node saves its state to a
  database after every block, answers JSON-RPC and websocket requests, and talks to its peers. This
  development models these parts as executable definitions and proves what makes them correct.

  \<^bold>\<open>The Go language and its library.\<close> \<^verbatim>\<open>Prelude\<close> has the machine integers (words of their Go width,
  so that sums wrap), the outcome of a call (a value, an error or a panic), slices and the shared facts;
  \<^verbatim>\<open>Go_Bytes\<close> big-endian, hexadecimal and decimal encodings; \<^verbatim>\<open>Go_Sha256\<close> the digest, so that storage keys
  are the real ones; \<^verbatim>\<open>Go_Float\<close> double-precision arithmetic with its rounding. A \<^verbatim>\<open>*big.Int\<close> is a \<open>nat\<close>
  or \<open>int\<close>, a Go map a HOL map or an association list where its enumeration matters.

  \<^bold>\<open>State.\<close> \<^verbatim>\<open>State\<close> models \<^verbatim>\<open>evm/state.go\<close>: accounts with balance, nonce, code, badge level and 32-byte
  storage slots, cloning, logs and the deployment gates. \<^verbatim>\<open>Econo\<close> adds the package-level variables of
  \<^verbatim>\<open>evm/econo_loop.go\<close> and \<^verbatim>\<open>evm/inflation.go\<close>; the result is the record \<open>World\<close>, which every precompile
  maps to an outcome and a new \<open>World\<close>. As in the code, a failing call keeps what it wrote.

  \<^bold>\<open>Precompiles.\<close> \<^verbatim>\<open>Precompile\<close> holds the selector switch and the contracts of the entry points. One theory
  models each contract of \<^verbatim>\<open>evm/\<close>, with one definition per selector and its entry point:
  \<^verbatim>\<open>Oracle_Precompiles\<close> (0x0C, 0x0E to 0x12), \<^verbatim>\<open>Oracle_Scheduler\<close> (0x0D), \<^verbatim>\<open>Dox_Badge\<close> (0x13), \<^verbatim>\<open>Bijo\<close>
  (0x14), \<^verbatim>\<open>Dead_Man_Switch\<close> (0x15), \<^verbatim>\<open>Bitcoin_Registry\<close> (0x16), \<^verbatim>\<open>Storage_Endowment\<close> (0x17), \<^verbatim>\<open>Two_Way\<close>
  (0x18), \<^verbatim>\<open>Stability_Pool\<close> (0x19), \<^verbatim>\<open>Trustless_Lock\<close> (0x1A), \<^verbatim>\<open>Account_Manager\<close> (0x1B), \<^verbatim>\<open>Privacy\<close> (0x1C),
  \<^verbatim>\<open>Governance\<close> (0x1D), \<^verbatim>\<open>State_Rent\<close> (0x1E), \<^verbatim>\<open>Cross_Chain\<close> (0x1F), \<^verbatim>\<open>Mineral_Rights\<close> (0x20),
  \<^verbatim>\<open>Template_Registry\<close> (0x26, with Keccak 0x21), \<^verbatim>\<open>Way_Stablecoin\<close> (0x22), \<^verbatim>\<open>Task_Registry\<close> (0x23), \<^verbatim>\<open>Sway\<close>
  (0x24), \<^verbatim>\<open>Swap_Route\<close> (0x25) and \<^verbatim>\<open>Faucet\<close> (0x27, with the genesis seed). \<^verbatim>\<open>Evm\<close> is the table of all of
  them, the dispatcher \<open>Execute\<close> of \<^verbatim>\<open>evm/interpreter.go\<close> and the bridge to revm; \<^verbatim>\<open>Machine\<close> the opcode
  table, stack and memory. \<^verbatim>\<open>Slot_Typing\<close> shows that they keep slots at 32 bytes, as Go's array types
  guarantee; it is what the encoding of storage by lists needs, not a property of the program.

  \<^bold>\<open>Chain and consensus.\<close> \<^verbatim>\<open>Transactions\<close> models the transaction and block records, the pool and the wire
  format (\<^verbatim>\<open>chain.go\<close>, \<^verbatim>\<open>serialize.go\<close>); \<^verbatim>\<open>Staking\<close> the rewards (\<^verbatim>\<open>progressive_staking.go\<close>); \<^verbatim>\<open>Validators\<close>,
  \<^verbatim>\<open>Consensus\<close> and \<^verbatim>\<open>Consensus_Round\<close> the validator set, the engine and the voting rounds, the last as a
  step relation over the handlers, which hold the mutex for their whole body; \<^verbatim>\<open>Chain\<close> the execution of a
  transaction, \<open>ProduceBlock\<close> and the genesis (\<^verbatim>\<open>chain.go\<close>, \<^verbatim>\<open>genesis.go\<close>, \<^verbatim>\<open>crypto.go\<close>).

  \<^bold>\<open>The node.\<close> \<^verbatim>\<open>Store\<close> models \<^verbatim>\<open>store/store.go\<close>, \<^verbatim>\<open>Persistence\<close> its use by the chain and the node process
  (\<^verbatim>\<open>chain.go\<close>, \<open>boot\<close>, \<open>tick\<close> and \<open>shutdown\<close> of \<^verbatim>\<open>cli.go\<close>); \<^verbatim>\<open>Queries\<close> and \<^verbatim>\<open>Rpc\<close> every JSON-RPC method
  (\<^verbatim>\<open>rpc.go\<close>, \<^verbatim>\<open>evm/stats_read.go\<close>), \<^verbatim>\<open>Subscriptions\<close> the websocket subscriptions (\<^verbatim>\<open>rpc_ws.go\<close>),
  \<^verbatim>\<open>Rate_Limit\<close> the token buckets (\<^verbatim>\<open>rate_limit.go\<close>), \<^verbatim>\<open>P2p\<close> the peers (\<^verbatim>\<open>p2p.go\<close>, \<^verbatim>\<open>p2p_daemon.go\<close>, the peer
  list of \<^verbatim>\<open>node.go\<close>), and \<^verbatim>\<open>Oracle_Client\<close> the oracle daemon (\<^verbatim>\<open>oracle/client.go\<close>).

  \<^bold>\<open>Interfaces.\<close> \<open>keyed_store\<close> is what the contracts rely on of slots and balances (read after write,
  independent keys); \<open>fifo_lane\<close> what a lane of the pool promises, interpreted for the three lanes;
  \<open>caller_contract\<close>, \<open>confined_contract\<close> and \<open>registry\<close> bound what a precompile may touch, each giving
  the weaker one by a sublocale; \<open>typed_contract\<close> says that an entry point keeps storage typed. Every
  precompile that satisfies one of them interprets it, and the properties about arbitrary sequences of
  calls rest on these interpretations.

  \<^bold>\<open>Properties.\<close> \<^verbatim>\<open>Consensus_Claims\<close>: when a round commits, what a commit records, and the invariants of
  every reachable manager and validator set. \<^verbatim>\<open>Ledger_Claims\<close>: the wire round trip, the lanes as queues,
  the exact distribution and its bounds, the contents of a block, the effect of a transfer, no replay,
  and the gas limit that is not enforced.
  \<^verbatim>\<open>Execution_Claims\<close>: dispatch, failed revm calls, the deployment gate, the faucet, the rate limiter's bound
  and its starvation. \<^verbatim>\<open>Contract_Claims\<close> and \<^verbatim>\<open>Protocol_Claims\<close>: isolation of the registries,
  collateral of the vaults, pool accounting, the life of a claim, quest payments, conservation in the task
  registry, attestations and their witnesses, time locks, votes, swaps. \<^verbatim>\<open>Node_Claims\<close>: a restart restores the accounts, stored
  transactions are found, the RPC admits what block production accepts, queries change nothing, an empty
  sender stops saving, subscriptions stay consistent and broadcasts reach whom they should, the peer list
  is cut in finite time, and the message queue is bounded and holds only what arrived, under the
  identifiers of the connections it arrived over. The instances beside the properties apply them
  to concrete states; \<^verbatim>\<open>Memory_Store\<close> provides a database for those about saving.

  \<^bold>\<open>Parameters and hypotheses.\<close> Code outside the repository is an argument: ed25519 verification (\<open>V\<close>),
  the Keccak digest and the spare capacity of calldata arrays (\<open>Host\<close>), revm (\<open>revm_execute\<close>, an
  arbitrary function: the Rust wrapper \<^verbatim>\<open>revm-ffi\<close> in the repository is not modelled), bbolt and gob (records \<open>bolt\<close> and \<open>gob\<close> with the laws \<open>bolt_laws\<close> and \<open>gob_laws\<close>). So are the clock, random
  numbers, the order of map iteration and the permutation of an unstable sort. That two SHA-256 keys
  differ is a hypothesis where it matters, and the instances compute the keys.

  \<^bold>\<open>Loops.\<close> No definition needs fuel. The Newton iteration of the square root runs ten times, as in the
  code; the other loops recurse on their data, with a termination measure where that is not structural.
  The loop over the configured peers is a partial function, proved to return on every input; its inner
  loop ranges over the runes of UTF-8 text.

  \<^bold>\<open>Not modelled.\<close> Sockets, HTTP, the text of JSON, the genesis file, logging and command-line parsing are
  input and output around the modelled operations; the scheduling of goroutines appears as the order of
  steps. Key generation and signing belong to the ed25519 library. The demonstrations in \<^verbatim>\<open>main.go\<close> and
  \<^verbatim>\<open>oracle_demo.go\<close> and the status printers only print the results of modelled operations.
\<close>

end
